(* ===== verification/Dtu_Prelude.thy ===== *)
theory Dtu_Prelude
  imports Main "HOL-Library.Word" "HOL-Library.DAList" "HOL-Library.Sublist"
begin

text \<open>
  The types, collections and generic lemmas that every component theory shares: Go's machine
  integers and times, Go's maps behind one interface (locale \<open>go_map\<close>), and the transition
  systems whose invariants the server theory proves (locale \<open>transition_system\<close>).
\<close>

section \<open>Machine integers and times\<close>

text \<open>
  Go's \<open>int64\<close>, \<open>int\<close> (64 bits on the platforms the program runs on) and \<open>uint64\<close> are 64-bit
  words; \<open>+\<close> wraps as in Go. A signed comparison reads the word with \<open>sint\<close>.
  A \<open>time.Time\<close> is a number of nanoseconds since a fixed epoch, a \<open>time.Duration\<close> an \<open>int64\<close>
  number of nanoseconds.
\<close>

type_synonym int64 = "64 word"
type_synonym uint64 = "64 word"
type_synonym gotime = int
type_synonym duration = "64 word"

definition time_add :: "gotime \<Rightarrow> duration \<Rightarrow> gotime" where
  "time_add t d = t + sint d"

abbreviation minute :: duration where
  "minute \<equiv> 60000000000"

abbreviation hour :: duration where
  "hour \<equiv> 3600000000000"

named_theorems inv_intros "preservation of the world invariant, one lemma per operation"

section \<open>Go maps\<close>

text \<open>
  The interface of a Go map as the program uses it. \<open>keys\<close> is the order in which one
  \<open>range\<close> loop happens to visit the keys; the laws say nothing about that order, so what is
  proved from them holds for every order.
\<close>

locale go_map =
  fixes empty :: "'m"
    and get :: "'m \<Rightarrow> 'k \<Rightarrow> 'v option"
    and put :: "'k \<Rightarrow> 'v \<Rightarrow> 'm \<Rightarrow> 'm"
    and del :: "'k \<Rightarrow> 'm \<Rightarrow> 'm"
    and keys :: "'m \<Rightarrow> 'k list"
    and len :: "'m \<Rightarrow> nat"
  assumes get_empty: "get empty k = None"
    and get_put: "get (put k v m) k' = (if k' = k then Some v else get m k')"
    and get_del: "get (del k m) k' = (if k' = k then None else get m k')"
    and keys_get: "k \<in> set (keys m) \<longleftrightarrow> get m k \<noteq> None"
    and keys_distinct: "distinct (keys m)"
    and len_keys: "len m = length (keys m)"
begin

lemma set_keys_put: "set (keys (put k v m)) = insert k (set (keys m))"
  by (auto simp: keys_get get_put split: if_splits)

lemma len_card: "len m = card (set (keys m))"
  by (simp add: len_keys distinct_card keys_distinct)

lemma len_put: "len (put k v m) = (if get m k = None then Suc (len m) else len m)"
  by (auto simp: len_card set_keys_put card_insert_if keys_get)

lemma len_put_ge: "len m \<le> len (put k v m)"
  by (simp add: len_put)

lemma keys_empty: "keys empty = []"
proof -
  have "k \<notin> set (keys empty)" for k
    by (simp add: keys_get get_empty)
  then show ?thesis by (cases "keys empty") auto
qed

lemma len_empty: "len empty = 0"
  by (simp add: len_keys keys_empty)

lemma get_put_same: "get (put k v m) k = Some v"
  by (simp add: get_put)

lemma get_put_other: "k' \<noteq> k \<Longrightarrow> get (put k v m) k' = get m k'"
  by (simp add: get_put)

end

text \<open>The model's maps: association lists with distinct keys, in the order of a \<open>range\<close> loop.\<close>

type_synonym ('k, 'v) gomap = "('k, 'v) alist"
type_synonym 'k goset = "('k, unit) alist"

definition m_empty :: "('k, 'v) gomap" where
  "m_empty = DAList.empty"

definition m_get :: "('k, 'v) gomap \<Rightarrow> 'k \<Rightarrow> 'v option" where
  "m_get m k = DAList.lookup m k"

definition m_put :: "'k \<Rightarrow> 'v \<Rightarrow> ('k, 'v) gomap \<Rightarrow> ('k, 'v) gomap" where
  "m_put k v m = DAList.update k v m"

definition m_del :: "'k \<Rightarrow> ('k, 'v) gomap \<Rightarrow> ('k, 'v) gomap" where
  "m_del k m = DAList.delete k m"

definition m_entries :: "('k, 'v) gomap \<Rightarrow> ('k \<times> 'v) list" where
  "m_entries m = DAList.impl_of m"

definition m_keys :: "('k, 'v) gomap \<Rightarrow> 'k list" where
  "m_keys m = map fst (m_entries m)"

definition m_len :: "('k, 'v) gomap \<Rightarrow> nat" where
  "m_len m = length (m_entries m)"

text \<open>Reading a missing key of a Go map gives the zero value of its element type.\<close>

definition m_get_or :: "'v \<Rightarrow> ('k, 'v) gomap \<Rightarrow> 'k \<Rightarrow> 'v" where
  "m_get_or z m k = (case m_get m k of None \<Rightarrow> z | Some v \<Rightarrow> v)"

interpretation gm: go_map m_empty m_get m_put m_del m_keys m_len
proof unfold_locales
  fix k k' :: 'k and v :: 'v and m :: "('k, 'v) gomap"
  show "m_get m_empty k = (None :: 'v option)"
    by (simp add: m_get_def m_empty_def)
  show "m_get (m_put k v m) k' = (if k' = k then Some v else m_get m k')"
    by (simp add: m_get_def m_put_def)
  show "m_get (m_del k m) k' = (if k' = k then None else m_get m k')"
    by (simp add: m_get_def m_del_def)
  show "k \<in> set (m_keys m) \<longleftrightarrow> m_get m k \<noteq> None"
    by (auto simp: m_get_def m_keys_def m_entries_def lookup.rep_eq map_of_eq_None_iff)
  show "distinct (m_keys m)"
    by (simp add: m_keys_def m_entries_def)
  show "m_len m = length (m_keys m)"
    by (simp add: m_len_def m_keys_def)
qed

lemmas gomap_simps [simp] =
  gm.get_empty gm.get_put gm.get_del gm.len_empty gm.keys_empty gm.set_keys_put

lemma m_entries_get: "(k, v) \<in> set (m_entries m) \<longleftrightarrow> m_get m k = Some v"
  by (simp add: m_entries_def m_get_def lookup.rep_eq map_of_eq_Some_iff)

lemma m_entries_put: "m_entries (m_put k v m) = AList.update k v (m_entries m)"
  by (simp add: m_entries_def m_put_def update.rep_eq)

lemma m_entries_empty [simp]: "m_entries m_empty = []"
  by (simp add: m_entries_def m_empty_def empty.rep_eq)

lemma m_get_or_simps [simp]:
  "m_get m k = Some v \<Longrightarrow> m_get_or z m k = v"
  "m_get m k = None \<Longrightarrow> m_get_or z m k = z"
  by (simp_all add: m_get_or_def)

text \<open>The map with the given entries: the fixtures and copies the program builds.\<close>

definition m_of_list :: "('k \<times> 'v) list \<Rightarrow> ('k, 'v) gomap" where
  "m_of_list xs = foldl (\<lambda>m (k, v). m_put k v m) m_empty xs"

lemma m_of_list_snoc: "m_of_list (xs @ [(k, v)]) = m_put k v (m_of_list xs)"
  by (simp add: m_of_list_def)

lemma m_get_of_list_distinct:
  "distinct (map fst xs) \<Longrightarrow> m_get (m_of_list xs) = map_of xs"
proof (induction xs rule: rev_induct)
  case Nil
  then show ?case by (simp add: m_of_list_def fun_eq_iff)
next
  case (snoc x xs)
  obtain k v where x: "x = (k, v)" by (cases x)
  from snoc.prems x have "map_of xs k = None"
    by (auto simp: map_of_eq_None_iff)
  with snoc x show ?case
    by (auto simp: m_of_list_snoc fun_eq_iff map_add_def split: option.splits)
qed

section \<open>Transition systems\<close>

text \<open>
  The initial states and atomic steps of a system, its reachable states, and how an invariant
  and a preorder between states lift from one step to whole runs.
\<close>

locale transition_system =
  fixes init :: "'s \<Rightarrow> bool"
    and step :: "'s \<Rightarrow> 's \<Rightarrow> bool"
    and reach :: "'s \<Rightarrow> bool"
  assumes reach_induct: "reach s \<Longrightarrow> (\<And>s. init s \<Longrightarrow> P s) \<Longrightarrow>
      (\<And>r s. reach r \<Longrightarrow> P r \<Longrightarrow> step r s \<Longrightarrow> P s) \<Longrightarrow> P s"
    and reach_step: "reach r \<Longrightarrow> step r s \<Longrightarrow> reach s"
begin

lemma invariant:
  assumes "reach s" and "\<And>s. init s \<Longrightarrow> I s" and "\<And>r s. I r \<Longrightarrow> step r s \<Longrightarrow> I s"
  shows "I s"
  using assms(1) by (rule reach_induct) (use assms(2,3) in blast)+

lemma reach_run: "step\<^sup>*\<^sup>* r s \<Longrightarrow> reach r \<Longrightarrow> reach s"
  by (induction rule: rtranclp_induct) (auto intro: reach_step)

lemma run_preorder:
  assumes run: "step\<^sup>*\<^sup>* r s" and I: "I r"
    and keep: "\<And>r s. I r \<Longrightarrow> step r s \<Longrightarrow> I s"
    and refl: "\<And>s. R s s" and trans: "\<And>a b c. R a b \<Longrightarrow> R b c \<Longrightarrow> R a c"
    and one: "\<And>r s. I r \<Longrightarrow> step r s \<Longrightarrow> R r s"
  shows "R r s"
proof -
  from run I have "I s \<and> R r s"
    by (induction rule: rtranclp_induct) (auto intro: keep refl one trans)
  then show ?thesis ..
qed

end

text \<open>
  A system in which every step lowers a measure and a state that is not final has a step: its runs are bounded,
  a final state can be reached, and only final states are stuck.
\<close>

locale progressing =
  fixes step :: "'s \<Rightarrow> 's \<Rightarrow> bool"
    and inv :: "'s \<Rightarrow> bool"
    and measure :: "'s \<Rightarrow> nat"
    and final :: "'s \<Rightarrow> bool"
  assumes lowers: "step s t \<Longrightarrow> measure t < measure s"
    and keeps: "inv s \<Longrightarrow> step s t \<Longrightarrow> inv t"
    and goes_on: "inv s \<Longrightarrow> \<not> final s \<Longrightarrow> \<exists>t. step s t"
begin

lemma run_measure: "(step ^^ k) s t \<Longrightarrow> k + measure t \<le> measure s"
proof (induction k arbitrary: t)
  case (Suc k)
  then obtain r where "(step ^^ k) s r" "step r t" by auto
  with Suc.IH[of r] lowers[of r t] show ?case by simp
qed simp

lemma run_keeps: "step\<^sup>*\<^sup>* s t \<Longrightarrow> inv s \<Longrightarrow> inv t"
  by (induction rule: rtranclp_induct) (auto intro: keeps)

lemma final_reached: "inv s \<Longrightarrow> \<exists>t. step\<^sup>*\<^sup>* s t \<and> final t"
proof (induction "measure s" arbitrary: s rule: less_induct)
  case less
  show ?case
  proof (cases "final s")
    case False
    then obtain r where r: "step s r" using goes_on less.prems by blast
    from less.hyps[OF lowers[OF r] keeps[OF less.prems r]] r show ?thesis
      by (meson converse_rtranclp_into_rtranclp)
  qed blast
qed

lemma stuck_final: "inv s \<Longrightarrow> step\<^sup>*\<^sup>* s t \<Longrightarrow> \<nexists>u. step t u \<Longrightarrow> inv t \<and> final t"
  using run_keeps goes_on by blast

end

end
