(* ===== verification/Go_Strings.thy ===== *)
theory Go_Strings
  imports Dtu_Prelude
begin

text \<open>
  The parts of Go's \<open>strings\<close>, \<open>strconv\<close>, \<open>fmt\<close> and \<open>path/filepath\<close> packages that the program
  uses, on byte strings. Letter case and white space are those of the ASCII bytes, the fast path
  of the Go functions; the Unicode tables beyond it are not modelled.
\<close>

section \<open>Case, prefixes and suffixes\<close>

definition lower_char :: "char \<Rightarrow> char" where
  "lower_char c = (let n = of_char c :: nat in
     if 65 \<le> n \<and> n \<le> 90 then char_of (n + 32) else c)"

definition to_lower :: "string \<Rightarrow> string" where
  "to_lower s = map lower_char s"

fun equal_fold :: "string \<Rightarrow> string \<Rightarrow> bool" where
  "equal_fold [] [] = True"
| "equal_fold (a # s) (b # t) = (lower_char a = lower_char b \<and> equal_fold s t)"
| "equal_fold _ _ = False"

lemma equal_fold_iff: "equal_fold s t \<longleftrightarrow> to_lower s = to_lower t"
  by (induction s t rule: equal_fold.induct) (auto simp: to_lower_def)

lemma lower_char_idem [simp]: "lower_char (lower_char c) = lower_char c"
  by (simp add: lower_char_def Let_def)

lemma to_lower_idem [simp]: "to_lower (to_lower s) = to_lower s"
  by (simp add: to_lower_def comp_def)

lemma lower_char_slash: "lower_char c = CHR ''/'' \<longleftrightarrow> c = CHR ''/''"
proof
  assume l: "lower_char c = CHR ''/''"
  show "c = CHR ''/''"
  proof (cases "65 \<le> (of_char c :: nat) \<and> (of_char c :: nat) \<le> 90")
    case True
    then have "(of_char (lower_char c) :: nat) = of_char c + 32"
      by (simp add: lower_char_def of_char_of)
    with l True show ?thesis by simp
  next
    case False
    with l show ?thesis by (auto simp: lower_char_def Let_def split: if_splits)
  qed
qed (simp add: lower_char_def)

definition has_prefix :: "string \<Rightarrow> string \<Rightarrow> bool" where
  "has_prefix s p \<longleftrightarrow> take (length p) s = p"

definition trim_prefix :: "string \<Rightarrow> string \<Rightarrow> string" where
  "trim_prefix s p = (if has_prefix s p then drop (length p) s else s)"

definition has_suffix :: "string \<Rightarrow> string \<Rightarrow> bool" where
  "has_suffix s p \<longleftrightarrow> length p \<le> length s \<and> drop (length s - length p) s = p"

definition trim_suffix :: "string \<Rightarrow> string \<Rightarrow> string" where
  "trim_suffix s p = (if has_suffix s p then take (length s - length p) s else s)"

lemma has_suffix_append [simp]: "has_suffix (s @ p) p"
  by (simp add: has_suffix_def)

lemma trim_suffix_append [simp]: "trim_suffix (s @ p) p = s"
  by (simp add: trim_suffix_def)

lemma has_prefix_append [simp]: "has_prefix (p @ s) p"
  by (simp add: has_prefix_def)

lemma trim_prefix_append [simp]: "trim_prefix (p @ s) p = s"
  by (simp add: trim_prefix_def)

section \<open>Splitting and trimming\<close>

text \<open>\<open>strings.Split\<close> at a one-byte separator: always at least one piece.\<close>

fun split_at :: "char \<Rightarrow> string \<Rightarrow> string list" where
  "split_at sep [] = [[]]"
| "split_at sep (c # s) =
     (if c = sep then [] # split_at sep s
      else (case split_at sep s of [] \<Rightarrow> [[c]] | p # ps \<Rightarrow> (c # p) # ps))"

fun join_with :: "string \<Rightarrow> string list \<Rightarrow> string" where
  "join_with sep [] = []"
| "join_with sep [p] = p"
| "join_with sep (p # q # ps) = p @ sep @ join_with sep (q # ps)"

lemma split_at_nonempty [simp]: "split_at sep s \<noteq> []"
  by (induction s) (auto split: list.splits)

lemma join_split: "join_with [sep] (split_at sep s) = s"
proof (induction s)
  case Nil
  then show ?case by simp
next
  case (Cons c s)
  obtain p ps where e: "split_at sep s = p # ps"
    by (cases "split_at sep s") auto
  with Cons show ?case by (cases ps) auto
qed

lemma split_at_free: "sep \<notin> set p \<Longrightarrow> split_at sep p = [p]"
  by (induction p) auto

lemma split_at_append:
  "sep \<notin> set p \<Longrightarrow> split_at sep (p @ sep # s) = p # split_at sep s"
  by (induction p) auto

lemma split_join:
  "ps \<noteq> [] \<Longrightarrow> (\<And>p. p \<in> set ps \<Longrightarrow> sep \<notin> set p) \<Longrightarrow> split_at sep (join_with [sep] ps) = ps"
proof (induction "[sep]" ps rule: join_with.induct)
  case (2 p)
  then show ?case by (simp add: split_at_free)
next
  case (3 p q ps)
  then show ?case by (simp add: split_at_append)
qed simp

definition is_space :: "char \<Rightarrow> bool" where
  "is_space c \<longleftrightarrow> of_char c \<in> {9, 10, 11, 12, 13, 32 :: nat}"

definition trim_left :: "string \<Rightarrow> string" where
  "trim_left s = dropWhile is_space s"

definition trim_space :: "string \<Rightarrow> string" where
  "trim_space s = rev (trim_left (rev (trim_left s)))"

text \<open>\<open>strings.Fields\<close>: the maximal runs of bytes that are not white space.\<close>

fun fields_aux :: "string \<Rightarrow> string \<Rightarrow> string list" where
  "fields_aux acc [] = (if acc = [] then [] else [rev acc])"
| "fields_aux acc (c # s) =
     (if is_space c then (if acc = [] then fields_aux [] s else rev acc # fields_aux [] s)
      else fields_aux (c # acc) s)"

definition str_fields :: "string \<Rightarrow> string list" where
  "str_fields s = fields_aux [] s"

definition spaceless :: "string \<Rightarrow> bool" where
  "spaceless s \<longleftrightarrow> list_all (\<lambda>c. \<not> is_space c) s"

lemma fields_aux_spaceless:
  "spaceless p \<Longrightarrow> fields_aux acc (p @ s) = fields_aux (rev p @ acc) s"
  by (induction p arbitrary: acc) (auto simp: spaceless_def)

lemma fields_two:
  assumes "spaceless a" "spaceless b" "a \<noteq> []" "b \<noteq> []"
  shows "str_fields (a @ CHR '' '' # b) = [a, b]"
proof -
  have "str_fields (a @ CHR '' '' # b) = fields_aux (rev a) (CHR '' '' # b)"
    using assms(1) by (simp add: str_fields_def fields_aux_spaceless)
  also have "\<dots> = a # fields_aux [] (b @ [])"
    using assms(3) by (simp add: is_space_def)
  also have "\<dots> = [a, b]"
    using assms(2,4) by (simp only: fields_aux_spaceless) simp
  finally show ?thesis .
qed

lemma trim_left_id: "s = [] \<or> \<not> is_space (hd s) \<Longrightarrow> trim_left s = s"
  by (cases s) (auto simp: trim_left_def)

lemma trim_space_spaceless: "spaceless s \<Longrightarrow> trim_space s = s"
proof -
  assume s: "spaceless s"
  then have "trim_left s = s" by (cases s) (auto simp: trim_left_def spaceless_def)
  moreover from s have "trim_left (rev s) = rev s"
    by (cases "rev s") (auto simp: trim_left_def spaceless_def list_all_iff dest: arg_cong[of _ _ set])
  ultimately show ?thesis by (simp add: trim_space_def)
qed

section \<open>Decimal numbers\<close>

definition digit_char :: "nat \<Rightarrow> char" where
  "digit_char d = char_of (48 + d)"

definition digit_val :: "char \<Rightarrow> nat option" where
  "digit_val c = (let n = of_char c :: nat in if 48 \<le> n \<and> n \<le> 57 then Some (n - 48) else None)"

lemma digit_val_char [simp]: "d < 10 \<Longrightarrow> digit_val (digit_char d) = Some d"
  by (simp add: digit_val_def digit_char_def of_char_of)

fun dec_nat :: "nat \<Rightarrow> string" where
  "dec_nat n = (if n < 10 then [digit_char n] else dec_nat (n div 10) @ [digit_char (n mod 10)])"

declare dec_nat.simps [simp del]

text \<open>The value of a string of decimal digits, read from the left; \<open>None\<close> at any other byte.\<close>

fun digits_val_from :: "nat \<Rightarrow> string \<Rightarrow> nat option" where
  "digits_val_from acc [] = Some acc"
| "digits_val_from acc (c # s) =
     (case digit_val c of None \<Rightarrow> None | Some d \<Rightarrow> digits_val_from (10 * acc + d) s)"

definition digits_val :: "string \<Rightarrow> nat option" where
  "digits_val s = digits_val_from 0 s"

lemma digits_val_from_append:
  "digits_val_from acc (s @ t) =
     (case digits_val_from acc s of None \<Rightarrow> None | Some v \<Rightarrow> digits_val_from v t)"
  by (induction s arbitrary: acc) (auto split: option.splits)

lemma digits_val_dec_nat: "digits_val (dec_nat n) = Some n"
proof (induction n rule: dec_nat.induct)
  case (1 n)
  show ?case
  proof (cases "n < 10")
    case True
    then show ?thesis by (simp add: dec_nat.simps[of n] digits_val_def)
  next
    case False
    with "1.IH" have "digits_val_from 0 (dec_nat (n div 10)) = Some (n div 10)"
      by (simp add: digits_val_def)
    with False show ?thesis
      by (simp add: dec_nat.simps[of n] digits_val_def digits_val_from_append)
  qed
qed

lemma dec_nat_inject: "dec_nat m = dec_nat n \<longleftrightarrow> m = n"
  by (metis digits_val_dec_nat option.inject)

lemma dec_nat_nonempty [simp]: "dec_nat n \<noteq> []"
  by (subst dec_nat.simps) simp

lemma digits_dec_nat: "c \<in> set (dec_nat n) \<Longrightarrow> \<exists>d < 10. c = digit_char d"
proof (induction n rule: dec_nat.induct)
  case (1 n)
  show ?case
  proof (cases "n < 10")
    case True
    with "1.prems" show ?thesis by (auto simp: dec_nat.simps[of n])
  next
    case False
    with "1.prems" consider "c \<in> set (dec_nat (n div 10))" | "c = digit_char (n mod 10)"
      by (auto simp: dec_nat.simps[of n])
    then show ?thesis
    proof cases
      case 1
      with "1.IH" False show ?thesis by simp
    next
      case 2
      then show ?thesis by (intro exI[of _ "n mod 10"]) simp
    qed
  qed
qed

text \<open>\<open>%0wd\<close> of an unsigned number: zeros on the left up to the width \<open>w\<close>.\<close>

definition zero_pad :: "nat \<Rightarrow> string \<Rightarrow> string" where
  "zero_pad w s = replicate (w - length s) CHR ''0'' @ s"

lemma digits_val_from_zeros: "digits_val_from 0 (replicate k CHR ''0'' @ s) = digits_val_from 0 s"
  by (induction k) (auto simp: digit_val_def)

lemma digits_val_zero_pad [simp]: "digits_val (zero_pad w s) = digits_val s"
  by (simp add: digits_val_def zero_pad_def digits_val_from_zeros)

text \<open>\<open>%d\<close> of a signed 64-bit integer.\<close>

definition dec_int :: "int \<Rightarrow> string" where
  "dec_int i = (if i < 0 then CHR ''-'' # dec_nat (nat (- i)) else dec_nat (nat i))"

definition fmt_int64 :: "int64 \<Rightarrow> string" where
  "fmt_int64 x = dec_int (sint x)"

text \<open>
  \<open>strconv.ParseInt(s, 10, 64)\<close> and, on a 64-bit platform, \<open>strconv.Atoi\<close>: an optional sign, at
  least one digit and nothing else, a value in range; \<open>None\<close> is the error.
\<close>

definition parse_uint :: "string \<Rightarrow> nat option" where
  "parse_uint s = (if s = [] then None else digits_val s)"

definition parse_int64 :: "string \<Rightarrow> int64 option" where
  "parse_int64 s =
     (let neg = (case s of c # _ \<Rightarrow> c = CHR ''-'' | [] \<Rightarrow> False);
          r = (case s of c # r \<Rightarrow> if c = CHR ''-'' \<or> c = CHR ''+'' then r else s | [] \<Rightarrow> [])
      in case parse_uint r of
           None \<Rightarrow> None
         | Some n \<Rightarrow>
             if neg then (if n \<le> 2 ^ 63 then Some (word_of_int (- int n)) else None)
             else (if n < 2 ^ 63 then Some (word_of_int (int n)) else None))"

lemma dec_nat_hd_digit: "hd (dec_nat n) \<noteq> CHR ''-'' \<and> hd (dec_nat n) \<noteq> CHR ''+''"
proof -
  obtain d where d: "d < 10" "hd (dec_nat n) = digit_char d"
    using digits_dec_nat[of "hd (dec_nat n)" n] by auto
  then have v: "digit_val (hd (dec_nat n)) = Some d" by simp
  show ?thesis
  proof (intro conjI notI)
    assume "hd (dec_nat n) = CHR ''-''"
    with v show False by (simp add: digit_val_def)
  next
    assume "hd (dec_nat n) = CHR ''+''"
    with v show False by (simp add: digit_val_def)
  qed
qed

lemma parse_int64_fmt: "parse_int64 (fmt_int64 x) = Some x"
proof -
  have lo: "- (2 ^ 63) \<le> sint x" and hi: "sint x < 2 ^ 63"
    using sint_range_size[of x] by (simp_all add: word_size)
  have p: "parse_uint (dec_nat n) = Some n" for n
    by (simp add: parse_uint_def digits_val_dec_nat)
  show ?thesis
  proof (cases "sint x < 0")
    case True
    then have "nat (- sint x) \<le> 2 ^ 63" using lo by simp
    with True show ?thesis
      by (simp add: fmt_int64_def dec_int_def parse_int64_def p Let_def)
  next
    case False
    obtain c r where d: "dec_nat (nat (sint x)) = c # r" "c \<noteq> CHR ''-''" "c \<noteq> CHR ''+''"
      using dec_nat_hd_digit[of "nat (sint x)"] by (cases "dec_nat (nat (sint x))") auto
    then have "parse_uint (c # r) = Some (nat (sint x))" using p by metis
    with False d hi show ?thesis
      by (simp add: fmt_int64_def dec_int_def parse_int64_def Let_def)
  qed
qed

section \<open>File paths\<close>

text \<open>
  \<open>filepath.Clean\<close> on slash-separated paths: \<open>.\<close> and empty components vanish, \<open>..\<close> removes the
  component before it, or stays at the front of a relative path. \<open>filepath.Join\<close> cleans the
  nonempty elements joined by slashes.
\<close>

fun clean_parts :: "bool \<Rightarrow> string list \<Rightarrow> string list \<Rightarrow> string list" where
  "clean_parts rooted out [] = rev out"
| "clean_parts rooted out (p # ps) =
     (if p = [] \<or> p = ''.'' then clean_parts rooted out ps
      else if p = ''..'' then
        (case out of
           [] \<Rightarrow> clean_parts rooted (if rooted then [] else [''..'']) ps
         | q # qs \<Rightarrow> if q = ''..'' then clean_parts rooted (''..'' # out) ps
                     else clean_parts rooted qs ps)
      else clean_parts rooted (p # out) ps)"

definition path_clean :: "string \<Rightarrow> string" where
  "path_clean s =
     (let rooted = has_prefix s ''/'';
          ps = clean_parts rooted [] (split_at CHR ''/'' s)
      in if rooted then ''/'' @ join_with ''/'' ps
         else if ps = [] then ''.'' else join_with ''/'' ps)"

definition path_join :: "string list \<Rightarrow> string" where
  "path_join elems =
     (case filter (\<lambda>e. e \<noteq> []) elems of
        [] \<Rightarrow> []
      | es \<Rightarrow> path_clean (join_with ''/'' es))"

text \<open>A path component that \<open>filepath.Clean\<close> leaves as it is.\<close>

definition plain_component :: "string \<Rightarrow> bool" where
  "plain_component p \<longleftrightarrow> p \<noteq> [] \<and> p \<noteq> ''.'' \<and> p \<noteq> ''..'' \<and> CHR ''/'' \<notin> set p"

lemma clean_parts_plain:
  "list_all plain_component ps \<Longrightarrow> clean_parts rooted out (qs @ ps) = clean_parts rooted out qs @ ps"
proof (induction rooted out qs rule: clean_parts.induct)
  case (1 rooted out)
  have "list_all plain_component ps \<Longrightarrow> clean_parts rooted out ps = rev out @ ps" for out
    by (induction ps arbitrary: out) (auto simp: plain_component_def)
  with 1 show ?case by simp
next
  case (2 rooted out p ps)
  then show ?case by (auto split: list.splits)
qed

lemma join_with_append:
  "ps \<noteq> [] \<Longrightarrow> qs \<noteq> [] \<Longrightarrow> join_with sep (ps @ qs) = join_with sep ps @ sep @ join_with sep qs"
proof (induction sep ps rule: join_with.induct)
  case (2 sep p)
  then show ?case by (cases qs) auto
qed auto

lemma split_at_join_prefix:
  "split_at sep (s @ sep # t) = split_at sep s @ split_at sep t"
proof (induction s)
  case (Cons c s)
  then show ?case
    by (cases "split_at sep s") (auto split: list.splits)
qed simp

end
