(* ===== verification/Go_Json.thy ===== *)
theory Go_Json
  imports Go_Strings "HOL-Library.Char_ord" "HOL-Library.List_Lexorder"
begin

text \<open>
  The part of \<open>encoding/json\<close> that the program uses to write: \<open>json.Marshal\<close> of structs, maps,
  strings, integers, booleans and nil, with Go's string escaping (the HTML-safe set, the two
  Unicode line separators, and the replacement of bytes that are not UTF-8).
\<close>

datatype json =
    JNull
  | JBool bool
  | JNum int
  | JStr string
  | JArr "json list"
  | JObj "(string \<times> json) list"

section \<open>Bytes\<close>

abbreviation byte :: "char \<Rightarrow> nat" where
  "byte c \<equiv> of_char c"

definition hex_digit :: "nat \<Rightarrow> char" where
  "hex_digit d = (if d < 10 then char_of (48 + d) else char_of (87 + d))"

text \<open>The number of bytes of the UTF-8 sequence at the head of a string, 0 if there is none.\<close>

definition is_cont :: "nat \<Rightarrow> nat \<Rightarrow> nat \<Rightarrow> bool" where
  "is_cont lo hi b \<longleftrightarrow> lo \<le> b \<and> b \<le> hi"

definition utf8_len :: "nat list \<Rightarrow> nat" where
  "utf8_len s =
     (case s of [] \<Rightarrow> 0 | a # bs \<Rightarrow>
      if a < 128 then 1
      else if 194 \<le> a \<and> a \<le> 223 then
        (case bs of b # _ \<Rightarrow> if is_cont 128 191 b then 2 else 0 | _ \<Rightarrow> 0)
      else if 224 \<le> a \<and> a \<le> 239 then
        (case bs of b # c # _ \<Rightarrow>
           if is_cont (if a = 224 then 160 else 128) (if a = 237 then 159 else 191) b
              \<and> is_cont 128 191 c then 3 else 0
         | _ \<Rightarrow> 0)
      else if 240 \<le> a \<and> a \<le> 244 then
        (case bs of b # c # d # _ \<Rightarrow>
           if is_cont (if a = 240 then 144 else 128) (if a = 244 then 143 else 191) b
              \<and> is_cont 128 191 c \<and> is_cont 128 191 d then 4 else 0
         | _ \<Rightarrow> 0)
      else 0)"

section \<open>Strings\<close>

definition escape_ascii :: "char \<Rightarrow> string" where
  "escape_ascii c = (let n = byte c in
     if n = 34 then [CHR 0x5C, CHR 0x22]
     else if n = 92 then [CHR 0x5C, CHR 0x5C]
     else if n = 8 then CHR 0x5C # ''b''
     else if n = 12 then CHR 0x5C # ''f''
     else if n = 10 then CHR 0x5C # ''n''
     else if n = 13 then CHR 0x5C # ''r''
     else if n = 9 then CHR 0x5C # ''t''
     else if n < 32 \<or> n = 60 \<or> n = 62 \<or> n = 38
       then CHR 0x5C # ''u00'' @ [hex_digit (n div 16), hex_digit (n mod 16)]
     else [c])"

definition escape_step :: "string \<Rightarrow> string \<times> nat" where
  "escape_step s =
     (case s of [] \<Rightarrow> ([], 0)
      | c # _ \<Rightarrow>
          if byte c < 128 then (escape_ascii c, 1)
          else (let k = utf8_len (map byte s) in
            if k = 0 then (CHR 0x5C # ''ufffd'', 1)
            else if take k (map byte s) = [226, 128, 168] then (CHR 0x5C # ''u2028'', k)
            else if take k (map byte s) = [226, 128, 169] then (CHR 0x5C # ''u2029'', k)
            else (take k s, k)))"

text \<open>The escaped form of the first character and the number of bytes it takes.\<close>

primrec escape_from :: "nat \<Rightarrow> string \<Rightarrow> string" where
  "escape_from 0 s = []"
| "escape_from (Suc fuel) s =
     (if s = [] then []
      else (let (out, k) = escape_step s in out @ escape_from fuel (drop k s)))"

text \<open>One unit of fuel for each byte is enough: every round of the loop consumes at least one.\<close>

definition json_escape :: "string \<Rightarrow> string" where
  "json_escape s = escape_from (length s) s"

definition json_quote :: "string \<Rightarrow> string" where
  "json_quote s = CHR 0x22 # json_escape s @ [CHR 0x22]"

lemma escape_step_progress: "s \<noteq> [] \<Longrightarrow> escape_step s = (out, k) \<Longrightarrow> 0 < k"
  by (auto simp: escape_step_def Let_def split: list.splits if_splits)

lemma escape_from_enough:
  "length s \<le> f \<Longrightarrow> length s \<le> g \<Longrightarrow> escape_from f s = escape_from g s"
proof (induction f arbitrary: g s)
  case 0
  then show ?case by (cases g) auto
next
  case (Suc f)
  show ?case
  proof (cases "s = []")
    case True
    then show ?thesis by (cases g) auto
  next
    case False
    then obtain h where g: "g = Suc h" using Suc.prems by (cases g) auto
    obtain out k where e: "escape_step s = (out, k)" by (cases "escape_step s")
    then have "0 < k" using False by (rule escape_step_progress[rotated])
    then have "length (drop k s) \<le> f" "length (drop k s) \<le> h"
      using Suc.prems g by auto
    then have "escape_from f (drop k s) = escape_from h (drop k s)" by (rule Suc.IH)
    with g e show ?thesis by simp
  qed
qed

lemma json_escape_Nil [simp]: "json_escape [] = []"
  by (simp add: json_escape_def)

lemma json_escape_ascii [simp]:
  "byte c < 128 \<Longrightarrow> json_escape (c # s) = escape_ascii c @ json_escape s"
  by (simp add: json_escape_def escape_step_def)

section \<open>Values\<close>

text \<open>\<open>json.Marshal\<close>: compact, the fields of an object in the given order.\<close>

fun marshal :: "json \<Rightarrow> string"
  and marshal_list :: "json list \<Rightarrow> string"
  and marshal_fields :: "(string \<times> json) list \<Rightarrow> string" where
  "marshal JNull = ''null''"
| "marshal (JBool b) = (if b then ''true'' else ''false'')"
| "marshal (JNum i) = dec_int i"
| "marshal (JStr s) = json_quote s"
| "marshal (JArr js) = ''['' @ marshal_list js @ '']''"
| "marshal (JObj fs) = ''{'' @ marshal_fields fs @ ''}''"
| "marshal_list [] = []"
| "marshal_list [j] = marshal j"
| "marshal_list (j # k # js) = marshal j @ '','' @ marshal_list (k # js)"
| "marshal_fields [] = []"
| "marshal_fields [(n, j)] = json_quote n @ '':'' @ marshal j"
| "marshal_fields ((n, j) # f # fs) = json_quote n @ '':'' @ marshal j @ '','' @ marshal_fields (f # fs)"

text \<open>A Go map with string keys is written with its keys in increasing byte order.\<close>

definition json_of_map :: "(string, string) gomap \<Rightarrow> json" where
  "json_of_map m = JObj (map (\<lambda>k. (k, JStr (m_get_or [] m k))) (sort (m_keys m)))"

lemma json_of_map_order_free:
  assumes "\<And>k. m_get m k = m_get m' k"
  shows "json_of_map m = json_of_map m'"
proof -
  have s: "set (m_keys m) = set (m_keys m')"
    using assms by (auto simp: gm.keys_get)
  then have "sort (m_keys m) = sort (m_keys m')"
    by (metis gm.keys_distinct sorted_list_of_set_sort_remdups distinct_remdups_id)
  then show ?thesis
    by (simp add: json_of_map_def m_get_or_def assms)
qed

end
