(* ===== verification/Dtu_Types.thy ===== *)
theory Dtu_Types
  imports Go_Sha256
begin

text \<open>
  The data of \<open>dtu/types.go\<close>: the world of the server and everything it holds, the control
  inputs, and the external system the handlers call (processes, files, HTTP), whose state the
  model threads through as an opaque value.
\<close>

section \<open>Identities and resources\<close>

text \<open>\<open>crypto/rsa.PublicKey\<close>.\<close>

record rsa_public_key =
  rsa_N :: int
  rsa_E :: int

record app =
  app_id :: int64
  app_publicKey :: rsa_public_key
  app_webhookURL :: string
  app_webhookSecret :: string

record installation =
  inst_id :: int64
  inst_appID :: int64
  inst_active :: bool
  inst_owner :: string
  inst_ownerType :: string
  inst_permissions :: "(string, string) gomap"
  inst_repositoryIDs :: "int64 goset"

record repository =
  repo_id :: int64
  repo_owner :: string
  repo_name :: string
  repo_installationID :: int64
  repo_gitDir :: string

record pull_key =
  pk_repositoryID :: int64
  pk_number :: int64

record pull_request =
  pr_repositoryID :: int64
  pr_number :: int64
  pr_baseRef :: string
  pr_headRef :: string
  pr_baseSHA :: string
  pr_headSHA :: string
  pr_state :: string
  pr_draft :: bool

record installation_token =
  tok_value :: string
  tok_installationID :: int64
  tok_repositoryIDs :: "int64 goset"
  tok_permissions :: "(string, string) gomap"
  tok_expiresAt :: gotime

record workflow_config =
  wf_repositoryID :: int64
  wf_id :: int64
  wf_name :: string
  wf_path :: string
  wf_releaseRef :: string

text \<open>
  An \<open>exec.Cmd\<close> as the cancellation and shutdown code sees it: its \<open>Process\<close> field, nil until
  \<open>Start\<close> has succeeded.
\<close>

record cmd =
  cmd_process :: "nat option"

record active_run =
  ar_command :: "cmd option"
  ar_cancellationSignalled :: bool

definition process_of :: "active_run \<Rightarrow> nat option" where
  "process_of a = (case ar_command a of None \<Rightarrow> None | Some c \<Rightarrow> cmd_process c)"

section \<open>Observable records\<close>

record pending_event =
  ev_GUID :: string
  ev_Event :: string
  ev_Action :: string
  ev_AppID :: int64
  ev_RepositoryID :: int64
  ev_CreatedAt :: gotime
  ev_Body :: string

record observation_error =
  oe_RepositoryID :: int64
  oe_Operation :: string
  oe_Message :: string
  oe_At :: gotime

record delivery_attempt =
  da_GUID :: string
  da_Destination :: string
  da_StatusCode :: int
  da_InvalidSignature :: bool
  da_AttemptedAt :: gotime
  da_Error :: string

record workflow_run =
  run_ID :: int64
  run_Attempt :: int64
  run_RepositoryID :: int64
  run_WorkflowID :: int64
  run_WorkflowName :: string
  run_WorkflowPath :: string
  run_Event :: string
  run_HeadBranch :: string
  run_HeadSHA :: string
  run_Status :: string
  run_Conclusion :: string
  run_CancellationRequested :: bool
  run_Logs :: string

record unsupported_request =
  us_Method :: string
  us_Path :: string
  us_At :: gotime

section \<open>The world\<close>

text \<open>
  \<open>world\<close> without its read-write mutex: each critical section of the code is one operation of
  the model. A receive lock is a mutex object; the map of the model holds the repositories
  that have one.
\<close>

record world =
  w_now :: gotime
  w_dataDir :: string
  w_gitBackend :: string
  w_apps :: "(int64, app) gomap"
  w_installs :: "(int64, installation) gomap"
  w_repositories :: "(int64, repository) gomap"
  w_repoNames :: "(string, int64) gomap"
  w_pulls :: "(pull_key, pull_request) gomap"
  w_tokens :: "(string, installation_token) gomap"
  w_workflows :: "(int64, workflow_config) gomap"
  w_receiveLocks :: "int64 goset"
  w_workflowRuns :: "workflow_run list"
  w_pendingEvents :: "pending_event list"
  w_observationErrors :: "observation_error list"
  w_deliveryAttempts :: "delivery_attempt list"
  w_activeRuns :: "(int64, active_run) gomap"
  w_nextRunID :: int64
  w_nextEventID :: uint64
  w_unsupported :: "unsupported_request list"
  w_mutations :: uint64

text \<open>\<open>w.mutations++\<close>\<close>

definition bump :: "world \<Rightarrow> world" where
  "bump w = w\<lparr>w_mutations := w_mutations w + 1\<rparr>"

section \<open>Zero values\<close>

definition zero_app :: app where
  "zero_app = \<lparr>app_id = 0, app_publicKey = \<lparr>rsa_N = 0, rsa_E = 0\<rparr>, app_webhookURL = [],
     app_webhookSecret = []\<rparr>"

definition zero_installation :: installation where
  "zero_installation = \<lparr>inst_id = 0, inst_appID = 0, inst_active = False, inst_owner = [],
     inst_ownerType = [], inst_permissions = m_empty, inst_repositoryIDs = m_empty\<rparr>"

definition zero_repository :: repository where
  "zero_repository = \<lparr>repo_id = 0, repo_owner = [], repo_name = [], repo_installationID = 0,
     repo_gitDir = []\<rparr>"

definition zero_token :: installation_token where
  "zero_token = \<lparr>tok_value = [], tok_installationID = 0, tok_repositoryIDs = m_empty,
     tok_permissions = m_empty, tok_expiresAt = 0\<rparr>"

definition zero_active_run :: active_run where
  "zero_active_run = \<lparr>ar_command = None, ar_cancellationSignalled = False\<rparr>"

section \<open>Control inputs\<close>

record app_input =
  ai_ID :: int64
  ai_PublicKeyPEM :: string
  ai_WebhookURL :: string
  ai_WebhookSecret :: string

record installation_input =
  ii_ID :: int64
  ii_AppID :: int64
  ii_Active :: bool
  ii_Owner :: string
  ii_OwnerType :: string
  ii_Permissions :: "(string, string) gomap"

record repository_input =
  ri_ID :: int64
  ri_Owner :: string
  ri_Name :: string
  ri_InstallationID :: int64

record pull_request_input =
  pi_RepositoryID :: int64
  pi_Number :: int64
  pi_BaseRef :: string
  pi_HeadRef :: string
  pi_State :: string
  pi_Draft :: bool

record pull_request_state_input =
  psi_RepositoryID :: int64
  psi_Number :: int64
  psi_State :: string

record advance_time_input =
  ati_Duration :: string

record workflow_input =
  wi_RepositoryID :: int64
  wi_ID :: int64
  wi_Name :: string
  wi_Path :: string
  wi_ReleaseRef :: string

record delivery_input =
  di_GUID :: string
  di_InvalidSignature :: bool

record duplicate_event_input =
  dei_GUID :: string

record workflow_transition_input =
  wti_RunID :: int64
  wti_Status :: string
  wti_Conclusion :: string

record execute_workflow_input =
  ewi_RunID :: int64

record state_snapshot =
  ss_Now :: gotime
  ss_Apps :: nat
  ss_Installations :: nat
  ss_Repositories :: nat
  ss_PullRequests :: nat
  ss_Tokens :: nat
  ss_Mutations :: uint64
  ss_UnsupportedRequests :: "unsupported_request list"
  ss_PendingEvents :: "pending_event list"
  ss_WorkflowRuns :: "workflow_run list"
  ss_ObservationErrors :: "observation_error list"
  ss_DeliveryAttempts :: "delivery_attempt list"

section \<open>The external system\<close>

text \<open>
  What the handlers call outside the process: child processes (\<open>git\<close>, \<open>docker\<close>, \<open>act\<close>), the file
  system, the webhook receiver and the randomness of the operating system. Its state is a value
  of an arbitrary type; each operation takes it and returns the new one. Nothing is assumed of
  these operations except where a theorem names the assumption.
\<close>

text \<open>The result of a finished child process: its error, if any, and what it printed.\<close>

record exec_result =
  ex_err :: "string option"
  ex_stdout :: string
  ex_combined :: string

record http_post =
  hp_url :: string
  hp_headers :: "(string \<times> string) list"
  hp_body :: string

text \<open>A request to the Git backend as \<open>serveGit\<close> builds it for the CGI handler.\<close>

record cgi_request =
  cgi_backend :: string
  cgi_dir :: string
  cgi_env :: "string list"
  cgi_method :: string
  cgi_path :: string
  cgi_query :: string
  cgi_body :: string

text \<open>The calls a wrapped handler makes on its response writer, after setting its headers.\<close>

datatype rb_call = WriteHeader nat | Write string

record cgi_result =
  cgi_headers :: "(string \<times> string list) list"
  cgi_calls :: "rb_call list"

record 'e sys =
  sys_exec :: "string \<Rightarrow> string \<Rightarrow> string list \<Rightarrow> 'e \<Rightarrow> exec_result \<times> 'e"
  sys_look_path :: "string \<Rightarrow> 'e \<Rightarrow> (string + string) \<times> 'e"
  sys_start :: "string \<Rightarrow> string \<Rightarrow> string list \<Rightarrow> string list \<Rightarrow> 'e \<Rightarrow> (string + nat) \<times> 'e"
  sys_wait :: "nat \<Rightarrow> 'e \<Rightarrow> (string option \<times> string) \<times> 'e"
  sys_interrupt :: "nat \<Rightarrow> 'e \<Rightarrow> string option \<times> 'e"
  sys_kill :: "nat \<Rightarrow> 'e \<Rightarrow> 'e"
  sys_remove_all :: "string \<Rightarrow> 'e \<Rightarrow> string option \<times> 'e"
  sys_mkdir_all :: "string \<Rightarrow> 'e \<Rightarrow> string option \<times> 'e"
  sys_write_file :: "string \<Rightarrow> string \<Rightarrow> 'e \<Rightarrow> string option \<times> 'e"
  sys_valid_request_url :: "string \<Rightarrow> bool"
  sys_post :: "http_post \<Rightarrow> 'e \<Rightarrow> (string + int) \<times> 'e"
  sys_cgi :: "cgi_request \<Rightarrow> 'e \<Rightarrow> cgi_result \<times> 'e"
  sys_random :: "nat \<Rightarrow> 'e \<Rightarrow> (nat list) option \<times> 'e"

end
