(* ===== verification/Dtu_Response.thy ===== *)
theory Dtu_Response
  imports Dtu_Types
begin

text \<open>
  What the handlers answer: \<open>writeJSON\<close>, \<open>writeError\<close> and \<open>writeControlError\<close> (\<open>dtu/public.go\<close>,
  \<open>dtu/control.go\<close>), the error and success values of the GitHub services, the response buffer of
  \<open>dtu/git.go\<close>, and the decoding step that every control handler starts with.
\<close>

section \<open>Responses\<close>

text \<open>The Go value that a handler passes to the JSON encoder.\<close>

datatype payload =
    PMessage string
  | PError string string string
  | PID int64
  | PNumber int64
  | PState string
  | PNow gotime
  | PAttempt delivery_attempt
  | PEvent pending_event
  | PRun workflow_run
  | PSnapshot state_snapshot

record response =
  resp_status :: nat
  resp_headers :: "(string \<times> string) list"
  resp_body :: payload

definition json_headers :: "(string \<times> string) list" where
  "json_headers =
     [(''Content-Type'', ''application/json; charset=utf-8''),
      (''X-GitHub-Api-Version-Selected'', ''2022-11-28''),
      (''X-GitHub-Request-Id'', ''DTU'')]"

definition writeJSON :: "nat \<Rightarrow> payload \<Rightarrow> response" where
  "writeJSON st p = \<lparr>resp_status = st, resp_headers = json_headers, resp_body = p\<rparr>"

definition writeError :: "nat \<Rightarrow> string \<Rightarrow> response" where
  "writeError st msg = writeJSON st (PError msg ''https://docs.github.com/rest'' (dec_nat st))"

definition writeControlError :: "nat \<Rightarrow> string \<Rightarrow> response" where
  "writeControlError st msg = writeJSON st (PMessage msg)"

lemma resp_simps [simp]:
  "resp_status (writeJSON st p) = st" "resp_body (writeJSON st p) = p"
  "resp_status (writeError st msg) = st" "resp_status (writeControlError st msg) = st"
  "resp_body (writeControlError st msg) = PMessage msg"
  by (simp_all add: writeJSON_def writeError_def writeControlError_def)

text \<open>A handler rejects a request when it answers with an error status.\<close>

definition rejected :: "response \<Rightarrow> bool" where
  "rejected r \<longleftrightarrow> 400 \<le> resp_status r"

section \<open>Errors of the GitHub services\<close>

record api_error =
  ae_status :: nat
  ae_message :: string
  ae_documentation_url :: string

definition githubAPIError :: "nat \<Rightarrow> string \<Rightarrow> api_error" where
  "githubAPIError st msg =
     \<lparr>ae_status = st, ae_message = msg, ae_documentation_url = ''https://docs.github.com/rest''\<rparr>"

record api_response =
  ar_status :: nat
  ar_headers :: "(string \<times> string) list"

definition githubAPIResponse :: "nat \<Rightarrow> api_response" where
  "githubAPIResponse st = \<lparr>ar_status = st, ar_headers = json_headers\<rparr>"

lemma ae_status_githubAPIError [simp]: "ae_status (githubAPIError st msg) = st"
  by (simp add: githubAPIError_def)

section \<open>The response buffer\<close>

text \<open>
  \<open>responseBuffer\<close>: the status of the first \<open>WriteHeader\<close> wins, a \<open>Write\<close> before it means 200, and
  \<open>flush\<close> replays headers, status and body on the real writer.
\<close>

record response_buffer =
  rb_header :: "(string \<times> string list) list"
  rb_body :: string
  rb_status :: nat

definition rb_new :: response_buffer where
  "rb_new = \<lparr>rb_header = [], rb_body = [], rb_status = 0\<rparr>"

definition rb_WriteHeader :: "nat \<Rightarrow> response_buffer \<Rightarrow> response_buffer" where
  "rb_WriteHeader st b = (if rb_status b = 0 then b\<lparr>rb_status := st\<rparr> else b)"

definition rb_Write :: "string \<Rightarrow> response_buffer \<Rightarrow> response_buffer" where
  "rb_Write v b =
     (let b' = (if rb_status b = 0 then b\<lparr>rb_status := 200\<rparr> else b)
      in b'\<lparr>rb_body := rb_body b' @ v\<rparr>)"

definition rb_flush :: "response_buffer \<Rightarrow> (string \<times> string) list \<times> nat \<times> string" where
  "rb_flush b =
     (concat (map (\<lambda>(k, vs). map (\<lambda>v. (k, v)) vs) (rb_header b)),
      (if rb_status b = 0 then 200 else rb_status b),
      rb_body b)"

text \<open>The effect of a wrapped handler's calls, in order.\<close>

fun rb_apply :: "rb_call \<Rightarrow> response_buffer \<Rightarrow> response_buffer" where
  "rb_apply (WriteHeader st) b = rb_WriteHeader st b"
| "rb_apply (Write v) b = rb_Write v b"

fun rb_run :: "rb_call list \<Rightarrow> response_buffer \<Rightarrow> response_buffer" where
  "rb_run [] b = b"
| "rb_run (c # cs) b = rb_run cs (rb_apply c b)"

fun written :: "rb_call list \<Rightarrow> string" where
  "written [] = []"
| "written (WriteHeader _ # cs) = written cs"
| "written (Write v # cs) = v @ written cs"

text \<open>The status a client sees: the first one set, an unset one being 200.\<close>

fun sent_status :: "rb_call list \<Rightarrow> nat" where
  "sent_status [] = 200"
| "sent_status (WriteHeader st # cs) = (if st = 0 then sent_status cs else st)"
| "sent_status (Write v # cs) = 200"

lemma rb_run_status_set: "rb_status b \<noteq> 0 \<Longrightarrow> rb_status (rb_run cs b) = rb_status b"
proof (induction cs arbitrary: b)
  case (Cons c cs)
  then show ?case
    by (cases c) (auto simp: rb_WriteHeader_def rb_Write_def Let_def)
qed simp

lemma rb_run_body: "rb_body (rb_run cs b) = rb_body b @ written cs"
proof (induction cs arbitrary: b)
  case (Cons c cs)
  then show ?case
    by (cases c) (auto simp: rb_WriteHeader_def rb_Write_def Let_def)
qed simp

lemma rb_run_header: "rb_header (rb_run cs b) = rb_header b"
proof (induction cs arbitrary: b)
  case (Cons c cs)
  then show ?case
    by (cases c) (auto simp: rb_WriteHeader_def rb_Write_def Let_def)
qed simp

lemma rb_run_status: "rb_status b = 0 \<Longrightarrow>
  (if rb_status (rb_run cs b) = 0 then 200 else rb_status (rb_run cs b)) = sent_status cs"
proof (induction cs arbitrary: b)
  case (Cons c cs)
  show ?case
  proof (cases c)
    case (WriteHeader st)
    show ?thesis
    proof (cases "st = 0")
      case True
      have "(if rb_status (rb_run cs (b\<lparr>rb_status := 0\<rparr>)) = 0 then 200
             else rb_status (rb_run cs (b\<lparr>rb_status := 0\<rparr>))) = sent_status cs"
        by (rule Cons.IH) simp
      with WriteHeader True Cons.prems show ?thesis
        by (auto simp: rb_WriteHeader_def split: if_splits)
    next
      case False
      with WriteHeader Cons.prems show ?thesis
        by (simp add: rb_WriteHeader_def rb_run_status_set)
    qed
  next
    case (Write v)
    with Cons.prems show ?thesis
      by (simp add: rb_Write_def Let_def rb_run_status_set)
  qed
qed simp

section \<open>Decoding of control requests\<close>

text \<open>
  \<open>decodeControl\<close> reads one JSON value into the target and then expects the end of the body. A
  control body is what the decoder makes of the bytes: the value read first, if it fits the
  target, and whether the second read reports the end of the input.
\<close>

record 'a control_body =
  cb_value :: "'a option"
  cb_then_eof :: bool

definition decodeControl :: "'a control_body \<Rightarrow> response + 'a" where
  "decodeControl b =
     (case cb_value b of
        None \<Rightarrow> Inl (writeControlError 400 ''invalid JSON'')
      | Some x \<Rightarrow> if \<not> cb_then_eof b then Inl (writeControlError 400 ''invalid JSON'') else Inr x)"

text \<open>A body that holds exactly one well-formed value.\<close>

definition well_formed :: "'a \<Rightarrow> 'a control_body" where
  "well_formed x = \<lparr>cb_value = Some x, cb_then_eof = True\<rparr>"

lemma decodeControl_well_formed [simp]: "decodeControl (well_formed x) = Inr x"
  by (simp add: decodeControl_def well_formed_def)

lemma decodeControl_Inl: "decodeControl b = Inl r \<Longrightarrow> r = writeControlError 400 ''invalid JSON''"
  by (auto simp: decodeControl_def split: option.splits if_splits)

end
