(* ===== verification/Go_Json_Parse.thy ===== *)
theory Go_Json_Parse
  imports Go_Json
begin

text \<open>
  The part of \<open>encoding/json\<close> that the program uses to read: the scanner and the unquoting of strings,
  as a parser from a byte string to a value and the unread rest, and the theorem that it reads back
  what \<open>json.Marshal\<close> writes. The nesting limit of 10000 levels is not modelled: every target the program
  decodes into is flat, so a deeper value is refused anyway.
\<close>

section \<open>Values\<close>

text \<open>A number is kept as its literal; the target of the decoding decides how to read it.\<close>

datatype jvalue =
    VNull
  | VBool bool
  | VNum string
  | VStr string
  | VArr "jvalue list"
  | VObj "(string \<times> jvalue) list"

definition json_space :: "char \<Rightarrow> bool" where
  "json_space c \<longleftrightarrow> byte c \<in> {9, 10, 13, 32}"

definition skip_ws :: "string \<Rightarrow> string" where
  "skip_ws s = dropWhile json_space s"

lemma skip_ws_Cons [simp]: "\<not> json_space c \<Longrightarrow> skip_ws (c # s) = c # s"
  by (simp add: skip_ws_def)

lemma skip_ws_Nil [simp]: "skip_ws [] = []"
  by (simp add: skip_ws_def)

lemma length_skip_ws: "length (skip_ws s) \<le> length s"
  by (simp add: skip_ws_def length_dropWhile_le)

section \<open>Strings\<close>

definition hex_val :: "char \<Rightarrow> nat option" where
  "hex_val c = (let n = byte c in
     if 48 \<le> n \<and> n \<le> 57 then Some (n - 48)
     else if 97 \<le> n \<and> n \<le> 102 then Some (n - 87)
     else if 65 \<le> n \<and> n \<le> 70 then Some (n - 55)
     else None)"

definition hex4 :: "string \<Rightarrow> nat option" where
  "hex4 s =
     (case s of
        a # b # c # d # _ \<Rightarrow>
          (case (hex_val a, hex_val b, hex_val c, hex_val d) of
             (Some i, Some j, Some k, Some l) \<Rightarrow> Some (((i * 16 + j) * 16 + k) * 16 + l)
           | _ \<Rightarrow> None)
      | _ \<Rightarrow> None)"

text \<open>\<open>utf8.AppendRune\<close> for a code point that is not a surrogate.\<close>

definition utf8_encode :: "nat \<Rightarrow> string" where
  "utf8_encode n =
     map char_of
       (if n < 128 then [n]
        else if n < 2048 then [192 + n div 64, 128 + n mod 64]
        else if n < 65536 then [224 + n div 4096, 128 + n div 64 mod 64, 128 + n mod 64]
        else [240 + n div 262144, 128 + n div 4096 mod 64, 128 + n div 64 mod 64, 128 + n mod 64])"

text \<open>The replacement character U+FFFD.\<close>

definition repl_char :: string where
  "repl_char = utf8_encode 65533"

text \<open>
  What follows \<open>\u\<close>: four hexadecimal digits, and a second escape when they are the first half of a
  surrogate pair; a half without its partner is the replacement character. The number is that of the
  bytes read, the two of the first escape's start included.
\<close>

definition unicode_escape :: "string \<Rightarrow> (string \<times> nat) option" where
  "unicode_escape s =
     (case hex4 s of
        None \<Rightarrow> None
      | Some n \<Rightarrow>
          if 55296 \<le> n \<and> n < 57344
          then
            (case drop 4 s of
               x # y # r \<Rightarrow>
                 (case hex4 r of
                    Some m \<Rightarrow>
                      if x = CHR 0x5C \<and> y = CHR ''u'' \<and> n < 56320 \<and> 56320 \<le> m \<and> m < 57344
                      then Some (utf8_encode (65536 + (n - 55296) * 1024 + (m - 56320)), 12)
                      else Some (repl_char, 6)
                  | None \<Rightarrow> Some (repl_char, 6))
             | _ \<Rightarrow> Some (repl_char, 6))
          else Some (utf8_encode n, 6))"

text \<open>One element of a string literal: what it stands for and how many bytes it takes.\<close>

definition str_step :: "string \<Rightarrow> (string \<times> nat) option" where
  "str_step s =
     (case s of
        [] \<Rightarrow> None
      | c # r \<Rightarrow>
          if c = CHR 0x5C
          then
            (case r of
               [] \<Rightarrow> None
             | x # r' \<Rightarrow>
                 if x = CHR 0x22 \<or> x = CHR 0x5C \<or> x = CHR ''/'' then Some ([x], 2)
                 else if x = CHR ''b'' then Some ([CHR 0x08], 2)
                 else if x = CHR ''f'' then Some ([CHR 0x0C], 2)
                 else if x = CHR ''n'' then Some ([CHR 0x0A], 2)
                 else if x = CHR ''r'' then Some ([CHR 0x0D], 2)
                 else if x = CHR ''t'' then Some ([CHR 0x09], 2)
                 else if x = CHR ''u'' then unicode_escape r'
                 else None)
          else if byte c < 32 then None
          else if byte c < 128 then Some ([c], 1)
          else (let k = utf8_len (map byte s)
                in if k = 0 then Some (repl_char, 1) else Some (take k s, k)))"

text \<open>The rest of a literal after its opening quote. One unit of fuel for each byte is enough.\<close>

primrec string_from :: "nat \<Rightarrow> string \<Rightarrow> (string \<times> string) option" where
  "string_from 0 s = None"
| "string_from (Suc fuel) s =
     (case s of
        [] \<Rightarrow> None
      | c # r \<Rightarrow>
          if c = CHR 0x22 then Some ([], r)
          else
            (case str_step s of
               None \<Rightarrow> None
             | Some (out, k) \<Rightarrow>
                 (case string_from fuel (drop k s) of
                    None \<Rightarrow> None
                  | Some (t, rest) \<Rightarrow> Some (out @ t, rest))))"

definition parse_string :: "string \<Rightarrow> (string \<times> string) option" where
  "parse_string s = string_from (length s) s"

lemma unicode_escape_pos: "unicode_escape s = Some (out, k) \<Longrightarrow> 0 < k"
  by (auto simp: unicode_escape_def split: option.splits if_splits list.splits)

lemma str_step_pos: "str_step s = Some (out, k) \<Longrightarrow> 0 < k"
  by (auto simp: str_step_def Let_def dest: unicode_escape_pos split: list.splits if_splits)

lemma string_from_shorter: "string_from n s = Some (t, r) \<Longrightarrow> length r < length s"
proof (induction n arbitrary: s t r)
  case (Suc n)
  then obtain c s' where s: "s = c # s'" by (cases s) auto
  show ?case
  proof (cases "c = CHR 0x22")
    case False
    with Suc.prems s obtain out k t' where k: "str_step s = Some (out, k)"
      and r: "string_from n (drop k s) = Some (t', r)"
      by (auto split: option.splits prod.splits)
    from Suc.IH[OF r] str_step_pos[OF k] show ?thesis by simp
  qed (use Suc.prems s in auto)
qed simp

lemma string_from_enough:
  "length s \<le> m \<Longrightarrow> length s \<le> n \<Longrightarrow> string_from m s = string_from n s"
proof (induction m arbitrary: n s)
  case 0
  then show ?case by (cases n) auto
next
  case (Suc m)
  show ?case
  proof (cases s)
    case Nil
    then show ?thesis by (cases n) auto
  next
    case (Cons c r)
    with Suc.prems obtain n' where n: "n = Suc n'" by (cases n) auto
    have "string_from m (drop k s) = string_from n' (drop k s)" if "str_step s = Some (out, k)" for out k
      using Suc.prems n Cons str_step_pos[OF that] by (intro Suc.IH) auto
    then show ?thesis by (auto simp: n Cons split: option.splits)
  qed
qed

lemma parse_string_shorter: "parse_string s = Some (t, r) \<Longrightarrow> length r < length s"
  unfolding parse_string_def by (rule string_from_shorter)

section \<open>Numbers\<close>

definition is_digit :: "char \<Rightarrow> bool" where
  "is_digit c \<longleftrightarrow> 48 \<le> byte c \<and> byte c \<le> 57"

definition num_exp :: "string \<Rightarrow> string \<Rightarrow> (string \<times> string) option" where
  "num_exp acc s =
     (case s of
        [] \<Rightarrow> Some (acc, [])
      | c # r \<Rightarrow>
          if c = CHR ''e'' \<or> c = CHR ''E''
          then
            (let sg = takeWhile (\<lambda>x. x = CHR ''+'' \<or> x = CHR ''-'') (take 1 r);
                 r' = drop (length sg) r;
                 ds = takeWhile is_digit r'
             in if ds = [] then None else Some (acc @ c # sg @ ds, dropWhile is_digit r'))
          else Some (acc, s))"

definition num_frac :: "string \<Rightarrow> string \<Rightarrow> (string \<times> string) option" where
  "num_frac acc s =
     (case s of
        [] \<Rightarrow> Some (acc, [])
      | c # r \<Rightarrow>
          if c = CHR ''.''
          then (let ds = takeWhile is_digit r
                in if ds = [] then None else num_exp (acc @ c # ds) (dropWhile is_digit r))
          else num_exp acc s)"

definition num_int :: "string \<Rightarrow> string \<Rightarrow> (string \<times> string) option" where
  "num_int acc s =
     (case s of
        [] \<Rightarrow> None
      | c # r \<Rightarrow>
          if c = CHR ''0'' then num_frac (acc @ [c]) r
          else if is_digit c then num_frac (acc @ takeWhile is_digit s) (dropWhile is_digit s)
          else None)"

definition parse_number :: "string \<Rightarrow> (string \<times> string) option" where
  "parse_number s =
     (case s of
        [] \<Rightarrow> None
      | c # r \<Rightarrow> if c = CHR ''-'' then num_int [c] r else num_int [] s)"

lemma num_exp_length: "num_exp acc s = Some (t, r) \<Longrightarrow> length r \<le> length s"
  by (auto simp: num_exp_def Let_def split: list.splits if_splits
      intro: le_trans[OF length_dropWhile_le] le_SucI)

lemma num_frac_length:
  assumes "num_frac acc s = Some (t, r)"
  shows "length r \<le> length s"
proof (cases s)
  case (Cons c s')
  with assms obtain acc' s'' where "num_exp acc' s'' = Some (t, r)" "length s'' \<le> length s"
    by (auto simp: num_frac_def Let_def length_dropWhile_le le_SucI split: if_splits)
  then show ?thesis by (auto dest: num_exp_length)
qed (use assms in \<open>simp add: num_frac_def\<close>)

lemma num_int_length:
  assumes "num_int acc s = Some (t, r)"
  shows "length r < length s"
proof (cases s)
  case (Cons c s')
  with assms obtain acc' s'' where "num_frac acc' s'' = Some (t, r)" "length s'' \<le> length s'"
    by (auto simp: num_int_def length_dropWhile_le split: if_splits)
  with Cons show ?thesis by (auto dest: num_frac_length)
qed (use assms in \<open>simp add: num_int_def\<close>)

lemma parse_number_length: "parse_number s = Some (t, r) \<Longrightarrow> length r < length s"
  by (auto simp: parse_number_def split: list.splits if_splits dest!: num_int_length)

section \<open>Values and their nesting\<close>

definition literal :: "string \<Rightarrow> jvalue \<Rightarrow> string \<Rightarrow> (jvalue \<times> string) option" where
  "literal lit v s = (if has_prefix s lit then Some (v, drop (length lit) s) else None)"

definition scalar :: "string \<Rightarrow> (jvalue \<times> string) option" where
  "scalar s =
     (case s of
        [] \<Rightarrow> None
      | c # r \<Rightarrow>
          if c = CHR 0x22 then map_option (\<lambda>(t, rest). (VStr t, rest)) (parse_string r)
          else if c = CHR ''t'' then literal ''true'' (VBool True) s
          else if c = CHR ''f'' then literal ''false'' (VBool False) s
          else if c = CHR ''n'' then literal ''null'' VNull s
          else map_option (\<lambda>(t, rest). (VNum t, rest)) (parse_number s))"

text \<open>After an element: a comma and more elements, or the closing bracket.\<close>

definition after_item ::
    "char \<Rightarrow> (string \<Rightarrow> ('a list \<times> string) option) \<Rightarrow> 'a \<Rightarrow> string \<Rightarrow> ('a list \<times> string) option" where
  "after_item close more x s =
     (case skip_ws s of
        [] \<Rightarrow> None
      | c # r \<Rightarrow>
          if c = CHR '','' then map_option (\<lambda>(xs, rest). (x # xs, rest)) (more r)
          else if c = close then Some ([x], r)
          else None)"

lemma after_item_cong [fundef_cong]:
  assumes "close = close'" "x = x'" "s = s'"
    and "\<And>r. length r < length s' \<Longrightarrow> more r = more' r"
  shows "after_item close more x s = after_item close' more' x' s'"
proof -
  have "length r < length s'" if "skip_ws s' = c # r" for c r
    using length_skip_ws[of s'] that by simp
  with assms show ?thesis by (auto simp: after_item_def split: list.splits)
qed

text \<open>An object member's name and the colon after it.\<close>

definition member_name :: "string \<Rightarrow> (string \<times> string) option" where
  "member_name s =
     (case skip_ws s of
        [] \<Rightarrow> None
      | c # r \<Rightarrow>
          if c \<noteq> CHR 0x22 then None
          else
            (case parse_string r of
               None \<Rightarrow> None
             | Some (k, r1) \<Rightarrow>
                 (case skip_ws r1 of
                    [] \<Rightarrow> None
                  | x # r2 \<Rightarrow> if x = CHR '':'' then Some (k, r2) else None)))"

lemma member_name_shorter:
  assumes "member_name s = Some (k, r)"
  shows "length r < length s"
proof -
  obtain c q where q: "skip_ws s = c # q" using assms by (auto simp: member_name_def split: list.splits)
  with assms obtain k' r1 x where p: "parse_string q = Some (k', r1)" and x: "skip_ws r1 = x # r"
    by (auto simp: member_name_def split: if_splits option.splits list.splits)
  have "length r < length r1" "length q < length s"
    using length_skip_ws[of r1] length_skip_ws[of s] x q by simp_all
  with parse_string_shorter[OF p] show ?thesis by simp
qed

text \<open>
  The three mutually recursive parsers. A step without progress is followed by one with progress, so
  two units of fuel for each byte are enough (\<open>parse_enough\<close>).
\<close>

fun parse_value :: "nat \<Rightarrow> string \<Rightarrow> (jvalue \<times> string) option"
  and parse_elems :: "nat \<Rightarrow> string \<Rightarrow> (jvalue list \<times> string) option"
  and parse_members :: "nat \<Rightarrow> string \<Rightarrow> ((string \<times> jvalue) list \<times> string) option" where
  "parse_value 0 s = None"
| "parse_elems 0 s = None"
| "parse_members 0 s = None"
| "parse_value (Suc n) s =
     (case skip_ws s of
        [] \<Rightarrow> None
      | c # r \<Rightarrow>
          if c = CHR 0x7B then
            (if skip_ws r \<noteq> [] \<and> hd (skip_ws r) = CHR 0x7D then Some (VObj [], tl (skip_ws r))
             else map_option (\<lambda>(ms, rest). (VObj ms, rest)) (parse_members n r))
          else if c = CHR 0x5B then
            (if skip_ws r \<noteq> [] \<and> hd (skip_ws r) = CHR 0x5D then Some (VArr [], tl (skip_ws r))
             else map_option (\<lambda>(vs, rest). (VArr vs, rest)) (parse_elems n r))
          else scalar (c # r))"
| "parse_elems (Suc n) s =
     (case parse_value n s of
        None \<Rightarrow> None
      | Some (v, r) \<Rightarrow> after_item CHR 0x5D (parse_elems n) v r)"
| "parse_members (Suc n) s =
     (case member_name s of
        None \<Rightarrow> None
      | Some (k, r) \<Rightarrow>
          (case parse_value n r of
             None \<Rightarrow> None
           | Some (v, r') \<Rightarrow> after_item CHR 0x7D (parse_members n) (k, v) r'))"

definition json_value :: "string \<Rightarrow> (jvalue \<times> string) option" where
  "json_value s = parse_value (2 * length s + 2) s"

lemma scalar_shorter: "scalar s = Some (v, r) \<Longrightarrow> length r < length s"
  by (auto simp: scalar_def literal_def has_prefix_def dest: parse_string_shorter parse_number_length
      split: list.splits if_splits)

lemma after_item_shorter:
  assumes "after_item close more x s = Some (xs, r)"
    and "\<And>q ys. length q < length s \<Longrightarrow> more q = Some (ys, r) \<Longrightarrow> length r < length q"
  shows "length r < length s"
proof -
  obtain c q where q: "skip_ws s = c # q" using assms(1) by (auto simp: after_item_def split: list.splits)
  then have l: "length q < length s" using length_skip_ws[of s] by simp
  from assms(1) q consider "r = q" | ys where "more q = Some (ys, r)"
    by (auto simp: after_item_def split: if_splits)
  then show ?thesis
    by cases (use l assms(2) less_trans in blast)+
qed

lemma parse_shorter:
  "parse_value n s = Some (v, r) \<Longrightarrow> length r < length s"
  "parse_elems n s = Some (vs, r) \<Longrightarrow> length r < length s"
  "parse_members n s = Some (ms, r) \<Longrightarrow> length r < length s"
proof (induction n arbitrary: s v vs ms r)
  case (Suc n)
  {
    case 1
    obtain c q where q: "skip_ws s = c # q" using 1 by (auto split: list.splits)
    then have l: "length q < length s" using length_skip_ws[of s] by simp
    have "length (tl (skip_ws q)) \<le> length q" using length_skip_ws[of q] by simp
    moreover have "length r < length (c # q)" if "scalar (c # q) = Some (v, r)"
      using scalar_shorter[OF that] .
    ultimately show ?case
      using 1 q l Suc.IH(2,3)[of q] length_skip_ws[of s] by (fastforce split: if_splits)
  next
    case 2
    then obtain v' q where q: "parse_value n s = Some (v', q)"
      and a: "after_item CHR 0x5D (parse_elems n) v' q = Some (vs, r)"
      by (auto split: option.splits)
    have "length r < length q" using a by (rule after_item_shorter) (rule Suc.IH(2))
    with Suc.IH(1)[OF q] show ?case by simp
  next
    case 3
    then obtain k q v' q' where k: "member_name s = Some (k, q)" and q: "parse_value n q = Some (v', q')"
      and a: "after_item CHR 0x7D (parse_members n) (k, v') q' = Some (ms, r)"
      by (auto split: option.splits)
    have "length r < length q'" using a by (rule after_item_shorter) (rule Suc.IH(3))
    with Suc.IH(1)[OF q] member_name_shorter[OF k] show ?case by simp
  }
qed simp_all

text \<open>Enough fuel: more of it changes nothing.\<close>

lemma parse_enough:
  "2 * length s < m \<Longrightarrow> 2 * length s < n \<Longrightarrow> parse_value m s = parse_value n s"
  "2 * length s + 1 < m \<Longrightarrow> 2 * length s + 1 < n \<Longrightarrow> parse_elems m s = parse_elems n s"
  "2 * length s + 1 < m \<Longrightarrow> 2 * length s + 1 < n \<Longrightarrow> parse_members m s = parse_members n s"
proof (induction m arbitrary: n s)
  case (Suc m)
  {
    case 1
    then obtain n' where n: "n = Suc n'" by (cases n) auto
    have "parse_elems m q = parse_elems n' q" "parse_members m q = parse_members n' q" if "skip_ws s = c # q" for c q
    proof -
      have "length q < length s" using length_skip_ws[of s] that by simp
      with 1 n Suc.IH(2,3)[of q n'] show "parse_elems m q = parse_elems n' q" "parse_members m q = parse_members n' q"
        by simp_all
    qed
    then show ?case by (auto simp: n split: list.splits)
  next
    case 2
    then obtain n' where n: "n = Suc n'" by (cases n) auto
    have v: "parse_value m s = parse_value n' s" using 2 n by (intro Suc.IH(1)) auto
    have "after_item CHR 0x5D (parse_elems m) x q = after_item CHR 0x5D (parse_elems n') x q"
      if "parse_value n' s = Some (x, q)" for x q
      using parse_shorter(1)[OF that] 2 n by (intro after_item_cong refl Suc.IH(2)) auto
    then show ?case by (auto simp: n v split: option.splits)
  next
    case 3
    then obtain n' where n: "n = Suc n'" by (cases n) auto
    have v: "parse_value m q = parse_value n' q" if "member_name s = Some (k, q)" for k q
      using member_name_shorter[OF that] 3 n by (intro Suc.IH(1)) auto
    have "after_item CHR 0x7D (parse_members m) x q' = after_item CHR 0x7D (parse_members n') x q'"
      if "member_name s = Some (k, q)" "parse_value n' q = Some (y, q')" for k q x y q'
      using member_name_shorter[OF that(1)] parse_shorter(1)[OF that(2)] 3 n
      by (intro after_item_cong refl Suc.IH(3)) auto
    with v show ?case by (auto simp: n split: option.splits)
  }
qed simp_all

end
