(* ===== verification/Go_Json_Roundtrip.thy ===== *)
theory Go_Json_Roundtrip
  imports Go_Json_Parse
begin

text \<open>
  Reading back what \<open>json.Marshal\<close> wrote: the parser gives the marshalled value with every byte that is not
  UTF-8 replaced, and stops where it ends.
\<close>

section \<open>Valid UTF-8\<close>

text \<open>What a string becomes on the way: \<open>strings.ToValidUTF8\<close> with the replacement character.\<close>

primrec clean_from :: "nat \<Rightarrow> string \<Rightarrow> string" where
  "clean_from 0 s = []"
| "clean_from (Suc fuel) s =
     (if s = [] then []
      else (let k = utf8_len (map byte s)
            in if k = 0 then repl_char @ clean_from fuel (drop 1 s) else take k s @ clean_from fuel (drop k s)))"

definition utf8_clean :: "string \<Rightarrow> string" where
  "utf8_clean s = clean_from (length s) s"

primrec valid_from :: "nat \<Rightarrow> string \<Rightarrow> bool" where
  "valid_from 0 s = True"
| "valid_from (Suc fuel) s =
     (s = [] \<or> utf8_len (map byte s) \<noteq> 0 \<and> valid_from fuel (drop (utf8_len (map byte s)) s))"

text \<open>\<open>utf8.ValidString\<close>.\<close>

definition utf8_valid :: "string \<Rightarrow> bool" where
  "utf8_valid s \<longleftrightarrow> valid_from (length s) s"

lemma utf8_len_le: "utf8_len bs \<le> length bs"
  by (auto simp: utf8_len_def split: list.splits)

lemma utf8_len_prefix:
  assumes k: "utf8_len bs = k" and pos: "k \<noteq> 0"
  shows "utf8_len (take k bs @ xs) = k"
proof -
  obtain a r where bs: "bs = a # r" using assms by (cases bs) (auto simp: utf8_len_def)
  consider "a < 128" | "194 \<le> a" "a \<le> 223" | "224 \<le> a" "a \<le> 239" | "240 \<le> a" "a \<le> 244"
    using assms by (fastforce simp: bs utf8_len_def split: if_splits)
  then show ?thesis
  proof cases
    case 1
    with k have "k = Suc 0" by (simp add: bs utf8_len_def)
    with 1 show ?thesis by (simp add: bs utf8_len_def)
  next
    case 2
    with assms obtain b r' where "r = b # r'" "is_cont 128 191 b" "k = 2"
      by (cases r) (auto simp: bs utf8_len_def split: if_splits)
    with 2 show ?thesis by (simp add: bs utf8_len_def eval_nat_numeral)
  next
    case 3
    with assms obtain b r1 where r1: "r = b # r1" by (cases r) (auto simp: bs utf8_len_def)
    with assms 3 obtain c r2 where r2: "r1 = c # r2" by (cases r1) (auto simp: bs utf8_len_def)
    with assms 3 r1 have "k = 3"
      "is_cont (if a = 224 then 160 else 128) (if a = 237 then 159 else 191) b \<and> is_cont 128 191 c"
      by (auto simp: bs utf8_len_def simp del: split_paired_Ex split: if_split_asm)
    with 3 r1 r2 show ?thesis by (simp add: bs utf8_len_def eval_nat_numeral)
  next
    case 4
    with assms obtain b r1 where r1: "r = b # r1" by (cases r) (auto simp: bs utf8_len_def)
    with assms 4 obtain c r2 where r2: "r1 = c # r2" by (cases r1) (auto simp: bs utf8_len_def)
    with assms 4 r1 obtain d r3 where r3: "r2 = d # r3" by (cases r2) (auto simp: bs utf8_len_def)
    with assms 4 r1 r2 have "k = 4"
      "is_cont (if a = 240 then 144 else 128) (if a = 244 then 143 else 191) b \<and> is_cont 128 191 c \<and> is_cont 128 191 d"
      by (auto simp: bs utf8_len_def split: if_split_asm)
    with 4 r1 r2 r3 show ?thesis by (simp add: bs utf8_len_def eval_nat_numeral)
  qed
qed

lemma clean_valid: "length s \<le> n \<Longrightarrow> valid_from n s \<Longrightarrow> clean_from n s = s"
proof (induction n arbitrary: s)
  case (Suc n)
  show ?case
  proof (cases "s = []")
    case False
    let ?k = "utf8_len (map byte s)"
    from False Suc.prems have k: "?k \<noteq> 0" and v: "valid_from n (drop ?k s)" by auto
    have "length (drop ?k s) \<le> n" using Suc.prems(1) False k by (cases s) auto
    with Suc.IH v have "clean_from n (drop ?k s) = drop ?k s" by blast
    with False k show ?thesis by (simp add: Let_def)
  qed simp
qed simp

lemma utf8_clean_valid: "utf8_valid s \<Longrightarrow> utf8_clean s = s"
  by (simp add: utf8_valid_def utf8_clean_def clean_valid)

lemma valid_from_ascii: "list_all (\<lambda>c. byte c < 128) s \<Longrightarrow> valid_from n s"
proof (induction n arbitrary: s)
  case (Suc n)
  then show ?case by (cases s) (auto simp: utf8_len_def list_all_iff)
qed simp

lemma utf8_valid_ascii: "list_all (\<lambda>c. byte c < 128) s \<Longrightarrow> utf8_valid s"
  unfolding utf8_valid_def by (rule valid_from_ascii)

section \<open>String literals\<close>

lemma hex_val_digit [simp]: "d < 16 \<Longrightarrow> hex_val (hex_digit d) = Some d"
  by (auto simp: hex_val_def hex_digit_def Let_def of_char_of)

lemma hex4_zeros: "n < 128 \<Longrightarrow> hex4 (CHR ''0'' # CHR ''0'' # hex_digit (n div 16) # hex_digit (n mod 16) # r) = Some n"
proof -
  assume n: "n < 128"
  have "hex_val CHR ''0'' = Some 0" by (simp add: hex_val_def)
  moreover have "hex_val (hex_digit (n div 16)) = Some (n div 16)" using n by (intro hex_val_digit) simp
  moreover have "hex_val (hex_digit (n mod 16)) = Some (n mod 16)" by simp
  ultimately show ?thesis by (simp add: hex4_def)
qed

lemma utf8_encode_ascii: "byte c < 128 \<Longrightarrow> utf8_encode (byte c) = [c]"
  by (simp add: utf8_encode_def)

text \<open>The element that an escaped character stands for.\<close>

definition piece :: "string \<Rightarrow> string" where
  "piece s = (let k = utf8_len (map byte s) in if k = 0 then repl_char else take k s)"

lemma char_eq_byte: "c = d \<longleftrightarrow> byte c = byte d"
  by simp

lemma str_step_escape_ascii:
  assumes "byte c < 128"
  shows "str_step (escape_ascii c @ r) = Some ([c], length (escape_ascii c)) \<and> escape_ascii c \<noteq> [] \<and>
    hd (escape_ascii c) \<noteq> CHR 0x22"
proof -
  let ?n = "byte c"
  have eqs: "c = CHR 0x22 \<longleftrightarrow> ?n = 34" "c = CHR 0x5C \<longleftrightarrow> ?n = 92" "c = CHR 0x08 \<longleftrightarrow> ?n = 8"
    "c = CHR 0x0C \<longleftrightarrow> ?n = 12" "c = CHR 0x0A \<longleftrightarrow> ?n = 10" "c = CHR 0x0D \<longleftrightarrow> ?n = 13" "c = CHR 0x09 \<longleftrightarrow> ?n = 9"
    by (simp_all add: char_eq_byte del: of_char_eq_iff)
  consider (special) "?n \<in> {34, 92, 8, 12, 10, 13, 9}"
    | (hex) "?n \<notin> {34, 92, 8, 12, 10, 13, 9}" "?n < 32 \<or> ?n = 60 \<or> ?n = 62 \<or> ?n = 38"
    | (plain) "?n \<notin> {34, 92, 8, 12, 10, 13, 9}" "\<not> (?n < 32 \<or> ?n = 60 \<or> ?n = 62 \<or> ?n = 38)"
    by blast
  then show ?thesis
  proof cases
    case special
    with eqs show ?thesis by (elim insertE emptyE) (auto simp: escape_ascii_def str_step_def Let_def)
  next
    case hex
    have h: "hex4 (CHR ''0'' # CHR ''0'' # hex_digit (?n div 16) # hex_digit (?n mod 16) # r) = Some ?n"
      using assms by (rule hex4_zeros)
    have "unicode_escape (CHR ''0'' # CHR ''0'' # hex_digit (?n div 16) # hex_digit (?n mod 16) # r) = Some ([c], 6)"
      using assms by (simp add: unicode_escape_def h utf8_encode_ascii)
    with hex show ?thesis by (simp add: escape_ascii_def Let_def str_step_def)
  next
    case plain
    with assms eqs show ?thesis by (simp add: escape_ascii_def Let_def str_step_def)
  qed
qed

lemma take_bytes: "take k (map byte s) = bs \<Longrightarrow> take k s = map char_of bs"
  by (auto simp: take_map intro: map_idI)

lemma str_step_raw:
  assumes "\<not> byte c < 128" "utf8_len (map byte (c # s)) = k" "k \<noteq> 0"
  shows "str_step (take k (c # s) @ r) = Some (take k (c # s), k)"
proof -
  have "utf8_len (map byte (take k (c # s) @ r)) = k"
    using utf8_len_prefix[OF assms(2,3), of "map byte r"] by (simp add: take_map del: list.map)
  moreover obtain k' where "k = Suc k'" using assms(3) by (cases k) auto
  moreover have "length (take k (c # s)) = k" using utf8_len_le[of "map byte (c # s)"] assms(2) by simp
  moreover have "c \<noteq> CHR 0x5C" using assms(1) by auto
  ultimately show ?thesis using assms(1,3) by (simp add: str_step_def Let_def)
qed

lemma str_step_escape:
  assumes "s \<noteq> []" "escape_step s = (out, k)"
  shows "str_step (out @ r) = Some (piece s, length out) \<and> out \<noteq> [] \<and> hd out \<noteq> CHR 0x22 \<and>
    k = (if utf8_len (map byte s) = 0 then 1 else utf8_len (map byte s))"
proof -
  obtain c s' where s: "s = c # s'" using assms(1) by (cases s) auto
  show ?thesis
  proof (cases "byte c < 128")
    case True
    then have len: "utf8_len (map byte s) = 1" by (simp add: s utf8_len_def)
    then have "piece s = [c]" by (simp add: piece_def s)
    with True len assms(2) s str_step_escape_ascii[OF True, of r] show ?thesis
      by (simp add: escape_step_def)
  next
    case False
    let ?k = "utf8_len (map byte s)"
    consider (bad) "?k = 0" | (sep) "?k \<noteq> 0" "take ?k (map byte s) = [226, 128, 168]"
      | (par) "?k \<noteq> 0" "take ?k (map byte s) = [226, 128, 169]"
      | (raw) "?k \<noteq> 0" "take ?k (map byte s) \<noteq> [226, 128, 168]" "take ?k (map byte s) \<noteq> [226, 128, 169]"
      by blast
    then show ?thesis
    proof cases
      case bad
      with assms(2) s False have "out = CHR 0x5C # ''ufffd''" "k = 1"
        by (auto simp: escape_step_def Let_def)
      with bad show ?thesis
        by (simp add: str_step_def unicode_escape_def hex4_def hex_val_def piece_def repl_char_def)
    next
      case sep
      with assms(2) s False have o: "out = CHR 0x5C # ''u2028''" "k = ?k"
        by (auto simp: escape_step_def Let_def)
      have "piece s = map char_of [226, 128, 168 :: nat]"
        using sep take_bytes[OF sep(2)] by (simp add: piece_def Let_def)
      with o sep(1) show ?thesis
        by (simp add: str_step_def unicode_escape_def hex4_def hex_val_def utf8_encode_def)
    next
      case par
      with assms(2) s False have o: "out = CHR 0x5C # ''u2029''" "k = ?k"
        by (auto simp: escape_step_def Let_def)
      have "piece s = map char_of [226, 128, 169 :: nat]"
        using par take_bytes[OF par(2)] by (simp add: piece_def Let_def)
      with o par(1) show ?thesis
        by (simp add: str_step_def unicode_escape_def hex4_def hex_val_def utf8_encode_def)
    next
      case raw
      with assms(2) s False have o: "out = take ?k s" "k = ?k"
        by (auto simp: escape_step_def Let_def)
      have "length (take ?k s) = ?k" using utf8_len_le[of "map byte s"] by simp
      moreover have c: "c \<noteq> CHR 0x22" using False by auto
      moreover from c have "out \<noteq> [] \<and> hd out \<noteq> CHR 0x22" using o raw(1) s by (cases ?k) auto
      ultimately show ?thesis
        using o raw(1) str_step_raw[of c s' ?k r] False s by (simp add: piece_def Let_def)
    qed
  qed
qed

lemma string_from_escape:
  "length (escape_from m s) < n \<Longrightarrow> length s \<le> m \<Longrightarrow>
     string_from n (escape_from m s @ CHR 0x22 # r) = Some (clean_from m s, r)"
proof (induction m arbitrary: n s)
  case 0
  then show ?case by (cases n) auto
next
  case (Suc m)
  obtain n' where n: "n = Suc n'" using Suc.prems(1) by (cases n) auto
  show ?case
  proof (cases "s = []")
    case False
    obtain out k where e: "escape_step s = (out, k)" by (cases "escape_step s")
    let ?t = "escape_from m (drop k s) @ CHR 0x22 # r"
    from str_step_escape[OF False e] have st: "str_step (out @ ?t) = Some (piece s, length out)"
      and out: "out \<noteq> []" "hd out \<noteq> CHR 0x22"
      and k: "k = (if utf8_len (map byte s) = 0 then 1 else utf8_len (map byte s))" by blast+
    have "length (drop k s) \<le> m" using Suc.prems(2) False k by (cases s) auto
    moreover have "length (escape_from m (drop k s)) < n'"
      using Suc.prems(1) n e False out(1) by (cases out) auto
    ultimately have ih: "string_from n' ?t = Some (clean_from m (drop k s), r)" by (rule Suc.IH[rotated])
    have c: "clean_from (Suc m) s = piece s @ clean_from m (drop k s)"
      using False k by (simp add: piece_def Let_def)
    obtain x xs where x: "out = x # xs" using out(1) by (cases out) auto
    have "string_from n (out @ ?t) = Some (piece s @ clean_from m (drop k s), r)"
      using st ih out(2) by (simp add: n x)
    with False e c show ?thesis by simp
  qed (use n in simp)
qed

lemma parse_string_escape: "parse_string (json_escape s @ CHR 0x22 # r) = Some (utf8_clean s, r)"
  unfolding parse_string_def json_escape_def utf8_clean_def by (rule string_from_escape) simp_all

section \<open>Numbers\<close>

text \<open>A rest that cannot continue a number.\<close>

definition ends_number :: "string \<Rightarrow> bool" where
  "ends_number r \<longleftrightarrow> (case r of [] \<Rightarrow> True | c # _ \<Rightarrow> \<not> is_digit c \<and> c \<noteq> CHR ''.'' \<and> c \<noteq> CHR ''e'' \<and> c \<noteq> CHR ''E'')"

lemma is_digit_char [simp]: "d < 10 \<Longrightarrow> is_digit (digit_char d)"
  by (simp add: is_digit_def digit_char_def of_char_of)

lemma dec_nat_digits: "c \<in> set (dec_nat n) \<Longrightarrow> is_digit c"
  using digits_dec_nat by fastforce

lemma dec_nat_hd_zero: "hd (dec_nat n) = CHR ''0'' \<Longrightarrow> n = 0"
proof (induction n rule: dec_nat.induct)
  case (1 n)
  show ?case
  proof (cases "n < 10")
    case True
    with "1.prems" have "digit_char n = CHR ''0''" by (simp add: dec_nat.simps[of n])
    then have "digit_val (digit_char n) = Some 0" by (simp add: digit_val_def)
    with True show ?thesis by simp
  next
    case False
    with "1.prems" have "hd (dec_nat (n div 10)) = CHR ''0''" by (simp add: dec_nat.simps[of n])
    with "1.IH" False show ?thesis by simp
  qed
qed

lemma dec_nat_0: "dec_nat 0 = ''0''"
  by code_simp

lemma takeWhile_digits:
  assumes "ends_number r"
  shows "takeWhile is_digit (dec_nat n @ r) = dec_nat n" "dropWhile is_digit (dec_nat n @ r) = r"
proof -
  have "takeWhile is_digit r = []" "dropWhile is_digit r = r"
    using assms by (cases r; simp add: ends_number_def)+
  then show "takeWhile is_digit (dec_nat n @ r) = dec_nat n" "dropWhile is_digit (dec_nat n @ r) = r"
    using dec_nat_digits by (simp_all add: takeWhile_append2 dropWhile_append2)
qed

lemma num_frac_ends: "ends_number r \<Longrightarrow> num_frac acc r = Some (acc, r)"
  by (cases r) (auto simp: ends_number_def num_frac_def num_exp_def)

lemma num_int_dec:
  assumes "ends_number r"
  shows "num_int acc (dec_nat n @ r) = Some (acc @ dec_nat n, r)"
proof -
  obtain c ds where d: "dec_nat n = c # ds" by (cases "dec_nat n") auto
  then have c: "is_digit c" using dec_nat_digits[of c n] by simp
  show ?thesis
  proof (cases "c = CHR ''0''")
    case True
    with d have "n = 0" using dec_nat_hd_zero[of n] by simp
    then have "dec_nat n = ''0''" by (simp add: dec_nat_0)
    with d True assms show ?thesis by (simp add: num_int_def num_frac_ends)
  next
    case False
    with c d assms show ?thesis
      using takeWhile_digits[OF assms, of n] by (simp add: num_int_def num_frac_ends)
  qed
qed

lemma parse_number_dec: "ends_number r \<Longrightarrow> parse_number (dec_int i @ r) = Some (dec_int i, r)"
proof -
  assume r: "ends_number r"
  obtain c ds where d: "dec_nat (nat i) = c # ds" by (cases "dec_nat (nat i)") auto
  with dec_nat_hd_digit[of "nat i"] have "c \<noteq> CHR ''-''" by simp
  with d num_int_dec[OF r, of "[]" "nat i"] num_int_dec[OF r, of "''-''" "nat (- i)"] show ?thesis
    by (simp add: parse_number_def dec_int_def)
qed

lemma dec_int_hd: "\<exists>c ds. dec_int i = c # ds \<and> (is_digit c \<or> c = CHR ''-'')"
proof -
  obtain c ds where "dec_nat (nat i) = c # ds" by (cases "dec_nat (nat i)") auto
  with dec_nat_digits[of c "nat i"] show ?thesis by (auto simp: dec_int_def)
qed

lemma scalar_number: "ends_number r \<Longrightarrow> scalar (dec_int i @ r) = Some (VNum (dec_int i), r)"
  using dec_int_hd[of i] parse_number_dec[of r i] by (auto simp: scalar_def is_digit_def)

section \<open>Values\<close>

fun view :: "json \<Rightarrow> jvalue" where
  "view JNull = VNull"
| "view (JBool b) = VBool b"
| "view (JNum i) = VNum (dec_int i)"
| "view (JStr s) = VStr (utf8_clean s)"
| "view (JArr js) = VArr (map view js)"
| "view (JObj fs) = VObj (map (\<lambda>(n, j). (utf8_clean n, view j)) fs)"

lemma scalar_string: "scalar (json_quote s @ r) = Some (VStr (utf8_clean s), r)"
  by (simp add: scalar_def json_quote_def parse_string_escape)

lemma marshal_hd: "\<exists>c t. marshal j = c # t \<and> \<not> json_space c \<and> c \<noteq> CHR 0x5D \<and> c \<noteq> CHR 0x7D"
proof (cases j)
  case (JNum i)
  with dec_int_hd[of i] show ?thesis by (auto simp: is_digit_def json_space_def)
qed (auto simp: json_quote_def json_space_def)

lemma marshal_list_hd:
  "js \<noteq> [] \<Longrightarrow> \<exists>c t. marshal_list js = c # t \<and> \<not> json_space c \<and> c \<noteq> CHR 0x5D"
proof (cases js)
  case (Cons j ks)
  with marshal_hd[of j] show ?thesis by (cases ks) auto
qed simp

lemma marshal_fields_hd: "fs \<noteq> [] \<Longrightarrow> \<exists>t. marshal_fields fs = CHR 0x22 # t"
proof (cases fs)
  case (Cons f gs)
  then show ?thesis by (cases f; cases gs) (auto simp: json_quote_def)
qed simp

lemma spaces [simp]:
  "\<not> json_space CHR '',''" "\<not> json_space CHR '':''" "\<not> json_space CHR 0x5B" "\<not> json_space CHR 0x5D"
  "\<not> json_space CHR 0x7B" "\<not> json_space CHR 0x7D" "\<not> json_space CHR 0x22"
  by (simp_all add: json_space_def)

lemma ends_simps [simp]:
  "ends_number []" "ends_number (CHR '','' # r)" "ends_number (CHR 0x5D # r)" "ends_number (CHR 0x7D # r)"
  "ends_number (CHR 0x0A # r)"
  by (simp_all add: ends_number_def is_digit_def)

lemma member_name_quote: "member_name (json_quote k @ CHR '':'' # r) = Some (utf8_clean k, r)"
  by (simp add: member_name_def json_quote_def parse_string_escape)

lemma parse_scalar:
  "scalar (c # t) = Some (v, r) \<Longrightarrow> \<not> json_space c \<Longrightarrow> c \<noteq> CHR 0x7B \<Longrightarrow> c \<noteq> CHR 0x5B \<Longrightarrow>
     parse_value (Suc n) (c # t) = Some (v, r)"
  by simp

lemma parse_marshal:
  "ends_number r \<Longrightarrow> 2 * length (marshal j @ r) < n \<Longrightarrow> parse_value n (marshal j @ r) = Some (view j, r)"
  "js \<noteq> [] \<Longrightarrow> 2 * length (marshal_list js @ CHR 0x5D # r) + 1 < n \<Longrightarrow>
     parse_elems n (marshal_list js @ CHR 0x5D # r) = Some (map view js, r)"
  "fs \<noteq> [] \<Longrightarrow> 2 * length (marshal_fields fs @ CHR 0x7D # r) + 1 < n \<Longrightarrow>
     parse_members n (marshal_fields fs @ CHR 0x7D # r) = Some (map (\<lambda>(k, j). (utf8_clean k, view j)) fs, r)"
proof (induction j and js and fs arbitrary: r n and r n and r n rule: marshal_marshal_list_marshal_fields.induct)
  case (2 b)
  then show ?case
    by (cases n) (auto simp: scalar_def literal_def has_prefix_def json_space_def)
next
  case 1
  then show ?case
    by (cases n) (auto simp: scalar_def literal_def has_prefix_def json_space_def)
next
  case (3 i)
  obtain m where n: "n = Suc m" using "3.prems"(2) by (cases n) auto
  obtain c ds where c: "dec_int i = c # ds" "is_digit c \<or> c = CHR ''-''" using dec_int_hd by blast
  then have "\<not> json_space c" "c \<noteq> CHR 0x7B" "c \<noteq> CHR 0x5B" by (auto simp: is_digit_def json_space_def)
  with scalar_number[OF "3.prems"(1), of i] c n show ?case by simp
next
  case (4 s)
  obtain m where n: "n = Suc m" using "4.prems"(2) by (cases n) auto
  with scalar_string[of s r] show ?case by (simp add: json_quote_def)
next
  case (5 js)
  obtain m where n: "n = Suc m" using "5.prems"(2) by (cases n) auto
  show ?case
  proof (cases "js = []")
    case False
    then obtain c t where c: "marshal_list js = c # t" "\<not> json_space c" "c \<noteq> CHR 0x5D"
      using marshal_list_hd by blast
    have "parse_elems m (marshal_list js @ CHR 0x5D # r) = Some (map view js, r)"
      using "5.prems" n by (intro "5.IH" False) auto
    with c n show ?thesis by simp
  qed (simp add: n)
next
  case (6 fs)
  obtain m where n: "n = Suc m" using "6.prems"(2) by (cases n) auto
  show ?case
  proof (cases "fs = []")
    case False
    then obtain t where t: "marshal_fields fs = CHR 0x22 # t" using marshal_fields_hd by blast
    have "parse_members m (marshal_fields fs @ CHR 0x7D # r) = Some (map (\<lambda>(k, j). (utf8_clean k, view j)) fs, r)"
      using "6.prems" n by (intro "6.IH" False) auto
    with t n show ?thesis by simp
  qed (simp add: n)
next
  case (8 j)
  obtain m where n: "n = Suc m" using "8.prems"(2) by (cases n) auto
  have "parse_value m (marshal j @ CHR 0x5D # r) = Some (view j, CHR 0x5D # r)"
    using "8.prems" n by (intro "8.IH") auto
  with n show ?case by (simp add: after_item_def)
next
  case (9 j k js)
  obtain m where n: "n = Suc m" using "9.prems"(2) by (cases n) auto
  let ?t = "marshal_list (k # js) @ CHR 0x5D # r"
  have "parse_value m (marshal j @ CHR '','' # ?t) = Some (view j, CHR '','' # ?t)"
    using "9.prems" n by (intro "9.IH"(1)) auto
  moreover have "parse_elems m ?t = Some (map view (k # js), r)"
    using "9.prems" n by (intro "9.IH"(2)) auto
  ultimately show ?case by (simp add: n after_item_def)
next
  case (11 k j)
  obtain m where n: "n = Suc m" using "11.prems"(2) by (cases n) auto
  have "parse_value m (marshal j @ CHR 0x7D # r) = Some (view j, CHR 0x7D # r)"
    using "11.prems" n by (intro "11.IH") auto
  with n show ?case by (simp add: after_item_def member_name_quote)
next
  case (12 k j f fs)
  obtain m where n: "n = Suc m" using "12.prems"(2) by (cases n) auto
  let ?t = "marshal_fields (f # fs) @ CHR 0x7D # r"
  have "parse_value m (marshal j @ CHR '','' # ?t) = Some (view j, CHR '','' # ?t)"
    using "12.prems" n by (intro "12.IH"(1)) auto
  moreover have "parse_members m ?t = Some (map (\<lambda>(k, j). (utf8_clean k, view j)) (f # fs), r)"
    using "12.prems" n by (intro "12.IH"(2)) auto
  ultimately show ?case by (simp add: n after_item_def member_name_quote)
qed simp_all

text \<open>The round trip: a marshalled value is read back, and the reader stops at its end.\<close>

theorem json_value_marshal:
  "ends_number r \<Longrightarrow> json_value (marshal j @ r) = Some (view j, r)"
  unfolding json_value_def by (rule parse_marshal(1)) simp_all

end
