(* ===== verification/Dtu_Codec.thy ===== *)
theory Dtu_Codec
  imports Dtu_Response Go_Json_Roundtrip
begin

text \<open>
  The JSON form of the control inputs of \<open>dtu/types.go\<close>: what the client's \<open>json.Marshal\<close> writes, what
  \<open>decodeControl\<close> of \<open>dtu/control.go\<close> reads from the bytes of a body, and that reading gives back what was
  written (locale \<open>codec\<close>, interpreted on every input).
\<close>

section \<open>Decoding into a struct\<close>

text \<open>
  A field's decoder takes the value and the struct so far and returns the struct and whether the value
  fitted. As in Go, decoding goes on after a value that did not fit, and the error is reported at the end.
\<close>

type_synonym 'r field = "jvalue \<Rightarrow> 'r \<Rightarrow> 'r \<times> bool"

definition int_field :: "(int64 \<Rightarrow> 'r \<Rightarrow> 'r) \<Rightarrow> 'r field" where
  "int_field upd v r =
     (case v of
        VNum t \<Rightarrow> (case parse_int64 t of Some x \<Rightarrow> (upd x r, True) | None \<Rightarrow> (r, False))
      | VNull \<Rightarrow> (r, True)
      | _ \<Rightarrow> (r, False))"

definition str_field :: "(string \<Rightarrow> 'r \<Rightarrow> 'r) \<Rightarrow> 'r field" where
  "str_field upd v r = (case v of VStr s \<Rightarrow> (upd s r, True) | VNull \<Rightarrow> (r, True) | _ \<Rightarrow> (r, False))"

definition bool_field :: "(bool \<Rightarrow> 'r \<Rightarrow> 'r) \<Rightarrow> 'r field" where
  "bool_field upd v r = (case v of VBool b \<Rightarrow> (upd b r, True) | VNull \<Rightarrow> (r, True) | _ \<Rightarrow> (r, False))"

text \<open>A \<open>map[string]string\<close>: a \<open>null\<close> empties it, an object adds its members to it.\<close>

definition put_member :: "string \<times> jvalue \<Rightarrow> (string, string) gomap \<times> bool \<Rightarrow> (string, string) gomap \<times> bool" where
  "put_member e m =
     (case e of (k, v) \<Rightarrow>
       (case v of
          VStr s \<Rightarrow> (m_put k s (fst m), snd m)
        | VNull \<Rightarrow> (m_put k [] (fst m), snd m)
        | _ \<Rightarrow> (m_put k [] (fst m), False)))"

definition map_field ::
    "((string, string) gomap \<Rightarrow> 'r \<Rightarrow> 'r) \<Rightarrow> ('r \<Rightarrow> (string, string) gomap) \<Rightarrow> 'r field" where
  "map_field upd old v r =
     (case v of
        VObj ms \<Rightarrow> (let (m, fits) = fold put_member ms (old r, True) in (upd m r, fits))
      | VNull \<Rightarrow> (upd m_empty r, True)
      | _ \<Rightarrow> (r, False))"

text \<open>
  Field names match exactly or up to letter case; two letters outside ASCII fold to ASCII ones, the long
  s (U+017F) and the Kelvin sign (U+212A).
\<close>

definition upper_char :: "char \<Rightarrow> char" where
  "upper_char c = (let n = byte c in if 97 \<le> n \<and> n \<le> 122 then char_of (n - 32) else c)"

fun fold_key :: "string \<Rightarrow> string" where
  "fold_key [] = []"
| "fold_key [a] = [upper_char a]"
| "fold_key [a, b] = (if byte a = 197 \<and> byte b = 191 then ''S'' else [upper_char a, upper_char b])"
| "fold_key (a # b # c # s) =
     (if byte a = 197 \<and> byte b = 191 then CHR ''S'' # fold_key (c # s)
      else if byte a = 226 \<and> byte b = 132 \<and> byte c = 170 then CHR ''K'' # fold_key s
      else upper_char a # fold_key (b # c # s))"

definition find_field :: "(string \<times> 'r field) list \<Rightarrow> string \<Rightarrow> 'r field option" where
  "find_field fs k =
     (case map_of fs k of
        Some f \<Rightarrow> Some f
      | None \<Rightarrow> map_of (map (\<lambda>(n, f). (fold_key n, f)) fs) (fold_key k))"

text \<open>\<open>strict\<close> is \<open>DisallowUnknownFields\<close>.\<close>

fun decode_members :: "bool \<Rightarrow> (string \<times> 'r field) list \<Rightarrow> (string \<times> jvalue) list \<Rightarrow> 'r \<times> bool \<Rightarrow> 'r \<times> bool" where
  "decode_members strict fs [] acc = acc"
| "decode_members strict fs ((k, v) # ms) (r, fits) =
     decode_members strict fs ms
       (case find_field fs k of
          None \<Rightarrow> (r, fits \<and> \<not> strict)
        | Some f \<Rightarrow> (let (r', fit) = f v r in (r', fits \<and> fit)))"

definition decode_struct :: "bool \<Rightarrow> (string \<times> 'r field) list \<Rightarrow> jvalue \<Rightarrow> 'r \<Rightarrow> 'r \<times> bool" where
  "decode_struct strict fs v r =
     (case v of
        VNull \<Rightarrow> (r, True)
      | VObj ms \<Rightarrow> decode_members strict fs ms (r, True)
      | _ \<Rightarrow> (r, False))"

section \<open>The body of a control request\<close>

definition body_limit :: nat where
  "body_limit = 1048576"

text \<open>
  The two reads of \<open>decodeControl\<close>. At most \<open>body_limit\<close> bytes can be read; a longer body fails at the
  latest when the second read asks for the end.
\<close>

definition read_control :: "(string \<times> 'r field) list \<Rightarrow> 'r \<Rightarrow> string \<Rightarrow> 'r control_body" where
  "read_control fs zero body =
     (case json_value (take body_limit body) of
        None \<Rightarrow> \<lparr>cb_value = None, cb_then_eof = False\<rparr>
      | Some (v, rest) \<Rightarrow>
          (let (r, fits) = decode_struct True fs v zero
           in \<lparr>cb_value = (if fits then Some r else None),
               cb_then_eof = (skip_ws rest = [] \<and> length body \<le> body_limit)\<rparr>))"

section \<open>Whole texts\<close>

text \<open>
  \<open>json.Unmarshal\<close>: the text is one value and nothing but white space after it. Into a \<open>[]string\<close>, a
  \<open>null\<close> element leaves the empty string.
\<close>

definition unmarshal_value :: "string \<Rightarrow> jvalue option" where
  "unmarshal_value text =
     (case json_value text of
        None \<Rightarrow> None
      | Some (v, rest) \<Rightarrow> if skip_ws rest = [] then Some v else None)"

definition string_element :: "jvalue \<Rightarrow> string option" where
  "string_element v = (case v of VStr s \<Rightarrow> Some s | VNull \<Rightarrow> Some [] | _ \<Rightarrow> None)"

definition unmarshal_strings :: "string \<Rightarrow> string list option" where
  "unmarshal_strings text =
     (case unmarshal_value text of
        Some (VArr vs) \<Rightarrow> those (map string_element vs)
      | Some VNull \<Rightarrow> Some []
      | _ \<Rightarrow> None)"

text \<open>The anonymous struct with the single field \<open>Message\<close>, which both the client and the public wrapper read.\<close>

definition message_fields :: "(string \<times> string field) list" where
  "message_fields = [(''message'', str_field (\<lambda>x r. x))]"

definition unmarshal_message :: "string \<Rightarrow> string option" where
  "unmarshal_message text =
     (case unmarshal_value text of
        None \<Rightarrow> None
      | Some v \<Rightarrow> (let (m, fits) = decode_struct False message_fields v [] in if fits then Some m else None))"

lemma unmarshal_marshal: "unmarshal_value (marshal j) = Some (view j)"
  using json_value_marshal[of "[]" j] by (simp add: unmarshal_value_def)

lemma unmarshal_strings_marshal:
  "unmarshal_strings (marshal (JArr (map JStr xs))) = Some (map utf8_clean xs)"
proof -
  have "those (map (string_element \<circ> (view \<circ> JStr)) xs) = Some (map utf8_clean xs)"
    by (induction xs) (simp_all add: string_element_def)
  then show ?thesis unfolding unmarshal_strings_def unmarshal_marshal by simp
qed

section \<open>The inputs\<close>

definition omit_empty :: "string \<Rightarrow> string \<Rightarrow> (string \<times> json) list" where
  "omit_empty n s = (if s = [] then [] else [(n, JStr s)])"

abbreviation jint :: "int64 \<Rightarrow> json" where
  "jint x \<equiv> JNum (sint x)"

definition app_fields :: "(string \<times> app_input field) list" where
  "app_fields =
     [(''id'', int_field (\<lambda>x r. r\<lparr>ai_ID := x\<rparr>)),
      (''public_key_pem'', str_field (\<lambda>x r. r\<lparr>ai_PublicKeyPEM := x\<rparr>)),
      (''webhook_url'', str_field (\<lambda>x r. r\<lparr>ai_WebhookURL := x\<rparr>)),
      (''webhook_secret'', str_field (\<lambda>x r. r\<lparr>ai_WebhookSecret := x\<rparr>))]"

definition app_zero :: app_input where
  "app_zero = \<lparr>ai_ID = 0, ai_PublicKeyPEM = [], ai_WebhookURL = [], ai_WebhookSecret = []\<rparr>"

definition app_json :: "app_input \<Rightarrow> json" where
  "app_json i = JObj ([(''id'', jint (ai_ID i)), (''public_key_pem'', JStr (ai_PublicKeyPEM i))] @
     omit_empty ''webhook_url'' (ai_WebhookURL i) @ omit_empty ''webhook_secret'' (ai_WebhookSecret i))"

definition installation_fields :: "(string \<times> installation_input field) list" where
  "installation_fields =
     [(''id'', int_field (\<lambda>x r. r\<lparr>ii_ID := x\<rparr>)),
      (''app_id'', int_field (\<lambda>x r. r\<lparr>ii_AppID := x\<rparr>)),
      (''active'', bool_field (\<lambda>x r. r\<lparr>ii_Active := x\<rparr>)),
      (''owner'', str_field (\<lambda>x r. r\<lparr>ii_Owner := x\<rparr>)),
      (''owner_type'', str_field (\<lambda>x r. r\<lparr>ii_OwnerType := x\<rparr>)),
      (''permissions'', map_field (\<lambda>x r. r\<lparr>ii_Permissions := x\<rparr>) ii_Permissions)]"

definition installation_zero :: installation_input where
  "installation_zero = \<lparr>ii_ID = 0, ii_AppID = 0, ii_Active = False, ii_Owner = [], ii_OwnerType = [],
     ii_Permissions = m_empty\<rparr>"

definition installation_json :: "installation_input \<Rightarrow> json" where
  "installation_json i = JObj ([(''id'', jint (ii_ID i)), (''app_id'', jint (ii_AppID i)),
     (''active'', JBool (ii_Active i))] @ omit_empty ''owner'' (ii_Owner i) @
     omit_empty ''owner_type'' (ii_OwnerType i) @ [(''permissions'', json_of_map (ii_Permissions i))])"

definition repository_fields :: "(string \<times> repository_input field) list" where
  "repository_fields =
     [(''id'', int_field (\<lambda>x r. r\<lparr>ri_ID := x\<rparr>)),
      (''owner'', str_field (\<lambda>x r. r\<lparr>ri_Owner := x\<rparr>)),
      (''name'', str_field (\<lambda>x r. r\<lparr>ri_Name := x\<rparr>)),
      (''installation_id'', int_field (\<lambda>x r. r\<lparr>ri_InstallationID := x\<rparr>))]"

definition repository_zero :: repository_input where
  "repository_zero = \<lparr>ri_ID = 0, ri_Owner = [], ri_Name = [], ri_InstallationID = 0\<rparr>"

definition repository_json :: "repository_input \<Rightarrow> json" where
  "repository_json i = JObj [(''id'', jint (ri_ID i)), (''owner'', JStr (ri_Owner i)),
     (''name'', JStr (ri_Name i)), (''installation_id'', jint (ri_InstallationID i))]"

definition pull_fields :: "(string \<times> pull_request_input field) list" where
  "pull_fields =
     [(''repository_id'', int_field (\<lambda>x r. r\<lparr>pi_RepositoryID := x\<rparr>)),
      (''number'', int_field (\<lambda>x r. r\<lparr>pi_Number := x\<rparr>)),
      (''base_ref'', str_field (\<lambda>x r. r\<lparr>pi_BaseRef := x\<rparr>)),
      (''head_ref'', str_field (\<lambda>x r. r\<lparr>pi_HeadRef := x\<rparr>)),
      (''state'', str_field (\<lambda>x r. r\<lparr>pi_State := x\<rparr>)),
      (''draft'', bool_field (\<lambda>x r. r\<lparr>pi_Draft := x\<rparr>))]"

definition pull_zero :: pull_request_input where
  "pull_zero = \<lparr>pi_RepositoryID = 0, pi_Number = 0, pi_BaseRef = [], pi_HeadRef = [], pi_State = [],
     pi_Draft = False\<rparr>"

definition pull_json :: "pull_request_input \<Rightarrow> json" where
  "pull_json i = JObj [(''repository_id'', jint (pi_RepositoryID i)), (''number'', jint (pi_Number i)),
     (''base_ref'', JStr (pi_BaseRef i)), (''head_ref'', JStr (pi_HeadRef i)), (''state'', JStr (pi_State i)),
     (''draft'', JBool (pi_Draft i))]"

definition pull_state_fields :: "(string \<times> pull_request_state_input field) list" where
  "pull_state_fields =
     [(''repository_id'', int_field (\<lambda>x r. r\<lparr>psi_RepositoryID := x\<rparr>)),
      (''number'', int_field (\<lambda>x r. r\<lparr>psi_Number := x\<rparr>)),
      (''state'', str_field (\<lambda>x r. r\<lparr>psi_State := x\<rparr>))]"

definition pull_state_zero :: pull_request_state_input where
  "pull_state_zero = \<lparr>psi_RepositoryID = 0, psi_Number = 0, psi_State = []\<rparr>"

definition pull_state_json :: "pull_request_state_input \<Rightarrow> json" where
  "pull_state_json i = JObj [(''repository_id'', jint (psi_RepositoryID i)), (''number'', jint (psi_Number i)),
     (''state'', JStr (psi_State i))]"

definition time_fields :: "(string \<times> advance_time_input field) list" where
  "time_fields = [(''duration'', str_field (\<lambda>x r. r\<lparr>ati_Duration := x\<rparr>))]"

definition time_zero :: advance_time_input where
  "time_zero = \<lparr>ati_Duration = []\<rparr>"

definition time_json :: "advance_time_input \<Rightarrow> json" where
  "time_json i = JObj [(''duration'', JStr (ati_Duration i))]"

definition workflow_fields :: "(string \<times> workflow_input field) list" where
  "workflow_fields =
     [(''repository_id'', int_field (\<lambda>x r. r\<lparr>wi_RepositoryID := x\<rparr>)),
      (''id'', int_field (\<lambda>x r. r\<lparr>wi_ID := x\<rparr>)),
      (''name'', str_field (\<lambda>x r. r\<lparr>wi_Name := x\<rparr>)),
      (''path'', str_field (\<lambda>x r. r\<lparr>wi_Path := x\<rparr>)),
      (''release_ref'', str_field (\<lambda>x r. r\<lparr>wi_ReleaseRef := x\<rparr>))]"

definition workflow_zero :: workflow_input where
  "workflow_zero = \<lparr>wi_RepositoryID = 0, wi_ID = 0, wi_Name = [], wi_Path = [], wi_ReleaseRef = []\<rparr>"

definition workflow_json :: "workflow_input \<Rightarrow> json" where
  "workflow_json i = JObj [(''repository_id'', jint (wi_RepositoryID i)), (''id'', jint (wi_ID i)),
     (''name'', JStr (wi_Name i)), (''path'', JStr (wi_Path i)), (''release_ref'', JStr (wi_ReleaseRef i))]"

definition delivery_fields :: "(string \<times> delivery_input field) list" where
  "delivery_fields =
     [(''guid'', str_field (\<lambda>x r. r\<lparr>di_GUID := x\<rparr>)),
      (''invalid_signature'', bool_field (\<lambda>x r. r\<lparr>di_InvalidSignature := x\<rparr>))]"

definition delivery_zero :: delivery_input where
  "delivery_zero = \<lparr>di_GUID = [], di_InvalidSignature = False\<rparr>"

definition delivery_json :: "delivery_input \<Rightarrow> json" where
  "delivery_json i = JObj [(''guid'', JStr (di_GUID i)), (''invalid_signature'', JBool (di_InvalidSignature i))]"

definition duplicate_fields :: "(string \<times> duplicate_event_input field) list" where
  "duplicate_fields = [(''guid'', str_field (\<lambda>x r. r\<lparr>dei_GUID := x\<rparr>))]"

definition duplicate_zero :: duplicate_event_input where
  "duplicate_zero = \<lparr>dei_GUID = []\<rparr>"

definition duplicate_json :: "duplicate_event_input \<Rightarrow> json" where
  "duplicate_json i = JObj [(''guid'', JStr (dei_GUID i))]"

definition transition_fields :: "(string \<times> workflow_transition_input field) list" where
  "transition_fields =
     [(''run_id'', int_field (\<lambda>x r. r\<lparr>wti_RunID := x\<rparr>)),
      (''status'', str_field (\<lambda>x r. r\<lparr>wti_Status := x\<rparr>)),
      (''conclusion'', str_field (\<lambda>x r. r\<lparr>wti_Conclusion := x\<rparr>))]"

definition transition_zero :: workflow_transition_input where
  "transition_zero = \<lparr>wti_RunID = 0, wti_Status = [], wti_Conclusion = []\<rparr>"

definition transition_json :: "workflow_transition_input \<Rightarrow> json" where
  "transition_json i = JObj ([(''run_id'', jint (wti_RunID i)), (''status'', JStr (wti_Status i))] @
     omit_empty ''conclusion'' (wti_Conclusion i))"

definition execute_fields :: "(string \<times> execute_workflow_input field) list" where
  "execute_fields = [(''run_id'', int_field (\<lambda>x r. r\<lparr>ewi_RunID := x\<rparr>))]"

definition execute_zero :: execute_workflow_input where
  "execute_zero = \<lparr>ewi_RunID = 0\<rparr>"

definition execute_json :: "execute_workflow_input \<Rightarrow> json" where
  "execute_json i = JObj [(''run_id'', jint (ewi_RunID i))]"

section \<open>Reading back what was written\<close>

text \<open>
  The law of one input: for texts that are valid UTF-8, decoding what was encoded succeeds and gives the same
  input (or, where it holds a map, the same one up to the order of the map's keys).
\<close>

locale codec =
  fixes enc :: "'a \<Rightarrow> json"
    and fields :: "(string \<times> 'a field) list"
    and zero :: 'a
    and clean :: "'a \<Rightarrow> bool"
    and same :: "'a \<Rightarrow> 'a \<Rightarrow> bool"
  assumes decode_encode: "clean x \<Longrightarrow> \<exists>y. decode_struct True fields (view (enc x)) zero = (y, True) \<and> same x y"
begin

lemma read_marshal:
  assumes "clean x" "length (marshal (enc x)) \<le> body_limit"
  shows "\<exists>y. read_control fields zero (marshal (enc x)) = well_formed y \<and> same x y"
  using decode_encode[OF assms(1)] assms(2) json_value_marshal[of "[]" "enc x"]
  by (auto simp: read_control_def well_formed_def)

lemma text_reads:
  assumes "clean x"
  shows "\<exists>v y. json_value (marshal (enc x)) = Some (v, []) \<and> decode_struct True fields v zero = (y, True) \<and> same x y"
  using decode_encode[OF assms] json_value_marshal[of "[]" "enc x"] by (auto simp: ends_number_def)

lemma decode_marshal:
  assumes "clean x" "length (marshal (enc x)) \<le> body_limit"
  shows "\<exists>y. decodeControl (read_control fields zero (marshal (enc x))) = Inr y \<and> same x y"
  using read_marshal[OF assms] by auto

lemma trailing_data_refused:
  assumes "\<not> json_space c" "ends_number (c # rest)" "length (marshal (enc x) @ c # rest) \<le> body_limit"
  shows "decodeControl (read_control fields zero (marshal (enc x) @ c # rest)) =
    Inl (writeControlError 400 ''invalid JSON'')"
  using assms json_value_marshal[of "c # rest" "enc x"]
  by (auto simp: read_control_def decodeControl_def split: prod.split)

lemma long_body_refused:
  assumes "body_limit < length body"
  shows "decodeControl (read_control fields zero body) = Inl (writeControlError 400 ''invalid JSON'')"
  using assms by (auto simp: read_control_def decodeControl_def split: option.split prod.split)

end

lemma parse_dec_int [simp]: "parse_int64 (dec_int (sint x)) = Some x"
  using parse_int64_fmt[of x] by (simp add: fmt_int64_def)

lemma view_ascii [simp]: "list_all (\<lambda>c. byte c < 128) s \<Longrightarrow> utf8_clean s = s"
  by (rule utf8_clean_valid[OF utf8_valid_ascii])

lemmas codec_simps = decode_struct_def find_field_def int_field_def str_field_def bool_field_def omit_empty_def
  utf8_clean_valid

definition app_clean :: "app_input \<Rightarrow> bool" where
  "app_clean i \<longleftrightarrow> utf8_valid (ai_PublicKeyPEM i) \<and> utf8_valid (ai_WebhookURL i) \<and> utf8_valid (ai_WebhookSecret i)"

interpretation app_codec: codec app_json app_fields app_zero app_clean "(=)"
  by unfold_locales (auto simp: codec_simps app_json_def app_fields_def app_zero_def app_clean_def)

definition repository_clean :: "repository_input \<Rightarrow> bool" where
  "repository_clean i \<longleftrightarrow> utf8_valid (ri_Owner i) \<and> utf8_valid (ri_Name i)"

interpretation repository_codec: codec repository_json repository_fields repository_zero repository_clean "(=)"
  by unfold_locales (auto simp: codec_simps repository_json_def repository_fields_def repository_zero_def repository_clean_def)

definition pull_clean :: "pull_request_input \<Rightarrow> bool" where
  "pull_clean i \<longleftrightarrow> utf8_valid (pi_BaseRef i) \<and> utf8_valid (pi_HeadRef i) \<and> utf8_valid (pi_State i)"

interpretation pull_codec: codec pull_json pull_fields pull_zero pull_clean "(=)"
  by unfold_locales (auto simp: codec_simps pull_json_def pull_fields_def pull_zero_def pull_clean_def)

definition pull_state_clean :: "pull_request_state_input \<Rightarrow> bool" where
  "pull_state_clean i \<longleftrightarrow> utf8_valid (psi_State i)"

interpretation pull_state_codec: codec pull_state_json pull_state_fields pull_state_zero pull_state_clean "(=)"
  by unfold_locales (auto simp: codec_simps pull_state_json_def pull_state_fields_def pull_state_zero_def pull_state_clean_def)

definition time_clean :: "advance_time_input \<Rightarrow> bool" where
  "time_clean i \<longleftrightarrow> utf8_valid (ati_Duration i)"

interpretation time_codec: codec time_json time_fields time_zero time_clean "(=)"
  by unfold_locales (auto simp: codec_simps time_json_def time_fields_def time_zero_def time_clean_def)

definition workflow_clean :: "workflow_input \<Rightarrow> bool" where
  "workflow_clean i \<longleftrightarrow> utf8_valid (wi_Name i) \<and> utf8_valid (wi_Path i) \<and> utf8_valid (wi_ReleaseRef i)"

interpretation workflow_codec: codec workflow_json workflow_fields workflow_zero workflow_clean "(=)"
  by unfold_locales (auto simp: codec_simps workflow_json_def workflow_fields_def workflow_zero_def workflow_clean_def)

definition delivery_clean :: "delivery_input \<Rightarrow> bool" where
  "delivery_clean i \<longleftrightarrow> utf8_valid (di_GUID i)"

interpretation delivery_codec: codec delivery_json delivery_fields delivery_zero delivery_clean "(=)"
  by unfold_locales (auto simp: codec_simps delivery_json_def delivery_fields_def delivery_zero_def delivery_clean_def)

definition duplicate_clean :: "duplicate_event_input \<Rightarrow> bool" where
  "duplicate_clean i \<longleftrightarrow> utf8_valid (dei_GUID i)"

interpretation duplicate_codec: codec duplicate_json duplicate_fields duplicate_zero duplicate_clean "(=)"
  by unfold_locales (auto simp: codec_simps duplicate_json_def duplicate_fields_def duplicate_zero_def duplicate_clean_def)

definition transition_clean :: "workflow_transition_input \<Rightarrow> bool" where
  "transition_clean i \<longleftrightarrow> utf8_valid (wti_Status i) \<and> utf8_valid (wti_Conclusion i)"

interpretation transition_codec: codec transition_json transition_fields transition_zero transition_clean "(=)"
  by unfold_locales (auto simp: codec_simps transition_json_def transition_fields_def transition_zero_def transition_clean_def)

definition execute_clean :: "execute_workflow_input \<Rightarrow> bool" where
  "execute_clean i \<longleftrightarrow> True"

interpretation execute_codec: codec execute_json execute_fields execute_zero execute_clean "(=)"
  by unfold_locales (auto simp: codec_simps execute_json_def execute_fields_def execute_zero_def execute_clean_def)

subsection \<open>Maps\<close>

definition map_clean :: "(string, string) gomap \<Rightarrow> bool" where
  "map_clean m \<longleftrightarrow> (\<forall>k v. m_get m k = Some v \<longrightarrow> utf8_valid k \<and> utf8_valid v)"

lemma fold_put_members:
  "fold put_member (map (\<lambda>k. (k, VStr (f k))) ks) (m, b) = (fold (\<lambda>k. m_put k (f k)) ks m, b)"
  by (induction ks arbitrary: m) (auto simp: put_member_def)

lemma m_get_fold_put: "m_get (fold (\<lambda>k. m_put k (f k)) ks m) k = (if k \<in> set ks then Some (f k) else m_get m k)"
  by (induction ks arbitrary: m) auto

lemma map_field_view:
  assumes "map_clean m"
  obtains m' where "m_get m' = m_get m"
    "\<And>upd old r. old r = m_empty \<Longrightarrow> map_field upd old (view (json_of_map m)) r = (upd m' r, True)"
proof -
  have keys: "k \<in> set (m_keys m) \<Longrightarrow> utf8_valid k \<and> utf8_valid (m_get_or [] m k)" for k
    using assms(1) by (auto simp: map_clean_def gm.keys_get m_get_or_def split: option.split)
  have v: "view (json_of_map m) = VObj (map (\<lambda>k. (k, VStr (m_get_or [] m k))) (sort (m_keys m)))"
    using keys by (auto simp: json_of_map_def utf8_clean_valid)
  let ?m = "fold (\<lambda>k. m_put k (m_get_or [] m k)) (sort (m_keys m)) m_empty"
  show thesis
  proof
    show "m_get ?m = m_get m"
      by (auto simp: fun_eq_iff m_get_fold_put gm.keys_get m_get_or_def split: option.splits)
    show "map_field upd old (view (json_of_map m)) r = (upd ?m r, True)" if "old r = m_empty"
      for upd and old :: "'a \<Rightarrow> (string, string) gomap" and r
      using that by (simp add: v map_field_def fold_put_members)
  qed
qed

definition installation_clean :: "installation_input \<Rightarrow> bool" where
  "installation_clean i \<longleftrightarrow> utf8_valid (ii_Owner i) \<and> utf8_valid (ii_OwnerType i) \<and> map_clean (ii_Permissions i)"

definition same_installation_input :: "installation_input \<Rightarrow> installation_input \<Rightarrow> bool" where
  "same_installation_input i j \<longleftrightarrow>
     (\<exists>m. j = i\<lparr>ii_Permissions := m\<rparr> \<and> m_get m = m_get (ii_Permissions i))"

interpretation installation_codec: codec installation_json installation_fields installation_zero
  installation_clean same_installation_input
proof unfold_locales
  fix i assume c: "installation_clean i"
  then obtain m where m: "m_get m = m_get (ii_Permissions i)"
    "\<And>upd (r :: installation_input). ii_Permissions r = m_empty \<Longrightarrow>
      map_field upd ii_Permissions (view (json_of_map (ii_Permissions i))) r = (upd m r, True)"
    using map_field_view[of "ii_Permissions i", where 'a = installation_input] unfolding installation_clean_def
    by metis
  have "decode_struct True installation_fields (view (installation_json i)) installation_zero =
      (i\<lparr>ii_Permissions := m\<rparr>, True)"
    using c by (auto simp: codec_simps installation_json_def installation_fields_def installation_zero_def
        installation_clean_def m(2))
  with m(1) show "\<exists>y. decode_struct True installation_fields (view (installation_json i)) installation_zero = (y, True) \<and>
      same_installation_input i y"
    by (auto simp: same_installation_input_def)
qed

end
