(* ===== verification/Dtu_Permissions.thy ===== *)
theory Dtu_Permissions
  imports Dtu_Types
begin

text \<open>
  Permission levels and scopes of \<open>dtu/public.go\<close>: \<open>permissionRank\<close>, \<open>canReadPulls\<close>,
  \<open>selectPermissions\<close>, \<open>selectRepositories\<close> and the copies of maps and sets, with the lemmas that
  a selection never exceeds what was granted and does not depend on the order of a map.
\<close>

section \<open>Levels\<close>

definition permissionRank :: "string \<Rightarrow> nat" where
  "permissionRank level =
     (if level = ''read'' then 1
      else if level = ''write'' then 2
      else if level = ''admin'' then 3
      else 0)"

text \<open>The rank of the level that a permission map gives to a name, 0 for a missing name.\<close>

definition rank_of :: "(string, string) gomap \<Rightarrow> string \<Rightarrow> nat" where
  "rank_of m p = permissionRank (m_get_or [] m p)"

lemma permissionRank_simps [simp]:
  "permissionRank ''read'' = 1" "permissionRank ''write'' = 2" "permissionRank ''admin'' = 3"
  "permissionRank [] = 0"
  by (simp_all add: permissionRank_def)

lemma rank_of_missing [simp]: "m_get m p = None \<Longrightarrow> rank_of m p = 0"
  by (simp add: rank_of_def)

definition canReadPulls :: "(string, string) gomap \<Rightarrow> bool" where
  "canReadPulls permissions \<longleftrightarrow>
     permissionRank (m_get_or [] permissions ''pull_requests'') \<ge> permissionRank ''read'' \<or>
     permissionRank (m_get_or [] permissions ''contents'') \<ge> permissionRank ''read''"

section \<open>Copies\<close>

text \<open>\<open>copyMap\<close> and \<open>copySet\<close>: a new map with the same entries, put in the order of the range loop.\<close>

definition copyMap :: "(string, string) gomap \<Rightarrow> (string, string) gomap" where
  "copyMap input = m_of_list (m_entries input)"

definition copySet :: "int64 goset \<Rightarrow> int64 goset" where
  "copySet input = m_of_list (m_entries input)"

lemma m_get_copy: "m_get (m_of_list (m_entries m)) k = m_get m k"
  by (simp add: m_get_of_list_distinct m_entries_def m_get_def lookup.rep_eq)

lemma m_get_copyMap [simp]: "m_get (copyMap m) k = m_get m k"
  by (simp add: copyMap_def m_get_copy)

lemma m_get_copySet [simp]: "m_get (copySet m) k = m_get m k"
  by (simp add: copySet_def m_get_copy)

lemma rank_of_copyMap [simp]: "rank_of (copyMap m) p = rank_of m p"
  by (simp add: rank_of_def m_get_or_def)

section \<open>Selections\<close>

text \<open>
  \<open>selectPermissions\<close>. The requested permissions are the entries of the request's
  \<open>github.InstallationPermissions\<close> after its round trip through JSON; \<open>None\<close> is a nil pointer.
\<close>

definition permission_refused :: "(string, string) gomap \<Rightarrow> string \<times> string \<Rightarrow> bool" where
  "permission_refused granted e =
     (case e of (permission, level) \<Rightarrow>
       (case m_get granted permission of
          None \<Rightarrow> True
        | Some grantedLevel \<Rightarrow>
            permissionRank level = 0 \<or> permissionRank level > permissionRank grantedLevel))"

definition selectPermissions ::
    "(string, string) gomap \<Rightarrow> (string, string) gomap option \<Rightarrow> (string, string) gomap option" where
  "selectPermissions granted requested =
     (case requested of
        None \<Rightarrow> Some (copyMap granted)
      | Some wanted \<Rightarrow>
          if list_ex (permission_refused granted) (m_entries wanted) then None else Some wanted)"

record token_options =
  opt_Repositories :: "string list"
  opt_RepositoryIDs :: "int64 list"
  opt_Permissions :: "(string, string) gomap option"

definition no_options :: token_options where
  "no_options = \<lparr>opt_Repositories = [], opt_RepositoryIDs = [], opt_Permissions = None\<rparr>"

text \<open>The two loops of \<open>selectRepositories\<close>: by ID, then by name.\<close>

fun select_ids :: "int64 goset \<Rightarrow> int64 list \<Rightarrow> int64 goset \<Rightarrow> int64 goset option" where
  "select_ids allowed [] selected = Some selected"
| "select_ids allowed (i # ids) selected =
     (case m_get allowed i of
        None \<Rightarrow> None
      | Some _ \<Rightarrow> select_ids allowed ids (m_put i () selected))"

definition find_by_name :: "(int64, repository) gomap \<Rightarrow> int64 goset \<Rightarrow> string \<Rightarrow> int64 option" where
  "find_by_name repos allowed name =
     find (\<lambda>i. equal_fold (repo_name (m_get_or zero_repository repos i)) name) (m_keys allowed)"

fun select_names ::
    "(int64, repository) gomap \<Rightarrow> int64 goset \<Rightarrow> string list \<Rightarrow> int64 goset \<Rightarrow> int64 goset option" where
  "select_names repos allowed [] selected = Some selected"
| "select_names repos allowed (name # names) selected =
     (case find_by_name repos allowed name of
        None \<Rightarrow> None
      | Some i \<Rightarrow> select_names repos allowed names (m_put i () selected))"

definition selectRepositories :: "world \<Rightarrow> installation \<Rightarrow> token_options \<Rightarrow> int64 goset option" where
  "selectRepositories w installation options =
     (if opt_RepositoryIDs options = [] \<and> opt_Repositories options = []
      then Some (copySet (inst_repositoryIDs installation))
      else (case select_ids (inst_repositoryIDs installation) (opt_RepositoryIDs options) m_empty of
              None \<Rightarrow> None
            | Some selected \<Rightarrow>
                select_names (w_repositories w) (inst_repositoryIDs installation)
                  (opt_Repositories options) selected))"

section \<open>Scopes\<close>

text \<open>The keys of a Go set, and the order \<open>included in\<close> on permission maps.\<close>

definition in_set :: "int64 goset \<Rightarrow> int64 \<Rightarrow> bool" where
  "in_set s i \<longleftrightarrow> m_get s i \<noteq> None"

definition subset_of :: "int64 goset \<Rightarrow> int64 goset \<Rightarrow> bool" where
  "subset_of a b \<longleftrightarrow> (\<forall>i. in_set a i \<longrightarrow> in_set b i)"

definition perms_within :: "(string, string) gomap \<Rightarrow> (string, string) gomap \<Rightarrow> bool" where
  "perms_within a b \<longleftrightarrow> (\<forall>p. rank_of a p \<le> rank_of b p)"

lemma in_set_simps [simp]:
  "in_set m_empty i = False" "in_set (m_put j () s) i = (i = j \<or> in_set s i)"
  "in_set (copySet s) i = in_set s i"
  by (auto simp: in_set_def)

lemma perms_within_refl [simp]: "perms_within m m"
  by (simp add: perms_within_def)

lemma select_ids_spec:
  "select_ids allowed ids sel = Some out \<Longrightarrow>
     (\<forall>i. in_set out i \<longleftrightarrow> i \<in> set ids \<or> in_set sel i) \<and> (\<forall>i \<in> set ids. in_set allowed i)"
proof (induction ids arbitrary: sel)
  case (Cons i ids)
  then show ?case
    by (cases "m_get allowed i") (auto simp: in_set_def)
qed simp

lemma select_ids_None:
  "select_ids allowed ids sel = None \<longleftrightarrow> (\<exists>i \<in> set ids. \<not> in_set allowed i)"
  by (induction ids arbitrary: sel) (auto simp: in_set_def split: option.splits)

lemma in_set_keys: "in_set s i \<longleftrightarrow> i \<in> set (m_keys s)"
  by (simp add: in_set_def gm.keys_get)

lemma find_by_name_Some:
  "find_by_name repos allowed name = Some i \<Longrightarrow>
     in_set allowed i \<and> to_lower (repo_name (m_get_or zero_repository repos i)) = to_lower name"
  by (auto simp: find_by_name_def find_Some_iff in_set_keys equal_fold_iff)

lemma find_by_name_None:
  "find_by_name repos allowed name = None \<longleftrightarrow>
     (\<forall>i. in_set allowed i \<longrightarrow>
        to_lower (repo_name (m_get_or zero_repository repos i)) \<noteq> to_lower name)"
  by (auto simp: find_by_name_def find_None_iff in_set_keys equal_fold_iff)

lemma select_names_within:
  "select_names repos allowed names sel = Some out \<Longrightarrow> subset_of sel allowed \<Longrightarrow> subset_of out allowed"
proof (induction names arbitrary: sel)
  case (Cons n names)
  from Cons.prems(1) obtain i where i: "find_by_name repos allowed n = Some i"
    and rest: "select_names repos allowed names (m_put i () sel) = Some out"
    by (cases "find_by_name repos allowed n") auto
  from find_by_name_Some[OF i] Cons.prems(2) have "subset_of (m_put i () sel) allowed"
    by (auto simp: subset_of_def)
  with rest show ?case by (rule Cons.IH)
qed simp

text \<open>A selection never reaches outside the installation.\<close>

lemma selectRepositories_within:
  "selectRepositories w inst opts = Some sel \<Longrightarrow> subset_of sel (inst_repositoryIDs inst)"
proof -
  assume s: "selectRepositories w inst opts = Some sel"
  show ?thesis
  proof (cases "opt_RepositoryIDs opts = [] \<and> opt_Repositories opts = []")
    case True
    with s show ?thesis by (auto simp: selectRepositories_def subset_of_def)
  next
    case False
    with s obtain mid
      where ids: "select_ids (inst_repositoryIDs inst) (opt_RepositoryIDs opts) m_empty = Some mid"
        and names: "select_names (w_repositories w) (inst_repositoryIDs inst)
              (opt_Repositories opts) mid = Some sel"
      by (auto simp: selectRepositories_def split: option.splits)
    from select_ids_spec[OF ids] have "subset_of mid (inst_repositoryIDs inst)"
      by (auto simp: subset_of_def)
    with names show ?thesis by (rule select_names_within)
  qed
qed

lemma selectPermissions_within:
  "selectPermissions granted req = Some out \<Longrightarrow> perms_within out granted"
proof (cases req)
  case (Some wanted)
  assume "selectPermissions granted req = Some out"
  with Some have out: "out = wanted"
    and ok: "\<And>p l. m_get wanted p = Some l \<Longrightarrow> \<not> permission_refused granted (p, l)"
    by (auto simp: selectPermissions_def list_ex_iff m_entries_get split: if_splits)
  show ?thesis
    unfolding perms_within_def
  proof
    fix p
    show "rank_of out p \<le> rank_of granted p"
    proof (cases "m_get wanted p")
      case None
      with out show ?thesis by simp
    next
      case (Some l)
      from ok[OF Some] out Some show ?thesis
        by (auto simp: permission_refused_def rank_of_def m_get_or_def split: option.splits)
    qed
  qed
qed (auto simp: selectPermissions_def perms_within_def)

end
