(* ===== verification/Dtu_Payloads.thy ===== *)
theory Dtu_Payloads
  imports Dtu_Codec Dtu_Permissions
begin

text \<open>
  The payloads of webhook events: the structs of \<open>dtu/git.go\<close> and \<open>dtu/installation_events.go\<close>, how they
  are filled from the world's data, their JSON form, and that a receiver which decodes a body into the same
  struct gets the values back (interpretations of the locale \<open>codec\<close>).
\<close>

section \<open>The structs\<close>

record event_repository =
  evr_ID :: int64
  evr_FullName :: string

record event_installation =
  evi_ID :: int64

record event_sender =
  evs_ID :: int64
  evs_Login :: string
  evs_Type :: string

text \<open>A field of type \<open>any\<close> that is nil or a string is an option.\<close>

record workflow_run_event =
  wre_ID :: int64
  wre_RunAttempt :: int64
  wre_WorkflowID :: int64
  wre_Name :: string
  wre_Path :: string
  wre_Event :: string
  wre_HeadBranch :: string
  wre_HeadSHA :: string
  wre_Status :: string
  wre_Conclusion :: "string option"

record push_event =
  pe_Ref :: string
  pe_Before :: string
  pe_After :: string
  pe_Created :: bool
  pe_Deleted :: bool
  pe_Forced :: bool
  pe_Repository :: event_repository
  pe_Installation :: event_installation
  pe_Sender :: event_sender

record workflow_event =
  we_Action :: string
  we_WorkflowRun :: workflow_run_event
  we_Repository :: event_repository
  we_Installation :: event_installation

record installation_event_account =
  iea_Login :: string
  iea_Type :: string

record installation_event_installation =
  iei_ID :: int64
  iei_Account :: installation_event_account
  iei_TargetType :: string
  iei_RepositorySelection :: string
  iei_Permissions :: "(string, string) gomap"
  iei_SuspendedAt :: "string option"

record installation_event_repository =
  ier_ID :: int64
  ier_Name :: string
  ier_FullName :: string
  ier_Private :: bool
  ier_DefaultBranch :: string
  ier_HTMLURL :: string
  ier_Owner :: installation_event_account

record installation_event =
  ie_Action :: string
  ie_Installation :: installation_event_installation
  ie_Sender :: event_sender

record installation_repositories_event =
  ire_Action :: string
  ire_Installation :: installation_event_installation
  ire_RepositoriesAdded :: "installation_event_repository list"
  ire_RepositoriesRemoved :: "installation_event_repository list"
  ire_Sender :: event_sender

section \<open>Filling them\<close>

definition event_repository_of :: "repository \<Rightarrow> event_repository" where
  "event_repository_of r = \<lparr>evr_ID = repo_id r, evr_FullName = repo_owner r @ ''/'' @ repo_name r\<rparr>"

definition app_sender :: "int64 \<Rightarrow> event_sender" where
  "app_sender appID = \<lparr>evs_ID = appID, evs_Login = ''dtu-app-'' @ fmt_int64 appID @ ''[bot]'', evs_Type = ''Bot''\<rparr>"

definition zeroObjectID :: string where
  "zeroObjectID = replicate 40 CHR ''0''"

definition push_payload ::
    "repository \<Rightarrow> int64 \<Rightarrow> string \<Rightarrow> string \<Rightarrow> string \<Rightarrow> bool \<Rightarrow> push_event" where
  "push_payload repository appID ref beforeSHA0 afterSHA0 forced =
     (let beforeSHA = (if beforeSHA0 = [] then zeroObjectID else beforeSHA0);
          afterSHA = (if afterSHA0 = [] then zeroObjectID else afterSHA0)
      in \<lparr>pe_Ref = ''refs/heads/'' @ ref, pe_Before = beforeSHA, pe_After = afterSHA,
          pe_Created = (beforeSHA = zeroObjectID), pe_Deleted = (afterSHA = zeroObjectID), pe_Forced = forced,
          pe_Repository = event_repository_of repository,
          pe_Installation = \<lparr>evi_ID = repo_installationID repository\<rparr>,
          pe_Sender = app_sender appID\<rparr>)"

definition workflow_payload :: "repository \<Rightarrow> workflow_run \<Rightarrow> string \<Rightarrow> workflow_event" where
  "workflow_payload repository run action =
     \<lparr>we_Action = action,
      we_WorkflowRun =
        \<lparr>wre_ID = run_ID run, wre_RunAttempt = run_Attempt run, wre_WorkflowID = run_WorkflowID run,
         wre_Name = run_WorkflowName run, wre_Path = run_WorkflowPath run, wre_Event = run_Event run,
         wre_HeadBranch = run_HeadBranch run, wre_HeadSHA = run_HeadSHA run, wre_Status = run_Status run,
         wre_Conclusion = (if run_Conclusion run \<noteq> [] then Some (run_Conclusion run) else None)\<rparr>,
      we_Repository = event_repository_of repository,
      we_Installation = \<lparr>evi_ID = repo_installationID repository\<rparr>\<rparr>"

definition installation_account :: "installation \<Rightarrow> installation_event_account" where
  "installation_account i = \<lparr>iea_Login = inst_owner i, iea_Type = inst_ownerType i\<rparr>"

definition installationEventValue :: "installation \<Rightarrow> installation_event_installation" where
  "installationEventValue i =
     \<lparr>iei_ID = inst_id i, iei_Account = installation_account i, iei_TargetType = inst_ownerType i,
      iei_RepositorySelection = ''selected'', iei_Permissions = copyMap (inst_permissions i),
      iei_SuspendedAt = None\<rparr>"

definition installationRepositoryValue :: "installation \<Rightarrow> repository \<Rightarrow> installation_event_repository" where
  "installationRepositoryValue i r =
     (let fullName = repo_owner r @ ''/'' @ repo_name r
      in \<lparr>ier_ID = repo_id r, ier_Name = repo_name r, ier_FullName = fullName, ier_Private = False,
          ier_DefaultBranch = ''main'', ier_HTMLURL = ''https://github.test/'' @ fullName,
          ier_Owner = installation_account i\<rparr>)"

definition installationSender :: "installation \<Rightarrow> event_sender" where
  "installationSender i =
     \<lparr>evs_ID = inst_appID i, evs_Login = ''dtu-app-'' @ fmt_int64 (inst_appID i) @ ''[bot]'', evs_Type = ''Bot''\<rparr>"

section \<open>Their JSON form\<close>

fun any_json :: "string option \<Rightarrow> json" where
  "any_json None = JNull"
| "any_json (Some s) = JStr s"

definition event_repository_json :: "event_repository \<Rightarrow> json" where
  "event_repository_json r = JObj [(''id'', jint (evr_ID r)), (''full_name'', JStr (evr_FullName r))]"

definition event_installation_json :: "event_installation \<Rightarrow> json" where
  "event_installation_json i = JObj [(''id'', jint (evi_ID i))]"

definition event_sender_json :: "event_sender \<Rightarrow> json" where
  "event_sender_json s = JObj [(''id'', jint (evs_ID s)), (''login'', JStr (evs_Login s)), (''type'', JStr (evs_Type s))]"

definition workflow_run_event_json :: "workflow_run_event \<Rightarrow> json" where
  "workflow_run_event_json r =
     JObj [(''id'', jint (wre_ID r)), (''run_attempt'', jint (wre_RunAttempt r)),
           (''workflow_id'', jint (wre_WorkflowID r)), (''name'', JStr (wre_Name r)), (''path'', JStr (wre_Path r)),
           (''event'', JStr (wre_Event r)), (''head_branch'', JStr (wre_HeadBranch r)),
           (''head_sha'', JStr (wre_HeadSHA r)), (''status'', JStr (wre_Status r)),
           (''conclusion'', any_json (wre_Conclusion r))]"

definition push_event_json :: "push_event \<Rightarrow> json" where
  "push_event_json p =
     JObj [(''ref'', JStr (pe_Ref p)), (''before'', JStr (pe_Before p)), (''after'', JStr (pe_After p)),
           (''created'', JBool (pe_Created p)), (''deleted'', JBool (pe_Deleted p)), (''forced'', JBool (pe_Forced p)),
           (''repository'', event_repository_json (pe_Repository p)),
           (''installation'', event_installation_json (pe_Installation p)),
           (''sender'', event_sender_json (pe_Sender p))]"

definition workflow_event_json :: "workflow_event \<Rightarrow> json" where
  "workflow_event_json p =
     JObj [(''action'', JStr (we_Action p)), (''workflow_run'', workflow_run_event_json (we_WorkflowRun p)),
           (''repository'', event_repository_json (we_Repository p)),
           (''installation'', event_installation_json (we_Installation p))]"

definition installation_account_json :: "installation_event_account \<Rightarrow> json" where
  "installation_account_json a = JObj [(''login'', JStr (iea_Login a)), (''type'', JStr (iea_Type a))]"

definition installation_value_json :: "installation_event_installation \<Rightarrow> json" where
  "installation_value_json i =
     JObj [(''id'', jint (iei_ID i)), (''account'', installation_account_json (iei_Account i)),
           (''target_type'', JStr (iei_TargetType i)), (''repository_selection'', JStr (iei_RepositorySelection i)),
           (''permissions'', json_of_map (iei_Permissions i)), (''suspended_at'', any_json (iei_SuspendedAt i))]"

definition installation_repository_json :: "installation_event_repository \<Rightarrow> json" where
  "installation_repository_json r =
     JObj [(''id'', jint (ier_ID r)), (''name'', JStr (ier_Name r)), (''full_name'', JStr (ier_FullName r)),
           (''private'', JBool (ier_Private r)), (''default_branch'', JStr (ier_DefaultBranch r)),
           (''html_url'', JStr (ier_HTMLURL r)), (''owner'', installation_account_json (ier_Owner r))]"

definition installation_event_json :: "installation_event \<Rightarrow> json" where
  "installation_event_json p =
     JObj [(''action'', JStr (ie_Action p)), (''installation'', installation_value_json (ie_Installation p)),
           (''sender'', event_sender_json (ie_Sender p))]"

definition installation_repositories_json :: "installation_repositories_event \<Rightarrow> json" where
  "installation_repositories_json p =
     JObj [(''action'', JStr (ire_Action p)), (''installation'', installation_value_json (ire_Installation p)),
           (''repositories_added'', JArr (map installation_repository_json (ire_RepositoriesAdded p))),
           (''repositories_removed'', JArr (map installation_repository_json (ire_RepositoriesRemoved p))),
           (''sender'', event_sender_json (ire_Sender p))]"

section \<open>Reading them back\<close>

text \<open>Fields of struct type and of type \<open>any\<close>, for a receiver with the same structs.\<close>

definition struct_field :: "(string \<times> 's field) list \<Rightarrow> ('r \<Rightarrow> 's) \<Rightarrow> ('s \<Rightarrow> 'r \<Rightarrow> 'r) \<Rightarrow> 'r field" where
  "struct_field fs get upd v r = (let (x, fits) = decode_struct True fs v (get r) in (upd x r, fits))"

definition any_field :: "(string option \<Rightarrow> 'r \<Rightarrow> 'r) \<Rightarrow> 'r field" where
  "any_field upd v r = (case v of VStr s \<Rightarrow> (upd (Some s) r, True) | VNull \<Rightarrow> (upd None r, True) | _ \<Rightarrow> (r, False))"

definition event_repository_fields :: "(string \<times> event_repository field) list" where
  "event_repository_fields =
     [(''id'', int_field (\<lambda>x r. r\<lparr>evr_ID := x\<rparr>)), (''full_name'', str_field (\<lambda>x r. r\<lparr>evr_FullName := x\<rparr>))]"

definition event_installation_fields :: "(string \<times> event_installation field) list" where
  "event_installation_fields = [(''id'', int_field (\<lambda>x r. r\<lparr>evi_ID := x\<rparr>))]"

definition event_sender_fields :: "(string \<times> event_sender field) list" where
  "event_sender_fields =
     [(''id'', int_field (\<lambda>x r. r\<lparr>evs_ID := x\<rparr>)), (''login'', str_field (\<lambda>x r. r\<lparr>evs_Login := x\<rparr>)),
      (''type'', str_field (\<lambda>x r. r\<lparr>evs_Type := x\<rparr>))]"

definition workflow_run_fields :: "(string \<times> workflow_run_event field) list" where
  "workflow_run_fields =
     [(''id'', int_field (\<lambda>x r. r\<lparr>wre_ID := x\<rparr>)),
      (''run_attempt'', int_field (\<lambda>x r. r\<lparr>wre_RunAttempt := x\<rparr>)),
      (''workflow_id'', int_field (\<lambda>x r. r\<lparr>wre_WorkflowID := x\<rparr>)),
      (''name'', str_field (\<lambda>x r. r\<lparr>wre_Name := x\<rparr>)),
      (''path'', str_field (\<lambda>x r. r\<lparr>wre_Path := x\<rparr>)),
      (''event'', str_field (\<lambda>x r. r\<lparr>wre_Event := x\<rparr>)),
      (''head_branch'', str_field (\<lambda>x r. r\<lparr>wre_HeadBranch := x\<rparr>)),
      (''head_sha'', str_field (\<lambda>x r. r\<lparr>wre_HeadSHA := x\<rparr>)),
      (''status'', str_field (\<lambda>x r. r\<lparr>wre_Status := x\<rparr>)),
      (''conclusion'', any_field (\<lambda>x r. r\<lparr>wre_Conclusion := x\<rparr>))]"

definition push_event_fields :: "(string \<times> push_event field) list" where
  "push_event_fields =
     [(''ref'', str_field (\<lambda>x r. r\<lparr>pe_Ref := x\<rparr>)),
      (''before'', str_field (\<lambda>x r. r\<lparr>pe_Before := x\<rparr>)),
      (''after'', str_field (\<lambda>x r. r\<lparr>pe_After := x\<rparr>)),
      (''created'', bool_field (\<lambda>x r. r\<lparr>pe_Created := x\<rparr>)),
      (''deleted'', bool_field (\<lambda>x r. r\<lparr>pe_Deleted := x\<rparr>)),
      (''forced'', bool_field (\<lambda>x r. r\<lparr>pe_Forced := x\<rparr>)),
      (''repository'', struct_field event_repository_fields pe_Repository (\<lambda>x r. r\<lparr>pe_Repository := x\<rparr>)),
      (''installation'', struct_field event_installation_fields pe_Installation (\<lambda>x r. r\<lparr>pe_Installation := x\<rparr>)),
      (''sender'', struct_field event_sender_fields pe_Sender (\<lambda>x r. r\<lparr>pe_Sender := x\<rparr>))]"

definition workflow_event_fields :: "(string \<times> workflow_event field) list" where
  "workflow_event_fields =
     [(''action'', str_field (\<lambda>x r. r\<lparr>we_Action := x\<rparr>)),
      (''workflow_run'', struct_field workflow_run_fields we_WorkflowRun (\<lambda>x r. r\<lparr>we_WorkflowRun := x\<rparr>)),
      (''repository'', struct_field event_repository_fields we_Repository (\<lambda>x r. r\<lparr>we_Repository := x\<rparr>)),
      (''installation'', struct_field event_installation_fields we_Installation (\<lambda>x r. r\<lparr>we_Installation := x\<rparr>))]"

text \<open>The zero values.\<close>

definition event_repository_zero :: event_repository where
  "event_repository_zero = \<lparr>evr_ID = 0, evr_FullName = []\<rparr>"

definition push_event_zero :: push_event where
  "push_event_zero = \<lparr>pe_Ref = [], pe_Before = [], pe_After = [], pe_Created = False, pe_Deleted = False,
     pe_Forced = False, pe_Repository = event_repository_zero, pe_Installation = \<lparr>evi_ID = 0\<rparr>,
     pe_Sender = \<lparr>evs_ID = 0, evs_Login = [], evs_Type = []\<rparr>\<rparr>"

definition workflow_event_zero :: workflow_event where
  "workflow_event_zero = \<lparr>we_Action = [],
     we_WorkflowRun = \<lparr>wre_ID = 0, wre_RunAttempt = 0, wre_WorkflowID = 0, wre_Name = [], wre_Path = [], wre_Event = [],
       wre_HeadBranch = [], wre_HeadSHA = [], wre_Status = [], wre_Conclusion = None\<rparr>,
     we_Repository = event_repository_zero, we_Installation = \<lparr>evi_ID = 0\<rparr>\<rparr>"

text \<open>Reading a struct back, into whatever was there.\<close>

lemma event_repository_reads:
  "utf8_valid (evr_FullName r) \<Longrightarrow> decode_struct s event_repository_fields (view (event_repository_json r)) r0 = (r, True)"
  by (simp add: codec_simps event_repository_fields_def event_repository_json_def)

lemma event_installation_reads:
  "decode_struct s event_installation_fields (view (event_installation_json i)) i0 = (i, True)"
  by (simp add: codec_simps event_installation_fields_def event_installation_json_def)

lemma event_sender_reads:
  "utf8_valid (evs_Login x) \<Longrightarrow> utf8_valid (evs_Type x) \<Longrightarrow>
     decode_struct s event_sender_fields (view (event_sender_json x)) x0 = (x, True)"
  by (simp add: codec_simps event_sender_fields_def event_sender_json_def)

definition workflow_run_clean :: "workflow_run_event \<Rightarrow> bool" where
  "workflow_run_clean r \<longleftrightarrow> utf8_valid (wre_Name r) \<and> utf8_valid (wre_Path r) \<and> utf8_valid (wre_Event r) \<and>
     utf8_valid (wre_HeadBranch r) \<and> utf8_valid (wre_HeadSHA r) \<and> utf8_valid (wre_Status r) \<and>
     (\<forall>c. wre_Conclusion r = Some c \<longrightarrow> utf8_valid c)"

lemma workflow_run_reads:
  "workflow_run_clean r \<Longrightarrow> decode_struct s workflow_run_fields (view (workflow_run_event_json r)) r0 = (r, True)"
  by (cases "wre_Conclusion r")
    (simp_all add: codec_simps workflow_run_fields_def workflow_run_event_json_def any_field_def workflow_run_clean_def)

definition push_event_clean :: "push_event \<Rightarrow> bool" where
  "push_event_clean p \<longleftrightarrow> utf8_valid (pe_Ref p) \<and> utf8_valid (pe_Before p) \<and> utf8_valid (pe_After p) \<and>
     utf8_valid (evr_FullName (pe_Repository p)) \<and> utf8_valid (evs_Login (pe_Sender p)) \<and> utf8_valid (evs_Type (pe_Sender p))"

definition workflow_event_clean :: "workflow_event \<Rightarrow> bool" where
  "workflow_event_clean p \<longleftrightarrow> utf8_valid (we_Action p) \<and> workflow_run_clean (we_WorkflowRun p) \<and>
     utf8_valid (evr_FullName (we_Repository p))"

interpretation push_codec: codec push_event_json push_event_fields push_event_zero push_event_clean "(=)"
proof unfold_locales
  fix p assume "push_event_clean p"
  then show "\<exists>y. decode_struct True push_event_fields (view (push_event_json p)) push_event_zero = (y, True) \<and> p = y"
    using event_repository_reads[of "pe_Repository p"] event_installation_reads[of _ "pe_Installation p"]
      event_sender_reads[of "pe_Sender p"]
    unfolding push_event_json_def push_event_fields_def push_event_clean_def
    by (simp add: decode_struct_def[of _ "_ # _"] find_field_def str_field_def bool_field_def utf8_clean_valid
        struct_field_def push_event_zero_def)
qed

interpretation workflow_event_codec: codec workflow_event_json workflow_event_fields workflow_event_zero
  workflow_event_clean "(=)"
proof unfold_locales
  fix p assume "workflow_event_clean p"
  then show "\<exists>y. decode_struct True workflow_event_fields (view (workflow_event_json p)) workflow_event_zero = (y, True) \<and> p = y"
    using event_repository_reads[of "we_Repository p"] event_installation_reads[of _ "we_Installation p"]
      workflow_run_reads[of "we_WorkflowRun p"]
    unfolding workflow_event_json_def workflow_event_fields_def workflow_event_clean_def
    by (simp add: decode_struct_def[of _ "_ # _"] find_field_def str_field_def utf8_clean_valid
        struct_field_def workflow_event_zero_def)
qed

end
