(* ===== verification/Dtu_Events.thy ===== *)
theory Dtu_Events
  imports Dtu_Payloads
begin

text \<open>
  The pending-event log: \<open>appendPendingAppEvent\<close>, \<open>appendPendingEvent\<close>, \<open>appendPushEvent\<close>,
  \<open>appendWorkflowEvent\<close> and \<open>appendQueuedWorkflow\<close> of \<open>dtu/git.go\<close> and the installation events of
  \<open>dtu/installation_events.go\<close>. An event body is the marshalled payload, fixed when the event is
  created. The lemmas show that the log is append-only and that its numbering never gives one
  GUID to two events.
\<close>

section \<open>Numbering\<close>

text \<open>
  A log whose entries are labelled from a counter: the keys are the labels of the successive
  counter values after \<open>base\<close>, and the counter is the last of them.
\<close>

definition numbered :: "(64 word \<Rightarrow> 'k) \<Rightarrow> 64 word \<Rightarrow> 64 word \<Rightarrow> 'k list \<Rightarrow> bool" where
  "numbered label base c ks \<longleftrightarrow>
     c = base + of_nat (length ks) \<and>
     ks = map (\<lambda>i. label (base + of_nat (Suc i))) [0..<length ks]"

lemma numbered_Nil: "numbered label base base []"
  by (simp add: numbered_def)

lemma numbered_snoc:
  "numbered label base c ks \<Longrightarrow> numbered label base (c + 1) (ks @ [label (c + 1)])"
proof -
  assume n: "numbered label base c ks"
  then have c: "c = base + of_nat (length ks)" by (simp add: numbered_def)
  have "ks @ [label (c + 1)] =
      map (\<lambda>i. label (base + of_nat (Suc i))) [0..<length ks] @ [label (base + of_nat (Suc (length ks)))]"
    using n c by (simp add: numbered_def algebra_simps)
  then show ?thesis
    using c by (simp add: numbered_def algebra_simps del: of_nat_Suc) simp
qed

locale unique_labels =
  fixes label :: "64 word \<Rightarrow> 'k"
  assumes label_inject: "label a = label b \<Longrightarrow> a = b"
begin

lemma numbered_nth:
  "numbered label base c ks \<Longrightarrow> i < length ks \<Longrightarrow> ks ! i = label (base + of_nat (Suc i))"
  unfolding numbered_def by (metis (no_types, lifting) add_0 length_map nth_map nth_upt)

lemma numbered_nth_inject:
  assumes n: "numbered label base c ks" and len: "length ks < 2 ^ 64"
    and ij: "i < length ks" "j < length ks" "ks ! i = ks ! j"
  shows "i = j"
proof -
  have "label (base + of_nat (Suc i)) = label (base + of_nat (Suc j))"
    using numbered_nth[OF n] ij by metis
  then have "(of_nat (Suc i) :: 64 word) = of_nat (Suc j)"
    using label_inject by (metis add_left_cancel)
  then have "unat (of_nat (Suc i) :: 64 word) = unat (of_nat (Suc j) :: 64 word)"
    by simp
  then have "Suc i mod 2 ^ 64 = Suc j mod 2 ^ 64"
    by (simp add: unat_of_nat del: of_nat_Suc)
  then show ?thesis using len ij by (simp add: mod_less)
qed

lemma numbered_distinct:
  "numbered label base c ks \<Longrightarrow> length ks < 2 ^ 64 \<Longrightarrow> distinct ks"
  by (auto simp: distinct_conv_nth dest: numbered_nth_inject)

lemma numbered_fresh:
  assumes n: "numbered label base c ks" and len: "Suc (length ks) < 2 ^ 64"
  shows "label (c + 1) \<notin> set ks"
proof -
  have "distinct (ks @ [label (c + 1)])"
    using numbered_snoc[OF n] len by (intro numbered_distinct) auto
  then show ?thesis by simp
qed

end

text \<open>\<open>fmt.Sprintf("dtu-%012d", n)\<close>\<close>

definition guid :: "uint64 \<Rightarrow> string" where
  "guid n = ''dtu-'' @ zero_pad 12 (dec_nat (unat n))"

lemma guid_inject: "guid a = guid b \<longleftrightarrow> a = b"
proof
  assume "guid a = guid b"
  then have "digits_val (zero_pad 12 (dec_nat (unat a))) = digits_val (zero_pad 12 (dec_nat (unat b)))"
    by (simp add: guid_def)
  then show "a = b" by (simp add: digits_val_dec_nat word_unat_eq_iff)
qed simp

interpretation guids: unique_labels guid
  by unfold_locales (simp add: guid_inject)

interpretation run_ids: unique_labels "\<lambda>n :: int64. n"
  by unfold_locales

section \<open>The event log\<close>

definition appendPendingAppEvent ::
    "string \<Rightarrow> string \<Rightarrow> int64 \<Rightarrow> int64 \<Rightarrow> json \<Rightarrow> world \<Rightarrow> world" where
  "appendPendingAppEvent event action appID repositoryID payload w =
     (let body = marshal payload;
          n = w_nextEventID w + 1
      in w\<lparr>w_nextEventID := n,
           w_pendingEvents := w_pendingEvents w @
             [\<lparr>ev_GUID = guid n, ev_Event = event, ev_Action = action, ev_AppID = appID,
               ev_RepositoryID = repositoryID, ev_CreatedAt = w_now w, ev_Body = body\<rparr>]\<rparr>)"

definition appendPendingEvent ::
    "string \<Rightarrow> string \<Rightarrow> int64 \<Rightarrow> json \<Rightarrow> world \<Rightarrow> world" where
  "appendPendingEvent event action repositoryID payload w =
     (let repository = m_get_or zero_repository (w_repositories w) repositoryID;
          installation = m_get_or zero_installation (w_installs w) (repo_installationID repository)
      in appendPendingAppEvent event action (inst_appID installation) repositoryID payload w)"

definition appendPushEvent ::
    "repository \<Rightarrow> int64 \<Rightarrow> string \<Rightarrow> string \<Rightarrow> string \<Rightarrow> bool \<Rightarrow> world \<Rightarrow> world" where
  "appendPushEvent repository appID ref beforeSHA afterSHA forced w =
     appendPendingEvent ''push'' [] (repo_id repository)
       (push_event_json (push_payload repository appID ref beforeSHA afterSHA forced)) w"

definition appendWorkflowEvent :: "repository \<Rightarrow> workflow_run \<Rightarrow> string \<Rightarrow> world \<Rightarrow> world" where
  "appendWorkflowEvent repository run action w =
     appendPendingEvent ''workflow_run'' action (repo_id repository)
       (workflow_event_json (workflow_payload repository run action)) w"

definition queued_run :: "int64 \<Rightarrow> repository \<Rightarrow> workflow_config \<Rightarrow> string \<Rightarrow> string \<Rightarrow> workflow_run" where
  "queued_run n repository workflow ref sha =
     \<lparr>run_ID = n, run_Attempt = 1, run_RepositoryID = repo_id repository,
      run_WorkflowID = wf_id workflow, run_WorkflowName = wf_name workflow,
      run_WorkflowPath = wf_path workflow, run_Event = ''push'', run_HeadBranch = ref,
      run_HeadSHA = sha, run_Status = ''queued'', run_Conclusion = [],
      run_CancellationRequested = False, run_Logs = []\<rparr>"

definition appendQueuedWorkflow ::
    "repository \<Rightarrow> workflow_config \<Rightarrow> string \<Rightarrow> string \<Rightarrow> world \<Rightarrow> world" where
  "appendQueuedWorkflow repository workflow ref sha w =
     (let n = w_nextRunID w + 1;
          run = queued_run n repository workflow ref sha;
          w1 = w\<lparr>w_nextRunID := n, w_workflowRuns := w_workflowRuns w @ [run]\<rparr>
      in appendWorkflowEvent repository run ''requested'' w1)"

section \<open>Installation events\<close>

definition appendInstallationEvent :: "installation \<Rightarrow> string \<Rightarrow> world \<Rightarrow> world" where
  "appendInstallationEvent i action w =
     appendPendingAppEvent ''installation'' action (inst_appID i) 0
       (installation_event_json
          \<lparr>ie_Action = action, ie_Installation = installationEventValue i, ie_Sender = installationSender i\<rparr>) w"

definition appendInstallationRepositoriesEvent ::
    "installation \<Rightarrow> repository \<Rightarrow> string \<Rightarrow> world \<Rightarrow> world" where
  "appendInstallationRepositoriesEvent i r action w =
     appendPendingEvent ''installation_repositories'' action (repo_id r)
       (installation_repositories_json
          \<lparr>ire_Action = action, ire_Installation = installationEventValue i,
           ire_RepositoriesAdded = [installationRepositoryValue i r], ire_RepositoriesRemoved = [],
           ire_Sender = installationSender i\<rparr>) w"

text \<open>
  Every append leaves the rest of the world alone: it adds one event to the log (and one run, for
  \<open>appendQueuedWorkflow\<close>) and advances the counter.
\<close>

lemma appendPendingEvent_app:
  "appendPendingEvent event action rid payload w =
     appendPendingAppEvent event action
       (inst_appID (m_get_or zero_installation (w_installs w)
          (repo_installationID (m_get_or zero_repository (w_repositories w) rid)))) rid payload w"
  by (simp add: appendPendingEvent_def Let_def)

lemmas event_append_defs =
  appendPendingAppEvent_def appendPendingEvent_def appendPushEvent_def appendWorkflowEvent_def
  appendInstallationEvent_def appendInstallationRepositoriesEvent_def

end
