(* ===== verification/Dtu_GitCmd.thy ===== *)
theory Dtu_GitCmd
  imports Dtu_Types
begin

text \<open>
  The Git processes the handlers run and what they read from their output: \<open>runGit\<close>
  (\<open>dtu/control.go\<close>), \<open>resolveRef\<close>, \<open>branchRefs\<close>, \<open>forcedUpdate\<close> (\<open>dtu/git.go\<close>) and
  \<open>resolveCheckoutHEAD\<close> (\<open>dtu/execution.go\<close>). Git itself is the external system; what it prints is a
  hypothesis of the lemmas that need it, like \<open>print_refs\<close> below.
\<close>

definition runGit :: "'e sys \<Rightarrow> string \<Rightarrow> string list \<Rightarrow> 'e \<Rightarrow> string option \<times> 'e" where
  "runGit sys dir arguments e =
     (let (r, e') = sys_exec sys dir ''git'' arguments e
      in case ex_err r of
           None \<Rightarrow> (None, e')
         | Some err \<Rightarrow>
             (Some (''git '' @ join_with '' '' arguments @ '': '' @ err @ '': '' @
                    trim_space (ex_combined r)), e'))"

definition resolveRef :: "'e sys \<Rightarrow> string \<Rightarrow> string \<Rightarrow> 'e \<Rightarrow> string \<times> 'e" where
  "resolveRef sys gitDir ref e =
     (let (r, e') = sys_exec sys [] ''git''
            [''--git-dir'', gitDir, ''rev-parse'', ''--verify'', ''refs/heads/'' @ ref @ ''^{commit}''] e
      in (case ex_err r of None \<Rightarrow> trim_space (ex_stdout r) | Some _ \<Rightarrow> [], e'))"

definition resolveCheckoutHEAD :: "'e sys \<Rightarrow> string \<Rightarrow> 'e \<Rightarrow> string \<times> 'e" where
  "resolveCheckoutHEAD sys dir e =
     (let (r, e') = sys_exec sys dir ''git'' [''rev-parse'', ''HEAD''] e
      in (case ex_err r of None \<Rightarrow> trim_space (ex_stdout r) | Some _ \<Rightarrow> [], e'))"

text \<open>The lines of \<open>for-each-ref\<close>, each a branch name and its object ID.\<close>

definition add_ref_line :: "(string, string) gomap \<Rightarrow> string \<Rightarrow> (string, string) gomap" where
  "add_ref_line refs line =
     (case str_fields line of [name, sha] \<Rightarrow> m_put name sha refs | _ \<Rightarrow> refs)"

definition parse_refs :: "string \<Rightarrow> (string, string) gomap" where
  "parse_refs out = foldl add_ref_line m_empty (split_at CHR 0x0A (trim_space out))"

definition branchRefs :: "'e sys \<Rightarrow> string \<Rightarrow> 'e \<Rightarrow> (string + (string, string) gomap) \<times> 'e" where
  "branchRefs sys gitDir e =
     (let (r, e') = sys_exec sys [] ''git''
            [''--git-dir'', gitDir, ''for-each-ref'', ''--format=%(refname:strip=2) %(objectname)'',
             ''refs/heads''] e
      in (case ex_err r of Some err \<Rightarrow> Inl err | None \<Rightarrow> Inr (parse_refs (ex_stdout r)), e'))"

definition forcedUpdate :: "'e sys \<Rightarrow> string \<Rightarrow> string \<Rightarrow> string \<Rightarrow> 'e \<Rightarrow> bool \<times> 'e" where
  "forcedUpdate sys gitDir beforeSHA afterSHA e =
     (if beforeSHA = [] \<or> afterSHA = [] then (False, e)
      else (let (r, e') = sys_exec sys [] ''git''
                  [''--git-dir'', gitDir, ''merge-base'', ''--is-ancestor'', beforeSHA, afterSHA] e
            in (ex_err r \<noteq> None, e')))"

section \<open>Reading back what \<open>for-each-ref\<close> prints\<close>

text \<open>The output that Git documents for this format: one line for each ref.\<close>

definition print_refs :: "(string \<times> string) list \<Rightarrow> string" where
  "print_refs rs = concat (map (\<lambda>(n, s). n @ CHR '' '' # s @ [CHR 0x0A]) rs)"

definition ref_word :: "string \<Rightarrow> bool" where
  "ref_word s \<longleftrightarrow> s \<noteq> [] \<and> spaceless s"

definition ref_words :: "string \<times> string \<Rightarrow> bool" where
  "ref_words r \<longleftrightarrow> ref_word (fst r) \<and> ref_word (snd r)"

lemma newline_space [simp]: "is_space CHR 0x0A" "is_space CHR '' ''"
  by (simp_all add: is_space_def)

lemma ref_word_no_newline: "ref_word s \<Longrightarrow> CHR 0x0A \<notin> set s"
  by (auto simp: ref_word_def spaceless_def list_all_iff)

text \<open>The body of the output without its final newline, which \<open>TrimSpace\<close> removes.\<close>

definition ref_line :: "string \<times> string \<Rightarrow> string" where
  "ref_line r = fst r @ CHR '' '' # snd r"

lemma print_refs_lines: "rs \<noteq> [] \<Longrightarrow> print_refs rs = join_with [CHR 0x0A] (map ref_line rs) @ [CHR 0x0A]"
proof (induction rs)
  case (Cons r rs)
  show ?case
  proof (cases rs)
    case Nil
    then show ?thesis by (cases r) (simp add: print_refs_def ref_line_def)
  next
    case (Cons r' rs')
    with Cons.IH have "print_refs rs = join_with [CHR 0x0A] (map ref_line rs) @ [CHR 0x0A]" by simp
    moreover have "print_refs (r # rs) = ref_line r @ CHR 0x0A # print_refs rs"
      by (cases r) (simp add: print_refs_def ref_line_def)
    ultimately show ?thesis using Cons by simp
  qed
qed simp

lemma trim_space_body:
  assumes "s \<noteq> []" "\<not> is_space (hd s)" "\<not> is_space (last s)"
  shows "trim_space (s @ [CHR 0x0A]) = s"
proof -
  have "trim_left (s @ [CHR 0x0A]) = s @ [CHR 0x0A]"
    using assms(1,2) by (intro trim_left_id) simp
  moreover have "trim_left (rev s) = rev s"
    using assms(1,3) by (intro trim_left_id) (simp add: hd_rev)
  ultimately show ?thesis by (simp add: trim_space_def trim_left_def)
qed

lemma ref_line_props:
  assumes "ref_words r"
  shows "ref_line r \<noteq> []" "\<not> is_space (hd (ref_line r))" "\<not> is_space (last (ref_line r))"
    and "CHR 0x0A \<notin> set (ref_line r)"
proof -
  have w: "fst r \<noteq> []" "spaceless (fst r)" "snd r \<noteq> []" "spaceless (snd r)"
    using assms by (auto simp: ref_words_def ref_word_def)
  show "ref_line r \<noteq> []" by (simp add: ref_line_def)
  show "\<not> is_space (hd (ref_line r))"
    using w(1,2) by (cases "fst r") (auto simp: ref_line_def spaceless_def)
  show "\<not> is_space (last (ref_line r))"
    using w(3,4) by (auto simp: ref_line_def spaceless_def list_all_iff)
  show "CHR 0x0A \<notin> set (ref_line r)"
    using w by (auto simp: ref_line_def spaceless_def list_all_iff)
qed

lemma join_lines_ends:
  assumes "rs \<noteq> []" "list_all ref_words rs"
  shows "join_with [CHR 0x0A] (map ref_line rs) \<noteq> []"
    and "hd (join_with [CHR 0x0A] (map ref_line rs)) = hd (ref_line (hd rs))"
    and "last (join_with [CHR 0x0A] (map ref_line rs)) = last (ref_line (last rs))"
proof -
  have "join_with [CHR 0x0A] (map ref_line rs) \<noteq> [] \<and>
    hd (join_with [CHR 0x0A] (map ref_line rs)) = hd (ref_line (hd rs)) \<and>
    last (join_with [CHR 0x0A] (map ref_line rs)) = last (ref_line (last rs))"
    using assms
  proof (induction rs)
    case (Cons r rs)
    then show ?case by (cases rs) (auto simp: ref_line_props)
  qed simp
  then show "join_with [CHR 0x0A] (map ref_line rs) \<noteq> []"
    and "hd (join_with [CHR 0x0A] (map ref_line rs)) = hd (ref_line (hd rs))"
    and "last (join_with [CHR 0x0A] (map ref_line rs)) = last (ref_line (last rs))"
    by auto
qed

lemma add_ref_line_ref: "ref_words r \<Longrightarrow> add_ref_line refs (ref_line r) = m_put (fst r) (snd r) refs"
  by (simp add: add_ref_line_def ref_line_def ref_words_def ref_word_def fields_two)

lemma foldl_add_ref_line:
  "list_all ref_words rs \<Longrightarrow>
     foldl add_ref_line m (map ref_line rs) = foldl (\<lambda>m (k, v). m_put k v m) m rs"
  by (induction rs arbitrary: m) (auto simp: add_ref_line_ref)

lemma parse_print_refs:
  assumes "list_all ref_words rs"
  shows "parse_refs (print_refs rs) = m_of_list rs"
proof (cases "rs = []")
  case True
  then show ?thesis
    by (simp add: print_refs_def parse_refs_def trim_space_def trim_left_def add_ref_line_def
        str_fields_def m_of_list_def)
next
  case False
  let ?b = "join_with [CHR 0x0A] (map ref_line rs)"
  note ends = join_lines_ends[OF False assms]
  have "ref_words (hd rs)" "ref_words (last rs)"
    using False assms by (auto simp: list_all_iff)
  then have "trim_space (?b @ [CHR 0x0A]) = ?b"
    using ends by (intro trim_space_body) (auto simp: ref_line_props)
  moreover have "split_at CHR 0x0A ?b = map ref_line rs"
    using False assms by (intro split_join) (auto simp: list_all_iff ref_line_props)
  ultimately show ?thesis
    using assms False by (simp add: parse_refs_def print_refs_lines foldl_add_ref_line m_of_list_def)
qed

end
