(* ===== verification/Go_Duration.thy ===== *)
theory Go_Duration
  imports Go_Json_Roundtrip
begin

text \<open>
  \<open>time.ParseDuration\<close>: decimal numbers with units, added up in a \<open>uint64\<close>, fractions computed in float64.
  The lemmas give its exact value on whole numbers of a unit and show where it refuses to overflow.
\<close>

section \<open>Float64\<close>

text \<open>
  The nearest float64 to \<open>n / d\<close>, ties to even, as a quotient of two numbers. The values met here are
  far from the smallest and the largest exponent.
\<close>

function scale_up :: "nat \<Rightarrow> nat \<Rightarrow> nat \<Rightarrow> nat \<times> nat" where
  "scale_up n d k = (if n = 0 \<or> d * 2 ^ 52 \<le> n then (n, k) else scale_up (2 * n) d (Suc k))"
  by pat_completeness auto
termination
  by (relation "measure (\<lambda>(n, d, k). d * 2 ^ 52 - n)") auto

function scale_down :: "nat \<Rightarrow> nat \<Rightarrow> nat \<Rightarrow> nat \<times> nat" where
  "scale_down n d k = (if d = 0 \<or> n < d * 2 ^ 53 then (d, k) else scale_down n (2 * d) (Suc k))"
  by pat_completeness auto
termination
  by (relation "measure (\<lambda>(n, d, k). n - d)") auto

declare scale_up.simps [simp del] scale_down.simps [simp del]

definition half_even :: "nat \<Rightarrow> nat \<Rightarrow> nat" where
  "half_even n d =
     (let q = n div d; r = n mod d in if d < 2 * r \<or> d = 2 * r \<and> odd q then q + 1 else q)"

definition f64 :: "nat \<Rightarrow> nat \<Rightarrow> nat \<times> nat" where
  "f64 n d =
     (let (n1, up) = scale_up n d 0;
          (d1, down) = scale_down n1 d 0
      in (half_even n1 d1 * 2 ^ down, 2 ^ up))"

text \<open>\<open>uint64(float64(f) * (float64(unit) / scale))\<close> for \<open>scale = 10 ^ k\<close>, which is exact up to \<open>k = 22\<close>.\<close>

definition fraction_ns :: "nat \<Rightarrow> nat \<Rightarrow> nat \<Rightarrow> nat" where
  "fraction_ns f unit k =
     (let (a, b) = f64 f 1;
          (c, d) = f64 unit (10 ^ k);
          (p, q) = f64 (a * c) (b * d)
      in p div q)"

section \<open>Numbers and units\<close>

fun leading_int :: "nat \<Rightarrow> string \<Rightarrow> (nat \<times> string) option" where
  "leading_int x [] = Some (x, [])"
| "leading_int x (c # s) =
     (case digit_val c of
        None \<Rightarrow> Some (x, c # s)
      | Some d \<Rightarrow>
          if 2 ^ 63 div 10 < x then None
          else if 2 ^ 63 < 10 * x + d then None
          else leading_int (10 * x + d) s)"

text \<open>The digits after the point, those that would overflow being dropped, and the power of ten of the scale.\<close>

fun leading_fraction :: "nat \<Rightarrow> nat \<Rightarrow> bool \<Rightarrow> string \<Rightarrow> nat \<times> nat \<times> string" where
  "leading_fraction x k overflow [] = (x, k, [])"
| "leading_fraction x k overflow (c # s) =
     (case digit_val c of
        None \<Rightarrow> (x, k, c # s)
      | Some d \<Rightarrow>
          if overflow then leading_fraction x k True s
          else if (2 ^ 63 - 1) div 10 < x then leading_fraction x k True s
          else if 2 ^ 63 < 10 * x + d then leading_fraction x k True s
          else leading_fraction (10 * x + d) (Suc k) False s)"

definition unit_map :: "(string \<times> nat) list" where
  "unit_map =
     [(''ns'', 1), (''us'', 1000), ([CHR 0xC2, CHR 0xB5, CHR ''s''], 1000),
      ([CHR 0xCE, CHR 0xBC, CHR ''s''], 1000), (''ms'', 1000000), (''s'', 1000000000),
      (''m'', 60000000000), (''h'', 3600000000000)]"

definition unit_char :: "char \<Rightarrow> bool" where
  "unit_char c \<longleftrightarrow> c \<noteq> CHR ''.'' \<and> digit_val c = None"

text \<open>One number with its unit, in nanoseconds, and the rest.\<close>

definition duration_part :: "string \<Rightarrow> (nat \<times> string) option" where
  "duration_part s =
     (if s = [] \<or> unit_char (hd s) then None
      else
      (case leading_int 0 s of
         None \<Rightarrow> None
       | Some (v, s1) \<Rightarrow>
           (let pre = (length s1 \<noteq> length s);
                (f, k, post, s2) =
                  (if s1 \<noteq> [] \<and> hd s1 = CHR ''.''
                   then (let (f, k, s2) = leading_fraction 0 0 False (tl s1) in (f, k, length s2 \<noteq> length (tl s1), s2))
                   else (0, 0, False, s1));
                u = takeWhile unit_char s2
            in if \<not> pre \<and> \<not> post then None
               else if u = [] then None
               else
               (case map_of unit_map u of
                  None \<Rightarrow> None
                | Some unit \<Rightarrow>
                    if 2 ^ 63 div unit < v then None
                    else if f = 0 then Some (v * unit, dropWhile unit_char s2)
                    else
                    (let v' = v * unit + fraction_ns f unit k
                     in if 2 ^ 63 < v' then None else Some (v', dropWhile unit_char s2))))))"

lemma leading_int_length: "leading_int x s = Some (v, r) \<Longrightarrow> length r \<le> length s"
  by (induction x s rule: leading_int.induct) (auto split: option.splits if_splits)

lemma leading_fraction_length: "leading_fraction x k b s = (f, j, r) \<Longrightarrow> length r \<le> length s"
  by (induction x k b s rule: leading_fraction.induct) (auto split: option.splits if_splits)

lemma dropWhile_shorter: "takeWhile P s \<noteq> [] \<Longrightarrow> length (dropWhile P s) < length s"
  by (cases s) (auto simp: length_dropWhile_le le_imp_less_Suc split: if_splits)

lemma duration_part_shorter:
  assumes "duration_part s = Some (v, r)"
  shows "length r < length s"
proof -
  obtain s1 where s1: "length s1 \<le> length s" and
    "r = dropWhile unit_char s1" "takeWhile unit_char s1 \<noteq> []"
  proof -
    from assms obtain w q where l: "leading_int 0 s = Some (w, q)"
      by (auto simp: duration_part_def split: if_splits option.splits)
    have q: "length q \<le> length s" by (rule leading_int_length[OF l])
    obtain f k t where t: "leading_fraction 0 0 False (tl q) = (f, k, t)"
      by (cases "leading_fraction 0 0 False (tl q)") auto
    have "length t \<le> length s" using leading_fraction_length[OF t] q by simp
    with q show thesis
      using assms that[of q] that[of t] by (auto simp: duration_part_def l t Let_def split: if_splits option.splits)
  qed
  then show ?thesis using dropWhile_shorter[of unit_char s1] by simp
qed

section \<open>The sum\<close>

text \<open>The running sum is a \<open>uint64\<close>: it wraps, and is compared with \<open>1 << 63\<close> after each addition.\<close>

function duration_sum :: "nat \<Rightarrow> string \<Rightarrow> nat option" where
  "duration_sum d s =
     (if s = [] then Some d
      else
      (case duration_part s of
         None \<Rightarrow> None
       | Some (v, r) \<Rightarrow>
           (let d' = (d + v) mod 2 ^ 64 in if 2 ^ 63 < d' then None else duration_sum d' r)))"
  by pat_completeness auto
termination
  by (relation "measure (\<lambda>(d, s). length s)") (auto dest: duration_part_shorter)

declare duration_sum.simps [simp del]

definition parse_duration :: "string \<Rightarrow> duration option" where
  "parse_duration text =
     (let neg = (text \<noteq> [] \<and> hd text = CHR ''-'');
          s = (if text \<noteq> [] \<and> (hd text = CHR ''-'' \<or> hd text = CHR ''+'') then tl text else text)
      in if s = ''0'' then Some 0
         else if s = [] then None
         else
         (case duration_sum 0 s of
            None \<Rightarrow> None
          | Some d \<Rightarrow>
              if neg then Some (word_of_int (- int d))
              else if 2 ^ 63 - 1 < d then None
              else Some (of_nat d)))"

section \<open>Whole numbers\<close>

lemma leading_int_append:
  "leading_int x ds = Some (y, []) \<Longrightarrow> leading_int x (ds @ s) = leading_int y s"
  by (induction x ds rule: leading_int.induct) (auto split: option.splits if_splits)

lemma leading_int_append_None:
  "leading_int x ds = None \<Longrightarrow> leading_int x (ds @ s) = None"
  by (induction x ds rule: leading_int.induct) (auto split: option.splits if_splits)

lemma leading_int_dec:
  "leading_int 0 (dec_nat n) = (if n \<le> 2 ^ 63 then Some (n, []) else None)"
proof (induction n rule: dec_nat.induct)
  case (1 n)
  show ?case
  proof (cases "n < 10")
    case True
    then show ?thesis by (simp add: dec_nat.simps[of n])
  next
    case False
    have ih: "leading_int 0 (dec_nat (n div 10)) = (if n div 10 \<le> 2 ^ 63 then Some (n div 10, []) else None)"
      using "1.IH" False by blast
    show ?thesis
    proof (cases "n div 10 \<le> 2 ^ 63")
      case True
      with ih have "leading_int 0 (dec_nat n) = leading_int (n div 10) [digit_char (n mod 10)]"
        using False by (simp add: dec_nat.simps[of n] leading_int_append)
      also have "\<dots> = (if 2 ^ 63 div 10 < n div 10 then None else if 2 ^ 63 < 10 * (n div 10) + n mod 10 then None
          else Some (10 * (n div 10) + n mod 10, []))"
        by simp
      also have "10 * (n div 10) + n mod 10 = n" by simp
      finally show ?thesis by auto
    next
      case big: False
      with ih have "leading_int 0 (dec_nat n) = None"
        using False by (simp add: dec_nat.simps[of n] leading_int_append_None)
      with big show ?thesis by auto
    qed
  qed
qed

lemma leading_int_stop: "s = [] \<or> digit_val (hd s) = None \<Longrightarrow> leading_int x s = Some (x, s)"
  by (cases s) auto

lemma unit_map_facts:
  "list_all (\<lambda>(u, k). u \<noteq> [] \<and> list_all unit_char u \<and> 0 < k \<and> map_of unit_map u = Some k) unit_map"
  by (simp add: unit_map_def unit_char_def digit_val_def Let_def)

lemma unit_map_chars: "(u, k) \<in> set unit_map \<Longrightarrow> u \<noteq> [] \<and> list_all unit_char u \<and> 0 < k \<and> map_of unit_map u = Some k"
  using unit_map_facts by (auto simp: list_all_iff)

text \<open>A whole number of a unit, followed by nothing or by the next number.\<close>

lemma duration_part_whole:
  assumes u: "(u, unit) \<in> set unit_map" and r: "r = [] \<or> \<not> unit_char (hd r)"
  shows "duration_part (dec_nat n @ u @ r) = (if n * unit \<le> 2 ^ 63 then Some (n * unit, r) else None)"
proof -
  note c = unit_map_chars[OF u]
  then obtain x xs where x: "u = x # xs" "unit_char x" by (cases u) auto
  obtain y ys where y: "dec_nat n = y # ys" by (cases "dec_nat n") auto
  then have "\<not> unit_char y" using digits_dec_nat[of y n] by (auto simp: unit_char_def)
  then have nonempty: "\<not> (dec_nat n @ u @ r = [] \<or> unit_char (hd (dec_nat n @ u @ r)))" by (simp add: y)
  have t: "takeWhile unit_char (u @ r) = u" "dropWhile unit_char (u @ r) = r"
    using c r by (cases r; simp add: takeWhile_append dropWhile_append list_all_iff)+
  show ?thesis
  proof (cases "n \<le> 2 ^ 63")
    case True
    then have l: "leading_int 0 (dec_nat n @ u @ r) = Some (n, u @ r)"
      using x by (simp add: leading_int_append[OF leading_int_dec[of n, simplified True if_True]] unit_char_def leading_int_stop)
    have "2 ^ 63 div unit < n \<longleftrightarrow> \<not> n * unit \<le> 2 ^ 63"
      using c by (simp add: div_less_iff_less_mult not_le mult.commute less_Suc_eq_le)
    moreover have "hd (u @ r) \<noteq> CHR ''.''" "u @ r \<noteq> []" using x by (simp_all add: unit_char_def)
    ultimately show ?thesis
      using l c nonempty t unfolding duration_part_def by simp
  next
    case False
    then have "leading_int 0 (dec_nat n @ u @ r) = None"
      by (intro leading_int_append_None) (simp add: leading_int_dec)
    moreover have "\<not> n * unit \<le> 2 ^ 63" using False c by (metis One_nat_def Suc_leI le_trans mult.right_neutral mult_le_mono2)
    ultimately show ?thesis by (simp add: duration_part_def)
  qed
qed

definition duration_text :: "(nat \<times> string) list \<Rightarrow> string" where
  "duration_text ps = concat (map (\<lambda>(n, u). dec_nat n @ u) ps)"

definition duration_ns :: "(nat \<times> string) list \<Rightarrow> nat" where
  "duration_ns ps = sum_list (map (\<lambda>(n, u). n * the (map_of unit_map u)) ps)"

definition known_units :: "(nat \<times> string) list \<Rightarrow> bool" where
  "known_units ps \<longleftrightarrow> list_all (\<lambda>(n, u). map_of unit_map u \<noteq> None) ps"

lemma dec_nat_hd_no_unit: "\<not> unit_char (hd (dec_nat n @ s))" "hd (dec_nat n @ s) \<noteq> CHR ''-''" "hd (dec_nat n @ s) \<noteq> CHR ''+''"
proof -
  obtain y ys where y: "dec_nat n = y # ys" by (cases "dec_nat n") auto
  then show "\<not> unit_char (hd (dec_nat n @ s))" using digits_dec_nat[of y n] by (auto simp: unit_char_def)
  from y show "hd (dec_nat n @ s) \<noteq> CHR ''-''" "hd (dec_nat n @ s) \<noteq> CHR ''+''"
    using dec_nat_hd_digit[of n] by simp_all
qed

lemma duration_text_hd: "ps \<noteq> [] \<Longrightarrow> \<not> unit_char (hd (duration_text ps)) \<and> hd (duration_text ps) \<noteq> CHR ''-'' \<and>
    hd (duration_text ps) \<noteq> CHR ''+'' \<and> duration_text ps \<noteq> []"
  using dec_nat_hd_no_unit[of _ "[]"]
  by (cases ps) (auto simp: duration_text_def dec_nat_hd_no_unit split: prod.split)

lemma duration_sum_text:
  "known_units ps \<Longrightarrow> d + duration_ns ps \<le> 2 ^ 63 \<Longrightarrow> duration_sum d (duration_text ps) = Some (d + duration_ns ps)"
proof (induction ps arbitrary: d)
  case Nil
  then show ?case by (simp add: duration_text_def duration_ns_def duration_sum.simps)
next
  case (Cons p ps)
  obtain n u where p: "p = (n, u)" by (cases p)
  with Cons.prems(1) obtain k where k: "map_of unit_map u = Some k" and ps: "known_units ps"
    by (auto simp: known_units_def)
  have ns: "duration_ns (p # ps) = n * k + duration_ns ps" by (simp add: duration_ns_def p k)
  have t: "duration_text (p # ps) = dec_nat n @ u @ duration_text ps" by (simp add: duration_text_def p)
  have "duration_text ps = [] \<or> \<not> unit_char (hd (duration_text ps))"
    using duration_text_hd[of ps] by (cases ps) (auto simp: duration_text_def)
  then have part: "duration_part (duration_text (p # ps)) = Some (n * k, duration_text ps)"
    using duration_part_whole[OF map_of_SomeD[OF k]] Cons.prems(2) t ns by simp
  have "(d + n * k) mod 2 ^ 64 = d + n * k" using Cons.prems(2) ns by simp
  moreover have "duration_sum (d + n * k) (duration_text ps) = Some (d + n * k + duration_ns ps)"
    using Cons.prems(2) ns by (intro Cons.IH ps) simp
  ultimately show ?case
    using Cons.prems(2) ns part t
    by (subst duration_sum.simps) (simp add: Let_def add.assoc)
qed

lemma duration_text_not_zero:
  assumes "known_units ps" "ps \<noteq> []"
  shows "duration_text ps \<noteq> ''0''"
proof
  assume z: "duration_text ps = ''0''"
  obtain n u qs where ps: "ps = (n, u) # qs" using assms(2) by (cases ps) auto
  with assms(1) obtain k where "map_of unit_map u = Some k" by (auto simp: known_units_def)
  from unit_map_chars[OF map_of_SomeD[OF this]] have "u \<noteq> []" by simp
  moreover have "length (dec_nat n) + length u \<le> 1"
    using arg_cong[OF z, of length] by (simp add: ps duration_text_def)
  moreover have "0 < length (dec_nat n)" by simp
  ultimately show False by (cases u) auto
qed

text \<open>A text of whole numbers has their sum as its value.\<close>

lemma parse_duration_text:
  assumes "known_units ps" "ps \<noteq> []" "duration_ns ps < 2 ^ 63"
  shows "parse_duration (duration_text ps) = Some (of_nat (duration_ns ps))"
  using assms duration_text_hd[OF assms(2)] duration_text_not_zero[OF assms(1,2)] duration_sum_text[OF assms(1), of 0]
  by (simp add: parse_duration_def Let_def)

lemma sint_of_nat_small: "n < 2 ^ 63 \<Longrightarrow> sint (of_nat n :: 64 word) = int n"
  by (simp add: signed_of_nat signed_take_bit_int_eq_self_iff)

text \<open>The bound for one number: refused from \<open>2 ^ 63\<close> nanoseconds on.\<close>

lemma parse_duration_whole:
  assumes "(u, k) \<in> set unit_map"
  shows "parse_duration (dec_nat n @ u) = (if n * k < 2 ^ 63 then Some (of_nat (n * k)) else None)"
proof (cases "n * k < 2 ^ 63")
  case True
  have "map_of unit_map u = Some k" using unit_map_chars[OF assms] by simp
  with True parse_duration_text[of "[(n, u)]"] show ?thesis
    by (simp add: known_units_def duration_ns_def duration_text_def)
next
  case False
  have "duration_sum 0 (dec_nat n @ u) = (if n * k \<le> 2 ^ 63 then Some (n * k) else None)"
    using duration_part_whole[OF assms, of "[]" n]
    by (subst duration_sum.simps) (auto simp: Let_def duration_sum.simps[of _ "[]"])
  moreover have "dec_nat n @ u \<noteq> ''0''"
    using duration_text_not_zero[of "[(n, u)]"] unit_map_chars[OF assms]
    by (simp add: known_units_def duration_text_def)
  ultimately show ?thesis
    using False dec_nat_hd_no_unit(2,3)[of n u] by (auto simp: parse_duration_def Let_def)
qed

lemma parse_duration_nonneg:
  assumes "parse_duration s = Some d" "s = [] \<or> hd s \<noteq> CHR ''-''"
  shows "0 \<le> sint d"
  using assms
  by (auto simp: parse_duration_def Let_def sint_of_nat_small split: if_splits option.splits)

lemma parse_duration_zero: "parse_duration ''0'' = Some 0"
  by (simp add: parse_duration_def)

end
