(* ===== verification/Dtu_Control.thy ===== *)
theory Dtu_Control
  imports Dtu_Events Dtu_Permissions Dtu_GitCmd Dtu_Codec Go_Duration
begin

text \<open>
  The control handlers of \<open>dtu/control.go\<close>, one definition each, with their guards in the order of
  the code. A handler takes the decoded body and the world (and the external system, when it runs
  Git) and returns the response and the new world; it holds the world's lock from its first read
  to its last write, so it is one step. PEM and X.509 parsing and \<open>time.ParseDuration\<close> are
  parameters.
\<close>

section \<open>Apps and installations\<close>

datatype public_key = RSAKey rsa_public_key | OtherKey

record key_parser =
  kp_pemDecode :: "string \<Rightarrow> string option"
  kp_parsePKIX :: "string \<Rightarrow> public_key option"

definition createApp ::
    "key_parser \<Rightarrow> app_input control_body \<Rightarrow> world \<Rightarrow> response \<times> world" where
  "createApp kp body w =
     (case decodeControl body of Inl r \<Rightarrow> (r, w) | Inr input \<Rightarrow>
      (case kp_pemDecode kp (ai_PublicKeyPEM input) of
         None \<Rightarrow> (writeControlError 400 ''invalid public key PEM'', w)
       | Some block \<Rightarrow>
      (case kp_parsePKIX kp block of
         None \<Rightarrow> (writeControlError 400 ''invalid public key'', w)
       | Some OtherKey \<Rightarrow> (writeControlError 400 ''public key is not RSA'', w)
       | Some (RSAKey key) \<Rightarrow>
           if sint (ai_ID input) \<le> 0 \<or> app_id (m_get_or zero_app (w_apps w) (ai_ID input)) \<noteq> 0
           then (writeControlError 409 ''invalid or duplicate App ID'', w)
           else (writeJSON 201 (PID (ai_ID input)),
                 bump (w\<lparr>w_apps := m_put (ai_ID input)
                    \<lparr>app_id = ai_ID input, app_publicKey = key,
                     app_webhookURL = ai_WebhookURL input,
                     app_webhookSecret = ai_WebhookSecret input\<rparr> (w_apps w)\<rparr>)))))"

definition validPathComponent :: "string \<Rightarrow> bool" where
  "validPathComponent value \<longleftrightarrow>
     value \<noteq> [] \<and> value \<noteq> ''.'' \<and> value \<noteq> ''..'' \<and>
     \<not> list_ex (\<lambda>c. c = CHR ''/'' \<or> c = CHR 0x5C) value"

text \<open>The checks and defaults of \<open>createInstallation\<close> before it takes the lock.\<close>

definition checkInstallationInput :: "installation_input \<Rightarrow> response + installation_input" where
  "checkInstallationInput input =
     (if list_ex (\<lambda>(permission, level). permission = [] \<or> permissionRank level = 0)
           (m_entries (ii_Permissions input))
      then Inl (writeControlError 400 ''invalid permission'')
      else if ii_Owner input \<noteq> [] then
        (if \<not> validPathComponent (ii_Owner input)
         then Inl (writeControlError 400 ''invalid installation owner'')
         else (let input' = (if ii_OwnerType input = [] then input\<lparr>ii_OwnerType := ''User''\<rparr> else input)
               in if ii_OwnerType input' \<noteq> ''User'' \<and> ii_OwnerType input' \<noteq> ''Organization''
                  then Inl (writeControlError 400 ''invalid installation owner type'')
                  else Inr input'))
      else Inr input)"

definition new_installation :: "installation_input \<Rightarrow> installation" where
  "new_installation input =
     \<lparr>inst_id = ii_ID input, inst_appID = ii_AppID input, inst_active = ii_Active input,
      inst_owner = ii_Owner input, inst_ownerType = ii_OwnerType input,
      inst_permissions = copyMap (ii_Permissions input), inst_repositoryIDs = m_empty\<rparr>"

definition createInstallation ::
    "installation_input control_body \<Rightarrow> world \<Rightarrow> response \<times> world" where
  "createInstallation body w =
     (case decodeControl body of Inl r \<Rightarrow> (r, w) | Inr input0 \<Rightarrow>
      (case checkInstallationInput input0 of Inl r \<Rightarrow> (r, w) | Inr input \<Rightarrow>
       if sint (ii_ID input) \<le> 0 \<or>
          inst_id (m_get_or zero_installation (w_installs w) (ii_ID input)) \<noteq> 0
       then (writeControlError 409 ''invalid or duplicate installation ID'', w)
       else if m_get (w_apps w) (ii_AppID input) = None
       then (writeControlError 400 ''unknown App'', w)
       else
         (let inst = new_installation input;
              w1 = w\<lparr>w_installs := m_put (ii_ID input) inst (w_installs w)\<rparr>;
              w2 = (if ii_Owner input \<noteq> [] then appendInstallationEvent inst ''created'' w1 else w1)
          in (writeJSON 201 (PID (ii_ID input)), bump w2))))"

section \<open>Repositories\<close>

definition repoName :: "string \<Rightarrow> string \<Rightarrow> string" where
  "repoName owner name = to_lower owner @ ''/'' @ to_lower name"

definition repo_git_dir :: "world \<Rightarrow> string \<Rightarrow> string \<Rightarrow> string" where
  "repo_git_dir w owner name =
     path_join [w_dataDir w, ''repositories'', owner, name @ ''.git'']"

text \<open>The name check over the repositories of the installation, a \<open>range\<close> over a Go set.\<close>

definition name_taken :: "world \<Rightarrow> installation \<Rightarrow> string \<Rightarrow> bool" where
  "name_taken w installation name \<longleftrightarrow>
     list_ex (\<lambda>i. equal_fold (repo_name (m_get_or zero_repository (w_repositories w) i)) name)
       (m_keys (inst_repositoryIDs installation))"

definition add_repository :: "repository \<Rightarrow> installation \<Rightarrow> world \<Rightarrow> world" where
  "add_repository r installation w =
     (let installation' = installation\<lparr>inst_repositoryIDs :=
                m_put (repo_id r) () (inst_repositoryIDs installation)\<rparr>;
          w1 = w\<lparr>w_repositories := m_put (repo_id r) r (w_repositories w),
                 w_receiveLocks := m_put (repo_id r) () (w_receiveLocks w),
                 w_repoNames := m_put (repoName (repo_owner r) (repo_name r)) (repo_id r) (w_repoNames w),
                 w_installs := m_put (repo_installationID r) installation' (w_installs w)\<rparr>
      in if inst_owner installation' \<noteq> []
         then appendInstallationRepositoriesEvent installation'
                (m_get_or zero_repository (w_repositories w1) (repo_id r)) ''added'' w1
         else w1)"

definition createRepository ::
    "'e sys \<Rightarrow> repository_input control_body \<Rightarrow> world \<Rightarrow> 'e \<Rightarrow> response \<times> world \<times> 'e" where
  "createRepository sys body w e =
     (case decodeControl body of Inl r \<Rightarrow> (r, w, e) | Inr input \<Rightarrow>
      if sint (ri_ID input) \<le> 0 \<or> \<not> validPathComponent (ri_Owner input) \<or>
         \<not> validPathComponent (ri_Name input)
      then (writeControlError 400 ''invalid repository'', w, e)
      else
      (case m_get (w_installs w) (ri_InstallationID input) of
         None \<Rightarrow> (writeControlError 400 ''unknown installation'', w, e)
       | Some installation \<Rightarrow>
       if m_get (w_repositories w) (ri_ID input) \<noteq> None
       then (writeControlError 409 ''duplicate repository ID'', w, e)
       else if m_get (w_repoNames w) (repoName (ri_Owner input) (ri_Name input)) \<noteq> None
       then (writeControlError 409 ''duplicate repository name'', w, e)
       else if name_taken w installation (ri_Name input)
       then (writeControlError 409 ''duplicate repository name in installation'', w, e)
       else
         (let gitDir = repo_git_dir w (ri_Owner input) (ri_Name input);
              (err1, e1) = runGit sys [] [''init'', ''--bare'', gitDir] e
          in case err1 of Some err \<Rightarrow> (writeControlError 500 err, w, e1) | None \<Rightarrow>
         (let (err2, e2) = runGit sys gitDir [''config'', ''http.receivepack'', ''true''] e1
          in case err2 of
               Some err \<Rightarrow>
                 (let (_, e3) = sys_remove_all sys gitDir e2 in (writeControlError 500 err, w, e3))
             | None \<Rightarrow>
                 (writeJSON 201 (PID (ri_ID input)),
                  bump (add_repository
                    \<lparr>repo_id = ri_ID input, repo_owner = ri_Owner input, repo_name = ri_Name input,
                     repo_installationID = ri_InstallationID input, repo_gitDir = gitDir\<rparr>
                    installation w), e2)))))"

section \<open>Pull requests\<close>

definition createPullRequest ::
    "'e sys \<Rightarrow> pull_request_input control_body \<Rightarrow> world \<Rightarrow> 'e \<Rightarrow> response \<times> world \<times> 'e" where
  "createPullRequest sys body w e =
     (case decodeControl body of Inl r \<Rightarrow> (r, w, e) | Inr input0 \<Rightarrow>
      (let input = (if pi_State input0 = [] then input0\<lparr>pi_State := ''open''\<rparr> else input0)
       in
       if sint (pi_Number input) \<le> 0 \<or> pi_BaseRef input = [] \<or> pi_HeadRef input = [] \<or>
          (pi_State input \<noteq> ''open'' \<and> pi_State input \<noteq> ''closed'')
       then (writeControlError 400 ''invalid pull request'', w, e)
       else
       (case m_get (w_repositories w) (pi_RepositoryID input) of
          None \<Rightarrow> (writeControlError 400 ''unknown repository'', w, e)
        | Some repository \<Rightarrow>
          (let key = \<lparr>pk_repositoryID = pi_RepositoryID input, pk_number = pi_Number input\<rparr>
           in
           if m_get (w_pulls w) key \<noteq> None
           then (writeControlError 409 ''duplicate pull request'', w, e)
           else
           (let (baseSHA, e1) = resolveRef sys (repo_gitDir repository) (pi_BaseRef input) e;
                (headSHA, e2) = resolveRef sys (repo_gitDir repository) (pi_HeadRef input) e1
            in
            if baseSHA = [] \<or> headSHA = []
            then (writeControlError 400 ''base and head refs must exist'', w, e2)
            else
              (writeJSON 201 (PNumber (pi_Number input)),
               bump (w\<lparr>w_pulls := m_put key
                  \<lparr>pr_repositoryID = pi_RepositoryID input, pr_number = pi_Number input,
                   pr_baseRef = pi_BaseRef input, pr_headRef = pi_HeadRef input,
                   pr_baseSHA = baseSHA, pr_headSHA = headSHA,
                   pr_state = pi_State input, pr_draft = pi_Draft input\<rparr> (w_pulls w)\<rparr>), e2))))))"

definition changePullRequestState ::
    "pull_request_state_input control_body \<Rightarrow> world \<Rightarrow> response \<times> world" where
  "changePullRequestState body w =
     (case decodeControl body of Inl r \<Rightarrow> (r, w) | Inr input \<Rightarrow>
      if psi_State input \<noteq> ''open'' \<and> psi_State input \<noteq> ''closed''
      then (writeControlError 400 ''invalid pull request state'', w)
      else
      (let key = \<lparr>pk_repositoryID = psi_RepositoryID input, pk_number = psi_Number input\<rparr>
       in case m_get (w_pulls w) key of
            None \<Rightarrow> (writeControlError 404 ''unknown pull request'', w)
          | Some pull \<Rightarrow>
              (writeJSON 200 (PState (psi_State input)),
               bump (w\<lparr>w_pulls := m_put key (pull\<lparr>pr_state := psi_State input\<rparr>) (w_pulls w)\<rparr>))))"

section \<open>Clock, workflows, state\<close>

definition advanceTime ::
    "advance_time_input control_body \<Rightarrow> world \<Rightarrow> response \<times> world" where
  "advanceTime body w =
     (case decodeControl body of Inl r \<Rightarrow> (r, w) | Inr input \<Rightarrow>
      (case parse_duration (ati_Duration input) of
         None \<Rightarrow> (writeControlError 400 ''invalid duration'', w)
       | Some d \<Rightarrow>
           if sint d < 0 then (writeControlError 400 ''invalid duration'', w)
           else (let w1 = bump (w\<lparr>w_now := time_add (w_now w) d\<rparr>)
                 in (writeJSON 200 (PNow (w_now w1)), w1))))"

definition configureWorkflow ::
    "'e sys \<Rightarrow> workflow_input control_body \<Rightarrow> world \<Rightarrow> 'e \<Rightarrow> response \<times> world \<times> 'e" where
  "configureWorkflow sys body w e =
     (case decodeControl body of Inl r \<Rightarrow> (r, w, e) | Inr input \<Rightarrow>
      if sint (wi_ID input) \<le> 0 \<or> wi_Name input = [] \<or> wi_Path input = [] \<or> wi_ReleaseRef input = []
      then (writeControlError 400 ''invalid workflow'', w, e)
      else
      (let (err, e1) = runGit sys [] [''check-ref-format'', ''--branch'', wi_ReleaseRef input] e
       in if err \<noteq> None then (writeControlError 400 ''invalid release ref'', w, e1)
          else if m_get (w_repositories w) (wi_RepositoryID input) = None
          then (writeControlError 400 ''unknown repository'', w, e1)
          else
            (writeJSON 201 (PID (wi_ID input)),
             bump (w\<lparr>w_workflows := m_put (wi_RepositoryID input)
                \<lparr>wf_repositoryID = wi_RepositoryID input, wf_id = wi_ID input, wf_name = wi_Name input,
                 wf_path = wi_Path input, wf_releaseRef = wi_ReleaseRef input\<rparr> (w_workflows w)\<rparr>), e1)))"

definition getState :: "world \<Rightarrow> response" where
  "getState w =
     writeJSON 200 (PSnapshot
       \<lparr>ss_Now = w_now w,
        ss_Apps = m_len (w_apps w),
        ss_Installations = m_len (w_installs w),
        ss_Repositories = m_len (w_repositories w),
        ss_PullRequests = m_len (w_pulls w),
        ss_Tokens = m_len (w_tokens w),
        ss_Mutations = w_mutations w,
        ss_UnsupportedRequests = w_unsupported w,
        ss_PendingEvents = w_pendingEvents w,
        ss_WorkflowRuns = w_workflowRuns w,
        ss_ObservationErrors = w_observationErrors w,
        ss_DeliveryAttempts = w_deliveryAttempts w\<rparr>)"

end
