(* ===== verification/Dtu_Tokens.thy ===== *)
theory Dtu_Tokens
  imports Dtu_Control
begin

text \<open>
  App authentication and installation tokens of \<open>dtu/public.go\<close>: \<open>authenticateAppJWT\<close>,
  \<open>randomToken\<close>, \<open>CreateInstallationToken\<close> and \<open>authenticateInstallationToken\<close>. The JWT library
  is a parameter; what is assumed of it is the hypothesis \<open>jwt_contract\<close>.
\<close>

section \<open>App JWTs\<close>

record jwt_claims =
  cl_Issuer :: string
  cl_IssuedAt :: "gotime option"
  cl_ExpiresAt :: "gotime option"

text \<open>
  \<open>jwt.ParseWithClaims\<close> with the options the program passes: the raw token, the key function (it
  sees the algorithm of the header and the claims), the accepted algorithms. The result is the
  claims and the token's \<open>Valid\<close> flag, or an error.
\<close>

record jwt_lib =
  jwt_ParseWithClaims ::
    "string \<Rightarrow> (string \<Rightarrow> jwt_claims \<Rightarrow> rsa_public_key option) \<Rightarrow> string list \<Rightarrow> (jwt_claims \<times> bool) option"
  jwt_signed_by :: "string \<Rightarrow> rsa_public_key \<Rightarrow> bool"

text \<open>
  The documented behaviour: a token is returned as valid only when its algorithm is one of the
  accepted ones, the key function returned a key for it, and the signature verifies with that key.
\<close>

definition jwt_contract :: "jwt_lib \<Rightarrow> bool" where
  "jwt_contract jwt \<longleftrightarrow>
     (\<forall>raw keyf methods claims.
        jwt_ParseWithClaims jwt raw keyf methods = Some (claims, True) \<longrightarrow>
        (\<exists>alg key. alg \<in> set methods \<and> keyf alg claims = Some key \<and> jwt_signed_by jwt raw key))"

definition app_key :: "world \<Rightarrow> string \<Rightarrow> jwt_claims \<Rightarrow> rsa_public_key option" where
  "app_key w alg claims =
     (if alg \<noteq> ''RS256'' then None
      else (case parse_int64 (cl_Issuer claims) of
              None \<Rightarrow> None
            | Some appID \<Rightarrow> map_option app_publicKey (m_get (w_apps w) appID)))"

definition authenticateAppJWT :: "jwt_lib \<Rightarrow> string \<Rightarrow> world \<Rightarrow> int64 option" where
  "authenticateAppJWT jwt raw w =
     (if raw = [] then None
      else (case jwt_ParseWithClaims jwt raw (app_key w) [''RS256''] of
              None \<Rightarrow> None
            | Some (claims, valid) \<Rightarrow>
                if \<not> valid then None
                else (case (cl_IssuedAt claims, cl_ExpiresAt claims) of
                        (Some iat, Some exp) \<Rightarrow>
                          if iat > w_now w \<or> \<not> exp > w_now w \<or> exp > time_add (w_now w) (10 * minute)
                          then None
                          else parse_int64 (cl_Issuer claims)
                      | _ \<Rightarrow> None)))"

section \<open>Token values\<close>

definition b64_alphabet :: string where
  "b64_alphabet =
     ''ABCDEFGHIJKLMNOPQRSTUVWXYZabcdefghijklmnopqrstuvwxyz0123456789-_''"

definition b64_char :: "nat \<Rightarrow> char" where
  "b64_char d = b64_alphabet ! d"

text \<open>\<open>base64.RawURLEncoding.EncodeToString\<close>\<close>

fun b64 :: "nat list \<Rightarrow> string" where
  "b64 [] = []"
| "b64 [a] = [b64_char (a div 4), b64_char (a mod 4 * 16)]"
| "b64 [a, b] = [b64_char (a div 4), b64_char (a mod 4 * 16 + b div 16), b64_char (b mod 16 * 4)]"
| "b64 (a # b # c # r) =
     b64_char (a div 4) # b64_char (a mod 4 * 16 + b div 16) # b64_char (b mod 16 * 4 + c div 64) #
     b64_char (c mod 64) # b64 r"

definition token_value :: "nat list \<Rightarrow> string" where
  "token_value bytes = ''ghs_'' @ b64 bytes"

definition randomToken :: "'e sys \<Rightarrow> 'e \<Rightarrow> string option \<times> 'e" where
  "randomToken sys e =
     (let (r, e') = sys_random sys 32 e in (map_option token_value r, e'))"

lemma b64_char_inject: "i < 64 \<Longrightarrow> j < 64 \<Longrightarrow> b64_char i = b64_char j \<longleftrightarrow> i = j"
proof -
  have "distinct b64_alphabet" "length b64_alphabet = 64"
    by (simp_all add: b64_alphabet_def)
  then show "i < 64 \<Longrightarrow> j < 64 \<Longrightarrow> b64_char i = b64_char j \<longleftrightarrow> i = j"
    by (simp add: b64_char_def nth_eq_iff_index_eq)
qed

lemma div_mod_inject: "(x :: nat) div k = y div k \<Longrightarrow> x mod k = y mod k \<Longrightarrow> x = y"
  by (metis div_mult_mod_eq)

lemma digits_inject: "(y :: nat) < k \<Longrightarrow> y' < k \<Longrightarrow> x * k + y = x' * k + y' \<longleftrightarrow> x = x' \<and> y = y'"
proof
  have d: "(u * k + v) div k = u" if "v < k" for u v
    using that by simp
  assume "y < k" "y' < k" and e: "x * k + y = x' * k + y'"
  then have "x = x'" using d by metis
  with e show "x = x' \<and> y = y'" by simp
qed simp

lemma byte_parts:
  "(x :: nat) < 256 \<Longrightarrow> x div 4 < 64" "(x :: nat) < 256 \<Longrightarrow> x div 16 < 16" "(x :: nat) < 256 \<Longrightarrow> x div 64 < 4"
  by simp_all

lemma sextet_bounds:
  "(y :: nat) < 256 \<Longrightarrow> x mod 4 * 16 + y div 16 < 64"
  "(z :: nat) < 256 \<Longrightarrow> x mod 16 * 4 + z div 64 < 64"
  "x mod 4 * 16 < (64 :: nat)" "x mod 16 * 4 < (64 :: nat)"
proof -
  have m: "x mod 4 < 4" "x mod 16 < 16" by simp_all
  then show "x mod 4 * 16 < (64 :: nat)" "x mod 16 * 4 < (64 :: nat)" by linarith+
  show "y < 256 \<Longrightarrow> x mod 4 * 16 + y div 16 < 64" "z < 256 \<Longrightarrow> x mod 16 * 4 + z div 64 < 64"
    using m byte_parts[of y] byte_parts[of z] by linarith+
qed

lemma b64_inject:
  assumes "list_all (\<lambda>x. x < 256) xs" "list_all (\<lambda>x. x < 256) ys" "length xs = length ys" "b64 xs = b64 ys"
  shows "xs = ys"
  using assms
proof (induction xs arbitrary: ys rule: b64.induct)
  case (2 a)
  then obtain a' where ys: "ys = [a']" by (cases ys) auto
  with 2 have "a div 4 = a' div 4 \<and> a mod 4 * 16 = a' mod 4 * 16"
    by (simp add: b64_char_inject byte_parts sextet_bounds)
  then show ?case using ys div_mod_inject[of a 4 a'] by simp
next
  case (3 a b)
  from "3.prems"(3) have "length ys = Suc (Suc 0)" by simp
  then obtain a' b' where ys: "ys = [a', b']" by (auto simp: length_Suc_conv)
  with "3.prems" have e: "a div 4 = a' div 4" "a mod 4 * 16 + b div 16 = a' mod 4 * 16 + b' div 16"
    "b mod 16 * 4 = b' mod 16 * 4" and lt: "b < 256" "b' < 256"
    by (simp_all add: b64_char_inject byte_parts sextet_bounds)
  from e(2) lt have "a mod 4 = a' mod 4 \<and> b div 16 = b' div 16"
    by (subst (asm) digits_inject) (simp_all add: byte_parts)
  with e show ?case using ys div_mod_inject[of a 4 a'] div_mod_inject[of b 16 b'] by simp
next
  case (4 a b c r)
  from "4.prems"(3) have "length ys = Suc (Suc (Suc (length r)))" by simp
  then obtain a' b' c' r' where ys: "ys = a' # b' # c' # r'"
    by (auto simp: length_Suc_conv)
  with "4.prems" have e: "a div 4 = a' div 4" "a mod 4 * 16 + b div 16 = a' mod 4 * 16 + b' div 16"
    "b mod 16 * 4 + c div 64 = b' mod 16 * 4 + c' div 64" "c mod 64 = c' mod 64" "b64 r = b64 r'"
    and lt: "b < 256" "b' < 256" "c < 256" "c' < 256"
    by (simp_all add: b64_char_inject byte_parts sextet_bounds)
  from e(2) lt have "a mod 4 = a' mod 4 \<and> b div 16 = b' div 16"
    by (subst (asm) digits_inject) (simp_all add: byte_parts)
  moreover from e(3) lt have "b mod 16 = b' mod 16 \<and> c div 64 = c' div 64"
    by (subst (asm) digits_inject) (simp_all add: byte_parts)
  moreover have "r = r'" using "4.prems" ys e(5) by (intro "4.IH") auto
  ultimately show ?case
    using ys e div_mod_inject[of a 4 a'] div_mod_inject[of b 16 b'] div_mod_inject[of c 64 c'] by simp
qed simp

section \<open>Minting\<close>

record repository_payload =
  rp_ID :: int64
  rp_Name :: string
  rp_FullName :: string
  rp_OwnerLogin :: string

record token_payload =
  tp_Token :: string
  tp_ExpiresAt :: gotime
  tp_Permissions :: "(string, string) gomap"
  tp_Repositories :: "repository_payload list"

definition tokenLifetime :: duration where
  "tokenLifetime = hour"

definition repository_value :: "repository \<Rightarrow> repository_payload" where
  "repository_value r =
     \<lparr>rp_ID = repo_id r, rp_Name = repo_name r,
      rp_FullName = repo_owner r @ ''/'' @ repo_name r, rp_OwnerLogin = repo_owner r\<rparr>"

text \<open>
  \<open>permissionsToGitHub\<close> writes the map as JSON and reads it into the permission struct of the
  GitHub client library: the names that the struct has, a parameter, survive.
\<close>

definition permissionsToGitHub ::
    "(string \<Rightarrow> bool) \<Rightarrow> (string, string) gomap \<Rightarrow> (string, string) gomap" where
  "permissionsToGitHub known permissions =
     m_of_list (filter (\<lambda>(p, l). known p) (m_entries permissions))"

definition new_token ::
    "string \<Rightarrow> int64 \<Rightarrow> int64 goset \<Rightarrow> (string, string) gomap \<Rightarrow> gotime \<Rightarrow> installation_token" where
  "new_token value installationID repositoryIDs permissions expiresAt =
     \<lparr>tok_value = value, tok_installationID = installationID,
      tok_repositoryIDs = copySet repositoryIDs, tok_permissions = copyMap permissions,
      tok_expiresAt = expiresAt\<rparr>"

text \<open>
  The critical section of \<open>CreateInstallationToken\<close>, entered with the ID of the authenticated App.
\<close>

definition mint_token ::
    "(string \<Rightarrow> bool) \<Rightarrow> 'e sys \<Rightarrow> int64 \<Rightarrow> int64 \<Rightarrow> token_options \<Rightarrow> world \<Rightarrow> 'e
     \<Rightarrow> (api_error + token_payload \<times> api_response) \<times> world \<times> 'e" where
  "mint_token known sys appID installationID options w e =
     (case m_get (w_installs w) installationID of
        None \<Rightarrow> (Inl (githubAPIError 404 ''Not Found''), w, e)
      | Some installation \<Rightarrow>
      if inst_appID installation \<noteq> appID
      then (Inl (githubAPIError 404 ''Not Found''), w, e)
      else if \<not> inst_active installation
      then (Inl (githubAPIError 403 ''Installation suspended''), w, e)
      else
      (case selectRepositories w installation options of
         None \<Rightarrow> (Inl (githubAPIError 422 ''Validation Failed''), w, e)
       | Some repositoryIDs \<Rightarrow>
      (case selectPermissions (inst_permissions installation) (opt_Permissions options) of
         None \<Rightarrow> (Inl (githubAPIError 422 ''Validation Failed''), w, e)
       | Some permissions \<Rightarrow>
      (case randomToken sys e of
         (None, e') \<Rightarrow> (Inl (githubAPIError 500 ''Internal Server Error''), w, e')
       | (Some value, e') \<Rightarrow>
           (let expiresAt = time_add (w_now w) tokenLifetime;
                repositories = map (\<lambda>i. repository_value (m_get_or zero_repository (w_repositories w) i))
                                 (m_keys repositoryIDs)
            in (Inr (\<lparr>tp_Token = value, tp_ExpiresAt = expiresAt,
                      tp_Permissions = permissionsToGitHub known permissions,
                      tp_Repositories = repositories\<rparr>, githubAPIResponse 201),
                bump (w\<lparr>w_tokens :=
                  m_put value (new_token value installationID repositoryIDs permissions expiresAt)
                    (w_tokens w)\<rparr>), e'))))))"

definition CreateInstallationToken ::
    "jwt_lib \<Rightarrow> (string \<Rightarrow> bool) \<Rightarrow> 'e sys \<Rightarrow> string \<Rightarrow> int64 \<Rightarrow> token_options option \<Rightarrow> world \<Rightarrow> 'e
     \<Rightarrow> (api_error + token_payload \<times> api_response) \<times> world \<times> 'e" where
  "CreateInstallationToken jwt known sys appJWT installationID options0 w e =
     (case authenticateAppJWT jwt appJWT w of
        None \<Rightarrow> (Inl (githubAPIError 401 ''Bad credentials''), w, e)
      | Some appID \<Rightarrow>
      (let options = (case options0 of None \<Rightarrow> no_options | Some opts \<Rightarrow> opts)
       in
       if length (opt_Repositories options) > 0 \<and> length (opt_RepositoryIDs options) > 0
       then (Inl (githubAPIError 422 ''Validation Failed''), w, e)
       else mint_token known sys appID installationID options w e))"

section \<open>Using a token\<close>

definition authenticateInstallationToken :: "string \<Rightarrow> world \<Rightarrow> installation_token option" where
  "authenticateInstallationToken raw w =
     (case m_get (w_tokens w) raw of
        None \<Rightarrow> None
      | Some token \<Rightarrow> if w_now w < tok_expiresAt token then Some token else None)"

text \<open>The \<open>Authorization\<close> header: a scheme, \<open>Bearer\<close> or \<open>token\<close> in any case, and a credential.\<close>

definition authorizationCredential :: "string \<Rightarrow> string option" where
  "authorizationCredential header =
     (case str_fields header of
        [scheme, cred] \<Rightarrow>
          if \<not> equal_fold scheme ''Bearer'' \<and> \<not> equal_fold scheme ''token'' then None else Some cred
      | _ \<Rightarrow> None)"

end
