(* ===== verification/Dtu_Git.thy ===== *)
theory Dtu_Git
  imports Dtu_Tokens
begin

text \<open>
  Git smart HTTP of \<open>dtu/git.go\<close> and the unsupported-request log of \<open>dtu/public.go\<close>: the routing and
  authorization of a Git request, the serialized receive-pack with its two ref snapshots, the
  events and queued runs derived from their difference, and the refresh of pull snapshots. The
  world's lock is taken several times in one push; each critical section is one definition.
\<close>

section \<open>Requests\<close>

text \<open>
  The parts of an \<open>http.Request\<close> the handlers read: method, URL path, the \<open>service\<close> query
  parameter, the raw query, the \<open>Authorization\<close> header, its decoded Basic credentials, the body.
\<close>

record http_request =
  rq_Method :: string
  rq_Path :: string
  rq_service :: string
  rq_RawQuery :: string
  rq_Authorization :: string
  rq_BasicAuth :: "(string \<times> string) option"
  rq_Body :: string

definition path_parts :: "http_request \<Rightarrow> string list" where
  "path_parts request = split_at CHR ''/'' (trim_prefix (rq_Path request) ''/'')"

definition isGitPath :: "string list \<Rightarrow> bool" where
  "isGitPath parts \<longleftrightarrow>
     (if length parts < 3 \<or> \<not> has_suffix (parts ! 1) ''.git'' then False
      else if length parts = 4 \<and> parts ! 2 = ''info'' \<and> parts ! 3 = ''refs'' then True
      else if length parts = 3 \<and> (parts ! 2 = ''git-upload-pack'' \<or> parts ! 2 = ''git-receive-pack'')
      then True
      else False)"

definition gitService :: "http_request \<Rightarrow> string list \<Rightarrow> string \<times> bool" where
  "gitService request parts =
     (if length parts = 4 \<and> parts ! 2 = ''info'' \<and> parts ! 3 = ''refs'' \<and> rq_Method request = ''GET''
      then (rq_service request,
            rq_service request = ''git-upload-pack'' \<or> rq_service request = ''git-receive-pack'')
      else if length parts = 3 \<and> rq_Method request = ''POST''
      then (parts ! 2, parts ! 2 = ''git-upload-pack'' \<or> parts ! 2 = ''git-receive-pack'')
      else ([], False))"

section \<open>Unsupported requests\<close>

definition recordUnsupported :: "http_request \<Rightarrow> world \<Rightarrow> world" where
  "recordUnsupported request w =
     w\<lparr>w_unsupported := w_unsupported w @
        [\<lparr>us_Method = rq_Method request, us_Path = rq_Path request, us_At = w_now w\<rparr>]\<rparr>"

definition with_header :: "string \<times> string \<Rightarrow> response \<Rightarrow> response" where
  "with_header h r = r\<lparr>resp_headers := h # resp_headers r\<rparr>"

definition unsupported_response :: "http_request \<Rightarrow> response" where
  "unsupported_response request =
     with_header (''X-DTU-Unsupported'', ''true'')
       (writeError 404 (''Unsupported endpoint: '' @ rq_Method request @ '' '' @ rq_Path request))"

definition handleUnsupported :: "http_request \<Rightarrow> world \<Rightarrow> response \<times> world" where
  "handleUnsupported request w = (unsupported_response request, recordUnsupported request w)"

section \<open>Recording ref changes\<close>

definition ref_names :: "(string, string) gomap \<Rightarrow> (string, string) gomap \<Rightarrow> string list" where
  "ref_names before after = sort (remdups (m_keys before @ m_keys after))"

text \<open>The \<open>forced\<close> map, computed by one Git process for each ref before the lock is taken.\<close>

fun forced_map ::
    "'e sys \<Rightarrow> string \<Rightarrow> (string, string) gomap \<Rightarrow> (string, string) gomap \<Rightarrow> string list \<Rightarrow>
     (string, bool) gomap \<Rightarrow> 'e \<Rightarrow> (string, bool) gomap \<times> 'e" where
  "forced_map sys gitDir before after [] forced e = (forced, e)"
| "forced_map sys gitDir before after (ref # refs) forced e =
     (let (f, e') = forcedUpdate sys gitDir (m_get_or [] before ref) (m_get_or [] after ref) e
      in forced_map sys gitDir before after refs (m_put ref f forced) e')"

definition record_ref_change ::
    "repository \<Rightarrow> installation_token \<Rightarrow> (string, string) gomap \<Rightarrow> (string, string) gomap \<Rightarrow>
     (string, bool) gomap \<Rightarrow> string \<Rightarrow> world \<Rightarrow> world" where
  "record_ref_change repository token before after forced ref w =
     (let beforeSHA = m_get_or [] before ref;
          afterSHA = m_get_or [] after ref
      in if beforeSHA = afterSHA then w
         else
         (let installation = m_get_or zero_installation (w_installs w) (tok_installationID token);
              w1 = appendPushEvent repository (inst_appID installation) ref beforeSHA afterSHA
                     (m_get_or False forced ref) w
          in case m_get (w_workflows w1) (repo_id repository) of
               None \<Rightarrow> w1
             | Some workflow \<Rightarrow>
                 if wf_releaseRef workflow = ref \<and> afterSHA \<noteq> []
                 then appendQueuedWorkflow repository workflow ref afterSHA w1 else w1))"

definition ref_changed :: "(string, string) gomap \<Rightarrow> (string, string) gomap \<Rightarrow> string \<Rightarrow> bool" where
  "ref_changed before after ref \<longleftrightarrow> m_get_or [] before ref \<noteq> m_get_or [] after ref"

text \<open>The critical section of \<open>recordRefChanges\<close>.\<close>

definition record_changes ::
    "repository \<Rightarrow> installation_token \<Rightarrow> (string, string) gomap \<Rightarrow> (string, string) gomap \<Rightarrow>
     (string, bool) gomap \<Rightarrow> world \<Rightarrow> world" where
  "record_changes repository token before after forced w =
     (let refs = ref_names before after;
          w1 = fold (record_ref_change repository token before after forced) refs w
      in if list_ex (ref_changed before after) refs then bump w1 else w1)"

definition recordRefChanges ::
    "'e sys \<Rightarrow> repository \<Rightarrow> installation_token \<Rightarrow> (string, string) gomap \<Rightarrow> (string, string) gomap \<Rightarrow>
     world \<Rightarrow> 'e \<Rightarrow> world \<times> 'e" where
  "recordRefChanges sys repository token before after w e =
     (let (forced, e') = forced_map sys (repo_gitDir repository) before after
                           (ref_names before after) m_empty e
      in (record_changes repository token before after forced w, e'))"

definition recordObservationError :: "int64 \<Rightarrow> string \<Rightarrow> string \<Rightarrow> world \<Rightarrow> world" where
  "recordObservationError repositoryID operation err w =
     w\<lparr>w_observationErrors := w_observationErrors w @
        [\<lparr>oe_RepositoryID = repositoryID, oe_Operation = operation, oe_Message = err, oe_At = w_now w\<rparr>]\<rparr>"

section \<open>Pull snapshots\<close>

record ref_snapshot =
  rs_key :: pull_key
  rs_baseRef :: string
  rs_headRef :: string

definition pull_snapshots :: "int64 \<Rightarrow> world \<Rightarrow> ref_snapshot list" where
  "pull_snapshots repositoryID w =
     map (\<lambda>(key, pull). \<lparr>rs_key = key, rs_baseRef = pr_baseRef pull, rs_headRef = pr_headRef pull\<rparr>)
       (filter (\<lambda>(key, pull). pr_repositoryID pull = repositoryID) (m_entries (w_pulls w)))"

definition store_snapshot :: "ref_snapshot \<Rightarrow> string \<Rightarrow> string \<Rightarrow> world \<Rightarrow> world" where
  "store_snapshot snapshot baseSHA headSHA w =
     (case m_get (w_pulls w) (rs_key snapshot) of
        None \<Rightarrow> w
      | Some pull \<Rightarrow>
          if pr_baseRef pull = rs_baseRef snapshot \<and> pr_headRef pull = rs_headRef snapshot
          then
            (let pull1 = (if baseSHA \<noteq> [] then pull\<lparr>pr_baseSHA := baseSHA\<rparr> else pull);
                 pull2 = (if headSHA \<noteq> [] then pull1\<lparr>pr_headSHA := headSHA\<rparr> else pull1)
             in w\<lparr>w_pulls := m_put (rs_key snapshot) pull2 (w_pulls w)\<rparr>)
          else w)"

fun refresh_all :: "'e sys \<Rightarrow> string \<Rightarrow> ref_snapshot list \<Rightarrow> world \<Rightarrow> 'e \<Rightarrow> world \<times> 'e" where
  "refresh_all sys gitDir [] w e = (w, e)"
| "refresh_all sys gitDir (snapshot # snapshots) w e =
     (let (baseSHA, e1) = resolveRef sys gitDir (rs_baseRef snapshot) e;
          (headSHA, e2) = resolveRef sys gitDir (rs_headRef snapshot) e1
      in refresh_all sys gitDir snapshots (store_snapshot snapshot baseSHA headSHA w) e2)"

definition refreshPullSnapshots :: "'e sys \<Rightarrow> repository \<Rightarrow> world \<Rightarrow> 'e \<Rightarrow> world \<times> 'e" where
  "refreshPullSnapshots sys repository w e =
     refresh_all sys (repo_gitDir repository) (pull_snapshots (repo_id repository) w) w e"

section \<open>Serving Git\<close>

text \<open>
  What a Git request gets back: an answer of the program itself, the CGI handler's calls passed
  through (fetches), or the buffered CGI answer replayed after the refs were recorded (pushes).
  \<open>GitPanic\<close> is the nil dereference of a missing receive lock.
\<close>

datatype git_reply =
    GitError response
  | GitStream cgi_result
  | GitBuffered "(string \<times> string) list" nat string
  | GitPanic

record git_grant =
  gg_token :: installation_token
  gg_repository :: repository
  gg_lock :: bool

definition bad_git_credentials :: response where
  "bad_git_credentials =
     with_header (''WWW-Authenticate'', ''Basic realm=\"GitHub\"'') (writeError 401 ''Bad credentials'')"

text \<open>The authentication and authorization of \<open>serveGit\<close>, up to the first use of the repository.\<close>

definition git_authorize :: "http_request \<Rightarrow> string list \<Rightarrow> string \<Rightarrow> world \<Rightarrow> response + git_grant" where
  "git_authorize request parts service w =
     (case rq_BasicAuth request of
        None \<Rightarrow> Inl bad_git_credentials
      | Some (username, rawToken) \<Rightarrow>
      if username \<noteq> ''x-access-token'' then Inl bad_git_credentials
      else
      (let repositoryID = m_get (w_repoNames w) (repoName (parts ! 0) (trim_suffix (parts ! 1) ''.git''))
       in case m_get (w_tokens w) rawToken of
            None \<Rightarrow> Inl (writeError 401 ''Bad credentials'')
          | Some token \<Rightarrow>
          if \<not> w_now w < tok_expiresAt token then Inl (writeError 401 ''Bad credentials'')
          else (case repositoryID of
            None \<Rightarrow> Inl (writeError 404 ''Not Found'')
          | Some i \<Rightarrow>
          if \<not> in_set (tok_repositoryIDs token) i then Inl (writeError 404 ''Not Found'')
          else if service = ''git-receive-pack'' \<and>
                  permissionRank (m_get_or [] (tok_permissions token) ''contents'') < permissionRank ''write''
          then Inl (writeError 403 ''Resource not accessible by integration'')
          else if service = ''git-upload-pack'' \<and>
                  permissionRank (m_get_or [] (tok_permissions token) ''contents'') < permissionRank ''read''
          then Inl (writeError 403 ''Resource not accessible by integration'')
          else Inr \<lparr>gg_token = token,
                    gg_repository = m_get_or zero_repository (w_repositories w) i,
                    gg_lock = (m_get (w_receiveLocks w) i \<noteq> None)\<rparr>)))"

definition git_root :: "world \<Rightarrow> string" where
  "git_root w = path_join [w_dataDir w, ''repositories'']"

definition git_cgi :: "http_request \<Rightarrow> string list \<Rightarrow> repository \<Rightarrow> world \<Rightarrow> cgi_request" where
  "git_cgi request parts repository w =
     \<lparr>cgi_backend = w_gitBackend w,
      cgi_dir = git_root w,
      cgi_env = [''GIT_PROJECT_ROOT='' @ git_root w, ''GIT_HTTP_EXPORT_ALL=1''],
      cgi_method = rq_Method request,
      cgi_path = ''/'' @ repo_owner repository @ ''/'' @ repo_name repository @ ''.git/'' @
                 join_with ''/'' (drop 2 parts),
      cgi_query = rq_RawQuery request,
      cgi_body = rq_Body request\<rparr>"

definition buffered :: "cgi_result \<Rightarrow> git_reply" where
  "buffered c =
     (case rb_flush ((rb_run (cgi_calls c) rb_new)\<lparr>rb_header := cgi_headers c\<rparr>) of
        (headers, st, body) \<Rightarrow> GitBuffered headers st body)"

text \<open>A push, from the taking of the receive lock to its release.\<close>

definition serve_push ::
    "'e sys \<Rightarrow> http_request \<Rightarrow> string list \<Rightarrow> git_grant \<Rightarrow> world \<Rightarrow> 'e \<Rightarrow> git_reply \<times> world \<times> 'e" where
  "serve_push sys request parts g w e =
     (let repository = gg_repository g in
      if \<not> gg_lock g then (GitPanic, w, e)
      else
      (let (r1, e1) = branchRefs sys (repo_gitDir repository) e
       in case r1 of
            Inl _ \<Rightarrow> (GitError (writeError 500 ''Unable to inspect repository refs''), w, e1)
          | Inr beforeRefs \<Rightarrow>
      (let (c, e2) = sys_cgi sys (git_cgi request parts repository w) e1;
           (r2, e3) = branchRefs sys (repo_gitDir repository) e2
       in case r2 of
            Inl err \<Rightarrow>
              (GitError (writeError 500 ''Unable to confirm repository refs''),
               recordObservationError (repo_id repository) ''post-receive ref snapshot'' err w, e3)
          | Inr afterRefs \<Rightarrow>
              (let (w1, e4) = recordRefChanges sys repository (gg_token g) beforeRefs afterRefs w e3;
                   (w2, e5) = refreshPullSnapshots sys repository w1 e4
               in (buffered c, w2, e5)))))"

definition serveGit ::
    "'e sys \<Rightarrow> http_request \<Rightarrow> string list \<Rightarrow> world \<Rightarrow> 'e \<Rightarrow> git_reply \<times> world \<times> 'e" where
  "serveGit sys request parts w e =
     (let (service, methodOK) = gitService request parts in
      if \<not> methodOK then (let (r, w') = handleUnsupported request w in (GitError r, w', e))
      else
      (case git_authorize request parts service w of
         Inl r \<Rightarrow> (GitError r, w, e)
       | Inr g \<Rightarrow>
           if rq_Method request = ''POST'' \<and> service = ''git-receive-pack''
           then serve_push sys request parts g w e
           else (let (c, e1) = sys_cgi sys (git_cgi request parts (gg_repository g) w) e
                 in (GitStream c, w, e1))))"

end
