(* ===== verification/Dtu_Delivery.thy ===== *)
theory Dtu_Delivery
  imports Dtu_Events Dtu_Control
begin

text \<open>
  Webhook delivery, semantic duplication and the scripted workflow transitions of
  \<open>dtu/delivery.go\<close>. \<open>deliverEvent\<close> holds the lock twice, before and after the request to the
  receiver, so it is split at those points: \<open>deliver_read\<close>, the request, \<open>deliver_record\<close>.
\<close>

section \<open>Signatures\<close>

definition webhookSignature :: "string \<Rightarrow> string \<Rightarrow> string" where
  "webhookSignature secret body =
     ''sha256='' @ hex_encode (hmac_sha256 (map byte secret) (map byte body))"

lemma length_webhookSignature: "length (webhookSignature secret body) = 71"
  by (simp add: webhookSignature_def)

section \<open>Delivery\<close>

definition findPendingEvent :: "world \<Rightarrow> string \<Rightarrow> pending_event option" where
  "findPendingEvent w g = find (\<lambda>event. ev_GUID event = g) (w_pendingEvents w)"

text \<open>What the first critical section hands to the rest of the handler.\<close>

record delivery_plan =
  dp_event :: pending_event
  dp_app :: app
  dp_now :: gotime

definition deliver_read :: "delivery_input \<Rightarrow> world \<Rightarrow> response + delivery_plan" where
  "deliver_read input w =
     (case findPendingEvent w (di_GUID input) of
        None \<Rightarrow> Inl (writeControlError 404 ''unknown event'')
      | Some event \<Rightarrow>
          (let configuredApp = m_get_or zero_app (w_apps w) (ev_AppID event)
           in if app_webhookURL configuredApp = [] \<or> app_webhookSecret configuredApp = []
              then Inl (writeControlError 409 ''webhook destination is not configured'')
              else Inr \<lparr>dp_event = event, dp_app = configuredApp, dp_now = w_now w\<rparr>))"

definition outbound_request :: "delivery_input \<Rightarrow> delivery_plan \<Rightarrow> http_post" where
  "outbound_request input p =
     (let event = dp_event p;
          secret = app_webhookSecret (dp_app p) @ (if di_InvalidSignature input then ''-invalid'' else []);
          signature = webhookSignature secret (ev_Body event)
      in \<lparr>hp_url = app_webhookURL (dp_app p),
          hp_headers = [(''Content-Type'', ''application/json''),
                        (''X-GitHub-Delivery'', ev_GUID event),
                        (''X-GitHub-Event'', ev_Event event),
                        (''X-Hub-Signature-256'', signature)],
          hp_body = ev_Body event\<rparr>)"

definition delivery_result :: "delivery_input \<Rightarrow> delivery_plan \<Rightarrow> string + int \<Rightarrow> delivery_attempt" where
  "delivery_result input p res =
     (let attempt = \<lparr>da_GUID = ev_GUID (dp_event p), da_Destination = app_webhookURL (dp_app p),
            da_StatusCode = 0, da_InvalidSignature = di_InvalidSignature input,
            da_AttemptedAt = dp_now p, da_Error = []\<rparr>
      in case res of
           Inl err \<Rightarrow> attempt\<lparr>da_Error := err\<rparr>
         | Inr code \<Rightarrow> attempt\<lparr>da_StatusCode := code\<rparr>)"

definition deliver_record :: "delivery_attempt \<Rightarrow> world \<Rightarrow> world" where
  "deliver_record attempt w =
     bump (w\<lparr>w_deliveryAttempts := w_deliveryAttempts w @ [attempt]\<rparr>)"

definition delivery_response :: "string + int \<Rightarrow> delivery_attempt \<Rightarrow> response" where
  "delivery_response res attempt =
     (case res of
        Inl _ \<Rightarrow> writeControlError 502 ''webhook delivery failed''
      | Inr _ \<Rightarrow>
          if da_StatusCode attempt < 200 \<or> da_StatusCode attempt \<ge> 300
          then writeControlError 502 ''webhook receiver rejected delivery''
          else writeJSON 200 (PAttempt attempt))"

definition deliverEvent ::
    "'e sys \<Rightarrow> delivery_input control_body \<Rightarrow> world \<Rightarrow> 'e \<Rightarrow> response \<times> world \<times> 'e" where
  "deliverEvent sys body w e =
     (case decodeControl body of Inl r \<Rightarrow> (r, w, e) | Inr input \<Rightarrow>
      (case deliver_read input w of Inl r \<Rightarrow> (r, w, e) | Inr p \<Rightarrow>
       if \<not> sys_valid_request_url sys (app_webhookURL (dp_app p))
       then (writeControlError 400 ''invalid webhook destination'', w, e)
       else
       (let (res, e') = sys_post sys (outbound_request input p) e;
            attempt = delivery_result input p res
        in (delivery_response res attempt, deliver_record attempt w, e'))))"

definition duplicateEvent :: "duplicate_event_input control_body \<Rightarrow> world \<Rightarrow> response \<times> world" where
  "duplicateEvent body w =
     (case decodeControl body of Inl r \<Rightarrow> (r, w) | Inr input \<Rightarrow>
      (case findPendingEvent w (dei_GUID input) of
         None \<Rightarrow> (writeControlError 404 ''unknown event'', w)
       | Some source \<Rightarrow>
           (let n = w_nextEventID w + 1;
                duplicate = source\<lparr>ev_GUID := guid n, ev_CreatedAt := w_now w\<rparr>
            in (writeJSON 201 (PEvent duplicate),
                bump (w\<lparr>w_nextEventID := n,
                        w_pendingEvents := w_pendingEvents w @ [duplicate]\<rparr>)))))"

section \<open>Scripted workflow transitions\<close>

text \<open>The index of the first entry that satisfies a test, as the search loops compute it.\<close>

fun index_of :: "('a \<Rightarrow> bool) \<Rightarrow> 'a list \<Rightarrow> nat option" where
  "index_of P [] = None"
| "index_of P (x # xs) = (if P x then Some 0 else map_option Suc (index_of P xs))"

lemma index_of_Some:
  "index_of P xs = Some i \<longleftrightarrow> i < length xs \<and> P (xs ! i) \<and> (\<forall>j < i. \<not> P (xs ! j))"
proof (induction xs arbitrary: i)
  case (Cons x xs)
  show ?case
    by (cases i) (auto simp: Cons.IH All_less_Suc2)
qed simp

lemma index_of_None: "index_of P xs = None \<longleftrightarrow> (\<forall>x \<in> set xs. \<not> P x)"
  by (induction xs) auto

definition transition_action :: "string \<Rightarrow> workflow_transition_input \<Rightarrow> string option" where
  "transition_action status input =
     (if status = ''queued'' \<and> wti_Status input = ''in_progress'' \<and> wti_Conclusion input = []
      then Some ''in_progress''
      else if (status = ''queued'' \<or> status = ''in_progress'') \<and> wti_Status input = ''completed'' \<and>
              wti_Conclusion input \<noteq> []
      then Some ''completed''
      else None)"

definition transitionWorkflowRun ::
    "workflow_transition_input control_body \<Rightarrow> world \<Rightarrow> response \<times> world" where
  "transitionWorkflowRun body w =
     (case decodeControl body of Inl r \<Rightarrow> (r, w) | Inr input \<Rightarrow>
      (case index_of (\<lambda>run. run_ID run = wti_RunID input) (w_workflowRuns w) of
         None \<Rightarrow> (writeControlError 404 ''unknown workflow run'', w)
       | Some index \<Rightarrow>
       if m_get (w_activeRuns w) (wti_RunID input) \<noteq> None
       then (writeControlError 409 ''workflow run execution is claimed'', w)
       else
       (let run = w_workflowRuns w ! index
        in case transition_action (run_Status run) input of
             None \<Rightarrow> (writeControlError 409 ''invalid workflow transition'', w)
           | Some action \<Rightarrow>
               (let run' = run\<lparr>run_Status := wti_Status input, run_Conclusion := wti_Conclusion input\<rparr>;
                    w1 = w\<lparr>w_workflowRuns := (w_workflowRuns w)[index := run']\<rparr>;
                    repository = m_get_or zero_repository (w_repositories w1) (run_RepositoryID run')
                in (writeJSON 200 (PRun run'), bump (appendWorkflowEvent repository run' action w1))))))"

end
