(* ===== verification/Dtu_Execution.thy ===== *)
theory Dtu_Execution
  imports Dtu_Delivery
begin

text \<open>
  Workflow execution of \<open>dtu/execution.go\<close>. \<open>executeWorkflowRun\<close> takes the world's lock three times:
  to claim a queued run, to start the runner (or to drop the claim), and to record the result; a
  failed preparation releases the claim in the deferred function. Between these sections other
  handlers run, so each is one definition, and \<open>executeWorkflowRun\<close> is their composition when
  nothing else runs.
\<close>

section \<open>Pinned tools\<close>

definition pinnedActVersion :: string where
  "pinnedActVersion = ''0.2.89''"

definition pinnedRunnerImage :: string where
  "pinnedRunnerImage = ''catthehacker/ubuntu:act-22.04''"

definition pinnedRunnerDigest :: string where
  "pinnedRunnerDigest =
     ''catthehacker/ubuntu@sha256:93b433d1c736e9c4361edf3bd4ea47434fa6323c4e70fdf34f826280584bab2d''"

definition str_contains :: "string \<Rightarrow> string \<Rightarrow> bool" where
  "str_contains s sub \<longleftrightarrow> list_ex (\<lambda>i. has_prefix (drop i s) sub) [0..<Suc (length s)]"

text \<open>
  \<open>verifyRunnerImage\<close>. It reads the digests that \<open>docker\<close> prints as a JSON array.
\<close>

definition verifyRunnerImage ::
    "'e sys \<Rightarrow> 'e \<Rightarrow> (string + string) \<times> 'e" where
  "verifyRunnerImage sys e =
     (let (r1, e1) = sys_exec sys [] ''docker''
            [''image'', ''inspect'', pinnedRunnerImage, ''--format'', ''{{json .RepoDigests}}''] e
      in if ex_err r1 \<noteq> None then (Inl ''pinned runner image is not installed'', e1)
         else
         (case unmarshal_strings (trim_space (ex_stdout r1)) of
            None \<Rightarrow> (Inl ''inspect pinned runner image digest'', e1)
          | Some digests \<Rightarrow>
              if \<not> list_ex (\<lambda>digest. digest = pinnedRunnerDigest) digests
              then (Inl ''runner image does not match the pinned proof digest'', e1)
              else
              (let (r2, e2) = sys_exec sys [] ''docker''
                     [''image'', ''inspect'', pinnedRunnerImage, ''--format'', ''{{.Architecture}}''] e1
               in if ex_err r2 \<noteq> None then (Inl ''inspect pinned runner image architecture'', e2)
                  else
                  (let architecture = trim_space (ex_stdout r2)
                   in if architecture \<noteq> ''amd64'' \<and> architecture \<noteq> ''arm64''
                      then (Inl ''runner image architecture is unsupported'', e2)
                      else (Inr architecture, e2)))))"

definition prepareDockerConfig :: "'e sys \<Rightarrow> string \<Rightarrow> 'e \<Rightarrow> (string + string) \<times> 'e" where
  "prepareDockerConfig sys dataDir e =
     (let dir = path_join [dataDir, ''docker-config''];
          (err1, e1) = sys_mkdir_all sys dir e
      in case err1 of
           Some err \<Rightarrow> (Inl err, e1)
         | None \<Rightarrow>
             (let (err2, e2) = sys_write_file sys (path_join [dir, ''config.json'']) (''{}'' @ [CHR 0x0A]) e1
              in case err2 of Some err \<Rightarrow> (Inl err, e2) | None \<Rightarrow> (Inr dir, e2)))"

text \<open>\<open>runnerInstanceLabel\<close>: the first eight bytes of the digest of the data directory, in hex.\<close>

definition runnerInstanceLabel :: "string \<Rightarrow> string" where
  "runnerInstanceLabel dataDir = hex_encode (take 8 (sha256 (map byte dataDir)))"

text \<open>\<open>cleanupRunContainers\<close>: list the containers of the run, then remove them one by one.\<close>

fun remove_containers :: "'e sys \<Rightarrow> string list \<Rightarrow> 'e \<Rightarrow> 'e" where
  "remove_containers sys [] e = e"
| "remove_containers sys (c # cs) e =
     remove_containers sys cs (snd (sys_exec sys [] ''docker'' [''rm'', ''-f'', c] e))"

definition cleanupRunContainers :: "'e sys \<Rightarrow> string \<Rightarrow> int64 \<Rightarrow> 'e \<Rightarrow> 'e" where
  "cleanupRunContainers sys dataDir runID e =
     (let (r, e1) = sys_exec sys [] ''docker''
            [''ps'', ''-aq'',
             ''--filter'', ''label=dtu.instance='' @ runnerInstanceLabel dataDir,
             ''--filter'', ''label=dtu.run_id='' @ fmt_int64 runID] e
      in case ex_err r of
           Some _ \<Rightarrow> e1
         | None \<Rightarrow> remove_containers sys (str_fields (ex_stdout r)) e1)"

section \<open>Claiming\<close>

definition workflowRunByID :: "world \<Rightarrow> int64 \<Rightarrow> (workflow_run \<times> nat) option" where
  "workflowRunByID w runID =
     map_option (\<lambda>i. (w_workflowRuns w ! i, i))
       (index_of (\<lambda>run. run_ID run = runID) (w_workflowRuns w))"

text \<open>What a claim hands to the rest of the handler.\<close>

record claim =
  cl_run :: workflow_run
  cl_index :: nat
  cl_repository :: repository
  cl_workflow :: workflow_config

definition execute_claim :: "int64 \<Rightarrow> world \<Rightarrow> (response + claim) \<times> world" where
  "execute_claim runID w =
     (case workflowRunByID w runID of
        None \<Rightarrow> (Inl (writeControlError 404 ''unknown workflow run''), w)
      | Some (run, index) \<Rightarrow>
      if run_Status run \<noteq> ''queued''
      then (Inl (writeControlError 409 ''workflow run is not queued''), w)
      else if m_get (w_activeRuns w) (run_ID run) \<noteq> None
      then (Inl (writeControlError 409 ''workflow run execution is already claimed''), w)
      else
      (case (m_get (w_repositories w) (run_RepositoryID run), m_get (w_workflows w) (run_RepositoryID run)) of
         (Some repository, Some workflow) \<Rightarrow>
           (Inr \<lparr>cl_run = run, cl_index = index, cl_repository = repository, cl_workflow = workflow\<rparr>,
            w\<lparr>w_activeRuns := m_put (run_ID run) zero_active_run (w_activeRuns w)\<rparr>)
       | _ \<Rightarrow> (Inl (writeControlError 409 ''workflow run configuration is unavailable''), w)))"

text \<open>The deferred function, when the handler returns with the claim still held.\<close>

definition execute_release :: "int64 \<Rightarrow> world \<Rightarrow> world" where
  "execute_release runID w = w\<lparr>w_activeRuns := m_del runID (w_activeRuns w)\<rparr>"

section \<open>Preparing\<close>

text \<open>The runner command that the preparation builds: program, directory, arguments, environment.\<close>

record runner_command =
  rc_path :: string
  rc_dir :: string
  rc_args :: "string list"
  rc_env :: "string list"

definition runner_args :: "string \<Rightarrow> claim \<Rightarrow> string \<Rightarrow> string list" where
  "runner_args dataDir c architecture =
     [''push'',
      ''--workflows'', wf_path (cl_workflow c),
      ''--platform'', ''ubuntu-latest='' @ pinnedRunnerImage,
      ''--pull=false'',
      ''--bind'',
      ''--container-options'',
      ''--label=dtu.run_id='' @ fmt_int64 (run_ID (cl_run c)) @ '' --label=dtu.instance='' @
        runnerInstanceLabel dataDir,
      ''--container-architecture'', ''linux/'' @ architecture,
      ''--rm'']"

definition execute_prepare ::
    "'e sys \<Rightarrow> string \<Rightarrow> claim \<Rightarrow> 'e \<Rightarrow> (response + runner_command) \<times> 'e" where
  "execute_prepare sys dataDir c e =
     (let (act, e1) = sys_look_path sys ''act'' e in
      case act of Inl _ \<Rightarrow> (Inl (writeControlError 503 ''act is not installed''), e1) | Inr actPath \<Rightarrow>
     (let (version, e2) = sys_exec sys [] actPath [''--version''] e1 in
      if ex_err version \<noteq> None \<or> \<not> str_contains (ex_stdout version) pinnedActVersion
      then (Inl (writeControlError 503 ''act version does not match the pinned proof version''), e2)
      else
     (let (image, e3) = verifyRunnerImage sys e2 in
      case image of Inl err \<Rightarrow> (Inl (writeControlError 503 err), e3) | Inr runnerArchitecture \<Rightarrow>
     (let (config, e4) = prepareDockerConfig sys dataDir e3 in
      case config of
        Inl _ \<Rightarrow> (Inl (writeControlError 500 ''prepare isolated Docker configuration''), e4)
      | Inr dockerConfigDir \<Rightarrow>
     (let checkoutDir = path_join [dataDir, ''workflow-runs'', fmt_int64 (run_ID (cl_run c))];
          (err5, e5) = sys_remove_all sys checkoutDir e4 in
      if err5 \<noteq> None then (Inl (writeControlError 500 ''prepare workflow checkout''), e5)
      else
     (let (err6, e6) = sys_mkdir_all sys (path_join [dataDir, ''workflow-runs'']) e5 in
      if err6 \<noteq> None then (Inl (writeControlError 500 ''prepare workflow directory''), e6)
      else
     (let (err7, e7) = runGit sys [] [''clone'', ''--no-checkout'', repo_gitDir (cl_repository c), checkoutDir] e6 in
      if err7 \<noteq> None then (Inl (writeControlError 500 ''clone workflow checkout''), e7)
      else
     (let (err8, e8) = runGit sys checkoutDir [''checkout'', ''--detach'', run_HeadSHA (cl_run c)] e7 in
      if err8 \<noteq> None then (Inl (writeControlError 500 ''checkout workflow SHA''), e8)
      else
     (let (got, e9) = resolveCheckoutHEAD sys checkoutDir e8 in
      if got \<noteq> run_HeadSHA (cl_run c)
      then (Inl (writeControlError 500 ''workflow checkout SHA mismatch''), e9)
      else
        (Inr \<lparr>rc_path = actPath, rc_dir = checkoutDir,
              rc_args = runner_args dataDir c runnerArchitecture,
              rc_env = [''DOCKER_CONFIG='' @ dockerConfigDir]\<rparr>, e9))))))))))"

definition log_header :: "claim \<Rightarrow> string" where
  "log_header c =
     ''dtu: run_id='' @ fmt_int64 (run_ID (cl_run c)) @ '' head_sha='' @ run_HeadSHA (cl_run c) @
     '' runner='' @ pinnedRunnerImage @ '' digest='' @ pinnedRunnerDigest @ [CHR 0x0A]"

section \<open>Starting and finishing\<close>

text \<open>
  The second critical section: the run may no longer be queued, its cancellation may have been
  requested, the process may not start; otherwise it is in progress with a process to wait for.
  An index outside the list of runs is Go's panic.
\<close>

datatype start_result =
    StartReply response
  | Started nat
  | StartPanic

definition execute_start ::
    "'e sys \<Rightarrow> claim \<Rightarrow> runner_command \<Rightarrow> world \<Rightarrow> 'e \<Rightarrow> start_result \<times> world \<times> 'e" where
  "execute_start sys c rc w e =
     (let index = cl_index c in
      if \<not> index < length (w_workflowRuns w) then (StartPanic, w, e)
      else
      (let run = w_workflowRuns w ! index in
       if run_Status run \<noteq> ''queued''
       then (StartReply (writeControlError 409 ''workflow run is no longer queued''),
             execute_release (run_ID run) w, e)
       else if run_CancellationRequested run then
         (let w1 = execute_release (run_ID run) w;
              run' = run\<lparr>run_Status := ''completed'', run_Conclusion := ''cancelled''\<rparr>;
              w2 = w1\<lparr>w_workflowRuns := (w_workflowRuns w1)[index := run']\<rparr>
          in (StartReply (writeJSON 200 (PRun run')),
              bump (appendWorkflowEvent (cl_repository c) run' ''completed'' w2), e))
       else
       (case sys_start sys (rc_dir rc) (rc_path rc) (rc_args rc) (rc_env rc) e of
          (Inl _, e') \<Rightarrow>
            (StartReply (writeControlError 500 ''start workflow runner''), execute_release (run_ID run) w, e')
        | (Inr pid, e') \<Rightarrow>
            (let run' = run\<lparr>run_Status := ''in_progress''\<rparr>;
                 w1 = w\<lparr>w_workflowRuns := (w_workflowRuns w)[index := run']\<rparr>;
                 w2 = appendWorkflowEvent (cl_repository c) run' ''in_progress'' w1;
                 w3 = w2\<lparr>w_activeRuns := m_put (run_ID run)
                        \<lparr>ar_command = Some \<lparr>cmd_process = Some pid\<rparr>, ar_cancellationSignalled = False\<rparr>
                        (w_activeRuns w2)\<rparr>
             in (Started pid, bump w3, e')))))"

definition finish_conclusion :: "active_run \<Rightarrow> string option \<Rightarrow> string" where
  "finish_conclusion active waitErr =
     (if ar_cancellationSignalled active \<and> waitErr \<noteq> None then ''cancelled''
      else if waitErr = None then ''success''
      else ''failure'')"

text \<open>The third critical section; it returns the finished run and whether to clean up containers.\<close>

definition execute_finish ::
    "claim \<Rightarrow> string option \<Rightarrow> string \<Rightarrow> world \<Rightarrow> (workflow_run \<times> bool) option \<times> world" where
  "execute_finish c waitErr logs w =
     (let index = cl_index c in
      if \<not> index < length (w_workflowRuns w) then (None, w)
      else
      (let run = w_workflowRuns w ! index;
           active = m_get_or zero_active_run (w_activeRuns w) (run_ID run);
           w1 = execute_release (run_ID run) w;
           run' = run\<lparr>run_Status := ''completed'', run_Logs := logs,
                      run_Conclusion := finish_conclusion active waitErr\<rparr>;
           w2 = w1\<lparr>w_workflowRuns := (w_workflowRuns w1)[index := run']\<rparr>
       in (Some (run', ar_cancellationSignalled active),
           bump (appendWorkflowEvent (cl_repository c) run' ''completed'' w2))))"

section \<open>The handler\<close>

text \<open>\<open>None\<close> is a panic of the handler.\<close>

definition executeWorkflowRun ::
    "'e sys \<Rightarrow> execute_workflow_input control_body \<Rightarrow> world \<Rightarrow> 'e
     \<Rightarrow> response option \<times> world \<times> 'e" where
  "executeWorkflowRun sys body w e =
     (case decodeControl body of Inl r \<Rightarrow> (Some r, w, e) | Inr input \<Rightarrow>
      (case execute_claim (ewi_RunID input) w of
         (Inl r, w1) \<Rightarrow> (Some r, w1, e)
       | (Inr c, w1) \<Rightarrow>
      (case execute_prepare sys (w_dataDir w1) c e of
         (Inl r, e1) \<Rightarrow> (Some r, execute_release (run_ID (cl_run c)) w1, e1)
       | (Inr rc, e1) \<Rightarrow>
      (case execute_start sys c rc w1 e1 of
         (StartPanic, w2, e2) \<Rightarrow> (None, w2, e2)
       | (StartReply r, w2, e2) \<Rightarrow> (Some r, w2, e2)
       | (Started pid, w2, e2) \<Rightarrow>
      (case sys_wait sys pid e2 of
         ((waitErr, output), e3) \<Rightarrow>
      (case execute_finish c waitErr (log_header c @ output) w2 of
         (None, w3) \<Rightarrow> (None, w3, e3)
       | (Some (run, signalled), w3) \<Rightarrow>
           (Some (writeJSON 200 (PRun run)), w3,
            if signalled then cleanupRunContainers sys (w_dataDir w3) (run_ID run) e3 else e3)))))))"

end
