(* ===== verification/Dtu_Public.thy ===== *)
theory Dtu_Public
  imports Dtu_Git Dtu_Execution
begin

text \<open>
  The public GitHub surface of \<open>dtu/public.go\<close>: \<open>CancelWorkflowRunByID\<close>, the pull request read
  \<open>Get\<close>, and \<open>publicHandler\<close>, which routes Git requests to \<open>serveGit\<close>, rejects malformed paths and
  token bodies, authenticates the credential and wraps the answer of the third-party API router.
\<close>

section \<open>Cancelling a run\<close>

definition CancelWorkflowRunByID ::
    "'e sys \<Rightarrow> installation_token option \<Rightarrow> string \<Rightarrow> string \<Rightarrow> int64 \<Rightarrow> world \<Rightarrow> 'e
     \<Rightarrow> (api_error + api_response) \<times> world \<times> 'e" where
  "CancelWorkflowRunByID sys auth owner name runID w e =
     (case auth of
        None \<Rightarrow> (Inl (githubAPIError 401 ''Bad credentials''), w, e)
      | Some token \<Rightarrow>
      (case m_get (w_repoNames w) (repoName owner name) of
         None \<Rightarrow> (Inl (githubAPIError 404 ''Not Found''), w, e)
       | Some repositoryID \<Rightarrow>
       if \<not> in_set (tok_repositoryIDs token) repositoryID \<or>
          permissionRank (m_get_or [] (tok_permissions token) ''actions'') < permissionRank ''write''
       then (Inl (githubAPIError 404 ''Not Found''), w, e)
       else
       (case index_of (\<lambda>run. run_ID run = runID \<and> run_RepositoryID run = repositoryID) (w_workflowRuns w) of
          None \<Rightarrow> (Inl (githubAPIError 404 ''Not Found''), w, e)
        | Some index \<Rightarrow>
        if run_Status (w_workflowRuns w ! index) = ''completed''
        then (Inl (githubAPIError 409 ''Cannot cancel a completed workflow run''), w, e)
        else
        (let run = (w_workflowRuns w ! index)\<lparr>run_CancellationRequested := True\<rparr>;
             w1 = w\<lparr>w_workflowRuns := (w_workflowRuns w)[index := run]\<rparr>;
             active = m_get_or zero_active_run (w_activeRuns w1) runID;
             (w2, e2) =
               (case process_of active of
                  None \<Rightarrow> (w1, e)
                | Some pid \<Rightarrow>
                    (let (err, e') = sys_interrupt sys pid e
                     in if err = None
                        then (w1\<lparr>w_activeRuns :=
                                m_put runID (active\<lparr>ar_cancellationSignalled := True\<rparr>) (w_activeRuns w1)\<rparr>, e')
                        else (w1, e')))
         in (Inr (githubAPIResponse 202), bump w2, e2)))))"

section \<open>Reading a pull request\<close>

record pull_payload =
  pp_Number :: int64
  pp_State :: string
  pp_Draft :: bool
  pp_BaseRef :: string
  pp_BaseSHA :: string
  pp_HeadRef :: string
  pp_HeadSHA :: string
  pp_Repo :: repository_payload

text \<open>The critical section: the pull request and its repository, if the token may read them.\<close>

definition pull_lookup ::
    "installation_token option \<Rightarrow> string \<Rightarrow> string \<Rightarrow> int64 \<Rightarrow> world \<Rightarrow> api_error + repository \<times> pull_request" where
  "pull_lookup auth owner name number w =
     (case auth of
        None \<Rightarrow> Inl (githubAPIError 401 ''Bad credentials'')
      | Some token \<Rightarrow>
      (case m_get (w_repoNames w) (repoName owner name) of
         None \<Rightarrow> Inl (githubAPIError 404 ''Not Found'')
       | Some repositoryID \<Rightarrow>
       if \<not> in_set (tok_repositoryIDs token) repositoryID \<or> \<not> canReadPulls (tok_permissions token)
       then Inl (githubAPIError 404 ''Not Found'')
       else
       (case m_get (w_pulls w) \<lparr>pk_repositoryID = repositoryID, pk_number = number\<rparr> of
          None \<Rightarrow> Inl (githubAPIError 404 ''Not Found'')
        | Some pull \<Rightarrow> Inr (m_get_or zero_repository (w_repositories w) repositoryID, pull))))"

definition or_else :: "string \<Rightarrow> string \<Rightarrow> string" where
  "or_else s d = (if s = [] then d else s)"

definition pull_value :: "repository \<Rightarrow> pull_request \<Rightarrow> string \<Rightarrow> string \<Rightarrow> pull_payload" where
  "pull_value repository pull baseSHA headSHA =
     \<lparr>pp_Number = pr_number pull, pp_State = pr_state pull, pp_Draft = pr_draft pull,
      pp_BaseRef = pr_baseRef pull, pp_BaseSHA = baseSHA,
      pp_HeadRef = pr_headRef pull, pp_HeadSHA = headSHA,
      pp_Repo = repository_value repository\<rparr>"

definition PullRequestsGet ::
    "'e sys \<Rightarrow> installation_token option \<Rightarrow> string \<Rightarrow> string \<Rightarrow> int64 \<Rightarrow> world \<Rightarrow> 'e
     \<Rightarrow> (api_error + pull_payload \<times> api_response) \<times> world \<times> 'e" where
  "PullRequestsGet sys auth owner name number w e =
     (case pull_lookup auth owner name number w of
        Inl err \<Rightarrow> (Inl err, w, e)
      | Inr (repository, pull) \<Rightarrow>
          (let (base0, e1) = resolveRef sys (repo_gitDir repository) (pr_baseRef pull) e;
               baseSHA = or_else base0 (pr_baseSHA pull);
               (head0, e2) = resolveRef sys (repo_gitDir repository) (pr_headRef pull) e1;
               headSHA = or_else head0 (pr_headSHA pull)
           in (Inr (pull_value repository pull baseSHA headSHA, githubAPIResponse 200), w, e2)))"

section \<open>Paths\<close>

definition restPathParts :: "string \<Rightarrow> string list" where
  "restPathParts path0 =
     (let path = (if path0 = ''/api/v3'' then ''/''
                  else if has_prefix path0 ''/api/v3/'' then trim_prefix path0 ''/api/v3''
                  else path0)
      in split_at CHR ''/'' (trim_prefix path ''/''))"

definition is_token_path :: "string list \<Rightarrow> bool" where
  "is_token_path parts \<longleftrightarrow>
     length parts = 4 \<and> parts ! 0 = ''app'' \<and> parts ! 1 = ''installations'' \<and> parts ! 3 = ''access_tokens''"

definition isInstallationTokenRequest :: "http_request \<Rightarrow> bool" where
  "isInstallationTokenRequest request \<longleftrightarrow>
     (if rq_Method request \<noteq> ''POST'' then False else is_token_path (restPathParts (rq_Path request)))"

definition hasMalformedNumericPath :: "http_request \<Rightarrow> bool" where
  "hasMalformedNumericPath request \<longleftrightarrow>
     (let parts = restPathParts (rq_Path request) in
      if rq_Method request = ''POST'' \<and> is_token_path parts
      then parse_int64 (parts ! 2) = None
      else if rq_Method request = ''GET'' \<and> length parts = 5 \<and> parts ! 0 = ''repos'' \<and> parts ! 3 = ''pulls''
      then parse_int64 (parts ! 4) = None
      else if rq_Method request = ''POST'' \<and> length parts = 7 \<and> parts ! 0 = ''repos'' \<and>
              parts ! 3 = ''actions'' \<and> parts ! 4 = ''runs'' \<and> parts ! 6 = ''cancel''
      then parse_int64 (parts ! 5) = None
      else False)"

section \<open>The public handler\<close>

text \<open>
  \<open>validateInstallationTokenBody\<close>: an empty body is fine; otherwise the body is one JSON value that fits
  the third-party type \<open>InstallationTokenOptions\<close>. Whether a value fits that type, unknown fields refused,
  is a parameter.
\<close>

definition validateInstallationTokenBody :: "(jvalue \<Rightarrow> bool) \<Rightarrow> string \<Rightarrow> string option" where
  "validateInstallationTokenBody fits body =
     (if length body > 2 ^ 20 then Some ''request body exceeds limit''
      else if skip_ws body = [] then None
      else (case json_value body of
              None \<Rightarrow> Some ''invalid JSON''
            | Some (v, rest) \<Rightarrow>
                if \<not> fits v then Some ''invalid JSON''
                else if skip_ws rest \<noteq> [] then Some ''request contains multiple JSON values''
                else None))"

text \<open>
  The not-found callback that \<open>New\<close> is given: it raises the flag in the context of the request and logs the
  request. The third-party router is a function of that callback, of the request and the token in its context; it
  may call the callback and the services, and returns the buffer that it wrote. Requests that it hands on are
  taken to keep the context.
\<close>

definition notFoundCallback :: "http_request \<Rightarrow> world \<times> bool \<Rightarrow> world \<times> bool" where
  "notFoundCallback request x = (recordUnsupported request (fst x), True)"

record 'e api =
  api_serve :: "(http_request \<Rightarrow> world \<times> bool \<Rightarrow> world \<times> bool) \<Rightarrow> http_request \<Rightarrow> installation_token option \<Rightarrow>
    world \<times> bool \<Rightarrow> 'e \<Rightarrow> response_buffer \<times> (world \<times> bool) \<times> 'e"
  api_options_fit :: "jvalue \<Rightarrow> bool"

datatype public_reply =
    PubGit git_reply
  | PubError response
  | PubBuffer "(string \<times> string list) list" nat string

definition fix_content_type :: "(string \<times> string list) list \<Rightarrow> (string \<times> string list) list" where
  "fix_content_type hs =
     map (\<lambda>(k, vs). if k = ''Content-Type'' \<and> vs \<noteq> [] \<and> hd vs = ''application/json''
                     then (k, [''application/json; charset=utf-8'']) else (k, vs)) hs"

definition finish_buffer :: "response_buffer \<Rightarrow> public_reply" where
  "finish_buffer b =
     (let plain = PubBuffer (fix_content_type (rb_header b))
                    (if rb_status b = 0 then 200 else rb_status b) (rb_body b)
      in if rb_status b \<ge> 400
         then (case unmarshal_message (rb_body b) of
                 Some m \<Rightarrow> if m \<noteq> [] then PubError (writeError (rb_status b) m) else plain
               | None \<Rightarrow> plain)
         else plain)"

text \<open>The token that the wrapper puts in the request context.\<close>

definition context_token :: "http_request \<Rightarrow> world \<Rightarrow> installation_token option" where
  "context_token request w =
     (case authorizationCredential (rq_Authorization request) of
        None \<Rightarrow> None
      | Some raw \<Rightarrow> authenticateInstallationToken raw w)"

definition publicHandler ::
    "'e sys \<Rightarrow> 'e api \<Rightarrow> http_request \<Rightarrow> world \<Rightarrow> 'e \<Rightarrow> public_reply \<times> world \<times> 'e" where
  "publicHandler sys api request w e =
     (let parts = path_parts request in
      if isGitPath parts
      then (let (r, w', e') = serveGit sys request parts w e in (PubGit r, w', e'))
      else if hasMalformedNumericPath request
      then (PubError (writeError 404 ''Not Found''), w, e)
      else if isInstallationTokenRequest request \<and>
              validateInstallationTokenBody (api_options_fit api) (rq_Body request) \<noteq> None
      then (PubError (writeError 422 ''Validation Failed''), w, e)
      else
      (case api_serve api notFoundCallback request (context_token request w) (w, False) e of
         (b, (w', unsupported), e') \<Rightarrow>
           if unsupported then (PubError (unsupported_response request), w', e') else (finish_buffer b, w', e')))"

end
