(* ===== verification/Dtu_Invariant.thy ===== *)
theory Dtu_Invariant
  imports Dtu_Public
begin

text \<open>
  The well-formedness invariant of the world and its preservation by every critical section of
  the handlers. The invariant says how the tables refer to each other: installations to Apps,
  repositories to installations, names, locks and directories, tokens to the scope of their
  installation, runs and events to their counters, and execution claims to unfinished runs.
\<close>

section \<open>The invariant\<close>

definition apps_ok :: "world \<Rightarrow> bool" where
  "apps_ok w \<longleftrightarrow> (\<forall>k a. m_get (w_apps w) k = Some a \<longrightarrow> app_id a = k \<and> 0 < sint k)"

definition perms_ok :: "(string, string) gomap \<Rightarrow> bool" where
  "perms_ok m \<longleftrightarrow> (\<forall>p l. m_get m p = Some l \<longrightarrow> p \<noteq> [] \<and> permissionRank l \<noteq> 0)"

definition installs_ok :: "world \<Rightarrow> bool" where
  "installs_ok w \<longleftrightarrow>
     (\<forall>k i. m_get (w_installs w) k = Some i \<longrightarrow>
        inst_id i = k \<and> 0 < sint k \<and> m_get (w_apps w) (inst_appID i) \<noteq> None \<and>
        perms_ok (inst_permissions i) \<and>
        (\<forall>j. in_set (inst_repositoryIDs i) j \<longrightarrow>
           (\<exists>r. m_get (w_repositories w) j = Some r \<and> repo_installationID r = k)))"

definition repository_ok :: "world \<Rightarrow> int64 \<Rightarrow> repository \<Rightarrow> bool" where
  "repository_ok w k r \<longleftrightarrow>
     repo_id r = k \<and> 0 < sint k \<and>
     validPathComponent (repo_owner r) \<and> validPathComponent (repo_name r) \<and>
     repo_gitDir r = repo_git_dir w (repo_owner r) (repo_name r) \<and>
     in_set (w_receiveLocks w) k \<and>
     m_get (w_repoNames w) (repoName (repo_owner r) (repo_name r)) = Some k \<and>
     (\<exists>i. m_get (w_installs w) (repo_installationID r) = Some i \<and> in_set (inst_repositoryIDs i) k)"

definition repositories_ok :: "world \<Rightarrow> bool" where
  "repositories_ok w \<longleftrightarrow> (\<forall>k r. m_get (w_repositories w) k = Some r \<longrightarrow> repository_ok w k r)"

definition names_ok :: "world \<Rightarrow> bool" where
  "names_ok w \<longleftrightarrow>
     (\<forall>n k. m_get (w_repoNames w) n = Some k \<longrightarrow>
        (\<exists>r. m_get (w_repositories w) k = Some r \<and> n = repoName (repo_owner r) (repo_name r)))"

text \<open>Within one installation, repository names are unique up to letter case.\<close>

definition inst_names_ok :: "world \<Rightarrow> bool" where
  "inst_names_ok w \<longleftrightarrow>
     (\<forall>k l r s. m_get (w_repositories w) k = Some r \<longrightarrow> m_get (w_repositories w) l = Some s \<longrightarrow>
        repo_installationID r = repo_installationID s \<longrightarrow>
        to_lower (repo_name r) = to_lower (repo_name s) \<longrightarrow> k = l)"

definition pulls_ok :: "world \<Rightarrow> bool" where
  "pulls_ok w \<longleftrightarrow>
     (\<forall>k p. m_get (w_pulls w) k = Some p \<longrightarrow>
        pr_repositoryID p = pk_repositoryID k \<and> pr_number p = pk_number k \<and> 0 < sint (pk_number k) \<and>
        pr_baseRef p \<noteq> [] \<and> pr_headRef p \<noteq> [] \<and> pr_baseSHA p \<noteq> [] \<and> pr_headSHA p \<noteq> [] \<and>
        (pr_state p = ''open'' \<or> pr_state p = ''closed'') \<and>
        m_get (w_repositories w) (pk_repositoryID k) \<noteq> None)"

definition workflows_ok :: "world \<Rightarrow> bool" where
  "workflows_ok w \<longleftrightarrow>
     (\<forall>k f. m_get (w_workflows w) k = Some f \<longrightarrow>
        wf_repositoryID f = k \<and> wf_releaseRef f \<noteq> [] \<and> m_get (w_repositories w) k \<noteq> None)"

text \<open>A token's scope lies within its installation's.\<close>

definition tokens_ok :: "world \<Rightarrow> bool" where
  "tokens_ok w \<longleftrightarrow>
     (\<forall>v t. m_get (w_tokens w) v = Some t \<longrightarrow>
        tok_value t = v \<and>
        (\<exists>i. m_get (w_installs w) (tok_installationID t) = Some i \<and>
             subset_of (tok_repositoryIDs t) (inst_repositoryIDs i) \<and>
             perms_within (tok_permissions t) (inst_permissions i)))"

definition run_ok :: "world \<Rightarrow> workflow_run \<Rightarrow> bool" where
  "run_ok w run \<longleftrightarrow>
     (run_Status run = ''queued'' \<or> run_Status run = ''in_progress'' \<or> run_Status run = ''completed'') \<and>
     (run_Conclusion run \<noteq> [] \<longleftrightarrow> run_Status run = ''completed'') \<and>
     run_Attempt run = 1 \<and> run_HeadSHA run \<noteq> [] \<and>
     m_get (w_repositories w) (run_RepositoryID run) \<noteq> None"

definition runs_ok :: "world \<Rightarrow> bool" where
  "runs_ok w \<longleftrightarrow>
     numbered (\<lambda>n. n) 1000 (w_nextRunID w) (map run_ID (w_workflowRuns w)) \<and>
     (\<forall>run \<in> set (w_workflowRuns w). run_ok w run)"

text \<open>
  The events are numbered by the counter, and every body is the JSON text of an object of the event's type:
  it names the installation and, except for a push, the event's action.
\<close>

definition typed_payload :: "string \<Rightarrow> string \<Rightarrow> json \<Rightarrow> bool" where
  "typed_payload event action payload \<longleftrightarrow>
     (\<exists>ms. payload = JObj ms \<and> list_all (\<lambda>(k, v). list_all (\<lambda>c. byte c < 128) k) ms \<and>
        (\<exists>i. map_of ms ''installation'' = Some (JObj i)) \<and>
        (if event = ''push'' then action = [] \<and> map_of ms ''ref'' \<noteq> None
         else event \<in> {''workflow_run'', ''installation'', ''installation_repositories''} \<and>
              map_of ms ''action'' = Some (JStr action)))"

definition typed_event :: "pending_event \<Rightarrow> bool" where
  "typed_event ev \<longleftrightarrow>
     (\<exists>payload. ev_Body ev = marshal payload \<and> typed_payload (ev_Event ev) (ev_Action ev) payload)"

lemma typed_payloads [simp]:
  "typed_payload ''push'' [] (push_event_json p)"
  "typed_payload ''workflow_run'' act (workflow_event_json (workflow_payload r run act))"
  "typed_payload ''installation'' act (installation_event_json \<lparr>ie_Action = act, ie_Installation = i, ie_Sender = x\<rparr>)"
  "typed_payload ''installation_repositories'' act (installation_repositories_json
     \<lparr>ire_Action = act, ire_Installation = i, ire_RepositoriesAdded = as, ire_RepositoriesRemoved = ds, ire_Sender = x\<rparr>)"
  by (simp_all add: typed_payload_def push_event_json_def workflow_event_json_def workflow_payload_def
      event_installation_json_def installation_event_json_def installation_repositories_json_def
      installation_value_json_def)

definition events_ok :: "world \<Rightarrow> bool" where
  "events_ok w \<longleftrightarrow>
     numbered guid 0 (w_nextEventID w) (map ev_GUID (w_pendingEvents w)) \<and>
     (\<forall>ev \<in> set (w_pendingEvents w). typed_event ev)"

abbreviation first_run :: "world \<Rightarrow> int64 \<Rightarrow> nat option" where
  "first_run w k \<equiv> index_of (\<lambda>run. run_ID run = k) (w_workflowRuns w)"

text \<open>A claim without a process is on a queued run, one with a process on a run in progress.\<close>

definition active_ok :: "world \<Rightarrow> bool" where
  "active_ok w \<longleftrightarrow>
     (\<forall>k a. m_get (w_activeRuns w) k = Some a \<longrightarrow>
        (\<exists>i. first_run w k = Some i \<and>
           run_Status (w_workflowRuns w ! i) =
             (if process_of a = None then ''queued'' else ''in_progress'')))"

definition world_ok :: "world \<Rightarrow> bool" where
  "world_ok w \<longleftrightarrow>
     apps_ok w \<and> installs_ok w \<and> repositories_ok w \<and> names_ok w \<and> inst_names_ok w \<and> pulls_ok w \<and>
     workflows_ok w \<and> tokens_ok w \<and> runs_ok w \<and> events_ok w \<and> active_ok w"

lemmas table_defs =
  apps_ok_def installs_ok_def repositories_ok_def repository_ok_def names_ok_def inst_names_ok_def
  pulls_ok_def workflows_ok_def tokens_ok_def

section \<open>Appending events\<close>

lemma append_event_simps [simp]:
  "w_now (appendPendingAppEvent ev act a r p w) = w_now w"
  "w_dataDir (appendPendingAppEvent ev act a r p w) = w_dataDir w"
  "w_gitBackend (appendPendingAppEvent ev act a r p w) = w_gitBackend w"
  "w_apps (appendPendingAppEvent ev act a r p w) = w_apps w"
  "w_installs (appendPendingAppEvent ev act a r p w) = w_installs w"
  "w_repositories (appendPendingAppEvent ev act a r p w) = w_repositories w"
  "w_repoNames (appendPendingAppEvent ev act a r p w) = w_repoNames w"
  "w_pulls (appendPendingAppEvent ev act a r p w) = w_pulls w"
  "w_tokens (appendPendingAppEvent ev act a r p w) = w_tokens w"
  "w_workflows (appendPendingAppEvent ev act a r p w) = w_workflows w"
  "w_receiveLocks (appendPendingAppEvent ev act a r p w) = w_receiveLocks w"
  "w_workflowRuns (appendPendingAppEvent ev act a r p w) = w_workflowRuns w"
  "w_observationErrors (appendPendingAppEvent ev act a r p w) = w_observationErrors w"
  "w_deliveryAttempts (appendPendingAppEvent ev act a r p w) = w_deliveryAttempts w"
  "w_activeRuns (appendPendingAppEvent ev act a r p w) = w_activeRuns w"
  "w_nextRunID (appendPendingAppEvent ev act a r p w) = w_nextRunID w"
  "w_unsupported (appendPendingAppEvent ev act a r p w) = w_unsupported w"
  "w_mutations (appendPendingAppEvent ev act a r p w) = w_mutations w"
  by (simp_all add: appendPendingAppEvent_def Let_def)

lemma bump_simps [simp]:
  "w_now (bump w) = w_now w" "w_dataDir (bump w) = w_dataDir w" "w_gitBackend (bump w) = w_gitBackend w"
  "w_apps (bump w) = w_apps w" "w_installs (bump w) = w_installs w"
  "w_repositories (bump w) = w_repositories w" "w_repoNames (bump w) = w_repoNames w"
  "w_pulls (bump w) = w_pulls w" "w_tokens (bump w) = w_tokens w" "w_workflows (bump w) = w_workflows w"
  "w_receiveLocks (bump w) = w_receiveLocks w" "w_workflowRuns (bump w) = w_workflowRuns w"
  "w_pendingEvents (bump w) = w_pendingEvents w" "w_observationErrors (bump w) = w_observationErrors w"
  "w_deliveryAttempts (bump w) = w_deliveryAttempts w" "w_activeRuns (bump w) = w_activeRuns w"
  "w_nextRunID (bump w) = w_nextRunID w" "w_nextEventID (bump w) = w_nextEventID w"
  "w_unsupported (bump w) = w_unsupported w" "w_mutations (bump w) = w_mutations w + 1"
  by (simp_all add: bump_def)

lemmas event_appends =
  appendPendingEvent_app appendPushEvent_def appendWorkflowEvent_def
  appendInstallationEvent_def appendInstallationRepositoriesEvent_def

lemma append_event_log:
  "w_pendingEvents (appendPendingAppEvent ev act a r p w) = w_pendingEvents w @
     [\<lparr>ev_GUID = guid (w_nextEventID w + 1), ev_Event = ev, ev_Action = act, ev_AppID = a,
       ev_RepositoryID = r, ev_CreatedAt = w_now w, ev_Body = marshal p\<rparr>]"
  "w_nextEventID (appendPendingAppEvent ev act a r p w) = w_nextEventID w + 1"
  by (simp_all add: appendPendingAppEvent_def Let_def)

text \<open>The parts of the invariant other than the event numbering do not see the event log.\<close>

definition tables_ok :: "world \<Rightarrow> bool" where
  "tables_ok w \<longleftrightarrow>
     apps_ok w \<and> installs_ok w \<and> repositories_ok w \<and> names_ok w \<and> inst_names_ok w \<and> pulls_ok w \<and>
     workflows_ok w \<and> tokens_ok w"

lemma world_ok_split: "world_ok w \<longleftrightarrow> tables_ok w \<and> runs_ok w \<and> events_ok w \<and> active_ok w"
  by (auto simp: world_ok_def tables_ok_def)

definition same_tables :: "world \<Rightarrow> world \<Rightarrow> bool" where
  "same_tables w w' \<longleftrightarrow>
     w_dataDir w' = w_dataDir w \<and> w_apps w' = w_apps w \<and> w_installs w' = w_installs w \<and>
     w_repositories w' = w_repositories w \<and> w_repoNames w' = w_repoNames w \<and>
     w_pulls w' = w_pulls w \<and> w_tokens w' = w_tokens w \<and> w_workflows w' = w_workflows w \<and>
     w_receiveLocks w' = w_receiveLocks w"

lemma same_tables_refl [simp]: "same_tables w w"
  by (simp add: same_tables_def)

lemma same_tables_ok: "same_tables w w' \<Longrightarrow> tables_ok w' = tables_ok w"
  by (simp add: tables_ok_def table_defs same_tables_def repo_git_dir_def)

lemma runs_ok_frame:
  "w_workflowRuns w' = w_workflowRuns w \<Longrightarrow> w_nextRunID w' = w_nextRunID w \<Longrightarrow>
   (\<And>k. m_get (w_repositories w) k \<noteq> None \<Longrightarrow> m_get (w_repositories w') k \<noteq> None) \<Longrightarrow>
   runs_ok w \<Longrightarrow> runs_ok w'"
  by (auto simp: runs_ok_def run_ok_def)

lemma active_ok_frame:
  "w_workflowRuns w' = w_workflowRuns w \<Longrightarrow> w_activeRuns w' = w_activeRuns w \<Longrightarrow>
   active_ok w \<Longrightarrow> active_ok w'"
  by (simp add: active_ok_def)

lemma events_ok_append [simp]:
  "events_ok w \<Longrightarrow> typed_payload ev act p \<Longrightarrow> events_ok (appendPendingAppEvent ev act a r p w)"
  using numbered_snoc[of guid 0 "w_nextEventID w" "map ev_GUID (w_pendingEvents w)"]
  by (auto simp: events_ok_def append_event_log typed_event_def)

lemma world_ok_append:
  assumes "world_ok w" "typed_payload ev act p"
  shows "world_ok (appendPendingAppEvent ev act a r p w)"
proof -
  let ?w = "appendPendingAppEvent ev act a r p w"
  have "tables_ok ?w"
    using assms by (subst same_tables_ok[of w]) (simp_all add: same_tables_def world_ok_split)
  moreover have "runs_ok ?w" "active_ok ?w"
    using assms by (auto simp: world_ok_split intro: runs_ok_frame[of _ w] active_ok_frame[of _ w])
  ultimately show ?thesis using assms by (simp add: world_ok_split)
qed

lemma world_ok_bump [simp]: "world_ok (bump w) = world_ok w"
proof -
  have "tables_ok (bump w) = tables_ok w"
    by (rule same_tables_ok) (simp add: same_tables_def)
  then show ?thesis
    by (simp add: world_ok_split runs_ok_def run_ok_def events_ok_def active_ok_def)
qed

section \<open>Changing the tables\<close>

text \<open>
  Each lemma is about one kind of write to the tables. A write that leaves runs, events and claims
  alone keeps those parts of the invariant, so only the tables remain.
\<close>

definition same_logs :: "world \<Rightarrow> world \<Rightarrow> bool" where
  "same_logs w w' \<longleftrightarrow>
     w_workflowRuns w' = w_workflowRuns w \<and> w_nextRunID w' = w_nextRunID w \<and>
     w_pendingEvents w' = w_pendingEvents w \<and> w_nextEventID w' = w_nextEventID w \<and>
     w_activeRuns w' = w_activeRuns w"

lemma world_ok_tables:
  assumes "world_ok w" "same_logs w w'" "tables_ok w'"
    and "\<And>k. m_get (w_repositories w) k \<noteq> None \<Longrightarrow> m_get (w_repositories w') k \<noteq> None"
  shows "world_ok w'"
proof -
  have "runs_ok w" "active_ok w" using assms(1) by (simp_all add: world_ok_split)
  moreover note assms(2)[unfolded same_logs_def]
  ultimately have "runs_ok w'" "active_ok w'"
    using runs_ok_frame[of w' w, OF _ _ assms(4)] active_ok_frame[of w' w] by blast+
  moreover have "events_ok w'"
    using assms(1,2) by (simp add: world_ok_split same_logs_def events_ok_def)
  ultimately show ?thesis using assms(3) by (simp add: world_ok_split)
qed

lemma world_ok_frame:
  assumes "world_ok w" "same_logs w w'" "same_tables w w'"
  shows "world_ok w'"
proof (rule world_ok_tables[OF assms(1,2)])
  show "tables_ok w'"
    using assms(1) same_tables_ok[OF assms(3)] by (simp add: world_ok_split)
  show "m_get (w_repositories w) k \<noteq> None \<Longrightarrow> m_get (w_repositories w') k \<noteq> None" for k
    using assms(3) by (simp add: same_tables_def)
qed

text \<open>What the invariant says of one entry of each table.\<close>

lemma world_ok_app: "world_ok w \<Longrightarrow> m_get (w_apps w) k = Some a \<Longrightarrow> app_id a = k \<and> 0 < sint k"
  by (simp add: world_ok_def apps_ok_def)

lemma world_ok_installation:
  "world_ok w \<Longrightarrow> m_get (w_installs w) k = Some i \<Longrightarrow>
     inst_id i = k \<and> 0 < sint k \<and> m_get (w_apps w) (inst_appID i) \<noteq> None \<and> perms_ok (inst_permissions i)"
  by (simp add: world_ok_def installs_ok_def)

lemma world_ok_installation_repo:
  "world_ok w \<Longrightarrow> m_get (w_installs w) k = Some i \<Longrightarrow> in_set (inst_repositoryIDs i) j \<Longrightarrow>
     \<exists>r. m_get (w_repositories w) j = Some r \<and> repo_installationID r = k"
  by (simp add: world_ok_def installs_ok_def)

lemma world_ok_repository:
  "world_ok w \<Longrightarrow> m_get (w_repositories w) k = Some r \<Longrightarrow> repository_ok w k r"
  by (simp add: world_ok_def repositories_ok_def)

lemma world_ok_repo_installation:
  "world_ok w \<Longrightarrow> m_get (w_repositories w) k = Some r \<Longrightarrow>
     \<exists>i. m_get (w_installs w) (repo_installationID r) = Some i \<and> in_set (inst_repositoryIDs i) k"
  using world_ok_repository[of w k r] by (simp add: repository_ok_def)

lemma world_ok_name:
  "world_ok w \<Longrightarrow> m_get (w_repoNames w) n = Some k \<Longrightarrow>
     \<exists>r. m_get (w_repositories w) k = Some r \<and> n = repoName (repo_owner r) (repo_name r)"
  by (simp add: world_ok_def names_ok_def)

lemma world_ok_token:
  "world_ok w \<Longrightarrow> m_get (w_tokens w) v = Some t \<Longrightarrow>
     \<exists>i. m_get (w_installs w) (tok_installationID t) = Some i \<and>
         subset_of (tok_repositoryIDs t) (inst_repositoryIDs i) \<and>
         perms_within (tok_permissions t) (inst_permissions i)"
  by (simp add: world_ok_def tokens_ok_def)

lemma world_ok_workflow:
  "world_ok w \<Longrightarrow> m_get (w_workflows w) k = Some f \<Longrightarrow>
     wf_repositoryID f = k \<and> wf_releaseRef f \<noteq> [] \<and> m_get (w_repositories w) k \<noteq> None"
  by (simp add: world_ok_def workflows_ok_def)

lemma world_ok_run: "world_ok w \<Longrightarrow> run \<in> set (w_workflowRuns w) \<Longrightarrow> run_ok w run"
  by (simp add: world_ok_def runs_ok_def)

lemma world_ok_put_app:
  assumes ok: "world_ok w" and a: "0 < sint k" "app_id a = k"
  shows "world_ok (w\<lparr>w_apps := m_put k a (w_apps w)\<rparr>)"
  using ok
proof (rule world_ok_tables)
  let ?w = "w\<lparr>w_apps := m_put k a (w_apps w)\<rparr>"
  have "apps_ok ?w" using ok a by (simp add: world_ok_def apps_ok_def)
  moreover have "installs_ok ?w" using ok by (auto simp: world_ok_def installs_ok_def)
  ultimately show "tables_ok ?w"
    using ok by (simp add: world_ok_def tables_ok_def repositories_ok_def repository_ok_def
        repo_git_dir_def names_ok_def inst_names_ok_def pulls_ok_def workflows_ok_def tokens_ok_def)
qed (simp_all add: same_logs_def)

lemma fresh_installation_unreferenced:
  assumes "world_ok w" "m_get (w_installs w) k = None"
  shows "m_get (w_repositories w) j = Some r \<Longrightarrow> repo_installationID r \<noteq> k"
    and "m_get (w_tokens w) v = Some t \<Longrightarrow> tok_installationID t \<noteq> k"
  using assms world_ok_repo_installation[OF assms(1)] world_ok_token[OF assms(1)] by fastforce+

lemma world_ok_put_installation:
  assumes ok: "world_ok w" and k: "0 < sint k" "inst_id i = k" "m_get (w_installs w) k = None"
    and app: "m_get (w_apps w) (inst_appID i) \<noteq> None" and perms: "perms_ok (inst_permissions i)"
    and empty: "inst_repositoryIDs i = m_empty"
  shows "world_ok (w\<lparr>w_installs := m_put k i (w_installs w)\<rparr>)"
  using ok
proof (rule world_ok_tables)
  let ?w = "w\<lparr>w_installs := m_put k i (w_installs w)\<rparr>"
  note fresh = fresh_installation_unreferenced[OF ok k(3)]
  have "installs_ok ?w"
    using ok k app perms empty by (auto simp: world_ok_def installs_ok_def)
  moreover have "repositories_ok ?w"
    using ok fresh(1) by (auto simp: world_ok_def repositories_ok_def repository_ok_def repo_git_dir_def)
  moreover have "tokens_ok ?w"
    using ok fresh(2) by (auto simp: world_ok_def tokens_ok_def)
  ultimately show "tables_ok ?w"
    using ok by (simp add: world_ok_def tables_ok_def apps_ok_def names_ok_def inst_names_ok_def
        pulls_ok_def workflows_ok_def)
qed (simp_all add: same_logs_def)

lemma world_ok_put_workflow:
  assumes "world_ok w" "wf_repositoryID f = k" "wf_releaseRef f \<noteq> []" "m_get (w_repositories w) k \<noteq> None"
  shows "world_ok (w\<lparr>w_workflows := m_put k f (w_workflows w)\<rparr>)"
  using assms(1)
proof (rule world_ok_tables)
  show "tables_ok (w\<lparr>w_workflows := m_put k f (w_workflows w)\<rparr>)"
    using assms by (simp add: world_ok_def tables_ok_def table_defs repo_git_dir_def)
qed (simp_all add: same_logs_def)

definition pull_ok :: "world \<Rightarrow> pull_key \<Rightarrow> pull_request \<Rightarrow> bool" where
  "pull_ok w k p \<longleftrightarrow>
     pr_repositoryID p = pk_repositoryID k \<and> pr_number p = pk_number k \<and> 0 < sint (pk_number k) \<and>
     pr_baseRef p \<noteq> [] \<and> pr_headRef p \<noteq> [] \<and> pr_baseSHA p \<noteq> [] \<and> pr_headSHA p \<noteq> [] \<and>
     (pr_state p = ''open'' \<or> pr_state p = ''closed'') \<and>
     m_get (w_repositories w) (pk_repositoryID k) \<noteq> None"

lemma world_ok_pull: "world_ok w \<Longrightarrow> m_get (w_pulls w) k = Some p \<Longrightarrow> pull_ok w k p"
  by (simp add: world_ok_def pulls_ok_def pull_ok_def)

lemma world_ok_put_pull:
  assumes "world_ok w" "pull_ok w k p"
  shows "world_ok (w\<lparr>w_pulls := m_put k p (w_pulls w)\<rparr>)"
  using assms(1)
proof (rule world_ok_tables)
  show "tables_ok (w\<lparr>w_pulls := m_put k p (w_pulls w)\<rparr>)"
    using assms by (simp add: world_ok_def tables_ok_def table_defs repo_git_dir_def pull_ok_def)
qed (simp_all add: same_logs_def)

lemma world_ok_put_token:
  assumes "world_ok w" "tok_value t = v" "m_get (w_installs w) (tok_installationID t) = Some i"
    and "subset_of (tok_repositoryIDs t) (inst_repositoryIDs i)"
    and "perms_within (tok_permissions t) (inst_permissions i)"
  shows "world_ok (w\<lparr>w_tokens := m_put v t (w_tokens w)\<rparr>)"
  using assms(1)
proof (rule world_ok_tables)
  show "tables_ok (w\<lparr>w_tokens := m_put v t (w_tokens w)\<rparr>)"
    using assms by (simp add: world_ok_def tables_ok_def table_defs repo_git_dir_def)
qed (simp_all add: same_logs_def)

lemma subset_of_grow: "subset_of a b \<Longrightarrow> subset_of a (m_put k () b)"
  by (simp add: subset_of_def)

text \<open>Adding a repository: the maps of repositories, names and locks and its installation's set.\<close>

lemma world_ok_add_repository_tables:
  fixes w r i
  defines "k \<equiv> repo_id r" and "n \<equiv> repoName (repo_owner r) (repo_name r)"
  defines "w' \<equiv> w\<lparr>w_repositories := m_put k r (w_repositories w),
                  w_receiveLocks := m_put k () (w_receiveLocks w),
                  w_repoNames := m_put n k (w_repoNames w),
                  w_installs := m_put (repo_installationID r)
                    (i\<lparr>inst_repositoryIDs := m_put k () (inst_repositoryIDs i)\<rparr>) (w_installs w)\<rparr>"
  assumes ok: "world_ok w" and inst: "m_get (w_installs w) (repo_installationID r) = Some i"
    and new: "m_get (w_repositories w) k = None" "m_get (w_repoNames w) n = None" "0 < sint k"
    and comp: "validPathComponent (repo_owner r)" "validPathComponent (repo_name r)"
    and dir: "repo_gitDir r = repo_git_dir w (repo_owner r) (repo_name r)"
    and free: "\<not> name_taken w i (repo_name r)"
  shows "world_ok w'"
  using ok
proof (rule world_ok_tables)
  have iok: "inst_id i = repo_installationID r" "\<And>j. in_set (inst_repositoryIDs i) j \<Longrightarrow>
      \<exists>s. m_get (w_repositories w) j = Some s \<and> repo_installationID s = repo_installationID r"
    using ok inst by (auto simp: world_ok_def installs_ok_def)
  have other: "\<not> in_set (inst_repositoryIDs l) k" if "m_get (w_installs w) j = Some l" for j l
    using world_ok_installation_repo[OF ok that, of k] new(1) by auto
  have "apps_ok w'" using ok by (simp add: w'_def world_ok_def apps_ok_def)
  moreover have "installs_ok w'"
    unfolding installs_ok_def
  proof (intro allI impI)
    fix j l
    assume j: "m_get (w_installs w') j = Some l"
    show "inst_id l = j \<and> 0 < sint j \<and> m_get (w_apps w') (inst_appID l) \<noteq> None \<and>
        perms_ok (inst_permissions l) \<and>
        (\<forall>h. in_set (inst_repositoryIDs l) h \<longrightarrow>
           (\<exists>s. m_get (w_repositories w') h = Some s \<and> repo_installationID s = j))"
    proof (cases "j = repo_installationID r")
      case True
      with j have "l = i\<lparr>inst_repositoryIDs := m_put k () (inst_repositoryIDs i)\<rparr>"
        by (simp add: w'_def)
      with True world_ok_installation[OF ok inst] iok show ?thesis by (auto simp: w'_def)
    next
      case False
      with j have l: "m_get (w_installs w) j = Some l" by (simp add: w'_def)
      with other have "\<not> in_set (inst_repositoryIDs l) k" by blast
      then show ?thesis
        using world_ok_installation[OF ok l] world_ok_installation_repo[OF ok l] by (auto simp: w'_def)
    qed
  qed
  moreover have "repositories_ok w'"
    unfolding repositories_ok_def
  proof (intro allI impI)
    fix j s
    assume j: "m_get (w_repositories w') j = Some s"
    show "repository_ok w' j s"
    proof (cases "j = k")
      case True
      with j have "s = r" by (simp add: w'_def)
      with True new(3) comp dir show ?thesis
        by (simp add: repository_ok_def w'_def k_def n_def repo_git_dir_def)
    next
      case False
      with j have s: "m_get (w_repositories w) j = Some s" by (simp add: w'_def)
      note sok = world_ok_repository[OF ok s, unfolded repository_ok_def]
      then have "repoName (repo_owner s) (repo_name s) \<noteq> n" using new(2) by auto
      with False sok inst show ?thesis
        by (auto simp: repository_ok_def w'_def repo_git_dir_def)
    qed
  qed
  moreover have "names_ok w'"
    unfolding names_ok_def
  proof (intro allI impI)
    fix m l
    assume m: "m_get (w_repoNames w') m = Some l"
    show "\<exists>s. m_get (w_repositories w') l = Some s \<and> m = repoName (repo_owner s) (repo_name s)"
    proof (cases "m = n")
      case True
      with m show ?thesis by (simp add: w'_def n_def)
    next
      case False
      with m have "m_get (w_repoNames w) m = Some l" by (simp add: w'_def)
      from world_ok_name[OF ok this] new(1) show ?thesis by (auto simp: w'_def)
    qed
  qed
  moreover have "inst_names_ok w'"
  proof -
    have "to_lower (repo_name s) \<noteq> to_lower (repo_name r)"
      if s: "m_get (w_repositories w) l = Some s" "repo_installationID s = repo_installationID r" for l s
    proof -
      have "in_set (inst_repositoryIDs i) l"
        using ok s inst unfolding world_ok_def repositories_ok_def repository_ok_def by force
      with free s(1) show ?thesis
        by (auto simp: name_taken_def list_ex_iff in_set_keys equal_fold_iff)
    qed
    then show ?thesis
      using ok unfolding w'_def world_ok_def inst_names_ok_def by (auto split: if_splits) metis+
  qed
  moreover have "pulls_ok w'" using ok by (auto simp: w'_def world_ok_def pulls_ok_def)
  moreover have "workflows_ok w'" using ok by (auto simp: w'_def world_ok_def workflows_ok_def)
  moreover have "tokens_ok w'"
    using ok inst by (fastforce simp: w'_def world_ok_def tokens_ok_def intro: subset_of_grow)
  ultimately show "tables_ok w'" by (simp add: tables_ok_def)
qed (simp_all add: same_logs_def w'_def)

section \<open>Runs and claims\<close>

text \<open>
  A write to one run that keeps its identity, with or without a change of its claim, keeps the
  invariant when the run stays well formed and agrees with the claim.
\<close>

lemma map_update_same: "i < length xs \<Longrightarrow> f x = f (xs ! i) \<Longrightarrow> map f (xs[i := x]) = map f xs"
  by (metis list_update_id map_update nth_map)

lemma index_of_cong:
  "map f xs = map f ys \<Longrightarrow> index_of (\<lambda>x. f x = k) xs = index_of (\<lambda>x. f x = k) ys"
proof (induction xs arbitrary: ys)
  case (Cons x xs)
  then show ?case by (cases ys) auto
qed simp

lemma index_of_append: "index_of P xs = Some i \<Longrightarrow> index_of P (xs @ ys) = Some i"
  by (induction xs arbitrary: i) (auto split: if_splits)

lemma first_run_nth: "first_run w k = Some i \<Longrightarrow> i < length (w_workflowRuns w) \<and> run_ID (w_workflowRuns w ! i) = k"
  by (simp add: index_of_Some)

text \<open>Replacing the run at an index by one with the same ID, and the claims by \<open>act\<close>.\<close>

lemma world_ok_put_run:
  assumes ok: "world_ok w" and i: "i < length (w_workflowRuns w)"
    and id: "run_ID run = run_ID (w_workflowRuns w ! i)" and run: "run_ok w run"
    and act: "\<And>k a. m_get act k = Some a \<Longrightarrow>
      (\<exists>j. first_run w k = Some j \<and>
         run_Status ((w_workflowRuns w)[i := run] ! j) =
           (if process_of a = None then ''queued'' else ''in_progress''))"
  shows "world_ok (w\<lparr>w_workflowRuns := (w_workflowRuns w)[i := run], w_activeRuns := act\<rparr>)"
proof -
  let ?w = "w\<lparr>w_workflowRuns := (w_workflowRuns w)[i := run], w_activeRuns := act\<rparr>"
  have ids: "map run_ID (w_workflowRuns ?w) = map run_ID (w_workflowRuns w)"
    using i id by (simp add: map_update_same)
  have "tables_ok ?w"
    using ok by (subst same_tables_ok[of w]) (simp_all add: same_tables_def world_ok_split)
  moreover have "runs_ok ?w"
  proof -
    have "run_ok ?w r" if "r \<in> set ((w_workflowRuns w)[i := run])" for r
    proof -
      have "r = run \<or> r \<in> set (w_workflowRuns w)"
        using that set_update_subset_insert by fastforce
      then have "run_ok w r" using run world_ok_run[OF ok] by blast
      then show ?thesis by (simp add: run_ok_def)
    qed
    then show ?thesis using ok ids by (simp add: world_ok_split runs_ok_def)
  qed
  moreover have "events_ok ?w" using ok by (simp add: world_ok_split events_ok_def)
  moreover have "active_ok ?w"
    unfolding active_ok_def using act index_of_cong[OF ids] by simp
  ultimately show ?thesis by (simp add: world_ok_split)
qed

lemma world_ok_claim:
  "world_ok w \<Longrightarrow> m_get (w_activeRuns w) k = Some a \<Longrightarrow>
     \<exists>i. first_run w k = Some i \<and>
       run_Status (w_workflowRuns w ! i) = (if process_of a = None then ''queued'' else ''in_progress'')"
  by (simp add: world_ok_def active_ok_def)

lemma world_ok_put_active:
  assumes ok: "world_ok w"
    and act: "\<And>k a. m_get act k = Some a \<Longrightarrow>
      (\<exists>j. first_run w k = Some j \<and>
         run_Status (w_workflowRuns w ! j) = (if process_of a = None then ''queued'' else ''in_progress''))"
  shows "world_ok (w\<lparr>w_activeRuns := act\<rparr>)"
proof -
  let ?w = "w\<lparr>w_activeRuns := act\<rparr>"
  have "tables_ok ?w"
    using ok by (subst same_tables_ok[of w]) (simp_all add: same_tables_def world_ok_split)
  moreover have "runs_ok ?w"
    using ok by (intro runs_ok_frame[of ?w w]) (simp_all add: world_ok_split)
  moreover have "events_ok ?w" using ok by (simp add: world_ok_split events_ok_def)
  moreover have "active_ok ?w" unfolding active_ok_def using act by simp
  ultimately show ?thesis by (simp add: world_ok_split)
qed

lemma world_ok_release: "world_ok w \<Longrightarrow> world_ok (execute_release k w)"
  unfolding execute_release_def
  by (rule world_ok_put_active) (auto dest: world_ok_claim split: if_splits)

text \<open>A new run at the end of the list, with the next ID.\<close>

lemma world_ok_new_run:
  assumes ok: "world_ok w" and id: "run_ID run = w_nextRunID w + 1" and run: "run_ok w run"
  shows "world_ok (w\<lparr>w_nextRunID := w_nextRunID w + 1, w_workflowRuns := w_workflowRuns w @ [run]\<rparr>)"
proof -
  let ?w = "w\<lparr>w_nextRunID := w_nextRunID w + 1, w_workflowRuns := w_workflowRuns w @ [run]\<rparr>"
  have "tables_ok ?w"
    using ok by (subst same_tables_ok[of w]) (simp_all add: same_tables_def world_ok_split)
  moreover have "runs_ok ?w"
  proof -
    have "numbered (\<lambda>n. n) 1000 (w_nextRunID w) (map run_ID (w_workflowRuns w))"
      using ok by (simp add: world_ok_split runs_ok_def)
    from numbered_snoc[OF this] id run world_ok_run[OF ok] show ?thesis
      by (auto simp: runs_ok_def run_ok_def)
  qed
  moreover have "events_ok ?w" using ok by (simp add: world_ok_split events_ok_def)
  moreover have "active_ok ?w"
    unfolding active_ok_def
  proof (intro allI impI)
    fix k a
    assume "m_get (w_activeRuns ?w) k = Some a"
    then obtain j where j: "first_run w k = Some j"
      "run_Status (w_workflowRuns w ! j) = (if process_of a = None then ''queued'' else ''in_progress'')"
      using world_ok_claim[OF ok] by auto
    then have "j < length (w_workflowRuns w)" by (simp add: first_run_nth)
    with j show "\<exists>i. first_run ?w k = Some i \<and>
        run_Status (w_workflowRuns ?w ! i) = (if process_of a = None then ''queued'' else ''in_progress'')"
      by (intro exI[of _ j]) (simp add: index_of_append nth_append)
  qed
  ultimately show ?thesis by (simp add: world_ok_split)
qed

end
