(* ===== verification/Dtu_Preserve.thy ===== *)
theory Dtu_Preserve
  imports Dtu_Invariant
begin

text \<open>
  Every critical section of the handlers keeps the world's invariant: one lemma for each handler
  or section, collected in \<open>inv_intros\<close>. The sections of a push and of an execution have the facts
  their handler knows from an earlier section as hypotheses; the server theory shows that these
  facts are stable.
\<close>

section \<open>Control handlers\<close>

lemma zero_app_lookup:
  "world_ok w \<Longrightarrow> app_id (m_get_or zero_app (w_apps w) k) = 0 \<longleftrightarrow> m_get (w_apps w) k = None \<or> k = 0"
  by (cases "m_get (w_apps w) k") (auto simp: zero_app_def dest: world_ok_app)

lemma zero_installation_lookup:
  "world_ok w \<Longrightarrow>
     inst_id (m_get_or zero_installation (w_installs w) k) = 0 \<longleftrightarrow> m_get (w_installs w) k = None \<or> k = 0"
  by (cases "m_get (w_installs w) k") (auto simp: zero_installation_def dest: world_ok_installation)

lemma createApp_ok [inv_intros]: "world_ok w \<Longrightarrow> world_ok (snd (createApp kp body w))"
  by (auto simp: createApp_def not_le intro!: world_ok_put_app
      split: sum.split option.split public_key.split)

lemma check_input_perms:
  "checkInstallationInput input = Inr input' \<Longrightarrow>
     ii_Permissions input' = ii_Permissions input \<and> ii_ID input' = ii_ID input \<and>
     ii_AppID input' = ii_AppID input \<and> ii_Owner input' = ii_Owner input \<and>
     perms_ok (ii_Permissions input)"
proof -
  assume c: "checkInstallationInput input = Inr input'"
  then have none: "\<not> list_ex (\<lambda>(p, l). p = [] \<or> permissionRank l = 0) (m_entries (ii_Permissions input))"
    unfolding checkInstallationInput_def by (cases rule: ccontr) simp
  have "p \<noteq> [] \<and> permissionRank l \<noteq> 0" if "m_get (ii_Permissions input) p = Some l" for p l
    using none that m_entries_get[of p l] unfolding list_ex_iff by blast
  then have "perms_ok (ii_Permissions input)" by (simp add: perms_ok_def)
  with c show ?thesis
    by (auto simp: checkInstallationInput_def Let_def split: if_splits)
qed

lemma perms_ok_copy [simp]: "perms_ok (copyMap m) = perms_ok m"
  by (simp add: perms_ok_def)

lemma createInstallation_ok [inv_intros]:
  assumes ok: "world_ok w"
  shows "world_ok (snd (createInstallation body w))"
proof (cases "decodeControl body")
  case (Inr input0)
  show ?thesis
  proof (cases "checkInstallationInput input0")
    case (Inr input)
    let ?w = "w\<lparr>w_installs := m_put (ii_ID input) (new_installation input) (w_installs w)\<rparr>"
    have put: "world_ok ?w" if "0 < sint (ii_ID input)" "m_get (w_installs w) (ii_ID input) = None"
      "m_get (w_apps w) (ii_AppID input) \<noteq> None"
      using that check_input_perms[OF Inr]
      by (intro world_ok_put_installation[OF ok]) (auto simp: new_installation_def)
    show ?thesis
    proof (cases "sint (ii_ID input) \<le> 0 \<or>
        inst_id (m_get_or zero_installation (w_installs w) (ii_ID input)) \<noteq> 0 \<or>
        m_get (w_apps w) (ii_AppID input) = None")
      case False
      then have "m_get (w_installs w) (ii_ID input) = None"
        using zero_installation_lookup[OF ok, of "ii_ID input"] by auto
      with False put have "world_ok ?w" by simp
      then show ?thesis
        using False \<open>decodeControl body = Inr input0\<close> Inr
        by (auto simp: createInstallation_def Let_def event_appends world_ok_append)
    qed (use ok \<open>decodeControl body = Inr input0\<close> Inr in \<open>auto simp: createInstallation_def\<close>)
  qed (use ok Inr in \<open>simp add: createInstallation_def\<close>)
qed (use ok in \<open>simp add: createInstallation_def\<close>)

lemma add_repository_ok:
  assumes "world_ok w" "m_get (w_installs w) (repo_installationID r) = Some i"
    and "m_get (w_repositories w) (repo_id r) = None"
    and "m_get (w_repoNames w) (repoName (repo_owner r) (repo_name r)) = None" "0 < sint (repo_id r)"
    and "validPathComponent (repo_owner r)" "validPathComponent (repo_name r)"
    and "repo_gitDir r = repo_git_dir w (repo_owner r) (repo_name r)"
    and "\<not> name_taken w i (repo_name r)"
  shows "world_ok (add_repository r i w)"
  using world_ok_add_repository_tables[OF assms]
  by (simp add: add_repository_def Let_def event_appends world_ok_append)

lemma createRepository_ok [inv_intros]:
  assumes ok: "world_ok w"
  shows "world_ok (fst (snd (createRepository sys body w e)))"
  unfolding createRepository_def
  using ok
  by (auto split: sum.split option.split prod.split simp: Let_def not_le intro!: add_repository_ok)

lemma createPullRequest_ok [inv_intros]:
  assumes ok: "world_ok w"
  shows "world_ok (fst (snd (createPullRequest sys body w e)))"
  unfolding createPullRequest_def
  using ok
  by (auto split: sum.split option.split prod.split simp: Let_def not_le pull_ok_def
      intro!: world_ok_put_pull)

lemma changePullRequestState_ok [inv_intros]:
  assumes ok: "world_ok w"
  shows "world_ok (snd (changePullRequestState body w))"
proof -
  have "pull_ok w k (p\<lparr>pr_state := s\<rparr>)"
    if "m_get (w_pulls w) k = Some p" "s = ''open'' \<or> s = ''closed''" for k p s
    using world_ok_pull[OF ok that(1)] that(2) by (simp add: pull_ok_def)
  then show ?thesis
    using ok by (auto split: sum.split option.split simp: changePullRequestState_def Let_def
        intro!: world_ok_put_pull)
qed

lemma world_ok_now: "world_ok w \<Longrightarrow> world_ok (w\<lparr>w_now := t\<rparr>)"
  by (erule world_ok_frame) (simp_all add: same_logs_def same_tables_def)

lemma advanceTime_ok [inv_intros]: "world_ok w \<Longrightarrow> world_ok (snd (advanceTime body w))"
  by (auto split: sum.split option.split simp: advanceTime_def Let_def world_ok_now)

lemma configureWorkflow_ok [inv_intros]:
  "world_ok w \<Longrightarrow> world_ok (fst (snd (configureWorkflow sys body w e)))"
  by (auto split: sum.split prod.split simp: configureWorkflow_def Let_def
      intro!: world_ok_put_workflow)

section \<open>Deliveries and transitions\<close>

lemma deliver_record_ok [inv_intros]: "world_ok w \<Longrightarrow> world_ok (deliver_record a w)"
  unfolding deliver_record_def world_ok_bump
  by (erule world_ok_frame) (simp_all add: same_logs_def same_tables_def)

lemma world_ok_add_event:
  assumes ok: "world_ok w" and g: "ev_GUID ev = guid (w_nextEventID w + 1)" and b: "typed_event ev"
  shows "world_ok (w\<lparr>w_nextEventID := w_nextEventID w + 1, w_pendingEvents := w_pendingEvents w @ [ev]\<rparr>)"
proof -
  let ?w = "w\<lparr>w_nextEventID := w_nextEventID w + 1, w_pendingEvents := w_pendingEvents w @ [ev]\<rparr>"
  have "tables_ok ?w"
    using ok by (subst same_tables_ok[of w]) (simp_all add: same_tables_def world_ok_split)
  moreover have "runs_ok ?w" "active_ok ?w"
    using ok by (auto simp: world_ok_split intro: runs_ok_frame[of _ w] active_ok_frame[of _ w])
  moreover have "events_ok ?w"
    using numbered_snoc[of guid 0 "w_nextEventID w" "map ev_GUID (w_pendingEvents w)"] ok g b
    by (auto simp: events_ok_def world_ok_split)
  ultimately show ?thesis by (simp add: world_ok_split)
qed

lemma world_ok_event: "world_ok w \<Longrightarrow> ev \<in> set (w_pendingEvents w) \<Longrightarrow> typed_event ev"
  by (simp add: world_ok_def events_ok_def)

lemma found_typed: "world_ok w \<Longrightarrow> findPendingEvent w g = Some ev \<Longrightarrow> typed_event ev"
  by (auto simp: findPendingEvent_def find_Some_iff intro: world_ok_event)

lemma typed_event_same [simp]: "typed_event (ev\<lparr>ev_GUID := g, ev_CreatedAt := t\<rparr>) = typed_event ev"
  by (simp add: typed_event_def)

lemma duplicateEvent_ok [inv_intros]: "world_ok w \<Longrightarrow> world_ok (snd (duplicateEvent body w))"
  by (auto split: sum.split option.split simp: duplicateEvent_def Let_def
      intro!: world_ok_add_event dest: found_typed)

text \<open>What a receiver reads in the body of an event.\<close>

lemma typed_event_reads:
  assumes "typed_event ev"
  shows "\<exists>ms. json_value (ev_Body ev) = Some (VObj ms, []) \<and> (\<exists>i. map_of ms ''installation'' = Some (VObj i)) \<and>
    (if ev_Event ev = ''push'' then ev_Action ev = [] \<and> map_of ms ''ref'' \<noteq> None
     else map_of ms ''action'' = Some (VStr (utf8_clean (ev_Action ev))))"
proof -
  obtain ms where body: "ev_Body ev = marshal (JObj ms)" and typed: "typed_payload (ev_Event ev) (ev_Action ev) (JObj ms)"
    using assms by (auto simp: typed_event_def typed_payload_def)
  let ?vs = "map (\<lambda>(k, v). (k, view v)) ms"
  have "list_all (\<lambda>(k, v). list_all (\<lambda>c. byte c < 128) k) ms" using typed by (simp add: typed_payload_def)
  then have "map (\<lambda>(k, v). (utf8_clean k, view v)) ms = ?vs"
    by (induction ms) (auto simp: view_ascii)
  then have "json_value (ev_Body ev) = Some (VObj ?vs, [])"
    using json_value_marshal[of "[]" "JObj ms"] by (simp add: body ends_number_def)
  moreover have "map_of ?vs k = map_option view (map_of ms k)" for k
    by (induction ms) auto
  ultimately show ?thesis using typed by (intro exI[of _ ?vs]) (auto simp: typed_payload_def)
qed

text \<open>A run that is not claimed may take any well-formed new value with its identity.\<close>

lemma world_ok_put_unclaimed_run:
  assumes ok: "world_ok w" and i: "first_run w k = Some i" and id: "run_ID run = k"
    and run: "run_ok w run" and free: "m_get (w_activeRuns w) k = None"
  shows "world_ok (w\<lparr>w_workflowRuns := (w_workflowRuns w)[i := run]\<rparr>)"
proof -
  have "world_ok (w\<lparr>w_workflowRuns := (w_workflowRuns w)[i := run], w_activeRuns := w_activeRuns w\<rparr>)"
  proof (rule world_ok_put_run[OF ok])
    show "i < length (w_workflowRuns w)" "run_ID run = run_ID (w_workflowRuns w ! i)"
      using first_run_nth[OF i] id by simp_all
    show "run_ok w run" by (rule run)
    fix h a
    assume h: "m_get (w_activeRuns w) h = Some a"
    with free have "h \<noteq> k" by auto
    moreover obtain j where j: "first_run w h = Some j" "run_Status (w_workflowRuns w ! j) =
        (if process_of a = None then ''queued'' else ''in_progress'')"
      using world_ok_claim[OF ok h] by blast
    ultimately have "j \<noteq> i" using first_run_nth[OF i] first_run_nth[OF j(1)] by auto
    with j show "\<exists>j. first_run w h = Some j \<and> run_Status ((w_workflowRuns w)[i := run] ! j) =
        (if process_of a = None then ''queued'' else ''in_progress'')"
      by (intro exI[of _ j]) simp
  qed
  then show ?thesis by (simp add: world.defs)
qed

lemma transition_action_status:
  "transition_action st input = Some act \<Longrightarrow>
     act = wti_Status input \<and>
     (wti_Status input = ''in_progress'' \<and> wti_Conclusion input = [] \<and> st = ''queued'' \<or>
      wti_Status input = ''completed'' \<and> wti_Conclusion input \<noteq> [] \<and>
        (st = ''queued'' \<or> st = ''in_progress''))"
  by (auto simp: transition_action_def split: if_splits)

lemma transitionWorkflowRun_ok [inv_intros]:
  assumes ok: "world_ok w"
  shows "world_ok (snd (transitionWorkflowRun body w))"
proof -
  have put: "world_ok (w\<lparr>w_workflowRuns := (w_workflowRuns w)
      [i := (w_workflowRuns w ! i)\<lparr>run_Status := wti_Status inp, run_Conclusion := wti_Conclusion inp\<rparr>]\<rparr>)"
    if i: "first_run w (wti_RunID inp) = Some i" and free: "m_get (w_activeRuns w) (wti_RunID inp) = None"
      and act: "transition_action (run_Status (w_workflowRuns w ! i)) inp = Some a" for i inp a
  proof (rule world_ok_put_unclaimed_run[OF ok i _ _ free])
    have "run_ok w (w_workflowRuns w ! i)"
      using first_run_nth[OF i] world_ok_run[OF ok] by simp
    then show "run_ok w ((w_workflowRuns w ! i)
        \<lparr>run_Status := wti_Status inp, run_Conclusion := wti_Conclusion inp\<rparr>)"
      using transition_action_status[OF act] by (auto simp: run_ok_def)
  qed (use first_run_nth[OF i] in simp)
  then show ?thesis
    using ok by (auto split: sum.split option.split
        simp: transitionWorkflowRun_def Let_def event_appends world_ok_append)
qed

section \<open>Tokens and cancellation\<close>

lemma mint_token_ok [inv_intros]:
  assumes ok: "world_ok w"
  shows "world_ok (fst (snd (mint_token known sys appID iid options w e)))"
proof -
  have put: "world_ok (w\<lparr>w_tokens := m_put v (new_token v iid ids perms t) (w_tokens w)\<rparr>)"
    if "m_get (w_installs w) iid = Some i" "selectRepositories w i options = Some ids"
      "selectPermissions (inst_permissions i) req = Some perms" for i ids perms req v t
    using that selectRepositories_within[OF that(2)] selectPermissions_within[OF that(3)]
    by (intro world_ok_put_token[OF ok, of _ v i]) (auto simp: new_token_def subset_of_def perms_within_def)
  show ?thesis
    using ok put by (auto split: option.split prod.split simp: mint_token_def Let_def)
qed

lemma CreateInstallationToken_ok [inv_intros]:
  "world_ok w \<Longrightarrow> world_ok (fst (snd (CreateInstallationToken jwt known sys raw iid options w e)))"
  by (auto split: option.split simp: CreateInstallationToken_def Let_def mint_token_ok)

lemma run_ok_cancel_requested:
  "run_ok w run \<Longrightarrow> run_ok w (run\<lparr>run_CancellationRequested := b\<rparr>)"
  by (simp add: run_ok_def)

text \<open>Requesting a cancellation and, when the signal was sent, noting it in the claim.\<close>

lemma world_ok_request_cancel:
  assumes ok: "world_ok w" and i: "i < length (w_workflowRuns w)"
    and act: "act = w_activeRuns w \<or>
      (\<exists>k a b. m_get (w_activeRuns w) k = Some a \<and>
         act = m_put k (a\<lparr>ar_cancellationSignalled := b\<rparr>) (w_activeRuns w))"
  shows "world_ok (w\<lparr>w_workflowRuns := (w_workflowRuns w)
           [i := (w_workflowRuns w ! i)\<lparr>run_CancellationRequested := True\<rparr>], w_activeRuns := act\<rparr>)"
    (is "world_ok (w\<lparr>w_workflowRuns := (w_workflowRuns w)[i := ?run], w_activeRuns := act\<rparr>)")
proof (rule world_ok_put_run[OF ok i])
  show "run_ok w ?run"
    using i by (intro run_ok_cancel_requested world_ok_run[OF ok]) simp
  fix h a
  assume "m_get act h = Some a"
  with act obtain a' where a': "m_get (w_activeRuns w) h = Some a'" "process_of a = process_of a'"
    by (auto simp: process_of_def split: if_splits)
  with world_ok_claim[OF ok a'(1)] obtain j where j: "first_run w h = Some j"
    "run_Status (w_workflowRuns w ! j) = (if process_of a = None then ''queued'' else ''in_progress'')"
    by auto
  then have "j < length (w_workflowRuns w)" by (simp add: first_run_nth)
  with j show "\<exists>j. first_run w h = Some j \<and> run_Status ((w_workflowRuns w)[i := ?run] ! j) =
      (if process_of a = None then ''queued'' else ''in_progress'')"
    by (intro exI[of _ j]) (cases "j = i"; simp)
qed simp

lemma CancelWorkflowRunByID_ok [inv_intros]:
  assumes ok: "world_ok w"
  shows "world_ok (fst (snd (CancelWorkflowRunByID sys auth owner name k w e)))"
proof -
  have req: "world_ok (w\<lparr>w_workflowRuns := (w_workflowRuns w)
      [i := (w_workflowRuns w ! i)\<lparr>run_CancellationRequested := True\<rparr>]\<rparr>)"
    if "i < length (w_workflowRuns w)" for i
    using world_ok_request_cancel[OF ok that, of "w_activeRuns w"] by (simp add: world.defs)
  have sig: "world_ok (w\<lparr>w_workflowRuns := (w_workflowRuns w)
      [i := (w_workflowRuns w ! i)\<lparr>run_CancellationRequested := True\<rparr>],
      w_activeRuns := m_put k ((m_get_or zero_active_run (w_activeRuns w) k)
        \<lparr>ar_cancellationSignalled := True\<rparr>) (w_activeRuns w)\<rparr>)"
    if "i < length (w_workflowRuns w)" "process_of (m_get_or zero_active_run (w_activeRuns w) k) = Some p" for i p
    using that(2) by (intro world_ok_request_cancel[OF ok that(1)])
      (cases "m_get (w_activeRuns w) k"; auto simp: zero_active_run_def process_of_def)
  show ?thesis
    using ok req sig by (auto split: option.split prod.split if_split
        simp: CancelWorkflowRunByID_def Let_def index_of_Some)
qed

section \<open>Pushes\<close>

text \<open>A repository as the tables hold it; nothing removes or changes one.\<close>

definition known_repository :: "world \<Rightarrow> repository \<Rightarrow> bool" where
  "known_repository w r \<longleftrightarrow> m_get (w_repositories w) (repo_id r) = Some r"

lemma record_ref_change_frame [simp]:
  "w_repositories (record_ref_change r t b a f ref w) = w_repositories w"
  "w_workflows (record_ref_change r t b a f ref w) = w_workflows w"
  "w_installs (record_ref_change r t b a f ref w) = w_installs w"
  by (simp_all add: record_ref_change_def appendQueuedWorkflow_def event_appends Let_def
      split: option.split)

lemma appendQueuedWorkflow_ok [inv_intros]:
  assumes "world_ok w" "known_repository w r" "sha \<noteq> []"
  shows "world_ok (appendQueuedWorkflow r flow ref sha w)"
proof -
  have "run_ok w (queued_run (w_nextRunID w + 1) r flow ref sha)"
    using assms(2,3) by (simp add: run_ok_def queued_run_def known_repository_def)
  then show ?thesis
    using world_ok_new_run[OF assms(1)]
    by (simp add: appendQueuedWorkflow_def event_appends Let_def world_ok_append queued_run_def)
qed

lemma record_ref_change_ok [inv_intros]:
  assumes "world_ok w" "known_repository w r"
  shows "world_ok (record_ref_change r t b a f ref w)"
proof -
  have "world_ok (appendPushEvent r i ref x y z w)" for i x y z
    using assms(1) by (simp add: event_appends world_ok_append)
  moreover have "known_repository (appendPushEvent r i ref x y z w) r" for i x y z
    using assms(2) by (simp add: known_repository_def event_appends)
  ultimately show ?thesis
    using assms(1) by (auto simp: record_ref_change_def Let_def appendQueuedWorkflow_ok split: option.split)
qed

lemma fold_record_ref_change_ok:
  "world_ok w \<Longrightarrow> known_repository w r \<Longrightarrow> world_ok (fold (record_ref_change r t b a f) refs w)"
  by (induction refs arbitrary: w) (simp_all add: record_ref_change_ok known_repository_def)

lemma record_changes_ok [inv_intros]:
  "world_ok w \<Longrightarrow> known_repository w r \<Longrightarrow> world_ok (record_changes r t b a f w)"
  by (simp add: record_changes_def Let_def fold_record_ref_change_ok)

lemma store_snapshot_ok [inv_intros]:
  assumes ok: "world_ok w"
  shows "world_ok (store_snapshot s base head w)"
proof (cases "m_get (w_pulls w) (rs_key s)")
  case (Some p)
  have "pull_ok w (rs_key s) p" by (rule world_ok_pull[OF ok Some])
  then show ?thesis
    using ok Some by (auto simp: store_snapshot_def Let_def pull_ok_def intro!: world_ok_put_pull)
qed (use ok in \<open>simp add: store_snapshot_def\<close>)

lemma refresh_all_ok [inv_intros]: "world_ok w \<Longrightarrow> world_ok (fst (refresh_all sys dir ss w e))"
  by (induction ss arbitrary: w e) (simp_all add: store_snapshot_ok split: prod.split)

lemma recordObservationError_ok [inv_intros]: "world_ok w \<Longrightarrow> world_ok (recordObservationError r op err w)"
  unfolding recordObservationError_def
  by (erule world_ok_frame) (simp_all add: same_logs_def same_tables_def)

lemma recordUnsupported_ok [inv_intros]: "world_ok w \<Longrightarrow> world_ok (recordUnsupported rq w)"
  unfolding recordUnsupported_def
  by (erule world_ok_frame) (simp_all add: same_logs_def same_tables_def)

section \<open>Executions\<close>

lemma execute_claim_world:
  assumes "execute_claim k w = (Inr c, w')"
  shows "w' = w\<lparr>w_activeRuns := m_put k zero_active_run (w_activeRuns w)\<rparr>"
    and "first_run w k = Some (cl_index c)" "cl_run c = w_workflowRuns w ! cl_index c"
    and "run_ID (cl_run c) = k" "run_Status (cl_run c) = ''queued''"
    and "m_get (w_activeRuns w) k = None"
    and "m_get (w_repositories w) (run_RepositoryID (cl_run c)) = Some (cl_repository c)"
    and "m_get (w_workflows w) (run_RepositoryID (cl_run c)) = Some (cl_workflow c)"
  using assms
  by (auto simp: execute_claim_def workflowRunByID_def index_of_Some split: option.splits if_splits)

lemma execute_claim_rejected: "execute_claim k w = (Inl r, w') \<Longrightarrow> w' = w"
  by (auto simp: execute_claim_def split: option.splits if_splits prod.splits)

lemma process_of_zero [simp]: "process_of zero_active_run = None"
  by (simp add: process_of_def zero_active_run_def)

lemma execute_claim_ok [inv_intros]:
  assumes ok: "world_ok w"
  shows "world_ok (snd (execute_claim k w))"
proof (cases "execute_claim k w")
  case (Pair r w')
  show ?thesis
  proof (cases r)
    case (Inl x)
    with Pair have "w' = w" by (auto dest: execute_claim_rejected)
    with ok Pair show ?thesis by simp
  next
    case (Inr c)
    note cw = execute_claim_world[OF Pair[unfolded Inr]]
    have "world_ok (w\<lparr>w_activeRuns := m_put k zero_active_run (w_activeRuns w)\<rparr>)"
    proof (rule world_ok_put_active[OF ok])
      fix h a
      assume h: "m_get (m_put k zero_active_run (w_activeRuns w)) h = Some a"
      show "\<exists>j. first_run w h = Some j \<and> run_Status (w_workflowRuns w ! j) =
          (if process_of a = None then ''queued'' else ''in_progress'')"
        by (cases "h = k") (use h cw world_ok_claim[OF ok, of h a] in auto)
    qed
    with Pair cw(1) show ?thesis by simp
  qed
qed

text \<open>
  What a handler that claimed a run relies on in its later sections: the run is still the first
  with its ID, at the same index, the claim is in the table, with the process of the runner once it
  was started, and the repository is the one in the tables.
\<close>

definition claim_held :: "world \<Rightarrow> claim \<Rightarrow> nat option \<Rightarrow> bool" where
  "claim_held w c p \<longleftrightarrow>
     first_run w (run_ID (cl_run c)) = Some (cl_index c) \<and>
     (\<exists>a. m_get (w_activeRuns w) (run_ID (cl_run c)) = Some a \<and> process_of a = p) \<and>
     known_repository w (cl_repository c)"

lemma execute_claim_held:
  assumes ok: "world_ok w" and c: "execute_claim k w = (Inr c, w')"
  shows "claim_held w' c None"
proof -
  note cw = execute_claim_world[OF c]
  have "repo_id (cl_repository c) = run_RepositoryID (cl_run c)"
    using world_ok_repository[OF ok cw(7)] by (simp add: repository_ok_def)
  with cw show ?thesis by (simp add: claim_held_def known_repository_def)
qed

lemma claim_held_status:
  assumes ok: "world_ok w" and c: "claim_held w c p"
  shows "cl_index c < length (w_workflowRuns w)"
    and "run_ID (w_workflowRuns w ! cl_index c) = run_ID (cl_run c)"
    and "run_Status (w_workflowRuns w ! cl_index c) = (if p = None then ''queued'' else ''in_progress'')"
proof -
  from c obtain a where a: "first_run w (run_ID (cl_run c)) = Some (cl_index c)"
    "m_get (w_activeRuns w) (run_ID (cl_run c)) = Some a" "process_of a = p"
    by (auto simp: claim_held_def)
  show "cl_index c < length (w_workflowRuns w)"
    "run_ID (w_workflowRuns w ! cl_index c) = run_ID (cl_run c)"
    using first_run_nth[OF a(1)] by auto
  show "run_Status (w_workflowRuns w ! cl_index c) = (if p = None then ''queued'' else ''in_progress'')"
    using world_ok_claim[OF ok a(2)] a by auto
qed

text \<open>Changing the claimed run and its entry of the claim table together.\<close>

lemma world_ok_put_claimed:
  assumes ok: "world_ok w" and c: "claim_held w c p" and id: "run_ID run = run_ID (cl_run c)"
    and run: "run_ok w run"
    and others: "\<And>h. h \<noteq> run_ID (cl_run c) \<Longrightarrow> m_get act h = m_get (w_activeRuns w) h"
    and mine: "\<And>a. m_get act (run_ID (cl_run c)) = Some a \<Longrightarrow>
      run_Status run = (if process_of a = None then ''queued'' else ''in_progress'')"
  shows "world_ok (w\<lparr>w_workflowRuns := (w_workflowRuns w)[cl_index c := run], w_activeRuns := act\<rparr>)"
proof (rule world_ok_put_run[OF ok _ _ run])
  note st = claim_held_status[OF ok c]
  show "cl_index c < length (w_workflowRuns w)" by (rule st(1))
  show "run_ID run = run_ID (w_workflowRuns w ! cl_index c)" using id st(2) by simp
  have first: "first_run w (run_ID (cl_run c)) = Some (cl_index c)"
    using c by (simp add: claim_held_def)
  fix h a
  assume h: "m_get act h = Some a"
  show "\<exists>j. first_run w h = Some j \<and> run_Status ((w_workflowRuns w)[cl_index c := run] ! j) =
      (if process_of a = None then ''queued'' else ''in_progress'')"
  proof (cases "h = run_ID (cl_run c)")
    case True
    with h mine first st(1) show ?thesis by simp
  next
    case False
    with h others have "m_get (w_activeRuns w) h = Some a" by simp
    from world_ok_claim[OF ok this] obtain j where j: "first_run w h = Some j"
      "run_Status (w_workflowRuns w ! j) = (if process_of a = None then ''queued'' else ''in_progress'')"
      by auto
    with False st first_run_nth[OF j(1)] have "j \<noteq> cl_index c" by auto
    with j show ?thesis by simp
  qed
qed

lemma put_runs_active:
  "w\<lparr>w_activeRuns := a, w_workflowRuns := rs\<rparr> = w\<lparr>w_workflowRuns := rs, w_activeRuns := a\<rparr>"
  by simp

lemma append_event_active:
  "(appendPendingAppEvent ev act a r p w)\<lparr>w_activeRuns := m\<rparr> =
     appendPendingAppEvent ev act a r p (w\<lparr>w_activeRuns := m\<rparr>)"
  by (simp add: appendPendingAppEvent_def Let_def)

lemma appendWorkflowEvent_active:
  "(appendWorkflowEvent r run act w)\<lparr>w_activeRuns := m\<rparr> =
     appendWorkflowEvent r run act (w\<lparr>w_activeRuns := m\<rparr>)"
  by (simp add: event_appends append_event_active)

lemma appendWorkflowEvent_frame [simp]:
  "w_activeRuns (appendWorkflowEvent r run act w) = w_activeRuns w"
  "w_workflowRuns (appendWorkflowEvent r run act w) = w_workflowRuns w"
  "w_repositories (appendWorkflowEvent r run act w) = w_repositories w"
  "w_mutations (appendWorkflowEvent r run act w) = w_mutations w"
  by (simp_all add: event_appends)

lemma appendWorkflowEvent_ok: "world_ok w \<Longrightarrow> world_ok (appendWorkflowEvent r run act w)"
  by (simp add: event_appends world_ok_append)

lemma claimed_run_ok:
  assumes "world_ok w" "claim_held w c p"
    and "run_Status run \<in> {''queued'', ''in_progress'', ''completed''}"
    and "run_Conclusion run \<noteq> [] \<longleftrightarrow> run_Status run = ''completed''"
    and "run_Attempt run = run_Attempt (w_workflowRuns w ! cl_index c)"
    and "run_HeadSHA run = run_HeadSHA (w_workflowRuns w ! cl_index c)"
    and "run_RepositoryID run = run_RepositoryID (w_workflowRuns w ! cl_index c)"
  shows "run_ok w run"
proof -
  have "run_ok w (w_workflowRuns w ! cl_index c)"
    using world_ok_run[OF assms(1)] claim_held_status[OF assms(1,2)] by simp
  with assms(3-) show ?thesis by (auto simp: run_ok_def)
qed

lemma finish_conclusion_nonempty [simp]: "finish_conclusion a err \<noteq> []"
  by (simp add: finish_conclusion_def)

text \<open>
  In the second section the checks of the index and of the status never fail: the claim keeps every
  other handler from moving the run.
\<close>

lemma execute_start_cases:
  assumes ok: "world_ok w" and c: "claim_held w c None"
  defines "i \<equiv> cl_index c" and "run \<equiv> w_workflowRuns w ! cl_index c" and "k \<equiv> run_ID (cl_run c)"
  shows "execute_start sys c rc w e =
    (if run_CancellationRequested run then
       (StartReply (writeJSON 200 (PRun (run\<lparr>run_Status := ''completed'', run_Conclusion := ''cancelled''\<rparr>))),
        bump (appendWorkflowEvent (cl_repository c)
          (run\<lparr>run_Status := ''completed'', run_Conclusion := ''cancelled''\<rparr>) ''completed''
          (w\<lparr>w_workflowRuns := (w_workflowRuns w)
               [i := run\<lparr>run_Status := ''completed'', run_Conclusion := ''cancelled''\<rparr>],
             w_activeRuns := m_del k (w_activeRuns w)\<rparr>)), e)
     else case sys_start sys (rc_dir rc) (rc_path rc) (rc_args rc) (rc_env rc) e of
       (Inl _, e') \<Rightarrow>
         (StartReply (writeControlError 500 ''start workflow runner''), execute_release k w, e')
     | (Inr pid, e') \<Rightarrow>
         (Started pid, bump (appendWorkflowEvent (cl_repository c) (run\<lparr>run_Status := ''in_progress''\<rparr>)
            ''in_progress'' (w\<lparr>w_workflowRuns := (w_workflowRuns w)[i := run\<lparr>run_Status := ''in_progress''\<rparr>],
              w_activeRuns := m_put k \<lparr>ar_command = Some \<lparr>cmd_process = Some pid\<rparr>,
                ar_cancellationSignalled = False\<rparr> (w_activeRuns w)\<rparr>)), e'))"
  using claim_held_status[OF ok c]
  by (simp add: execute_start_def Let_def execute_release_def i_def run_def k_def
      appendWorkflowEvent_active put_runs_active split: sum.split prod.split)

lemma execute_start_ok [inv_intros]:
  assumes ok: "world_ok w" and c: "claim_held w c None"
  shows "world_ok (fst (snd (execute_start sys c rc w e)))"
proof -
  note st = claim_held_status[OF ok c]
  have "world_ok (w\<lparr>w_workflowRuns := (w_workflowRuns w)[cl_index c := (w_workflowRuns w ! cl_index c)
        \<lparr>run_Status := ''completed'', run_Conclusion := ''cancelled''\<rparr>],
      w_activeRuns := m_del (run_ID (cl_run c)) (w_activeRuns w)\<rparr>)"
    using st by (intro world_ok_put_claimed[OF ok c] claimed_run_ok[OF ok c]) auto
  moreover have "world_ok (w\<lparr>w_workflowRuns := (w_workflowRuns w)[cl_index c := (w_workflowRuns w ! cl_index c)
        \<lparr>run_Status := ''in_progress''\<rparr>],
      w_activeRuns := m_put (run_ID (cl_run c)) \<lparr>ar_command = Some \<lparr>cmd_process = Some pid\<rparr>,
                ar_cancellationSignalled = False\<rparr> (w_activeRuns w)\<rparr>)" for pid
  proof -
    have "run_ok w (w_workflowRuns w ! cl_index c)" using world_ok_run[OF ok] st by simp
    then show ?thesis
      using st by (intro world_ok_put_claimed[OF ok c] claimed_run_ok[OF ok c])
        (auto simp: process_of_def run_ok_def)
  qed
  ultimately show ?thesis
    using world_ok_release[OF ok]
    by (simp add: execute_start_cases[OF ok c] appendWorkflowEvent_ok split: sum.split prod.split)
qed

lemma execute_finish_ok [inv_intros]:
  assumes ok: "world_ok w" and c: "claim_held w c p"
  shows "world_ok (snd (execute_finish c err logs w))"
proof -
  note st = claim_held_status[OF ok c]
  have "world_ok (w\<lparr>w_workflowRuns := (w_workflowRuns w)[cl_index c := (w_workflowRuns w ! cl_index c)
        \<lparr>run_Status := ''completed'', run_Logs := logs, run_Conclusion := finish_conclusion a err\<rparr>],
      w_activeRuns := m_del (run_ID (cl_run c)) (w_activeRuns w)\<rparr>)" for a
    using st by (intro world_ok_put_claimed[OF ok c] claimed_run_ok[OF ok c]) auto
  then show ?thesis
    using st by (simp add: execute_finish_def Let_def execute_release_def appendWorkflowEvent_ok put_runs_active)
qed

end
