(* ===== verification/Dtu_Evolution.thy ===== *)
theory Dtu_Evolution
  imports Dtu_Preserve
begin

text \<open>
  How the world may change over time: the logs only grow, a run moves forward and is frozen once
  it is completed, repositories, names and Apps are permanent, installations keep their identity
  and permissions, pull requests keep their branches, and the clock does not go back. Every
  critical section respects this order (lemmas \<open>evolves_intros\<close>).
\<close>

named_theorems evolves_intros "the order of worlds is respected, one lemma per operation"

section \<open>Runs\<close>

definition status_rank :: "string \<Rightarrow> nat" where
  "status_rank s = (if s = ''queued'' then 0 else if s = ''in_progress'' then 1 else 2)"

definition same_run :: "workflow_run \<Rightarrow> workflow_run \<Rightarrow> bool" where
  "same_run r s \<longleftrightarrow>
     run_ID s = run_ID r \<and> run_Attempt s = run_Attempt r \<and> run_RepositoryID s = run_RepositoryID r \<and>
     run_WorkflowID s = run_WorkflowID r \<and> run_WorkflowName s = run_WorkflowName r \<and>
     run_WorkflowPath s = run_WorkflowPath r \<and> run_Event s = run_Event r \<and>
     run_HeadBranch s = run_HeadBranch r \<and> run_HeadSHA s = run_HeadSHA r"

definition run_evolves :: "workflow_run \<Rightarrow> workflow_run \<Rightarrow> bool" where
  "run_evolves r s \<longleftrightarrow>
     same_run r s \<and> status_rank (run_Status r) \<le> status_rank (run_Status s) \<and>
     (run_CancellationRequested r \<longrightarrow> run_CancellationRequested s) \<and>
     (run_Status r = ''completed'' \<longrightarrow> s = r)"

lemma run_evolves_refl [simp]: "run_evolves r r"
  by (simp add: run_evolves_def same_run_def)

lemma status_rank_simps [simp]:
  "status_rank ''queued'' = 0" "status_rank ''in_progress'' = 1" "status_rank ''completed'' = 2"
  by (simp_all add: status_rank_def)

lemma run_evolves_trans: "run_evolves a b \<Longrightarrow> run_evolves b c \<Longrightarrow> run_evolves a c"
  by (auto simp: run_evolves_def same_run_def)

definition runs_grow :: "workflow_run list \<Rightarrow> workflow_run list \<Rightarrow> bool" where
  "runs_grow rs ss \<longleftrightarrow>
     length rs \<le> length ss \<and> (\<forall>i < length rs. run_evolves (rs ! i) (ss ! i))"

lemma runs_grow_refl [simp]: "runs_grow rs rs"
  by (simp add: runs_grow_def)

lemma runs_grow_trans: "runs_grow a b \<Longrightarrow> runs_grow b c \<Longrightarrow> runs_grow a c"
  unfolding runs_grow_def by (meson le_trans less_le_trans run_evolves_trans)

lemma runs_grow_append [simp]: "runs_grow rs (rs @ ss)"
  by (simp add: runs_grow_def nth_append)

lemma runs_grow_update: "run_evolves (rs ! i) r \<Longrightarrow> runs_grow rs (rs[i := r])"
  by (cases "i < length rs") (auto simp: runs_grow_def nth_list_update)

section \<open>Tables\<close>

text \<open>Entries that are permanent: once a key has a value, it keeps it.\<close>

definition keeps :: "('k, 'v) gomap \<Rightarrow> ('k, 'v) gomap \<Rightarrow> bool" where
  "keeps m n \<longleftrightarrow> (\<forall>k v. m_get m k = Some v \<longrightarrow> m_get n k = Some v)"

text \<open>Entries that stay related.\<close>

definition keeps_by :: "('v \<Rightarrow> 'v \<Rightarrow> bool) \<Rightarrow> ('k, 'v) gomap \<Rightarrow> ('k, 'v) gomap \<Rightarrow> bool" where
  "keeps_by R m n \<longleftrightarrow> (\<forall>k v. m_get m k = Some v \<longrightarrow> (\<exists>v'. m_get n k = Some v' \<and> R v v'))"

definition installation_grows :: "installation \<Rightarrow> installation \<Rightarrow> bool" where
  "installation_grows i j \<longleftrightarrow>
     inst_id j = inst_id i \<and> inst_appID j = inst_appID i \<and> inst_active j = inst_active i \<and>
     inst_owner j = inst_owner i \<and> inst_ownerType j = inst_ownerType i \<and>
     inst_permissions j = inst_permissions i \<and>
     subset_of (inst_repositoryIDs i) (inst_repositoryIDs j)"

definition same_pull :: "pull_request \<Rightarrow> pull_request \<Rightarrow> bool" where
  "same_pull p q \<longleftrightarrow>
     pr_repositoryID q = pr_repositoryID p \<and> pr_number q = pr_number p \<and>
     pr_baseRef q = pr_baseRef p \<and> pr_headRef q = pr_headRef p \<and> pr_draft q = pr_draft p"

lemma keeps_refl [simp]: "keeps m m"
  by (simp add: keeps_def)

lemma keeps_trans: "keeps a b \<Longrightarrow> keeps b c \<Longrightarrow> keeps a c"
  by (simp add: keeps_def)

lemma keeps_put: "m_get m k = None \<Longrightarrow> keeps m (m_put k v m)"
  by (auto simp: keeps_def)

lemma keeps_by_refl: "(\<And>v. R v v) \<Longrightarrow> keeps_by R m m"
  by (simp add: keeps_by_def)

lemma keeps_by_trans:
  "(\<And>x y z. R x y \<Longrightarrow> R y z \<Longrightarrow> R x z) \<Longrightarrow> keeps_by R a b \<Longrightarrow> keeps_by R b c \<Longrightarrow> keeps_by R a c"
  unfolding keeps_by_def by metis

lemma keeps_by_put:
  "(\<And>v. R v v) \<Longrightarrow> (\<And>u. m_get m k = Some u \<Longrightarrow> R u v) \<Longrightarrow> keeps_by R m (m_put k v m)"
  by (auto simp: keeps_by_def)

lemma installation_grows_refl [simp]: "installation_grows i i"
  by (simp add: installation_grows_def subset_of_def)

lemma installation_grows_trans:
  "installation_grows a b \<Longrightarrow> installation_grows b c \<Longrightarrow> installation_grows a c"
  by (simp add: installation_grows_def subset_of_def)

lemma same_pull_refl [simp]: "same_pull p p"
  by (simp add: same_pull_def)

lemma same_pull_trans: "same_pull a b \<Longrightarrow> same_pull b c \<Longrightarrow> same_pull a c"
  by (simp add: same_pull_def)

section \<open>The order of worlds\<close>

definition logs_grow :: "world \<Rightarrow> world \<Rightarrow> bool" where
  "logs_grow w w' \<longleftrightarrow>
     prefix (w_pendingEvents w) (w_pendingEvents w') \<and>
     prefix (w_deliveryAttempts w) (w_deliveryAttempts w') \<and>
     prefix (w_observationErrors w) (w_observationErrors w') \<and>
     prefix (w_unsupported w) (w_unsupported w') \<and> w_now w \<le> w_now w'"

definition tables_grow :: "world \<Rightarrow> world \<Rightarrow> bool" where
  "tables_grow w w' \<longleftrightarrow>
     w_dataDir w' = w_dataDir w \<and> keeps (w_apps w) (w_apps w') \<and>
     keeps (w_repositories w) (w_repositories w') \<and> keeps (w_repoNames w) (w_repoNames w') \<and>
     keeps (w_receiveLocks w) (w_receiveLocks w') \<and>
     keeps_by installation_grows (w_installs w) (w_installs w') \<and>
     keeps_by same_pull (w_pulls w) (w_pulls w')"

definition evolves :: "world \<Rightarrow> world \<Rightarrow> bool" where
  "evolves w w' \<longleftrightarrow>
     logs_grow w w' \<and> tables_grow w w' \<and> runs_grow (w_workflowRuns w) (w_workflowRuns w')"

lemma logs_grow_refl [simp]: "logs_grow w w"
  by (simp add: logs_grow_def)

lemma tables_grow_refl [simp]: "tables_grow w w"
  by (simp add: tables_grow_def keeps_by_refl)

lemma evolves_refl [simp]: "evolves w w"
  by (simp add: evolves_def)

lemma logs_grow_trans: "logs_grow a b \<Longrightarrow> logs_grow b c \<Longrightarrow> logs_grow a c"
  unfolding logs_grow_def by (auto intro: prefix_order.trans)

lemma tables_grow_trans:
  assumes "tables_grow a b" "tables_grow b c"
  shows "tables_grow a c"
  using assms keeps_by_trans[of installation_grows, OF installation_grows_trans]
    keeps_by_trans[of same_pull, OF same_pull_trans]
  by (auto simp: tables_grow_def intro: keeps_trans)

lemma evolves_trans: "evolves a b \<Longrightarrow> evolves b c \<Longrightarrow> evolves a c"
  unfolding evolves_def using logs_grow_trans tables_grow_trans runs_grow_trans by blast

lemma same_tables_grow: "same_tables w w' \<Longrightarrow> tables_grow w w'"
  by (simp add: same_tables_def tables_grow_def keeps_by_refl)

lemma evolves_bump [simp]: "evolves w (bump w') = evolves w w'"
  by (simp add: evolves_def logs_grow_def tables_grow_def)

lemma evolves_append: "evolves w (appendPendingAppEvent ev act a r p w)"
  by (simp add: evolves_def logs_grow_def append_event_log same_tables_grow same_tables_def)

lemma evolves_then_append:
  "evolves w w' \<Longrightarrow> evolves w (appendPendingAppEvent ev act a r p w')"
  using evolves_append evolves_trans by blast

lemma evolves_then_workflow_event:
  "evolves w w' \<Longrightarrow> evolves w (appendWorkflowEvent r run act w')"
  by (simp add: event_appends evolves_then_append)

text \<open>Changes of the runs and claims alone.\<close>

lemma evolves_runs:
  "run_evolves (w_workflowRuns w ! i) run \<Longrightarrow>
     evolves w (w\<lparr>w_workflowRuns := (w_workflowRuns w)[i := run]\<rparr>)"
  by (simp add: evolves_def logs_grow_def same_tables_grow same_tables_def runs_grow_update)

lemma evolves_active [simp]: "evolves w (w'\<lparr>w_activeRuns := a\<rparr>) = evolves w w'"
  by (simp add: evolves_def logs_grow_def tables_grow_def)

section \<open>Every section respects the order\<close>

lemma createApp_evolves [evolves_intros]:
  assumes ok: "world_ok w"
  shows "evolves w (snd (createApp kp body w))"
proof -
  have "evolves w (w\<lparr>w_apps := m_put k a (w_apps w)\<rparr>)"
    if "0 < sint k" "app_id (m_get_or zero_app (w_apps w) k) = 0" for k a
  proof -
    have "m_get (w_apps w) k = None" using that zero_app_lookup[OF ok, of k] by auto
    then show ?thesis
      by (simp add: evolves_def logs_grow_def tables_grow_def keeps_put keeps_by_refl)
  qed
  then show ?thesis
    by (auto simp: createApp_def not_le split: sum.split option.split public_key.split)
qed

lemma createInstallation_evolves [evolves_intros]:
  assumes ok: "world_ok w"
  shows "evolves w (snd (createInstallation body w))"
proof -
  have "evolves w (w\<lparr>w_installs := m_put k i (w_installs w)\<rparr>)"
    if "0 < sint k" "inst_id (m_get_or zero_installation (w_installs w) k) = 0" for k i
  proof -
    have "m_get (w_installs w) k = None" using that zero_installation_lookup[OF ok, of k] by auto
    then have "keeps_by installation_grows (w_installs w) (m_put k i (w_installs w))"
      by (intro keeps_by_put) simp_all
    then show ?thesis
      by (simp add: evolves_def logs_grow_def tables_grow_def keeps_by_refl)
  qed
  then show ?thesis
    by (auto simp: createInstallation_def Let_def not_le event_appends evolves_then_append
        split: sum.split option.split)
qed

lemma add_repository_evolves:
  assumes "m_get (w_installs w) (repo_installationID r) = Some i"
    and "m_get (w_repositories w) (repo_id r) = None"
    and "m_get (w_repoNames w) (repoName (repo_owner r) (repo_name r)) = None"
  shows "evolves w (add_repository r i w)"
proof -
  have "keeps (w_receiveLocks w) (m_put (repo_id r) () (w_receiveLocks w))"
    by (auto simp: keeps_def)
  moreover have "keeps_by installation_grows (w_installs w) (m_put (repo_installationID r)
      (i\<lparr>inst_repositoryIDs := m_put (repo_id r) () (inst_repositoryIDs i)\<rparr>) (w_installs w))"
    using assms(1) by (intro keeps_by_put) (auto simp: installation_grows_def subset_of_def)
  ultimately have "evolves w (w\<lparr>w_repositories := m_put (repo_id r) r (w_repositories w),
      w_receiveLocks := m_put (repo_id r) () (w_receiveLocks w),
      w_repoNames := m_put (repoName (repo_owner r) (repo_name r)) (repo_id r) (w_repoNames w),
      w_installs := m_put (repo_installationID r)
        (i\<lparr>inst_repositoryIDs := m_put (repo_id r) () (inst_repositoryIDs i)\<rparr>) (w_installs w)\<rparr>)"
    using assms(2,3) by (simp add: evolves_def logs_grow_def tables_grow_def keeps_put keeps_by_refl)
  then show ?thesis
    by (simp add: add_repository_def Let_def event_appends evolves_then_append)
qed

lemma createRepository_evolves [evolves_intros]:
  "evolves w (fst (snd (createRepository sys body w e)))"
  by (auto split: sum.split option.split prod.split simp: createRepository_def Let_def
      intro!: add_repository_evolves)

lemma evolves_put_pull:
  "(\<And>q. m_get (w_pulls w) k = Some q \<Longrightarrow> same_pull q p) \<Longrightarrow>
     evolves w (w\<lparr>w_pulls := m_put k p (w_pulls w)\<rparr>)"
  by (simp add: evolves_def logs_grow_def tables_grow_def keeps_by_refl keeps_by_put)

lemma createPullRequest_evolves [evolves_intros]:
  "evolves w (fst (snd (createPullRequest sys body w e)))"
  by (auto split: sum.split option.split prod.split simp: createPullRequest_def Let_def
      intro!: evolves_put_pull)

lemma changePullRequestState_evolves [evolves_intros]:
  "evolves w (snd (changePullRequestState body w))"
  by (auto split: sum.split option.split simp: changePullRequestState_def Let_def same_pull_def
      intro!: evolves_put_pull)

lemma advanceTime_evolves [evolves_intros]: "evolves w (snd (advanceTime body w))"
  by (auto split: sum.split option.split simp: advanceTime_def Let_def evolves_def logs_grow_def
      tables_grow_def keeps_by_refl time_add_def)

lemma configureWorkflow_evolves [evolves_intros]:
  "evolves w (fst (snd (configureWorkflow sys body w e)))"
  by (auto split: sum.split prod.split simp: configureWorkflow_def Let_def evolves_def logs_grow_def
      tables_grow_def keeps_by_refl)

lemma deliver_record_evolves [evolves_intros]: "evolves w (deliver_record a w)"
  by (simp add: deliver_record_def evolves_def logs_grow_def same_tables_grow same_tables_def)

lemma duplicateEvent_evolves [evolves_intros]: "evolves w (snd (duplicateEvent body w))"
  by (auto split: sum.split option.split simp: duplicateEvent_def Let_def evolves_def logs_grow_def
      same_tables_grow same_tables_def)

lemma transitionWorkflowRun_evolves [evolves_intros]:
  "evolves w (snd (transitionWorkflowRun body w))"
proof -
  have "run_evolves run (run\<lparr>run_Status := wti_Status inp, run_Conclusion := wti_Conclusion inp\<rparr>)"
    if "transition_action (run_Status run) inp = Some a" for run inp a
    using transition_action_status[OF that] by (auto simp: run_evolves_def same_run_def)
  then show ?thesis
    by (auto split: sum.split option.split simp: transitionWorkflowRun_def Let_def
        intro!: evolves_then_workflow_event evolves_runs)
qed

lemma mint_token_evolves [evolves_intros]:
  "evolves w (fst (snd (mint_token known sys appID iid options w e)))"
  by (auto split: option.split prod.split simp: mint_token_def Let_def evolves_def logs_grow_def
      tables_grow_def keeps_by_refl)

lemma CancelWorkflowRunByID_evolves [evolves_intros]:
  "evolves w (fst (snd (CancelWorkflowRunByID sys auth owner name k w e)))"
  by (auto split: option.split prod.split if_split simp: CancelWorkflowRunByID_def Let_def
      run_evolves_def same_run_def intro!: evolves_runs)

lemma appendQueuedWorkflow_evolves: "evolves w (appendQueuedWorkflow r flow ref sha w)"
proof -
  have "evolves w (w\<lparr>w_nextRunID := n, w_workflowRuns := w_workflowRuns w @ rs\<rparr>)" for n rs
    by (simp add: evolves_def logs_grow_def same_tables_grow same_tables_def)
  then show ?thesis
    by (simp add: appendQueuedWorkflow_def Let_def evolves_then_workflow_event)
qed

lemma record_ref_change_evolves: "evolves w (record_ref_change r t b a f ref w)"
proof -
  have "evolves w (appendPushEvent r i ref x y z w)" for i x y z
    by (simp add: event_appends evolves_append)
  then show ?thesis
    using appendQueuedWorkflow_evolves evolves_trans
    by (fastforce simp: record_ref_change_def Let_def split: option.split)
qed

lemma record_changes_evolves [evolves_intros]: "evolves w (record_changes r t b a f w)"
proof -
  have "evolves w (fold (record_ref_change r t b a f) refs w)" for refs
    by (induction refs arbitrary: w) (auto intro: record_ref_change_evolves evolves_trans)
  then show ?thesis by (simp add: record_changes_def Let_def)
qed

lemma store_snapshot_evolves [evolves_intros]: "evolves w (store_snapshot s base head w)"
  by (auto simp: store_snapshot_def Let_def same_pull_def intro!: evolves_put_pull split: option.split)

lemma refresh_all_evolves [evolves_intros]: "evolves w (fst (refresh_all sys dir ss w e))"
proof (induction ss arbitrary: w e)
  case (Cons s ss)
  have "evolves w (fst (refresh_all sys dir ss (store_snapshot s base head w) e'))" for base head e'
    by (rule evolves_trans[OF store_snapshot_evolves Cons.IH])
  then show ?case by (simp split: prod.split)
qed simp

lemma recordObservationError_evolves [evolves_intros]: "evolves w (recordObservationError r op err w)"
  by (simp add: recordObservationError_def evolves_def logs_grow_def same_tables_grow same_tables_def)

lemma recordUnsupported_evolves [evolves_intros]: "evolves w (recordUnsupported rq w)"
  by (simp add: recordUnsupported_def evolves_def logs_grow_def same_tables_grow same_tables_def)

lemma execute_claim_evolves [evolves_intros]: "evolves w (snd (execute_claim k w))"
  by (auto simp: execute_claim_def split: option.split prod.split)

lemma execute_release_evolves [evolves_intros]: "evolves w (execute_release k w)"
  by (simp add: execute_release_def)

lemma execute_start_evolves [evolves_intros]:
  assumes ok: "world_ok w" and c: "claim_held w c None"
  shows "evolves w (fst (snd (execute_start sys c rc w e)))"
proof -
  have "run_Status (w_workflowRuns w ! cl_index c) = ''queued''"
    using claim_held_status[OF ok c] by simp
  then show ?thesis
    by (auto simp: execute_start_cases[OF ok c] execute_release_evolves run_evolves_def same_run_def
        intro!: evolves_then_workflow_event evolves_runs split: sum.split prod.split)
qed

lemma execute_finish_evolves [evolves_intros]:
  assumes ok: "world_ok w" and c: "claim_held w c p"
  shows "evolves w (snd (execute_finish c err logs w))"
proof -
  note st = claim_held_status[OF ok c]
  then have "run_evolves (w_workflowRuns w ! cl_index c) ((w_workflowRuns w ! cl_index c)
      \<lparr>run_Status := ''completed'', run_Logs := logs, run_Conclusion := concl\<rparr>)" for concl
    by (simp add: run_evolves_def same_run_def)
  then show ?thesis
    using st by (simp add: execute_finish_def Let_def execute_release_def put_runs_active
        evolves_then_workflow_event evolves_runs)
qed

text \<open>What the order keeps for a handler between two of its sections.\<close>

lemma evolves_known_repository: "evolves w w' \<Longrightarrow> known_repository w r \<Longrightarrow> known_repository w' r"
  by (simp add: evolves_def tables_grow_def keeps_def known_repository_def)

lemma runs_grow_index:
  assumes "runs_grow rs ss" "index_of (\<lambda>run. run_ID run = k) rs = Some i"
  shows "index_of (\<lambda>run. run_ID run = k) ss = Some i"
proof -
  have len: "length rs \<le> length ss" and ev: "\<And>j. j < length rs \<Longrightarrow> run_ID (ss ! j) = run_ID (rs ! j)"
    using assms(1) by (auto simp: runs_grow_def run_evolves_def same_run_def)
  have "i < length rs" "run_ID (rs ! i) = k" "\<forall>j < i. run_ID (rs ! j) \<noteq> k"
    using assms(2) by (auto simp: index_of_Some)
  with len ev show ?thesis by (auto simp: index_of_Some)
qed

lemma evolves_claim_held:
  assumes "evolves w w'" "claim_held w c p"
    and "\<And>a. m_get (w_activeRuns w) (run_ID (cl_run c)) = Some a \<Longrightarrow>
      \<exists>a'. m_get (w_activeRuns w') (run_ID (cl_run c)) = Some a' \<and> process_of a' = process_of a"
  shows "claim_held w' c p"
  using assms runs_grow_index[of "w_workflowRuns w" "w_workflowRuns w'"] evolves_known_repository[OF assms(1)]
  unfolding claim_held_def evolves_def by fastforce

end
