(* ===== verification/Dtu_Server.thy ===== *)
theory Dtu_Server
  imports Dtu_Evolution
begin

text \<open>
  The server's life in \<open>dtu/server.go\<close>: defaults of the configuration, \<open>Start\<close> with its cleanup of
  a temporary data directory, the initial world, and \<open>close\<close>, which stops the runners and both
  HTTP servers once. Directories, listeners and HTTP servers belong to the operating system and
  the standard library: a record of operations on the external state.
\<close>

section \<open>Configuration\<close>

text \<open>\<open>Config\<close>; \<open>None\<close> is the zero time.\<close>

record config =
  cfg_PublicAddress :: string
  cfg_ControlAddress :: string
  cfg_DataDir :: string
  cfg_InitialTime :: "gotime option"

definition withConfigDefaults :: "('e \<Rightarrow> gotime \<times> 'e) \<Rightarrow> config \<Rightarrow> 'e \<Rightarrow> config \<times> 'e" where
  "withConfigDefaults time_now c e =
     (let c1 = (if cfg_PublicAddress c = [] then c\<lparr>cfg_PublicAddress := ''127.0.0.1:0''\<rparr> else c);
          c2 = (if cfg_ControlAddress c1 = [] then c1\<lparr>cfg_ControlAddress := ''127.0.0.1:0''\<rparr> else c1)
      in if cfg_InitialTime c2 = None
         then (let (now, e') = time_now e in (c2\<lparr>cfg_InitialTime := Some now\<rparr>, e'))
         else (c2, e))"

section \<open>The host\<close>

text \<open>
  The operations of the operating system and of the HTTP servers that \<open>Start\<close> and \<open>close\<close> use, next
  to those of the handlers. An error is its text; a listener is its address.
\<close>

datatype server_side = PublicSide | ControlSide

text \<open>How \<open>Server.Serve\<close> returned.\<close>

datatype serve_error = ErrServerClosed | ServeFailed string

record 'e host =
  ho_sys :: "'e sys"
  ho_now :: "'e \<Rightarrow> gotime \<times> 'e"
  ho_mkdir_temp :: "string \<Rightarrow> 'e \<Rightarrow> (string + string) \<times> 'e"
  ho_stat :: "string \<Rightarrow> 'e \<Rightarrow> string option \<times> 'e"
  ho_listen :: "string \<Rightarrow> 'e \<Rightarrow> (string + string) \<times> 'e"
  ho_close_listener :: "string \<Rightarrow> 'e \<Rightarrow> 'e"
  ho_serve :: "server_side \<Rightarrow> string \<Rightarrow> 'e \<Rightarrow> 'e"
  ho_shutdown :: "server_side \<Rightarrow> 'e \<Rightarrow> string option \<times> 'e"
  ho_close_server :: "server_side \<Rightarrow> 'e \<Rightarrow> 'e"
  ho_served :: "'e \<Rightarrow> serve_error \<times> 'e"

section \<open>Starting\<close>

definition initial_world :: "gotime \<Rightarrow> string \<Rightarrow> string \<Rightarrow> world" where
  "initial_world now dataDir gitBackend =
     \<lparr>w_now = now, w_dataDir = dataDir, w_gitBackend = gitBackend,
      w_apps = m_empty, w_installs = m_empty, w_repositories = m_empty, w_repoNames = m_empty,
      w_pulls = m_empty, w_tokens = m_empty, w_workflows = m_empty, w_receiveLocks = m_empty,
      w_workflowRuns = [], w_pendingEvents = [], w_observationErrors = [], w_deliveryAttempts = [],
      w_activeRuns = m_empty, w_nextRunID = 1000, w_nextEventID = 0, w_unsupported = [],
      w_mutations = 0\<rparr>"

record instance_runtime =
  in_GitHubURL :: string
  in_GitURL :: string
  in_ControlURL :: string
  in_world :: world
  in_removeDataDir :: bool
  in_dataDir :: string
  in_closed :: "string list option"

text \<open>An address as the host of the URLs the instance reports.\<close>

definition server_url :: "string \<Rightarrow> string" where
  "server_url addr = ''http://'' @ addr @ ''/''"

text \<open>\<open>Start\<close> after the data directory is known, up to the point where it may still fail.\<close>

definition start_in ::
    "'e host \<Rightarrow> config \<Rightarrow> string \<Rightarrow> bool \<Rightarrow> 'e \<Rightarrow> (string + instance_runtime) \<times> 'e" where
  "start_in host c dataDir removeDataDir e =
     (let sys = ho_sys host;
          (err1, e1) = sys_mkdir_all sys (path_join [dataDir, ''repositories'']) e in
      case err1 of Some err \<Rightarrow> (Inl (''prepare data directory: '' @ err), e1) | None \<Rightarrow>
     (let (r2, e2) = sys_exec sys [] ''git'' [''--exec-path''] e1 in
      case ex_err r2 of Some err \<Rightarrow> (Inl (''locate Git executables: '' @ err), e2) | None \<Rightarrow>
     (let gitBackend = path_join [trim_space (ex_stdout r2), ''git-http-backend''];
          (err3, e3) = ho_stat host gitBackend e2 in
      case err3 of Some err \<Rightarrow> (Inl (''locate git-http-backend: '' @ err), e3) | None \<Rightarrow>
     (let (l4, e4) = ho_listen host (cfg_PublicAddress c) e3 in
      case l4 of Inl err \<Rightarrow> (Inl (''listen for public API: '' @ err), e4) | Inr publicAddr \<Rightarrow>
     (let (l5, e5) = ho_listen host (cfg_ControlAddress c) e4 in
      case l5 of
        Inl err \<Rightarrow> (Inl (''listen for control API: '' @ err), ho_close_listener host publicAddr e5)
      | Inr controlAddr \<Rightarrow>
          (let e6 = ho_serve host PublicSide publicAddr e5;
               e7 = ho_serve host ControlSide controlAddr e6;
               now = (case cfg_InitialTime c of None \<Rightarrow> 0 | Some t \<Rightarrow> t)
           in (Inr \<lparr>in_GitHubURL = server_url publicAddr, in_GitURL = server_url publicAddr,
                    in_ControlURL = server_url controlAddr,
                    in_world = initial_world now dataDir gitBackend,
                    in_removeDataDir = removeDataDir, in_dataDir = dataDir, in_closed = None\<rparr>, e7)))))))"

definition start :: "'e host \<Rightarrow> config \<Rightarrow> 'e \<Rightarrow> (string + instance_runtime) \<times> 'e" where
  "start host c0 e =
     (let (c, e0) = withConfigDefaults (ho_now host) c0 e
      in if cfg_DataDir c = []
         then (case ho_mkdir_temp host ''dtu-github-'' e0 of
                 (Inl err, e1) \<Rightarrow> (Inl (''create data directory: '' @ err), e1)
               | (Inr dataDir, e1) \<Rightarrow>
                   (case start_in host c dataDir True e1 of
                      (Inr inst, e2) \<Rightarrow> (Inr inst, e2)
                    | (Inl err, e2) \<Rightarrow> (Inl err, snd (sys_remove_all (ho_sys host) dataDir e2))))
         else start_in host c (cfg_DataDir c) False e0)"

lemma start_in_instance:
  "start_in host c dataDir rm e = (Inr inst, e') \<Longrightarrow>
     in_dataDir inst = dataDir \<and> in_removeDataDir inst = rm \<and> in_closed inst = None \<and>
     (\<exists>backend. in_world inst =
        initial_world (case cfg_InitialTime c of None \<Rightarrow> 0 | Some t \<Rightarrow> t) dataDir backend)"
  by (auto simp: start_in_def Let_def split: prod.splits option.splits sum.splits)

text \<open>The world that \<open>Start\<close> builds satisfies the invariant.\<close>

lemma initial_world_ok [inv_intros]: "world_ok (initial_world now dataDir gitBackend)"
  by (simp add: world_ok_def table_defs initial_world_def runs_ok_def events_ok_def active_ok_def
      numbered_Nil)

section \<open>Closing\<close>

text \<open>The processes that \<open>stopActiveRuns\<close> finds in the claims, with their runs.\<close>

definition active_processes :: "world \<Rightarrow> (int64 \<times> nat) list" where
  "active_processes w =
     List.map_filter (\<lambda>(k, a). map_option (\<lambda>pid. (k, pid)) (process_of a)) (m_entries (w_activeRuns w))"

fun stop_runs :: "'e sys \<Rightarrow> string \<Rightarrow> bool \<Rightarrow> (int64 \<times> nat) list \<Rightarrow> 'e \<Rightarrow> 'e" where
  "stop_runs sys dataDir force [] e = e"
| "stop_runs sys dataDir force ((k, pid) # runs) e =
     (let e1 = (if force then sys_kill sys pid e else snd (sys_interrupt sys pid e))
      in stop_runs sys dataDir force runs (cleanupRunContainers sys dataDir k e1))"

definition stopActiveRuns :: "'e sys \<Rightarrow> bool \<Rightarrow> world \<Rightarrow> 'e \<Rightarrow> 'e" where
  "stopActiveRuns sys force w e = stop_runs sys (w_dataDir w) force (active_processes w) e"

text \<open>\<open>serve\<close>: a server that was shut down is not an error.\<close>

definition serve_result :: "serve_error \<Rightarrow> string option" where
  "serve_result r = (case r of ErrServerClosed \<Rightarrow> None | ServeFailed err \<Rightarrow> Some err)"

text \<open>\<open>errors.Join\<close>: the errors that are not nil, in order.\<close>

definition join_errors :: "string option list \<Rightarrow> string list" where
  "join_errors es = List.map_filter (\<lambda>x. x) es"

text \<open>
  The body of \<open>closeOnce\<close>. The handlers still run while the servers shut down, so the world that the
  forced stop reads is a later one, an argument.
\<close>

definition close_body ::
    "'e host \<Rightarrow> instance_runtime \<Rightarrow> world \<Rightarrow> world \<Rightarrow> 'e \<Rightarrow> string list \<times> 'e" where
  "close_body host r w later e =
     (let sys = ho_sys host;
          e1 = stopActiveRuns sys False w e;
          (publicErr, e2) = ho_shutdown host PublicSide e1;
          (controlErr, e3) = ho_shutdown host ControlSide e2;
          e4 = (if publicErr \<noteq> None then ho_close_server host PublicSide e3 else e3);
          e5 = (if controlErr \<noteq> None
                then ho_close_server host ControlSide (stopActiveRuns sys True later e4) else e4);
          (s1, e6) = ho_served host e5;
          (s2, e7) = ho_served host e6;
          e8 = (if in_removeDataDir r then snd (sys_remove_all sys (in_dataDir r) e7) else e7)
      in (join_errors [publicErr, controlErr, serve_result s1, serve_result s2], e8))"

definition close ::
    "'e host \<Rightarrow> instance_runtime \<Rightarrow> world \<Rightarrow> world \<Rightarrow> 'e \<Rightarrow> string list \<times> instance_runtime \<times> 'e" where
  "close host r w later e =
     (case in_closed r of
        Some errs \<Rightarrow> (errs, r, e)
      | None \<Rightarrow> (let (errs, e') = close_body host r w later e
                 in (errs, r\<lparr>in_closed := Some errs\<rparr>, e')))"

lemma active_processes_iff:
  "(k, pid) \<in> set (active_processes w) \<longleftrightarrow>
     (\<exists>a. m_get (w_activeRuns w) k = Some a \<and> process_of a = Some pid)"
  unfolding active_processes_def List.map_filter_def
  by (force simp: m_entries_get image_iff)

end
