(* ===== verification/Dtu_System.thy ===== *)
theory Dtu_System
  imports Dtu_Server
begin

text \<open>
  The running server as a transition system. A state is the world, the state of the external
  system and the handlers that are between two of their critical sections: executions, pushes and
  deliveries. A step is one critical section of one handler, or a step outside the world, so the
  runs of the system are the interleavings of concurrent requests that the world's lock allows.
\<close>

section \<open>Requests that take one section\<close>

text \<open>The handlers of \<open>controlHandler\<close> that are one critical section, with their bodies.\<close>

datatype control_call =
    CallCreateApp "app_input control_body"
  | CallCreateInstallation "installation_input control_body"
  | CallCreateRepository "repository_input control_body"
  | CallCreatePullRequest "pull_request_input control_body"
  | CallChangePullRequestState "pull_request_state_input control_body"
  | CallAdvanceTime "advance_time_input control_body"
  | CallConfigureWorkflow "workflow_input control_body"
  | CallDuplicateEvent "duplicate_event_input control_body"
  | CallTransitionWorkflowRun "workflow_transition_input control_body"
  | CallGetState

text \<open>The parameters of the system: the libraries and the external operations.\<close>

record 'e params =
  pm_sys :: "'e sys"
  pm_keys :: key_parser
  pm_known :: "string \<Rightarrow> bool"

definition control_step ::
    "'e params \<Rightarrow> control_call \<Rightarrow> world \<Rightarrow> 'e \<Rightarrow> response \<times> world \<times> 'e" where
  "control_step p call w e =
     (case call of
        CallCreateApp b \<Rightarrow> (let (r, w') = createApp (pm_keys p) b w in (r, w', e))
      | CallCreateInstallation b \<Rightarrow> (let (r, w') = createInstallation b w in (r, w', e))
      | CallCreateRepository b \<Rightarrow> createRepository (pm_sys p) b w e
      | CallCreatePullRequest b \<Rightarrow> createPullRequest (pm_sys p) b w e
      | CallChangePullRequestState b \<Rightarrow> (let (r, w') = changePullRequestState b w in (r, w', e))
      | CallAdvanceTime b \<Rightarrow> (let (r, w') = advanceTime b w in (r, w', e))
      | CallConfigureWorkflow b \<Rightarrow> configureWorkflow (pm_sys p) b w e
      | CallDuplicateEvent b \<Rightarrow> (let (r, w') = duplicateEvent b w in (r, w', e))
      | CallTransitionWorkflowRun b \<Rightarrow> (let (r, w') = transitionWorkflowRun b w in (r, w', e))
      | CallGetState \<Rightarrow> (getState w, w, e))"

lemma control_step_ok [inv_intros]: "world_ok w \<Longrightarrow> world_ok (fst (snd (control_step p call w e)))"
  by (cases call) (simp_all add: control_step_def inv_intros split: prod.split,
      (metis inv_intros snd_conv)+)

lemma control_step_evolves [evolves_intros]:
  "world_ok w \<Longrightarrow> evolves w (fst (snd (control_step p call w e)))"
  by (cases call) (simp_all add: control_step_def evolves_intros split: prod.split,
      (metis evolves_intros snd_conv)+)

section \<open>Handlers between two sections\<close>

text \<open>An execution: claimed, prepared, running its process, about to drop its claim, or panicked.\<close>

datatype exec_phase =
    Claimed claim
  | Prepared claim runner_command
  | Running claim nat
  | Releasing claim
  | ExecPanicked

text \<open>
  A push: authorized and waiting for the receive lock of its repository, holding it with the refs
  read before, with the refs read after and the forced updates, about to list the snapshots, or
  refreshing them.
\<close>

datatype push_phase =
    Waiting git_grant
  | Receiving git_grant "(string, string) gomap"
  | Recording git_grant "(string, string) gomap" "(string, string) gomap" "(string, bool) gomap"
  | Listing git_grant
  | Refreshing git_grant "ref_snapshot list"
  | PushPanicked

text \<open>A delivery: planned, or answered by the receiver.\<close>

datatype delivery_phase =
    Planned delivery_input delivery_plan
  | Answered delivery_plan delivery_attempt

record 'e server =
  sv_world :: world
  sv_env :: 'e
  sv_execs :: "exec_phase list"
  sv_pushes :: "push_phase list"
  sv_deliveries :: "delivery_phase list"

text \<open>The claim of an execution with the process it waits for, if it has one.\<close>

fun phase_claim :: "exec_phase \<Rightarrow> (claim \<times> nat option) option" where
  "phase_claim (Claimed c) = Some (c, None)"
| "phase_claim (Prepared c rc) = Some (c, None)"
| "phase_claim (Running c pid) = Some (c, Some pid)"
| "phase_claim (Releasing c) = Some (c, None)"
| "phase_claim ExecPanicked = None"

text \<open>The repository whose receive lock a push holds.\<close>

fun push_locked :: "push_phase \<Rightarrow> int64 option" where
  "push_locked (Waiting g) = None"
| "push_locked (Receiving g _) = Some (repo_id (gg_repository g))"
| "push_locked (Recording g _ _ _) = Some (repo_id (gg_repository g))"
| "push_locked (Listing g) = Some (repo_id (gg_repository g))"
| "push_locked (Refreshing g _) = Some (repo_id (gg_repository g))"
| "push_locked PushPanicked = None"

text \<open>
  \<open>receiveLock.Lock()\<close> returns when no other push holds the lock of the repository; the deferred unlock gives it
  back when the handler returns, whichever way.
\<close>

definition lock_available :: "push_phase list \<Rightarrow> git_grant \<Rightarrow> bool" where
  "lock_available others g \<longleftrightarrow> Some (repo_id (gg_repository g)) \<notin> push_locked ` set others"

fun push_grant :: "push_phase \<Rightarrow> git_grant option" where
  "push_grant (Waiting g) = Some g"
| "push_grant (Receiving g _) = Some g"
| "push_grant (Recording g _ _ _) = Some g"
| "push_grant (Listing g) = Some g"
| "push_grant (Refreshing g _) = Some g"
| "push_grant PushPanicked = None"

fun delivery_plan_of :: "delivery_phase \<Rightarrow> delivery_plan" where
  "delivery_plan_of (Planned _ p) = p"
| "delivery_plan_of (Answered p _) = p"

text \<open>What an execution becomes after its second and third sections.\<close>

fun after_start :: "claim \<Rightarrow> start_result \<Rightarrow> exec_phase list" where
  "after_start c (StartReply r) = []"
| "after_start c (Started pid) = [Running c pid]"
| "after_start c StartPanic = [ExecPanicked]"

fun after_finish :: "(workflow_run \<times> bool) option \<Rightarrow> exec_phase list" where
  "after_finish None = [ExecPanicked]"
| "after_finish (Some _) = []"

fun after_prepare :: "claim \<Rightarrow> response + runner_command \<Rightarrow> exec_phase" where
  "after_prepare c (Inl r) = Releasing c"
| "after_prepare c (Inr rc) = Prepared c rc"

section \<open>Steps\<close>

definition server_init :: "'e params \<Rightarrow> 'e server \<Rightarrow> bool" where
  "server_init p s \<longleftrightarrow>
     (\<exists>now dataDir backend. sv_world s = initial_world now dataDir backend) \<and>
     sv_execs s = [] \<and> sv_pushes s = [] \<and> sv_deliveries s = []"

text \<open>
  A handler that is in flight goes on with its next section. A push waits for the receive lock of its
  repository until no other push holds it; the refs it reads first decide whether it is served.
\<close>

inductive handler_step :: "'e params \<Rightarrow> 'e server \<Rightarrow> 'e server \<Rightarrow> bool" for p :: "'e params" where
  handle_prepare: "sv_execs s = xs @ Claimed c # ys \<Longrightarrow>
     execute_prepare (pm_sys p) (w_dataDir (sv_world s)) c (sv_env s) = (r, e) \<Longrightarrow>
     handler_step p s (s\<lparr>sv_env := e, sv_execs := xs @ after_prepare c r # ys\<rparr>)"
| handle_release: "sv_execs s = xs @ Releasing c # ys \<Longrightarrow>
     handler_step p s
       (s\<lparr>sv_world := execute_release (run_ID (cl_run c)) (sv_world s), sv_execs := xs @ ys\<rparr>)"
| handle_start: "sv_execs s = xs @ Prepared c rc # ys \<Longrightarrow>
     execute_start (pm_sys p) c rc (sv_world s) (sv_env s) = (r, w, e) \<Longrightarrow>
     handler_step p s (s\<lparr>sv_world := w, sv_env := e, sv_execs := xs @ after_start c r @ ys\<rparr>)"
| handle_finish: "sv_execs s = xs @ Running c pid # ys \<Longrightarrow>
     sys_wait (pm_sys p) pid (sv_env s) = ((err, output), e) \<Longrightarrow>
     execute_finish c err (log_header c @ output) (sv_world s) = (r, w) \<Longrightarrow>
     handler_step p s (s\<lparr>sv_world := w, sv_env := e, sv_execs := xs @ after_finish r @ ys\<rparr>)"
| handle_lock: "sv_pushes s = xs @ Waiting g # ys \<Longrightarrow> gg_lock g \<Longrightarrow>
     lock_available (xs @ ys) g \<Longrightarrow>
     branchRefs (pm_sys p) (repo_gitDir (gg_repository g)) (sv_env s) = (Inr before, e) \<Longrightarrow>
     handler_step p s (s\<lparr>sv_env := e, sv_pushes := xs @ Receiving g before # ys\<rparr>)"
| handle_no_lock: "sv_pushes s = xs @ Waiting g # ys \<Longrightarrow> \<not> gg_lock g \<Longrightarrow>
     handler_step p s (s\<lparr>sv_pushes := xs @ PushPanicked # ys\<rparr>)"
| handle_lock_fails: "sv_pushes s = xs @ Waiting g # ys \<Longrightarrow> gg_lock g \<Longrightarrow>
     lock_available (xs @ ys) g \<Longrightarrow>
     branchRefs (pm_sys p) (repo_gitDir (gg_repository g)) (sv_env s) = (Inl err, e) \<Longrightarrow>
     handler_step p s (s\<lparr>sv_env := e, sv_pushes := xs @ ys\<rparr>)"
| handle_received: "sv_pushes s = xs @ Receiving g before # ys \<Longrightarrow>
     branchRefs (pm_sys p) (repo_gitDir (gg_repository g))
       (snd (sys_cgi (pm_sys p) (git_cgi rq parts (gg_repository g) (sv_world s)) (sv_env s))) = (Inr after, e1) \<Longrightarrow>
     forced_map (pm_sys p) (repo_gitDir (gg_repository g)) before after (ref_names before after) m_empty e1 =
       (forced, e2) \<Longrightarrow>
     handler_step p s (s\<lparr>sv_env := e2, sv_pushes := xs @ Recording g before after forced # ys\<rparr>)"
| handle_unconfirmed: "sv_pushes s = xs @ Receiving g before # ys \<Longrightarrow>
     branchRefs (pm_sys p) (repo_gitDir (gg_repository g))
       (snd (sys_cgi (pm_sys p) (git_cgi rq parts (gg_repository g) (sv_world s)) (sv_env s))) = (Inl err, e1) \<Longrightarrow>
     handler_step p s (s\<lparr>sv_world := recordObservationError (repo_id (gg_repository g))
         ''post-receive ref snapshot'' err (sv_world s), sv_env := e1, sv_pushes := xs @ ys\<rparr>)"
| handle_record: "sv_pushes s = xs @ Recording g before after forced # ys \<Longrightarrow>
     handler_step p s (s\<lparr>sv_world :=
         record_changes (gg_repository g) (gg_token g) before after forced (sv_world s),
       sv_pushes := xs @ Listing g # ys\<rparr>)"
| handle_list: "sv_pushes s = xs @ Listing g # ys \<Longrightarrow>
     handler_step p s (s\<lparr>sv_pushes := xs @ Refreshing g
         (pull_snapshots (repo_id (gg_repository g)) (sv_world s)) # ys\<rparr>)"
| handle_refresh: "sv_pushes s = xs @ Refreshing g (snap # snaps) # ys \<Longrightarrow>
     resolveRef (pm_sys p) (repo_gitDir (gg_repository g)) (rs_baseRef snap) (sv_env s) = (base, e1) \<Longrightarrow>
     resolveRef (pm_sys p) (repo_gitDir (gg_repository g)) (rs_headRef snap) e1 = (head, e2) \<Longrightarrow>
     handler_step p s (s\<lparr>sv_world := store_snapshot snap base head (sv_world s), sv_env := e2,
         sv_pushes := xs @ Refreshing g snaps # ys\<rparr>)"
| handle_pushed: "sv_pushes s = xs @ Refreshing g [] # ys \<Longrightarrow>
     handler_step p s (s\<lparr>sv_pushes := xs @ ys\<rparr>)"
| handle_post: "sv_deliveries s = xs @ Planned input d # ys \<Longrightarrow>
     sys_post (pm_sys p) (outbound_request input d) (sv_env s) = (res, e) \<Longrightarrow>
     handler_step p s (s\<lparr>sv_env := e, sv_deliveries := xs @ Answered d (delivery_result input d res) # ys\<rparr>)"
| handle_delivered: "sv_deliveries s = xs @ Answered d attempt # ys \<Longrightarrow>
     handler_step p s (s\<lparr>sv_world := deliver_record attempt (sv_world s), sv_deliveries := xs @ ys\<rparr>)"

text \<open>A step of the server: one of a handler in flight, a request that arrives, or one of the surroundings.\<close>

inductive server_step :: "'e params \<Rightarrow> 'e server \<Rightarrow> 'e server \<Rightarrow> bool" for p :: "'e params" where
  step_env: "server_step p s (s\<lparr>sv_env := e\<rparr>)"
| step_control: "control_step p call (sv_world s) (sv_env s) = (r, w, e) \<Longrightarrow>
     server_step p s (s\<lparr>sv_world := w, sv_env := e\<rparr>)"
| step_mint: "mint_token (pm_known p) (pm_sys p) appID iid opts (sv_world s) (sv_env s) = (r, w, e) \<Longrightarrow>
     server_step p s (s\<lparr>sv_world := w, sv_env := e\<rparr>)"
| step_cancel: "CancelWorkflowRunByID (pm_sys p) auth owner name k (sv_world s) (sv_env s) = (r, w, e) \<Longrightarrow>
     server_step p s (s\<lparr>sv_world := w, sv_env := e\<rparr>)"
| step_unsupported: "server_step p s (s\<lparr>sv_world := recordUnsupported rq (sv_world s)\<rparr>)"
| step_claim: "execute_claim k (sv_world s) = (Inr c, w) \<Longrightarrow>
     server_step p s (s\<lparr>sv_world := w, sv_execs := Claimed c # sv_execs s\<rparr>)"
| step_authorize: "gitService rq parts = (''git-receive-pack'', True) \<Longrightarrow> rq_Method rq = ''POST'' \<Longrightarrow>
     git_authorize rq parts ''git-receive-pack'' (sv_world s) = Inr g \<Longrightarrow>
     server_step p s (s\<lparr>sv_pushes := Waiting g # sv_pushes s\<rparr>)"
| step_plan: "deliver_read input (sv_world s) = Inr d \<Longrightarrow>
     sys_valid_request_url (pm_sys p) (app_webhookURL (dp_app d)) \<Longrightarrow>
     server_step p s (s\<lparr>sv_deliveries := Planned input d # sv_deliveries s\<rparr>)"
| step_handler: "handler_step p s s' \<Longrightarrow> server_step p s s'"

inductive reachable :: "'e params \<Rightarrow> 'e server \<Rightarrow> bool" for p :: "'e params" where
  reach_init: "server_init p s \<Longrightarrow> reachable p s"
| reach_more: "reachable p r \<Longrightarrow> server_step p r s \<Longrightarrow> reachable p s"

interpretation dtu: transition_system "server_init p" "server_step p" "reachable p" for p :: "'e params"
proof
  fix s :: "'e server" and P
  assume "reachable p s" "\<And>s. server_init p s \<Longrightarrow> P s"
    "\<And>r s. reachable p r \<Longrightarrow> P r \<Longrightarrow> server_step p r s \<Longrightarrow> P s"
  then show "P s" by (induction rule: reachable.induct) blast+
qed (rule reach_more)

section \<open>Sections that leave claims and attempts alone\<close>

text \<open>
  A section is quiet when no claim appears, disappears or changes its process and no delivery
  attempt is recorded. All are, except the ones of executions and the last one of a delivery.
\<close>

definition same_claims :: "world \<Rightarrow> world \<Rightarrow> bool" where
  "same_claims w w' \<longleftrightarrow>
     (\<forall>k. map_option process_of (m_get (w_activeRuns w') k) =
          map_option process_of (m_get (w_activeRuns w) k))"

definition quiet :: "world \<Rightarrow> world \<Rightarrow> bool" where
  "quiet w w' \<longleftrightarrow> same_claims w w' \<and> w_deliveryAttempts w' = w_deliveryAttempts w"

named_theorems quiet_intros "sections that leave claims and delivery attempts alone"

lemma quietI: "w_activeRuns w' = w_activeRuns w \<Longrightarrow> w_deliveryAttempts w' = w_deliveryAttempts w \<Longrightarrow> quiet w w'"
  by (simp add: quiet_def same_claims_def)

lemma quiet_refl [simp]: "quiet w w"
  by (simp add: quietI)

lemma quiet_trans: "quiet a b \<Longrightarrow> quiet b c \<Longrightarrow> quiet a c"
  by (simp add: quiet_def same_claims_def)

lemma quiet_simps [simp]:
  "quiet w (bump w') = quiet w w'"
  "quiet w (appendPendingAppEvent ev act a r p w') = quiet w w'"
  "quiet w (appendWorkflowEvent rp run act w') = quiet w w'"
  "quiet w (appendPushEvent rp i ref x y z w') = quiet w w'"
  "quiet w (appendQueuedWorkflow rp flow ref sha w') = quiet w w'"
  by (simp_all add: quiet_def same_claims_def event_appends appendQueuedWorkflow_def Let_def)

lemma control_step_quiet [quiet_intros]: "quiet w (fst (snd (control_step p call w e)))"
proof (cases call)
  case (CallCreateApp b)
  then show ?thesis
    by (auto simp: control_step_def createApp_def intro: quietI
        split: sum.split option.split public_key.split)
next
  case (CallCreateInstallation b)
  have "quiet w (snd (createInstallation b w))"
    by (auto simp: createInstallation_def Let_def event_appends intro: quietI
        split: sum.split option.split)
  with CallCreateInstallation show ?thesis
    by (cases "createInstallation b w") (simp add: control_step_def)
next
  case (CallCreateRepository b)
  then show ?thesis
    by (auto simp: control_step_def createRepository_def Let_def add_repository_def event_appends
        intro: quietI split: sum.split option.split prod.split)
next
  case (CallCreatePullRequest b)
  then show ?thesis
    by (auto simp: control_step_def createPullRequest_def Let_def intro: quietI
        split: sum.split option.split prod.split)
next
  case (CallChangePullRequestState b)
  then show ?thesis
    by (auto simp: control_step_def changePullRequestState_def Let_def intro: quietI
        split: sum.split option.split)
next
  case (CallAdvanceTime b)
  then show ?thesis
    by (auto simp: control_step_def advanceTime_def Let_def intro: quietI split: sum.split option.split)
next
  case (CallConfigureWorkflow b)
  then show ?thesis
    by (auto simp: control_step_def configureWorkflow_def Let_def intro: quietI
        split: sum.split prod.split)
next
  case (CallDuplicateEvent b)
  then show ?thesis
    by (auto simp: control_step_def duplicateEvent_def Let_def intro: quietI split: sum.split option.split)
next
  case (CallTransitionWorkflowRun b)
  have "quiet w (snd (transitionWorkflowRun b w))"
    by (auto simp: transitionWorkflowRun_def Let_def intro: quietI split: sum.split option.split)
  with CallTransitionWorkflowRun show ?thesis
    by (cases "transitionWorkflowRun b w") (simp add: control_step_def)
qed (simp add: control_step_def)

lemma mint_token_quiet [quiet_intros]:
  "quiet w (fst (snd (mint_token known sys appID iid opts w e)))"
  by (auto simp: mint_token_def Let_def intro: quietI split: option.split prod.split)

lemma CancelWorkflowRunByID_quiet [quiet_intros]:
  "quiet w (fst (snd (CancelWorkflowRunByID sys auth owner name k w e)))"
proof -
  let ?a = "m_get_or zero_active_run (w_activeRuns w) k"
  have req: "quiet w (w\<lparr>w_workflowRuns := rs\<rparr>)" for rs
    by (simp add: quietI)
  have sig: "quiet w (w\<lparr>w_workflowRuns := rs, w_activeRuns :=
      m_put k (?a\<lparr>ar_cancellationSignalled := True\<rparr>) (w_activeRuns w)\<rparr>)"
    if pid: "process_of ?a = Some pid" for rs pid
  proof -
    obtain a where "m_get (w_activeRuns w) k = Some a" "?a = a"
      using pid by (cases "m_get (w_activeRuns w) k") auto
    then show ?thesis by (simp add: quiet_def same_claims_def process_of_def)
  qed
  show ?thesis
    using req sig by (auto split: option.split prod.split if_split simp: CancelWorkflowRunByID_def Let_def)
qed

lemma record_ref_change_quiet: "quiet w (record_ref_change r t b a f ref w)"
  by (simp add: record_ref_change_def Let_def split: option.split)

lemma record_changes_quiet [quiet_intros]: "quiet w (record_changes r t b a f w)"
proof -
  have "quiet w (fold (record_ref_change r t b a f) refs w)" for refs
    by (induction refs arbitrary: w) (auto intro: record_ref_change_quiet quiet_trans)
  then show ?thesis by (simp add: record_changes_def Let_def)
qed

lemma small_sections_quiet [quiet_intros]:
  "quiet w (store_snapshot s base head w)"
  "quiet w (recordObservationError r op err w)"
  "quiet w (recordUnsupported rq w)"
  by (auto simp: store_snapshot_def recordObservationError_def recordUnsupported_def Let_def
      intro: quietI split: option.split)

end
