(* ===== verification/Dtu_Client.thy ===== *)
theory Dtu_Client
  imports Dtu_System
begin

text \<open>
  The routes of the control server (\<open>controlHandler\<close> in \<open>dtu/control.go\<close>) and the Go client of
  \<open>dtu/client.go\<close> that calls them: which path and method each client operation uses, where the
  route table sends it, and which answers the client turns into errors.
\<close>

section \<open>The route table\<close>

datatype endpoint =
    EpCreateApp | EpCreateInstallation | EpCreateRepository | EpCreatePullRequest
  | EpChangePullRequestState | EpAdvanceTime | EpConfigureWorkflow | EpDeliverEvent
  | EpDuplicateEvent | EpTransitionWorkflowRun | EpExecuteWorkflowRun | EpGetState

definition control_patterns :: "((string \<times> string) \<times> endpoint) list" where
  "control_patterns =
     [((''POST'', ''/apps''), EpCreateApp),
      ((''POST'', ''/installations''), EpCreateInstallation),
      ((''POST'', ''/repositories''), EpCreateRepository),
      ((''POST'', ''/pulls''), EpCreatePullRequest),
      ((''POST'', ''/pulls/state''), EpChangePullRequestState),
      ((''POST'', ''/clock/advance''), EpAdvanceTime),
      ((''POST'', ''/workflows''), EpConfigureWorkflow),
      ((''POST'', ''/deliveries''), EpDeliverEvent),
      ((''POST'', ''/events/duplicate''), EpDuplicateEvent),
      ((''POST'', ''/workflow-runs/transition''), EpTransitionWorkflowRun),
      ((''POST'', ''/workflow-runs/execute''), EpExecuteWorkflowRun),
      ((''GET'', ''/state''), EpGetState)]"

text \<open>
  \<open>http.ServeMux\<close> on a clean path: the pattern with this method and path, a GET pattern also taking
  HEAD; another method of a known path is 405, an unknown path 404.
\<close>

datatype routing = Routed endpoint | NotFound | MethodNotAllowed

definition control_route :: "string \<Rightarrow> string \<Rightarrow> routing" where
  "control_route method path =
     (case map_of control_patterns (method, path) of
        Some ep \<Rightarrow> Routed ep
      | None \<Rightarrow>
          (case (if method = ''HEAD'' then map_of control_patterns (''GET'', path) else None) of
             Some ep \<Rightarrow> Routed ep
           | None \<Rightarrow>
               if list_ex (\<lambda>((m, q), ep). q = path) control_patterns then MethodNotAllowed else NotFound))"

section \<open>The client\<close>

text \<open>The path part of \<open>url.ResolveReference\<close>, with its removal of dot segments.\<close>

fun last_slash :: "string \<Rightarrow> nat option" where
  "last_slash [] = None"
| "last_slash (c # cs) =
     (case last_slash cs of Some i \<Rightarrow> Some (Suc i) | None \<Rightarrow> if c = CHR ''/'' then Some 0 else None)"

fun resolve_elem :: "string \<times> bool \<Rightarrow> string \<Rightarrow> string \<times> bool" where
  "resolve_elem (dst, first) elem =
     (if elem = ''.'' then (dst, False)
      else if elem = ''..'' then
        (case last_slash dst of None \<Rightarrow> ([], True) | Some i \<Rightarrow> (take i dst, first))
      else (dst @ (if first then [] else ''/'') @ elem, False))"

definition resolve_full :: "string \<Rightarrow> string \<Rightarrow> string" where
  "resolve_full base ref =
     (if ref = [] then base
      else if hd ref \<noteq> CHR ''/''
      then (case last_slash base of None \<Rightarrow> ref | Some i \<Rightarrow> take (Suc i) base @ ref)
      else ref)"

definition resolve_path :: "string \<Rightarrow> string \<Rightarrow> string" where
  "resolve_path base ref =
     (let full = resolve_full base ref in
      if full = [] then []
      else
      (let elems = split_at CHR ''/'' full;
           dst = fst (foldl resolve_elem ([], True) elems);
           r = ''/'' @ dst @ (if last elems = ''.'' \<or> last elems = ''..'' then ''/'' else [])
       in if 1 < length r \<and> r ! 1 = CHR ''/'' then tl r else r))"

datatype client_method =
    CreateApp | CreateInstallation | CreateRepository | CreatePullRequest | ChangePullRequestState
  | AdvanceTime | ConfigureWorkflow | DeliverEvent | DuplicateEvent | TransitionWorkflowRun
  | ExecuteWorkflowRun | State

text \<open>The method and the relative path of each client operation.\<close>

fun client_request :: "client_method \<Rightarrow> string \<times> string" where
  "client_request CreateApp = (''POST'', ''apps'')"
| "client_request CreateInstallation = (''POST'', ''installations'')"
| "client_request CreateRepository = (''POST'', ''repositories'')"
| "client_request CreatePullRequest = (''POST'', ''pulls'')"
| "client_request ChangePullRequestState = (''POST'', ''pulls/state'')"
| "client_request AdvanceTime = (''POST'', ''clock/advance'')"
| "client_request ConfigureWorkflow = (''POST'', ''workflows'')"
| "client_request DeliverEvent = (''POST'', ''deliveries'')"
| "client_request DuplicateEvent = (''POST'', ''events/duplicate'')"
| "client_request TransitionWorkflowRun = (''POST'', ''workflow-runs/transition'')"
| "client_request ExecuteWorkflowRun = (''POST'', ''workflow-runs/execute'')"
| "client_request State = (''GET'', ''state'')"

text \<open>The handler an operation is meant for.\<close>

fun intended :: "client_method \<Rightarrow> endpoint" where
  "intended CreateApp = EpCreateApp"
| "intended CreateInstallation = EpCreateInstallation"
| "intended CreateRepository = EpCreateRepository"
| "intended CreatePullRequest = EpCreatePullRequest"
| "intended ChangePullRequestState = EpChangePullRequestState"
| "intended AdvanceTime = EpAdvanceTime"
| "intended ConfigureWorkflow = EpConfigureWorkflow"
| "intended DeliverEvent = EpDeliverEvent"
| "intended DuplicateEvent = EpDuplicateEvent"
| "intended TransitionWorkflowRun = EpTransitionWorkflowRun"
| "intended ExecuteWorkflowRun = EpExecuteWorkflowRun"
| "intended State = EpGetState"

text \<open>
  \<open>post\<close> and \<open>State\<close> after the request: an answer outside 200 to 299 (for \<open>State\<close>, other than 200)
  is an error; \<open>status_line\<close> is Go's text of a status, a parameter.
\<close>

definition client_post_error ::
    "(nat \<Rightarrow> string) \<Rightarrow> string \<Rightarrow> nat \<Rightarrow> string \<Rightarrow> string option" where
  "client_post_error status_line path st message =
     (if st < 200 \<or> st \<ge> 300
      then Some (''control '' @ path @ '' returned '' @ status_line st @ '': '' @ message)
      else None)"

definition client_state_error :: "(nat \<Rightarrow> string) \<Rightarrow> nat \<Rightarrow> string option" where
  "client_state_error status_line st =
     (if st \<noteq> 200 then Some (''control state returned '' @ status_line st) else None)"

text \<open>The message that the client reads from the body of an answer.\<close>

definition body_message :: "payload \<Rightarrow> string" where
  "body_message b = (case b of PMessage m \<Rightarrow> m | PError m _ _ \<Rightarrow> m | _ \<Rightarrow> [])"

lemma client_paths_plain:
  "resolve_path ''/'' (snd (client_request m)) = CHR ''/'' # snd (client_request m)"
  by (cases m) (simp_all add: resolve_path_def resolve_full_def Let_def)

end
