(* ===== verification/Dtu_Safety.thy ===== *)
theory Dtu_Safety
  imports Dtu_System
begin

text \<open>
  The invariant of the running server: the world is well formed, the execution claims are exactly
  those of the executions in flight, no two pushes hold one receive lock, deliveries and their
  attempts refer to logged events, and no handler has panicked. Every step keeps it.
\<close>

section \<open>The invariant\<close>

definition exec_key :: "exec_phase \<Rightarrow> int64 option" where
  "exec_key ph = map_option (\<lambda>(c, p). run_ID (cl_run c)) (phase_claim ph)"

definition exec_ok :: "world \<Rightarrow> exec_phase \<Rightarrow> bool" where
  "exec_ok w ph \<longleftrightarrow> (\<exists>c p. phase_claim ph = Some (c, p) \<and> claim_held w c p)"

definition execs_ok :: "'e server \<Rightarrow> bool" where
  "execs_ok s \<longleftrightarrow>
     list_all (exec_ok (sv_world s)) (sv_execs s) \<and> distinct (map exec_key (sv_execs s)) \<and>
     (\<forall>k. m_get (w_activeRuns (sv_world s)) k \<noteq> None \<longrightarrow> Some k \<in> exec_key ` set (sv_execs s))"

definition push_ok :: "world \<Rightarrow> push_phase \<Rightarrow> bool" where
  "push_ok w ph \<longleftrightarrow>
     (\<exists>g. push_grant ph = Some g \<and> known_repository w (gg_repository g) \<and> gg_lock g)"

definition pushes_ok :: "'e server \<Rightarrow> bool" where
  "pushes_ok s \<longleftrightarrow>
     list_all (push_ok (sv_world s)) (sv_pushes s) \<and>
     distinct (List.map_filter push_locked (sv_pushes s))"

definition delivery_ok :: "world \<Rightarrow> delivery_phase \<Rightarrow> bool" where
  "delivery_ok w d \<longleftrightarrow>
     dp_event (delivery_plan_of d) \<in> set (w_pendingEvents w) \<and>
     (case d of Planned input p \<Rightarrow> True | Answered p a \<Rightarrow> da_GUID a = ev_GUID (dp_event p))"

definition attempts_ok :: "world \<Rightarrow> bool" where
  "attempts_ok w \<longleftrightarrow>
     (\<forall>a \<in> set (w_deliveryAttempts w). da_GUID a \<in> ev_GUID ` set (w_pendingEvents w))"

definition server_ok :: "'e server \<Rightarrow> bool" where
  "server_ok s \<longleftrightarrow>
     world_ok (sv_world s) \<and> execs_ok s \<and> pushes_ok s \<and>
     list_all (delivery_ok (sv_world s)) (sv_deliveries s) \<and> attempts_ok (sv_world s)"

lemma server_ok_world: "server_ok s \<Longrightarrow> world_ok (sv_world s)"
  by (simp add: server_ok_def)

lemma server_init_ok: "server_init p s \<Longrightarrow> server_ok s"
  by (auto simp: server_init_def server_ok_def initial_world_ok execs_ok_def pushes_ok_def attempts_ok_def
      List.map_filter_def) (simp_all add: initial_world_def)

section \<open>What steps of other handlers keep\<close>

lemma evolves_events: "evolves w w' \<Longrightarrow> set (w_pendingEvents w) \<subseteq> set (w_pendingEvents w')"
  by (simp add: evolves_def logs_grow_def set_mono_prefix)

lemma push_ok_evolves: "evolves w w' \<Longrightarrow> push_ok w ph \<Longrightarrow> push_ok w' ph"
  using evolves_known_repository by (auto simp: push_ok_def)

lemma delivery_ok_evolves: "evolves w w' \<Longrightarrow> delivery_ok w d \<Longrightarrow> delivery_ok w' d"
  using evolves_events by (fastforce simp: delivery_ok_def)

lemma attempts_ok_evolves:
  "evolves w w' \<Longrightarrow> w_deliveryAttempts w' = w_deliveryAttempts w \<Longrightarrow> attempts_ok w \<Longrightarrow> attempts_ok w'"
  using evolves_events unfolding attempts_ok_def by (metis image_mono subset_iff)

lemma claim_held_same:
  assumes "evolves w w'" "claim_held w c p"
    and same: "map_option process_of (m_get (w_activeRuns w') (run_ID (cl_run c))) =
      map_option process_of (m_get (w_activeRuns w) (run_ID (cl_run c)))"
  shows "claim_held w' c p"
proof (rule evolves_claim_held[OF assms(1,2)])
  fix a
  assume "m_get (w_activeRuns w) (run_ID (cl_run c)) = Some a"
  with same show "\<exists>a'. m_get (w_activeRuns w') (run_ID (cl_run c)) = Some a' \<and> process_of a' = process_of a"
    by auto
qed

lemma exec_ok_same:
  assumes "evolves w w'" "exec_ok w ph"
    and "\<And>k. exec_key ph = Some k \<Longrightarrow>
      map_option process_of (m_get (w_activeRuns w') k) = map_option process_of (m_get (w_activeRuns w) k)"
  shows "exec_ok w' ph"
proof -
  obtain c p where c: "phase_claim ph = Some (c, p)" "claim_held w c p"
    using assms(2) by (auto simp: exec_ok_def)
  then have "exec_key ph = Some (run_ID (cl_run c))" by (simp add: exec_key_def)
  from claim_held_same[OF assms(1) c(2) assms(3)[OF this]] c(1) show ?thesis by (simp add: exec_ok_def)
qed

text \<open>The parts other than the executions, after a section of any handler.\<close>

lemma others_keep:
  assumes "server_ok s" "evolves (sv_world s) w'"
  shows "list_all (push_ok w') (sv_pushes s)" "distinct (List.map_filter push_locked (sv_pushes s))"
    and "list_all (delivery_ok w') (sv_deliveries s)"
  using assms push_ok_evolves delivery_ok_evolves
  by (auto simp: server_ok_def pushes_ok_def list_all_iff)

lemma execs_ok_quiet:
  assumes ok: "execs_ok s" and ev: "evolves (sv_world s) w'" and q: "same_claims (sv_world s) w'"
  shows "execs_ok (s\<lparr>sv_world := w', sv_env := e\<rparr>)"
proof -
  have "exec_ok w' ph" if "ph \<in> set (sv_execs s)" for ph
  proof (rule exec_ok_same[OF ev])
    show "exec_ok (sv_world s) ph" using ok that by (simp add: execs_ok_def list_all_iff)
  qed (use q in \<open>simp add: same_claims_def\<close>)
  moreover have "m_get (w_activeRuns w') k \<noteq> None \<longleftrightarrow> m_get (w_activeRuns (sv_world s)) k \<noteq> None" for k
    using q unfolding same_claims_def by (metis option.map_disc_iff)
  ultimately show ?thesis using ok by (simp add: execs_ok_def list_all_iff)
qed

lemma server_ok_quiet:
  assumes ok: "server_ok s" and w: "world_ok w'" "evolves (sv_world s) w'" "quiet (sv_world s) w'"
  shows "server_ok (s\<lparr>sv_world := w', sv_env := e\<rparr>)"
  using ok w others_keep[OF ok w(2)] execs_ok_quiet[of s w' e] attempts_ok_evolves[OF w(2)]
  by (simp add: server_ok_def pushes_ok_def quiet_def)

section \<open>Executions\<close>

text \<open>Replacing one execution by its next phase, with the same claim.\<close>

lemma execs_ok_phase:
  assumes "execs_ok s" "sv_execs s = xs @ ph # ys" "phase_claim ph' = phase_claim ph"
  shows "execs_ok (s\<lparr>sv_env := e, sv_execs := xs @ ph' # ys\<rparr>)"
proof -
  have "exec_key ph' = exec_key ph" "exec_ok w ph' = exec_ok w ph" for w
    using assms(3) by (simp_all add: exec_key_def exec_ok_def)
  with assms(1,2) show ?thesis by (simp add: execs_ok_def)
qed

text \<open>A section of one execution that changes its own claim alone.\<close>

lemma execs_ok_own:
  assumes ok: "execs_ok s" and s: "sv_execs s = xs @ ph # ys" and k: "exec_key ph = Some k"
    and ev: "evolves (sv_world s) w'"
    and others: "\<And>h. h \<noteq> k \<Longrightarrow> m_get (w_activeRuns w') h = m_get (w_activeRuns (sv_world s)) h"
    and new: "\<And>q. q \<in> set zs \<Longrightarrow> exec_ok w' q \<and> exec_key q = Some k" "length zs \<le> 1"
      "zs = [] \<Longrightarrow> m_get (w_activeRuns w') k = None"
  shows "execs_ok (s\<lparr>sv_world := w', sv_env := e, sv_execs := xs @ zs @ ys\<rparr>)"
proof -
  have d: "distinct (map exec_key (xs @ ph # ys))" using ok s by (simp add: execs_ok_def)
  have "exec_ok w' q" if "q \<in> set (xs @ ys)" for q
  proof (rule exec_ok_same[OF ev])
    show "exec_ok (sv_world s) q" using ok s that by (auto simp: execs_ok_def list_all_iff)
    have "exec_key q \<noteq> exec_key ph" using d that by (auto simp: image_iff)
    then show "\<And>h. exec_key q = Some h \<Longrightarrow> map_option process_of (m_get (w_activeRuns w') h) =
        map_option process_of (m_get (w_activeRuns (sv_world s)) h)"
      using others k by metis
  qed
  then have all: "list_all (exec_ok w') (xs @ zs @ ys)" using new(1) by (auto simp: list_all_iff)
  consider "zs = []" | q where "zs = [q]" "exec_key q = Some k"
    using new(1,2) by (cases zs) auto
  then have "distinct (map exec_key (xs @ zs @ ys))" using d k by cases auto
  moreover have "Some h \<in> exec_key ` set (xs @ zs @ ys)" if h: "m_get (w_activeRuns w') h \<noteq> None" for h
  proof (cases "h = k")
    case True
    with h new(3) obtain q where "q \<in> set zs" by (cases zs) auto
    with True new(1) show ?thesis by force
  next
    case False
    with h others ok s have "Some h \<in> exec_key ` set (xs @ ph # ys)" by (simp add: execs_ok_def)
    with False k show ?thesis by auto
  qed
  ultimately show ?thesis using all by (simp add: execs_ok_def)
qed

lemma execute_start_claims:
  assumes ok: "world_ok w" and c: "claim_held w c None"
    and r: "execute_start sys c rc w e = (r, w', e')"
  shows "h \<noteq> run_ID (cl_run c) \<Longrightarrow> m_get (w_activeRuns w') h = m_get (w_activeRuns w) h"
    and "after_start c r = [] \<Longrightarrow> m_get (w_activeRuns w') (run_ID (cl_run c)) = None"
    and "q \<in> set (after_start c r) \<Longrightarrow> exec_ok w' q \<and> exec_key q = Some (run_ID (cl_run c))"
    and "length (after_start c r) \<le> 1" and "w_deliveryAttempts w' = w_deliveryAttempts w"
    and "r \<noteq> StartPanic"
proof -
  have ev: "evolves w w'" using execute_start_evolves[OF ok c, of sys rc e] r by simp
  have held: "claim_held w' c (Some pid)" if "r = Started pid" for pid
  proof -
    have "first_run w' (run_ID (cl_run c)) = Some (cl_index c)"
      using runs_grow_index[of "w_workflowRuns w" "w_workflowRuns w'"] c ev
      unfolding claim_held_def evolves_def by blast
    moreover have "known_repository w' (cl_repository c)"
      using c ev evolves_known_repository by (simp add: claim_held_def)
    moreover have "m_get (w_activeRuns w') (run_ID (cl_run c)) =
        Some \<lparr>ar_command = Some \<lparr>cmd_process = Some pid\<rparr>, ar_cancellationSignalled = False\<rparr>"
      using r that by (auto simp: execute_start_cases[OF ok c] split: if_splits prod.splits sum.splits)
    ultimately show ?thesis by (simp add: claim_held_def process_of_def)
  qed
  note cs = r[unfolded execute_start_cases[OF ok c]]
  from cs show "r \<noteq> StartPanic" by (auto split: if_splits prod.splits sum.splits)
  from cs show "h \<noteq> run_ID (cl_run c) \<Longrightarrow> m_get (w_activeRuns w') h = m_get (w_activeRuns w) h"
    by (auto simp: execute_release_def split: if_splits prod.splits sum.splits)
  from cs show "after_start c r = [] \<Longrightarrow> m_get (w_activeRuns w') (run_ID (cl_run c)) = None"
    by (auto simp: execute_release_def split: if_splits prod.splits sum.splits)
  from cs show "w_deliveryAttempts w' = w_deliveryAttempts w"
    by (auto simp: execute_release_def event_appends split: if_splits prod.splits sum.splits)
  show "length (after_start c r) \<le> 1" by (cases r) auto
  show "q \<in> set (after_start c r) \<Longrightarrow> exec_ok w' q \<and> exec_key q = Some (run_ID (cl_run c))"
    using held \<open>r \<noteq> StartPanic\<close> by (cases r) (auto simp: exec_ok_def exec_key_def)
qed

lemma execute_finish_claims:
  assumes ok: "world_ok w" and c: "claim_held w c p" and r: "execute_finish c err logs w = (r, w')"
  shows "h \<noteq> run_ID (cl_run c) \<Longrightarrow> m_get (w_activeRuns w') h = m_get (w_activeRuns w) h"
    and "m_get (w_activeRuns w') (run_ID (cl_run c)) = None"
    and "w_deliveryAttempts w' = w_deliveryAttempts w" and "after_finish r = []"
  using claim_held_status[OF ok c] r
  by (auto simp: execute_finish_def Let_def execute_release_def event_appends)

text \<open>The server after a section of one execution.\<close>

lemma server_ok_exec:
  assumes ok: "server_ok s" and s: "sv_execs s = xs @ ph # ys" and k: "exec_key ph = Some k"
    and w: "world_ok w'" "evolves (sv_world s) w'" "w_deliveryAttempts w' = w_deliveryAttempts (sv_world s)"
    and "\<And>h. h \<noteq> k \<Longrightarrow> m_get (w_activeRuns w') h = m_get (w_activeRuns (sv_world s)) h"
    and "\<And>q. q \<in> set zs \<Longrightarrow> exec_ok w' q \<and> exec_key q = Some k" "length zs \<le> 1"
    and "zs = [] \<Longrightarrow> m_get (w_activeRuns w') k = None"
  shows "server_ok (s\<lparr>sv_world := w', sv_env := e, sv_execs := xs @ zs @ ys\<rparr>)"
proof -
  have "execs_ok s" using ok by (simp add: server_ok_def)
  from execs_ok_own[OF this s k w(2) assms(7-10)]
  have "execs_ok (s\<lparr>sv_world := w', sv_env := e, sv_execs := xs @ zs @ ys\<rparr>)" .
  then show ?thesis
    using ok w(1) others_keep[OF ok w(2)] attempts_ok_evolves[OF w(2,3)]
    by (simp add: server_ok_def pushes_ok_def)
qed

lemma exec_in_flight:
  assumes "server_ok s" "sv_execs s = xs @ ph # ys" "phase_claim ph = Some (c, p)"
  shows "claim_held (sv_world s) c p" "exec_key ph = Some (run_ID (cl_run c))"
  using assms by (auto simp: server_ok_def execs_ok_def exec_ok_def exec_key_def)

lemma execute_claim_server:
  assumes ok: "server_ok s" and r: "execute_claim k (sv_world s) = (Inr c, w')"
  shows "server_ok (s\<lparr>sv_world := w', sv_execs := Claimed c # sv_execs s\<rparr>)"
proof -
  note wok = server_ok_world[OF ok] and cw = execute_claim_world[OF r]
  have ev: "evolves (sv_world s) w'" and w': "world_ok w'"
    using execute_claim_evolves[of "sv_world s" k] execute_claim_ok[OF wok, of k] r by simp_all
  have fresh: "Some k \<notin> exec_key ` set (sv_execs s)"
  proof
    assume "Some k \<in> exec_key ` set (sv_execs s)"
    then obtain ph where ph: "ph \<in> set (sv_execs s)" "exec_key ph = Some k" by auto
    then have "exec_ok (sv_world s) ph" using ok by (auto simp: server_ok_def execs_ok_def list_all_iff)
    with ph(2) cw(6) show False by (auto simp: exec_ok_def exec_key_def claim_held_def)
  qed
  have "exec_ok w' ph" if ph: "ph \<in> set (sv_execs s)" for ph
  proof (rule exec_ok_same[OF ev])
    show "exec_ok (sv_world s) ph" using ok ph by (auto simp: server_ok_def execs_ok_def list_all_iff)
    show "map_option process_of (m_get (w_activeRuns w') h) =
        map_option process_of (m_get (w_activeRuns (sv_world s)) h)" if "exec_key ph = Some h" for h
      using fresh ph that cw(1) by (auto simp: image_iff)
  qed
  moreover have "exec_ok w' (Claimed c)"
    using execute_claim_held[OF wok r] by (simp add: exec_ok_def)
  moreover have "exec_key (Claimed c) = Some k" using cw(4) by (simp add: exec_key_def)
  ultimately have "execs_ok (s\<lparr>sv_world := w', sv_execs := Claimed c # sv_execs s\<rparr>)"
    using ok fresh cw(1) by (auto simp: execs_ok_def server_ok_def list_all_iff split: if_splits)
  moreover have "w_deliveryAttempts w' = w_deliveryAttempts (sv_world s)" using cw(1) by simp
  ultimately show ?thesis
    using ok w' others_keep[OF ok ev] attempts_ok_evolves[OF ev] by (simp add: server_ok_def pushes_ok_def)
qed

section \<open>Pushes and deliveries\<close>

lemma map_filter_simps_list [simp]:
  "List.map_filter f (xs @ ys) = List.map_filter f xs @ List.map_filter f ys"
  "List.map_filter f [] = []"
  "List.map_filter f (x # xs) = (case f x of None \<Rightarrow> List.map_filter f xs | Some y \<Rightarrow> y # List.map_filter f xs)"
  by (simp_all add: List.map_filter_def split: option.split)

lemma set_map_filter_list: "y \<in> set (List.map_filter f xs) \<longleftrightarrow> Some y \<in> f ` set xs"
  by (induction xs) (auto split: option.split)

text \<open>One push moves on, and the world may change by a quiet section.\<close>

lemma server_ok_push:
  assumes ok: "server_ok s" and s: "sv_pushes s = xs @ ph # ys"
    and w: "world_ok w'" "evolves (sv_world s) w'" "quiet (sv_world s) w'"
    and zs: "zs = [] \<or> (\<exists>q. zs = [q] \<and> push_grant q = push_grant ph \<and>
      (push_locked q = push_locked ph \<or> push_locked q = None \<or> push_locked q \<notin> push_locked ` set (xs @ ys)))"
  shows "server_ok (s\<lparr>sv_world := w', sv_env := e, sv_pushes := xs @ zs @ ys\<rparr>)"
proof -
  have "pushes_ok (s\<lparr>sv_world := w', sv_env := e, sv_pushes := xs @ zs @ ys\<rparr>)"
    using ok s zs others_keep[OF ok w(2)] unfolding pushes_ok_def
    by (auto simp: push_ok_def set_map_filter_list image_iff split: option.splits)
  moreover have "execs_ok (s\<lparr>sv_world := w', sv_env := e, sv_pushes := xs @ zs @ ys\<rparr>)"
    using execs_ok_quiet[of s w' e] ok w by (simp add: server_ok_def quiet_def execs_ok_def)
  ultimately show ?thesis
    using ok w(1,3) others_keep[OF ok w(2)] attempts_ok_evolves[OF w(2)]
    by (simp add: server_ok_def quiet_def)
qed

lemma push_in_flight:
  assumes "server_ok s" "sv_pushes s = xs @ ph # ys" "push_grant ph = Some g"
  shows "known_repository (sv_world s) (gg_repository g)" "gg_lock g"
  using assms by (auto simp: server_ok_def pushes_ok_def push_ok_def)

text \<open>What an authorized Git request knows of its repository.\<close>

lemma git_authorize_grant:
  assumes ok: "world_ok w" and g: "git_authorize rq parts service w = Inr g"
  obtains i where "m_get (w_repoNames w) (repoName (parts ! 0) (trim_suffix (parts ! 1) ''.git'')) = Some i"
    and "m_get (w_repositories w) i = Some (gg_repository g)" "repo_id (gg_repository g) = i" "gg_lock g"
    and "in_set (tok_repositoryIDs (gg_token g)) i"
proof -
  from g obtain i where i: "m_get (w_repoNames w) (repoName (parts ! 0) (trim_suffix (parts ! 1) ''.git'')) = Some i"
    and r: "gg_repository g = m_get_or zero_repository (w_repositories w) i"
    and l: "gg_lock g = (m_get (w_receiveLocks w) i \<noteq> None)" and t: "in_set (tok_repositoryIDs (gg_token g)) i"
    by (auto simp: git_authorize_def Let_def split: option.splits prod.splits if_splits)
  from world_ok_name[OF ok i] obtain rp where rp: "m_get (w_repositories w) i = Some rp" by blast
  from world_ok_repository[OF ok rp] have "repo_id rp = i" "in_set (w_receiveLocks w) i"
    by (simp_all add: repository_ok_def)
  with i r l t rp that show thesis by (simp add: in_set_def)
qed

lemma server_ok_authorize:
  assumes ok: "server_ok s" and g: "git_authorize rq parts service (sv_world s) = Inr g"
  shows "server_ok (s\<lparr>sv_pushes := Waiting g # sv_pushes s\<rparr>)"
proof -
  obtain i where "m_get (w_repositories (sv_world s)) i = Some (gg_repository g)"
    "repo_id (gg_repository g) = i" "gg_lock g"
    by (rule git_authorize_grant[OF server_ok_world[OF ok] g])
  then have "push_ok (sv_world s) (Waiting g)" by (simp add: push_ok_def known_repository_def)
  with ok show ?thesis by (simp add: server_ok_def pushes_ok_def execs_ok_def)
qed

lemma server_ok_delivery:
  assumes "server_ok s" "\<And>d. d \<in> set ds \<Longrightarrow> delivery_ok (sv_world s) d"
  shows "server_ok (s\<lparr>sv_env := e, sv_deliveries := ds\<rparr>)"
  using assms by (simp add: server_ok_def pushes_ok_def execs_ok_def list_all_iff)

lemma server_ok_delivered:
  assumes ok: "server_ok s" and s: "sv_deliveries s = xs @ Answered d a # ys"
  shows "server_ok (s\<lparr>sv_world := deliver_record a (sv_world s), sv_deliveries := xs @ ys\<rparr>)"
proof -
  let ?w = "deliver_record a (sv_world s)"
  have ev: "evolves (sv_world s) ?w" by (rule deliver_record_evolves)
  have same: "w_activeRuns ?w = w_activeRuns (sv_world s)" "w_pendingEvents ?w = w_pendingEvents (sv_world s)"
    "w_deliveryAttempts ?w = w_deliveryAttempts (sv_world s) @ [a]"
    by (simp_all add: deliver_record_def)
  have "delivery_ok (sv_world s) (Answered d a)" using ok s by (simp add: server_ok_def)
  then have "attempts_ok ?w" using ok same by (auto simp: server_ok_def attempts_ok_def delivery_ok_def)
  moreover have "execs_ok (s\<lparr>sv_world := ?w\<rparr>)"
    using execs_ok_quiet[of s ?w "sv_env s"] ok ev same by (simp add: server_ok_def same_claims_def execs_ok_def)
  ultimately show ?thesis
    using ok s deliver_record_ok[OF server_ok_world[OF ok]] others_keep[OF ok ev]
    by (simp add: server_ok_def pushes_ok_def execs_ok_def)
qed

lemma deliver_read_event: "deliver_read input w = Inr d \<Longrightarrow> dp_event d \<in> set (w_pendingEvents w)"
  by (auto simp: deliver_read_def findPendingEvent_def Let_def find_Some_iff split: option.splits if_splits)

lemma delivery_result_guid [simp]: "da_GUID (delivery_result input d res) = ev_GUID (dp_event d)"
  by (simp add: delivery_result_def Let_def split: sum.split)

section \<open>Every step\<close>

lemma server_ok_env [simp]: "server_ok (s\<lparr>sv_env := e\<rparr>) = server_ok s"
  by (simp add: server_ok_def execs_ok_def pushes_ok_def)

lemma server_update_id: "s\<lparr>sv_world := sv_world s, sv_env := e, sv_execs := xs\<rparr> = s\<lparr>sv_env := e, sv_execs := xs\<rparr>"
  "s\<lparr>sv_world := sv_world s, sv_env := e, sv_pushes := ps\<rparr> = s\<lparr>sv_env := e, sv_pushes := ps\<rparr>"
  "s\<lparr>sv_world := w, sv_env := sv_env s, sv_execs := xs\<rparr> = s\<lparr>sv_world := w, sv_execs := xs\<rparr>"
  "s\<lparr>sv_world := w, sv_env := sv_env s, sv_pushes := ps\<rparr> = s\<lparr>sv_world := w, sv_pushes := ps\<rparr>"
  by simp_all

lemma phase_claim_after_prepare [simp]: "phase_claim (after_prepare c r) = Some (c, None)"
  by (cases r) simp_all

lemma handler_step_ok:
  assumes step: "handler_step p s s'" and ok: "server_ok s"
  shows "server_ok s' \<and> evolves (sv_world s) (sv_world s')"
  using step
proof cases
  case (handle_prepare xs c ys r e)
  have "execs_ok (s\<lparr>sv_env := e, sv_execs := xs @ after_prepare c r # ys\<rparr>)"
    using ok by (intro execs_ok_phase[OF _ handle_prepare(2)]) (simp_all add: server_ok_def)
  with ok handle_prepare show ?thesis by (simp add: server_ok_def pushes_ok_def)
next
  case (handle_release xs c ys)
  note fl = exec_in_flight[OF ok handle_release(2) phase_claim.simps(4)]
  have "server_ok (s\<lparr>sv_world := execute_release (run_ID (cl_run c)) (sv_world s), sv_env := sv_env s,
      sv_execs := xs @ [] @ ys\<rparr>)"
    using world_ok_release[OF server_ok_world[OF ok]]
    by (intro server_ok_exec[OF ok handle_release(2) fl(2)]) (simp_all add: execute_release_evolves execute_release_def)
  with handle_release show ?thesis by (simp add: execute_release_evolves)
next
  case (handle_start xs c rc ys r w e)
  note fl = exec_in_flight[OF ok handle_start(2) phase_claim.simps(2)] and wok = server_ok_world[OF ok]
  note cl = execute_start_claims[OF wok fl(1) handle_start(3)]
  have w: "world_ok w" "evolves (sv_world s) w"
    using execute_start_ok[OF wok fl(1)] execute_start_evolves[OF wok fl(1)] handle_start(3)
    by (metis fst_conv snd_conv)+
  with handle_start(1) server_ok_exec[OF ok handle_start(2) fl(2) w cl(5,1,3,4,2)] show ?thesis by simp
next
  case (handle_finish xs c pid ys err out e r w)
  note fl = exec_in_flight[OF ok handle_finish(2) phase_claim.simps(3)] and wok = server_ok_world[OF ok]
  note cl = execute_finish_claims[OF wok fl(1) handle_finish(4)]
  have w: "world_ok w" "evolves (sv_world s) w"
    using execute_finish_ok[OF wok fl(1)] execute_finish_evolves[OF wok fl(1)] handle_finish(4)
    by (metis snd_conv)+
  have "server_ok (s\<lparr>sv_world := w, sv_env := e, sv_execs := xs @ [] @ ys\<rparr>)"
    using w cl by (intro server_ok_exec[OF ok handle_finish(2) fl(2)]) auto
  with handle_finish(1) w(2) cl(4) show ?thesis by simp
next
  case (handle_lock xs g ys before e)
  then show ?thesis
    using server_ok_push[OF ok handle_lock(2), of "sv_world s" "[Receiving g before]" e] ok
    by (simp add: server_ok_world server_update_id lock_available_def)
next
  case (handle_no_lock xs g ys)
  with push_in_flight(2)[OF ok handle_no_lock(2)] show ?thesis by simp
next
  case (handle_lock_fails xs g ys err e)
  then show ?thesis
    using server_ok_push[OF ok handle_lock_fails(2), of "sv_world s" "[]" e] ok
    by (simp add: server_ok_world server_update_id)
next
  case (handle_received xs g before ys rq parts after e1 forced e2)
  then show ?thesis
    using server_ok_push[OF ok handle_received(2), of "sv_world s" "[Recording g before after forced]" e2] ok
    by (simp add: server_ok_world server_update_id)
next
  case (handle_unconfirmed xs g before ys rq parts err e1)
  let ?w = "recordObservationError (repo_id (gg_repository g)) ''post-receive ref snapshot'' err (sv_world s)"
  have "server_ok (s\<lparr>sv_world := ?w, sv_env := e1, sv_pushes := xs @ [] @ ys\<rparr>)"
    by (rule server_ok_push[OF ok handle_unconfirmed(2)])
      (simp_all add: recordObservationError_ok recordObservationError_evolves small_sections_quiet server_ok_world[OF ok])
  with handle_unconfirmed show ?thesis by (simp add: recordObservationError_evolves)
next
  case (handle_record xs g before after forced ys)
  let ?w = "record_changes (gg_repository g) (gg_token g) before after forced (sv_world s)"
  have "known_repository (sv_world s) (gg_repository g)"
    using push_in_flight(1)[OF ok handle_record(2)] by simp
  then have "server_ok (s\<lparr>sv_world := ?w, sv_env := sv_env s, sv_pushes := xs @ [Listing g] @ ys\<rparr>)"
    by (intro server_ok_push[OF ok handle_record(2)])
      (simp_all add: record_changes_ok record_changes_evolves record_changes_quiet server_ok_world[OF ok])
  with handle_record show ?thesis by (simp add: record_changes_evolves)
next
  case (handle_list xs g ys)
  then show ?thesis
    using server_ok_push[OF ok handle_list(2), of "sv_world s" "[Refreshing g
        (pull_snapshots (repo_id (gg_repository g)) (sv_world s))]" "sv_env s"] ok
    by (simp add: server_ok_world server_update_id)
next
  case (handle_refresh xs g snap snaps ys base e1 head e2)
  have "server_ok (s\<lparr>sv_world := store_snapshot snap base head (sv_world s), sv_env := e2,
      sv_pushes := xs @ [Refreshing g snaps] @ ys\<rparr>)"
    by (rule server_ok_push[OF ok handle_refresh(2)])
      (simp_all add: store_snapshot_ok store_snapshot_evolves small_sections_quiet server_ok_world[OF ok])
  with handle_refresh show ?thesis by (simp add: store_snapshot_evolves)
next
  case (handle_pushed xs g ys)
  then show ?thesis
    using server_ok_push[OF ok handle_pushed(2), of "sv_world s" "[]" "sv_env s"] ok
    by (simp add: server_ok_world server_update_id)
next
  case (handle_post xs input d ys res e)
  have "delivery_ok (sv_world s) ph" if "ph \<in> set (xs @ Answered d (delivery_result input d res) # ys)" for ph
    using that ok handle_post(2)
    by (cases "ph = Answered d (delivery_result input d res)")
      (auto simp: server_ok_def delivery_ok_def list_all_iff)
  with handle_post server_ok_delivery[OF ok, of "xs @ Answered d (delivery_result input d res) # ys" e]
  show ?thesis by simp
next
  case (handle_delivered xs d attempt ys)
  then show ?thesis
    using server_ok_delivered[OF ok handle_delivered(2)] by (simp add: deliver_record_evolves)
qed

lemma server_step_ok:
  assumes step: "server_step p s s'" and ok: "server_ok s"
  shows "server_ok s' \<and> evolves (sv_world s) (sv_world s')"
  using step
proof cases
  case (step_env e)
  with ok show ?thesis by simp
next
  case (step_control call r w e)
  with ok server_ok_quiet[OF ok, of w e] control_step_ok[of "sv_world s" p call "sv_env s"]
    control_step_evolves[of "sv_world s" p call "sv_env s"]
    control_step_quiet[of "sv_world s" p call "sv_env s"]
  show ?thesis by (simp add: server_ok_world)
next
  case (step_mint appID iid opts r w e)
  with ok server_ok_quiet[OF ok, of w e]
    mint_token_ok[of "sv_world s" "pm_known p" "pm_sys p" appID iid opts "sv_env s"]
    mint_token_evolves[of "sv_world s" "pm_known p" "pm_sys p" appID iid opts "sv_env s"]
    mint_token_quiet[of "sv_world s" "pm_known p" "pm_sys p" appID iid opts "sv_env s"]
  show ?thesis by (simp add: server_ok_world)
next
  case (step_cancel auth owner name k r w e)
  with ok server_ok_quiet[OF ok, of w e]
    CancelWorkflowRunByID_ok[of "sv_world s" "pm_sys p" auth owner name k "sv_env s"]
    CancelWorkflowRunByID_evolves[of "sv_world s" "pm_sys p" auth owner name k "sv_env s"]
    CancelWorkflowRunByID_quiet[of "sv_world s" "pm_sys p" auth owner name k "sv_env s"]
  show ?thesis by (simp add: server_ok_world)
next
  case (step_unsupported rq)
  have "server_ok (s\<lparr>sv_world := recordUnsupported rq (sv_world s), sv_env := sv_env s\<rparr>)"
    by (rule server_ok_quiet[OF ok])
      (simp_all add: recordUnsupported_ok recordUnsupported_evolves small_sections_quiet server_ok_world[OF ok])
  with step_unsupported show ?thesis by (simp add: recordUnsupported_evolves)
next
  case (step_claim k c w)
  with ok execute_claim_server[OF ok, of k c w] execute_claim_evolves[of "sv_world s" k]
  show ?thesis by simp
next
  case (step_authorize rq parts g)
  with server_ok_authorize[OF ok step_authorize(4)] show ?thesis by simp
next
  case (step_plan input d)
  have "delivery_ok (sv_world s) ph" if "ph \<in> set (Planned input d # sv_deliveries s)" for ph
    using that ok deliver_read_event[OF step_plan(2)]
    by (cases "ph = Planned input d") (simp_all add: server_ok_def delivery_ok_def list_all_iff)
  with step_plan server_ok_delivery[OF ok, of "Planned input d # sv_deliveries s" "sv_env s"]
  show ?thesis by simp
next
  case step_handler
  with ok show ?thesis by (simp add: handler_step_ok)
qed

section \<open>Reachable servers\<close>

lemma reachable_ok: "reachable p s \<Longrightarrow> server_ok s"
  by (erule dtu.invariant) (use server_init_ok server_step_ok in blast)+

lemma runs_evolve:
  assumes "reachable p r" "(server_step p)\<^sup>*\<^sup>* r s"
  shows "evolves (sv_world r) (sv_world s)"
proof (rule dtu.run_preorder[where I = server_ok and R = "\<lambda>r s. evolves (sv_world r) (sv_world s)"])
  show "(server_step p)\<^sup>*\<^sup>* r s" by (rule assms(2))
  show "server_ok r" by (rule reachable_ok[OF assms(1)])
qed (auto dest: server_step_ok intro: evolves_trans)

end
