(* ===== verification/Dtu_Fixtures.thy ===== *)
theory Dtu_Fixtures
  imports Dtu_Client Dtu_Safety
begin

text \<open>
  Concrete inputs: an external system in which Git, Docker and the receiver behave, and the worlds
  that a short session of control requests builds with one App, one installation and one repository.
\<close>

section \<open>A well-behaved system\<close>

text \<open>
  The external state counts the pushes received. Every object ID is \<open>c0ffee\<close>, and the branch \<open>main\<close>
  is listed once something was pushed.
\<close>

definition demo_stdout :: "string list \<Rightarrow> nat \<Rightarrow> string" where
  "demo_stdout args pushes =
     (if args = [''--version''] then ''act version 0.2.89''
      else if last args = ''refs/heads'' then (if pushes = 0 then [] else ''main c0ffee'')
      else if last args = ''{{json .RepoDigests}}'' then marshal (JArr [JStr pinnedRunnerDigest])
      else if last args = ''{{.Architecture}}'' then ''amd64''
      else ''c0ffee'')"

definition demo_sys :: "nat sys" where
  "demo_sys =
     \<lparr>sys_exec = (\<lambda>dir prog args e. (\<lparr>ex_err = None, ex_stdout = demo_stdout args e, ex_combined = []\<rparr>, e)),
      sys_look_path = (\<lambda>prog e. (Inr ''/bin/act'', e)),
      sys_start = (\<lambda>dir prog args env e. (Inr 42, e)),
      sys_wait = (\<lambda>pid e. ((None, ''ok''), e)),
      sys_interrupt = (\<lambda>pid e. (None, e)),
      sys_kill = (\<lambda>pid e. e),
      sys_remove_all = (\<lambda>path e. (None, e)),
      sys_mkdir_all = (\<lambda>path e. (None, e)),
      sys_write_file = (\<lambda>path bytes e. (None, e)),
      sys_valid_request_url = (\<lambda>url. True),
      sys_post = (\<lambda>request e. (Inr 204, e)),
      sys_cgi = (\<lambda>request e. (\<lparr>cgi_headers = [], cgi_calls = [Write ''ok'']\<rparr>, Suc e)),
      sys_random = (\<lambda>n e. (Some (replicate n 7), e))\<rparr>"

lemma demo_sys_simps [simp]:
  "sys_exec demo_sys dir prog args e = (\<lparr>ex_err = None, ex_stdout = demo_stdout args e, ex_combined = []\<rparr>, e)"
  "sys_look_path demo_sys prog e = (Inr ''/bin/act'', e)"
  "sys_start demo_sys dir prog args env e = (Inr 42, e)"
  "sys_wait demo_sys pid e = ((None, ''ok''), e)"
  "sys_interrupt demo_sys pid e = (None, e)"
  "sys_remove_all demo_sys path e = (None, e)"
  "sys_mkdir_all demo_sys path e = (None, e)"
  "sys_write_file demo_sys path bytes e = (None, e)"
  "sys_valid_request_url demo_sys url = True"
  "sys_post demo_sys request e = (Inr 204, e)"
  "sys_cgi demo_sys cgi e = (\<lparr>cgi_headers = [], cgi_calls = [Write ''ok'']\<rparr>, Suc e)"
  "sys_random demo_sys n e = (Some (replicate n 7), e)"
  by (simp_all add: demo_sys_def)

definition demo_key :: rsa_public_key where
  "demo_key = \<lparr>rsa_N = 3233, rsa_E = 17\<rparr>"

definition demo_params :: "nat params" where
  "demo_params =
     \<lparr>pm_sys = demo_sys,
      pm_keys = \<lparr>kp_pemDecode = (\<lambda>s. Some s), kp_parsePKIX = (\<lambda>s. Some (RSAKey demo_key))\<rparr>,
      pm_known = (\<lambda>p. True)\<rparr>"

lemma demo_params_simps [simp]:
  "pm_sys demo_params = demo_sys"
  "kp_pemDecode (pm_keys demo_params) s = Some s"
  "kp_parsePKIX (pm_keys demo_params) s = Some (RSAKey demo_key)"
  "pm_known demo_params q = True"
  by (simp_all add: demo_params_def)

section \<open>A session\<close>

definition demo_app :: app_input where
  "demo_app = \<lparr>ai_ID = 1, ai_PublicKeyPEM = ''pem'', ai_WebhookURL = ''http://h/'', ai_WebhookSecret = ''k''\<rparr>"

definition demo_installation :: installation_input where
  "demo_installation = \<lparr>ii_ID = 2, ii_AppID = 1, ii_Active = True, ii_Owner = ''acme'', ii_OwnerType = [],
     ii_Permissions = m_put ''actions'' ''write'' (m_put ''contents'' ''write'' m_empty)\<rparr>"

definition demo_repository :: repository_input where
  "demo_repository = \<lparr>ri_ID = 3, ri_Owner = ''acme'', ri_Name = ''App'', ri_InstallationID = 2\<rparr>"

definition demo_workflow :: workflow_input where
  "demo_workflow = \<lparr>wi_RepositoryID = 3, wi_ID = 5, wi_Name = ''ci'', wi_Path = ''ci.yml'', wi_ReleaseRef = ''main''\<rparr>"

definition demo_pull :: pull_request_input where
  "demo_pull = \<lparr>pi_RepositoryID = 3, pi_Number = 1, pi_BaseRef = ''main'', pi_HeadRef = ''topic'', pi_State = [],
     pi_Draft = False\<rparr>"

definition demo_calls :: "control_call list" where
  "demo_calls =
     [CallCreateApp (well_formed demo_app),
      CallCreateInstallation (well_formed demo_installation),
      CallCreateRepository (well_formed demo_repository),
      CallConfigureWorkflow (well_formed demo_workflow),
      CallCreatePullRequest (well_formed demo_pull)]"

definition demo_empty :: world where
  "demo_empty = initial_world 0 ''/data'' ''/git''"

fun run_calls :: "'e params \<Rightarrow> control_call list \<Rightarrow> world \<Rightarrow> 'e \<Rightarrow> world \<times> 'e" where
  "run_calls p [] w e = (w, e)"
| "run_calls p (c # cs) w e = (let (r, w', e') = control_step p c w e in run_calls p cs w' e')"

definition demo_world :: world where
  "demo_world = fst (run_calls demo_params demo_calls demo_empty 0)"

lemma run_calls_ok: "world_ok w \<Longrightarrow> world_ok (fst (run_calls p cs w e))"
proof (induction cs arbitrary: w e)
  case (Cons c cs)
  then show ?case
    using control_step_ok[of w p c e] by (cases "control_step p c w e") simp
qed simp

lemma demo_world_ok: "world_ok demo_world"
  unfolding demo_world_def demo_empty_def by (intro run_calls_ok initial_world_ok)

text \<open>The tables after the session, spelled out.\<close>

definition demo_app_entry :: app where
  "demo_app_entry = \<lparr>app_id = 1, app_publicKey = demo_key, app_webhookURL = ''http://h/'', app_webhookSecret = ''k''\<rparr>"

definition demo_inst :: installation where
  "demo_inst = \<lparr>inst_id = 2, inst_appID = 1, inst_active = True, inst_owner = ''acme'', inst_ownerType = ''User'',
     inst_permissions = copyMap (ii_Permissions demo_installation), inst_repositoryIDs = m_empty\<rparr>"

definition demo_repo :: repository where
  "demo_repo = \<lparr>repo_id = 3, repo_owner = ''acme'', repo_name = ''App'', repo_installationID = 2,
     repo_gitDir = ''/data/repositories/acme/App.git''\<rparr>"

definition demo_w1 :: world where
  "demo_w1 = demo_empty\<lparr>w_apps := m_put 1 demo_app_entry m_empty, w_mutations := 1\<rparr>"

definition demo_w2 :: world where
  "demo_w2 = bump (appendInstallationEvent demo_inst ''created''
     (demo_w1\<lparr>w_installs := m_put 2 demo_inst m_empty\<rparr>))"

definition demo_w3 :: world where
  "demo_w3 = bump (add_repository demo_repo demo_inst demo_w2)"

definition demo_w4 :: world where
  "demo_w4 = bump (demo_w3\<lparr>w_workflows := m_put 3 \<lparr>wf_repositoryID = 3, wf_id = 5, wf_name = ''ci'',
     wf_path = ''ci.yml'', wf_releaseRef = ''main''\<rparr> m_empty\<rparr>)"

definition demo_w5 :: world where
  "demo_w5 = bump (demo_w4\<lparr>w_pulls := m_put \<lparr>pk_repositoryID = 3, pk_number = 1\<rparr>
     \<lparr>pr_repositoryID = 3, pr_number = 1, pr_baseRef = ''main'', pr_headRef = ''topic'',
      pr_baseSHA = ''c0ffee'', pr_headSHA = ''c0ffee'', pr_state = ''open'', pr_draft = False\<rparr> m_empty\<rparr>)"

lemma demo_step1: "control_step demo_params (CallCreateApp (well_formed demo_app)) demo_empty e =
    (writeJSON 201 (PID 1), demo_w1, e)"
  by (simp add: control_step_def createApp_def demo_app_def demo_empty_def initial_world_def zero_app_def
      demo_w1_def demo_app_entry_def bump_def)

lemma demo_perms: "checkInstallationInput demo_installation = Inr (demo_installation\<lparr>ii_OwnerType := ''User''\<rparr>)"
  by (simp add: checkInstallationInput_def demo_installation_def m_entries_put permissionRank_def
      validPathComponent_def)

lemma demo_installation_simps [simp]:
  "ii_ID demo_installation = 2" "ii_AppID demo_installation = 1" "ii_Owner demo_installation = ''acme''"
  "ii_Active demo_installation"
  by (simp_all add: demo_installation_def)

lemma demo_step2: "control_step demo_params (CallCreateInstallation (well_formed demo_installation)) demo_w1 e =
    (writeJSON 201 (PID 2), demo_w2, e)"
  by (simp add: control_step_def createInstallation_def demo_perms demo_w1_def demo_w2_def Let_def
      zero_installation_def demo_empty_def initial_world_def new_installation_def demo_inst_def)

lemma demo_runGit [simp]: "runGit demo_sys dir args e = (None, e)"
  by (simp add: runGit_def)

lemma demo_resolveRef [simp]: "resolveRef demo_sys dir ref e = (''c0ffee'', e)"
  by (simp add: resolveRef_def demo_stdout_def trim_space_def trim_left_def is_space_def)

lemma demo_w2_tables: "w_installs demo_w2 = m_put 2 demo_inst m_empty" "w_repositories demo_w2 = m_empty"
  "w_repoNames demo_w2 = m_empty" "w_dataDir demo_w2 = ''/data''"
  by (simp_all add: demo_w2_def demo_w1_def demo_empty_def initial_world_def event_appends)

lemma demo_git_dir: "repo_git_dir w ''acme'' ''App'' = ''/data/repositories/acme/App.git''"
  if "w_dataDir w = ''/data''" for w
  using that by (simp add: repo_git_dir_def path_join_def path_clean_def has_prefix_def)

lemma demo_step3: "control_step demo_params (CallCreateRepository (well_formed demo_repository)) demo_w2 e =
    (writeJSON 201 (PID 3), demo_w3, e)"
  by (simp add: control_step_def createRepository_def demo_repository_def validPathComponent_def demo_w2_tables
      demo_inst_def name_taken_def Let_def demo_git_dir demo_w3_def demo_repo_def)

lemma demo_w3_tables: "w_repositories demo_w3 = m_put 3 demo_repo m_empty" "w_pulls demo_w3 = m_empty"
  by (simp_all add: demo_w3_def demo_w2_tables add_repository_def Let_def event_appends demo_repo_def)
    (simp_all add: demo_w2_def demo_w1_def demo_empty_def initial_world_def event_appends)

lemma demo_step4: "control_step demo_params (CallConfigureWorkflow (well_formed demo_workflow)) demo_w3 e =
    (writeJSON 201 (PID 5), demo_w4, e)"
  by (simp add: control_step_def configureWorkflow_def demo_workflow_def demo_w3_tables demo_w4_def Let_def)
    (simp add: demo_w3_def add_repository_def demo_w2_def demo_w1_def demo_empty_def initial_world_def
      event_appends bump_def Let_def)

lemma demo_step5: "control_step demo_params (CallCreatePullRequest (well_formed demo_pull)) demo_w4 e =
    (writeJSON 201 (PNumber 1), demo_w5, e)"
  by (simp add: control_step_def createPullRequest_def demo_pull_def demo_w4_def demo_w3_tables demo_w5_def Let_def)

lemma demo_world_eq: "demo_world = demo_w5"
  by (simp add: demo_world_def demo_calls_def demo_step1 demo_step2 demo_step3 demo_step4 demo_step5)

section \<open>A token and a push\<close>

definition demo_token :: installation_token where
  "demo_token = new_token (token_value (replicate 32 7)) 2 (m_put 3 () m_empty)
     (copyMap (inst_permissions demo_inst)) 3600000000000"

definition demo_minted :: world where
  "demo_minted = bump (demo_world\<lparr>w_tokens := m_put (tok_value demo_token) demo_token m_empty\<rparr>)"

lemma demo_repoName [simp]: "repoName ''acme'' ''App'' = ''acme/app''"
  by code_simp

lemma demo_w5_frame:
  "w_installs demo_w5 = m_put 2 (demo_inst\<lparr>inst_repositoryIDs := m_put 3 () m_empty\<rparr>) (m_put 2 demo_inst m_empty)"
  "w_now demo_w5 = 0" "w_tokens demo_w5 = m_empty" "w_repositories demo_w5 = m_put 3 demo_repo m_empty"
  "w_repoNames demo_w5 = m_put ''acme/app'' 3 m_empty" "w_receiveLocks demo_w5 = m_put 3 () m_empty"
  "w_workflows demo_w5 = m_put 3 \<lparr>wf_repositoryID = 3, wf_id = 5, wf_name = ''ci'',
     wf_path = ''ci.yml'', wf_releaseRef = ''main''\<rparr> m_empty"
  "w_workflowRuns demo_w5 = []" "w_activeRuns demo_w5 = m_empty" "w_nextRunID demo_w5 = 1000"
  "w_dataDir demo_w5 = ''/data''" "w_gitBackend demo_w5 = ''/git''" "w_mutations demo_w5 = 5"
  "w_apps demo_w5 = m_put 1 demo_app_entry m_empty"
  by (simp_all add: demo_w5_def demo_w4_def demo_w3_def add_repository_def demo_w2_def demo_w1_def
      demo_empty_def initial_world_def event_appends Let_def demo_repo_def demo_inst_def)

lemma copySet_single: "copySet (m_put k () m_empty) = m_put k () m_empty"
  by (simp add: copySet_def m_of_list_def m_entries_put)

lemma demo_mint: "mint_token (pm_known demo_params) demo_sys 1 2 no_options demo_world e =
    (Inr (\<lparr>tp_Token = tok_value demo_token, tp_ExpiresAt = 3600000000000,
       tp_Permissions = permissionsToGitHub (pm_known demo_params) (copyMap (inst_permissions demo_inst)),
       tp_Repositories = [repository_value demo_repo]\<rparr>, githubAPIResponse 201), demo_minted, e)"
  by (simp add: mint_token_def demo_world_eq demo_w5_frame demo_inst_def selectRepositories_def no_options_def
      selectPermissions_def randomToken_def Let_def demo_minted_def demo_token_def new_token_def
      tokenLifetime_def time_add_def copySet_single m_keys_def m_entries_put)

text \<open>A push of \<open>main\<close> with that token, its name in another letter case.\<close>

definition demo_parts :: "string list" where
  "demo_parts = [''ACME'', ''app.git'', ''git-receive-pack'']"

definition demo_push :: http_request where
  "demo_push = \<lparr>rq_Method = ''POST'', rq_Path = ''/ACME/app.git/git-receive-pack'', rq_service = [],
     rq_RawQuery = [], rq_Authorization = [],
     rq_BasicAuth = Some (''x-access-token'', tok_value demo_token), rq_Body = []\<rparr>"

definition demo_grant :: git_grant where
  "demo_grant = \<lparr>gg_token = demo_token, gg_repository = demo_repo, gg_lock = True\<rparr>"

lemma demo_parts_name: "repoName (demo_parts ! 0) (trim_suffix (demo_parts ! 1) ''.git'') = ''acme/app''"
  by code_simp

lemma demo_permissions: "permissionRank (m_get_or [] (tok_permissions demo_token) ''contents'') = 2"
  "permissionRank (m_get_or [] (tok_permissions demo_token) ''actions'') = 2"
  by (simp_all add: demo_token_def new_token_def demo_inst_def demo_installation_def permissionRank_def)

lemma demo_authorize: "git_authorize demo_push demo_parts ''git-receive-pack'' demo_minted = Inr demo_grant"
proof -
  have "m_get (w_tokens demo_minted) (tok_value demo_token) = Some demo_token"
    "m_get (w_repoNames demo_minted) ''acme/app'' = Some 3" "m_get (w_repositories demo_minted) 3 = Some demo_repo"
    "m_get (w_receiveLocks demo_minted) 3 = Some ()" "w_now demo_minted = 0"
    by (simp_all add: demo_minted_def demo_world_eq demo_w5_frame)
  moreover have "tok_expiresAt demo_token = 3600000000000" "in_set (tok_repositoryIDs demo_token) 3"
    by (simp_all add: demo_token_def new_token_def)
  ultimately show ?thesis
    by (simp add: git_authorize_def demo_push_def demo_parts_name[unfolded One_nat_def] Let_def
        demo_permissions demo_grant_def)
qed

definition demo_main :: "(string, string) gomap" where
  "demo_main = m_put ''main'' ''c0ffee'' m_empty"

lemma demo_main_get [simp]: "m_get demo_main k = (if k = ''main'' then Some ''c0ffee'' else None)"
  by (simp add: demo_main_def)

lemma demo_branches:
  "branchRefs demo_sys dir 0 = (Inr m_empty, 0)" "branchRefs demo_sys dir (Suc n) = (Inr demo_main, Suc n)"
  by (simp_all add: branchRefs_def demo_stdout_def demo_main_def) code_simp+

lemma demo_names: "ref_names m_empty demo_main = [''main'']"
  by (simp add: ref_names_def demo_main_def m_keys_def m_entries_put)

definition demo_pushed :: world where
  "demo_pushed = record_changes demo_repo demo_token m_empty demo_main (m_put ''main'' False m_empty) demo_minted"

text \<open>Servers in these worlds.\<close>

definition demo_server :: "world \<Rightarrow> nat \<Rightarrow> push_phase list \<Rightarrow> nat server" where
  "demo_server w e ps = \<lparr>sv_world = w, sv_env = e, sv_execs = [], sv_pushes = ps, sv_deliveries = []\<rparr>"

lemma run_calls_steps: "(server_step p)\<^sup>*\<^sup>*
    \<lparr>sv_world = w, sv_env = e, sv_execs = xs, sv_pushes = ps, sv_deliveries = ds\<rparr>
    \<lparr>sv_world = fst (run_calls p cs w e), sv_env = snd (run_calls p cs w e), sv_execs = xs, sv_pushes = ps,
     sv_deliveries = ds\<rparr>"
proof (induction cs arbitrary: w e)
  case (Cons c cs)
  obtain r w' e' where c: "control_step p c w e = (r, w', e')" by (cases "control_step p c w e")
  have "server_step p \<lparr>sv_world = w, sv_env = e, sv_execs = xs, sv_pushes = ps, sv_deliveries = ds\<rparr>
      \<lparr>sv_world = w', sv_env = e', sv_execs = xs, sv_pushes = ps, sv_deliveries = ds\<rparr>"
    using step_control[of p c "\<lparr>sv_world = w, sv_env = e, sv_execs = xs, sv_pushes = ps, sv_deliveries = ds\<rparr>" r w' e'] c
    by simp
  with Cons.IH[of w' e'] c show ?case by (simp add: converse_rtranclp_into_rtranclp)
qed simp

lemma reachable_run: "reachable p r \<Longrightarrow> (server_step p)\<^sup>*\<^sup>* r s \<Longrightarrow> reachable p s"
  by (rule dtu.reach_run)

lemma demo_env: "snd (run_calls demo_params demo_calls demo_empty 0) = 0"
  by (simp add: demo_calls_def demo_step1 demo_step2 demo_step3 demo_step4 demo_step5)

lemma demo_reachable: "reachable demo_params (demo_server demo_world 0 [])"
proof -
  have "reachable demo_params (demo_server demo_empty 0 [])"
    by (rule reach_init) (auto simp: server_init_def demo_server_def demo_empty_def)
  then show ?thesis
    using reachable_run run_calls_steps[of demo_params demo_empty 0 "[]" "[]" "[]" demo_calls]
    by (fastforce simp: demo_server_def demo_world_def demo_env)
qed

lemma demo_minted_reachable: "reachable demo_params (demo_server demo_minted 0 [])"
proof -
  have "server_step demo_params (demo_server demo_world 0 []) (demo_server demo_minted 0 [])"
    using step_mint[of demo_params 1 2 no_options "demo_server demo_world 0 []"] demo_mint[of 0]
    by (simp add: demo_server_def)
  then show ?thesis by (rule reach_more[OF demo_reachable])
qed

lemma demo_authorized: "reachable demo_params (demo_server demo_minted 0 [Waiting demo_grant])"
proof -
  have "gitService demo_push demo_parts = (''git-receive-pack'', True)" "rq_Method demo_push = ''POST''"
    by (simp_all add: gitService_def demo_parts_def demo_push_def)
  then have "server_step demo_params (demo_server demo_minted 0 []) (demo_server demo_minted 0 [Waiting demo_grant])"
    using step_authorize[of demo_push demo_parts "demo_server demo_minted 0 []" demo_grant demo_params]
      demo_authorize by (simp add: demo_server_def)
  then show ?thesis by (rule reach_more[OF demo_minted_reachable])
qed

lemma demo_receiving: "reachable demo_params (demo_server demo_minted 0 [Receiving demo_grant m_empty])"
proof -
  have "server_step demo_params (demo_server demo_minted 0 [Waiting demo_grant])
      (demo_server demo_minted 0 [Receiving demo_grant m_empty])"
    using step_handler[OF handle_lock, of "demo_server demo_minted 0 [Waiting demo_grant]" "[]" demo_grant "[]" demo_params m_empty 0]
    by (simp add: lock_available_def demo_server_def demo_grant_def demo_branches)
  then show ?thesis by (rule reach_more[OF demo_authorized])
qed

lemma demo_recording: "reachable demo_params
    (demo_server demo_minted 1 [Recording demo_grant m_empty demo_main (m_put ''main'' False m_empty)])"
proof -
  have "server_step demo_params (demo_server demo_minted 0 [Receiving demo_grant m_empty])
      (demo_server demo_minted 1 [Recording demo_grant m_empty demo_main (m_put ''main'' False m_empty)])"
    using step_handler[OF handle_received, of "demo_server demo_minted 0 [Receiving demo_grant m_empty]" "[]" demo_grant m_empty "[]"
        demo_params demo_push demo_parts demo_main 1 "m_put ''main'' False m_empty" 1]
    by (simp add: demo_server_def demo_branches demo_names forcedUpdate_def)
  then show ?thesis by (rule reach_more[OF demo_receiving])
qed

lemma demo_pushed_reachable: "reachable demo_params (demo_server demo_pushed 1 [Listing demo_grant])"
proof -
  have "server_step demo_params
      (demo_server demo_minted 1 [Recording demo_grant m_empty demo_main (m_put ''main'' False m_empty)])
      (demo_server demo_pushed 1 [Listing demo_grant])"
    using step_handler[OF handle_record, of "demo_server demo_minted 1 [Recording demo_grant m_empty demo_main (m_put ''main'' False m_empty)]"
        "[]" demo_grant m_empty demo_main "m_put ''main'' False m_empty" "[]" demo_params]
    by (simp add: demo_server_def demo_pushed_def demo_grant_def)
  then show ?thesis by (rule reach_more[OF demo_recording])
qed

text \<open>The run that the push queued.\<close>

definition demo_run :: workflow_run where
  "demo_run = queued_run 1001 demo_repo \<lparr>wf_repositoryID = 3, wf_id = 5, wf_name = ''ci'',
     wf_path = ''ci.yml'', wf_releaseRef = ''main''\<rparr> ''main'' ''c0ffee''"

lemma demo_pushed_frame:
  "w_workflowRuns demo_pushed = [demo_run]" "w_activeRuns demo_pushed = m_empty"
  "w_repositories demo_pushed = m_put 3 demo_repo m_empty" "w_repoNames demo_pushed = m_put ''acme/app'' 3 m_empty"
  "w_workflows demo_pushed = w_workflows demo_w5" "w_tokens demo_pushed = m_put (tok_value demo_token) demo_token m_empty"
  "w_now demo_pushed = 0" "w_dataDir demo_pushed = ''/data''"
  by (simp_all add: demo_pushed_def record_changes_def Let_def demo_names record_ref_change_def ref_changed_def
      m_get_or_def demo_minted_def demo_world_eq demo_w5_frame event_appends appendQueuedWorkflow_def demo_run_def
      demo_repo_def)

lemma demo_pushed_ok: "world_ok demo_pushed"
  using server_ok_world[OF reachable_ok[OF demo_pushed_reachable]] by (simp add: demo_server_def)

end
