(* ===== verification/Dtu_Requests.thy ===== *)
theory Dtu_Requests
  imports Dtu_Fixtures
begin

text \<open>
  What a client sees of the control handlers: a rejected request changes nothing and an accepted
  one is counted (locale \<open>guarded_requests\<close>, interpreted on the handlers), and what each handler
  does when it accepts.
\<close>

section \<open>Guarded requests\<close>

text \<open>Serving a list of requests one after the other.\<close>

fun serve_all :: "('c \<Rightarrow> 's \<Rightarrow> 'r \<times> 's) \<Rightarrow> 'c list \<Rightarrow> 's \<Rightarrow> 'r list \<times> 's" where
  "serve_all run [] s = ([], s)"
| "serve_all run (c # cs) s =
     (let (r, s1) = run c s; (rs, s2) = serve_all run cs s1 in (r # rs, s2))"

locale guarded_requests =
  fixes run :: "'c \<Rightarrow> 's \<Rightarrow> 'r \<times> 's"
    and bad :: "'r \<Rightarrow> bool"
    and reads :: "'c \<Rightarrow> bool"
    and view :: "'s \<Rightarrow> 'v"
    and count :: "'s \<Rightarrow> 64 word"
  assumes rejected_unchanged: "run c s = (r, s') \<Longrightarrow> bad r \<or> reads c \<Longrightarrow> view s' = view s"
    and count_view: "view s' = view s \<Longrightarrow> count s' = count s"
    and accepted_counted: "run c s = (r, s') \<Longrightarrow> \<not> bad r \<Longrightarrow> \<not> reads c \<Longrightarrow> count s' = count s + 1"
begin

lemma count_step:
  "run c s = (r, s') \<Longrightarrow> count s' = count s + (if bad r \<or> reads c then 0 else 1)"
  by (cases "bad r \<or> reads c") (simp_all add: rejected_unchanged accepted_counted count_view[OF rejected_unchanged])

lemma count_all:
  "serve_all run cs s = (rs, t) \<Longrightarrow>
     count t = count s + of_nat (length (filter (\<lambda>(c, r). \<not> bad r \<and> \<not> reads c) (zip cs rs)))"
proof (induction cs arbitrary: s rs)
  case (Cons c cs)
  obtain r s1 where 1: "run c s = (r, s1)" by (cases "run c s")
  obtain rs' s2 where 2: "serve_all run cs s1 = (rs', s2)" by (cases "serve_all run cs s1")
  have "rs = r # rs'" "t = s2" using Cons.prems 1 2 by simp_all
  then show ?case using Cons.IH[of s1 rs'] 2 count_step[OF 1] by simp
qed simp

lemma all_rejected_unchanged:
  "serve_all run cs s = (rs, t) \<Longrightarrow> list_all bad rs \<Longrightarrow> view t = view s"
proof (induction cs arbitrary: s rs)
  case (Cons c cs)
  obtain r s1 where 1: "run c s = (r, s1)" by (cases "run c s")
  obtain rs' s2 where 2: "serve_all run cs s1 = (rs', s2)" by (cases "serve_all run cs s1")
  have "rs = r # rs'" "t = s2" using Cons.prems(1) 1 2 by simp_all
  then show ?case using Cons.IH[of s1 rs'] 2 Cons.prems(2) rejected_unchanged[OF 1] by simp
qed simp

end

definition control_run :: "'e params \<Rightarrow> control_call \<Rightarrow> world \<times> 'e \<Rightarrow> response \<times> world \<times> 'e" where
  "control_run p call s = control_step p call (fst s) (snd s)"

section \<open>The control handlers are guarded\<close>

text \<open>A handler's answer and its effect on the counter, for one outcome.\<close>

definition outcome_ok :: "world \<Rightarrow> response \<times> world \<Rightarrow> bool" where
  "outcome_ok w x =
     (if rejected (fst x) then snd x = w
      else w_mutations (snd x) = w_mutations w + 1 \<and> resp_status (fst x) \<in> {200, 201})"

lemma rejected_simps [simp]:
  "rejected (writeJSON st b) = (400 \<le> st)" "rejected (writeError st m) = (400 \<le> st)"
  "rejected (writeControlError st m) = (400 \<le> st)"
  by (simp_all add: rejected_def)

lemma decode_rejected [simp]: "decodeControl b = Inl r \<Longrightarrow> rejected r"
  by (drule decodeControl_Inl) simp

lemma check_rejected [simp]: "checkInstallationInput input = Inl r \<Longrightarrow> rejected r"
  by (auto simp: checkInstallationInput_def Let_def split: if_splits)

lemma createApp_outcome: "outcome_ok w (createApp kp b w)"
  by (auto simp: outcome_ok_def createApp_def split: sum.split option.split public_key.split)

lemma createInstallation_outcome: "outcome_ok w (createInstallation b w)"
  by (auto simp: outcome_ok_def createInstallation_def Let_def event_appends split: sum.split option.split)

lemma add_repository_mutations [simp]: "w_mutations (add_repository r i w) = w_mutations w"
  by (simp add: add_repository_def Let_def event_appends)

lemma createRepository_outcome:
  "createRepository sys b w e = (r, w', e') \<Longrightarrow> outcome_ok w (r, w')"
  by (auto simp: outcome_ok_def createRepository_def Let_def
      split: sum.splits option.splits prod.splits if_splits)

lemma createPullRequest_outcome:
  "createPullRequest sys b w e = (r, w', e') \<Longrightarrow> outcome_ok w (r, w')"
  by (auto simp: outcome_ok_def createPullRequest_def Let_def
      split: sum.splits option.splits prod.splits if_splits)

lemma changePullRequestState_outcome: "outcome_ok w (changePullRequestState b w)"
  by (auto simp: outcome_ok_def changePullRequestState_def Let_def split: sum.split option.split)

lemma advanceTime_outcome: "outcome_ok w (advanceTime b w)"
  by (auto simp: outcome_ok_def advanceTime_def Let_def split: sum.split option.split)

lemma configureWorkflow_outcome:
  "configureWorkflow sys b w e = (r, w', e') \<Longrightarrow> outcome_ok w (r, w')"
  by (auto simp: outcome_ok_def configureWorkflow_def Let_def split: sum.splits prod.splits if_splits)

lemma duplicateEvent_outcome: "outcome_ok w (duplicateEvent b w)"
  by (auto simp: outcome_ok_def duplicateEvent_def Let_def split: sum.split option.split)

lemma transitionWorkflowRun_outcome: "outcome_ok w (transitionWorkflowRun b w)"
  by (auto simp: outcome_ok_def transitionWorkflowRun_def Let_def split: sum.split option.split)

lemmas outcomes =
  createApp_outcome createInstallation_outcome changePullRequestState_outcome advanceTime_outcome
  duplicateEvent_outcome transitionWorkflowRun_outcome

lemma control_step_outcome:
  "control_step p call w e = (r, w', e') \<Longrightarrow> call \<noteq> CallGetState \<Longrightarrow> outcome_ok w (r, w')"
proof (cases call)
  case (CallCreateRepository b)
  then show "control_step p call w e = (r, w', e') \<Longrightarrow> outcome_ok w (r, w')"
    using createRepository_outcome by (simp add: control_step_def)
next
  case (CallCreatePullRequest b)
  then show "control_step p call w e = (r, w', e') \<Longrightarrow> outcome_ok w (r, w')"
    using createPullRequest_outcome by (simp add: control_step_def)
next
  case (CallConfigureWorkflow b)
  then show "control_step p call w e = (r, w', e') \<Longrightarrow> outcome_ok w (r, w')"
    using configureWorkflow_outcome by (simp add: control_step_def)
qed (simp_all add: control_step_def split: prod.splits, (metis outcomes)+)

lemma getState_accepted [simp]: "\<not> rejected (getState w)"
  by (simp add: getState_def)

interpretation control: guarded_requests "control_run p" rejected "\<lambda>c. c = CallGetState" fst
  "\<lambda>s. w_mutations (fst s)" for p :: "'e params"
proof
  fix c and s s' :: "world \<times> 'e" and r
  assume run: "control_run p c s = (r, s')"
  obtain w e w' e' where s: "s = (w, e)" "s' = (w', e')" by (cases s; cases s')
  with run have st: "control_step p c w e = (r, w', e')" by (simp add: control_run_def)
  show "fst s' = fst s" if "rejected r \<or> c = CallGetState"
  proof (cases "c = CallGetState")
    case True
    with st s show ?thesis by (simp add: control_step_def)
  next
    case False
    with control_step_outcome[OF st] that s show ?thesis by (simp add: outcome_ok_def)
  qed
  show "w_mutations (fst s') = w_mutations (fst s) + 1" if "\<not> rejected r" "c \<noteq> CallGetState"
    using control_step_outcome[OF st that(2)] that s by (simp add: outcome_ok_def)
qed simp

end
