(* ===== verification/Dtu_Repositories.thy ===== *)
theory Dtu_Repositories
  imports Dtu_Requests Dtu_Safety
begin

text \<open>
  Repositories: where their Git directories are, when \<open>createRepository\<close> accepts one, and how a Git
  request reaches the directory of the repository it was authorized for and no other.
\<close>

section \<open>Directories\<close>

lemma valid_plain: "validPathComponent c \<Longrightarrow> plain_component c"
  by (auto simp: validPathComponent_def plain_component_def list_ex_iff)

lemma valid_plain_git: "validPathComponent c \<Longrightarrow> plain_component (c @ ''.git'')"
  by (cases c) (auto simp: validPathComponent_def plain_component_def list_ex_iff)

lemma path_join_under:
  assumes cs: "list_all plain_component cs" "cs \<noteq> []"
  shows "path_join (d # cs) =
    (if has_prefix d ''/'' then ''/'' else []) @
      join_with ''/'' ((if d = [] then [] else clean_parts (has_prefix d ''/'') [] (split_at CHR ''/'' d)) @ cs)"
proof -
  have ne: "filter (\<lambda>e. e \<noteq> []) cs = cs"
    using cs(1) by (auto simp: list_all_iff plain_component_def intro: filter_True)
  have free: "\<forall>c \<in> set cs. CHR ''/'' \<notin> set c"
    using cs(1) by (auto simp: list_all_iff plain_component_def)
  have sj: "split_at CHR ''/'' (join_with ''/'' cs) = cs"
    using cs free by (intro split_join) (auto simp: list_all_iff)
  have hd: "\<not> has_prefix (join_with ''/'' cs) ''/''"
  proof -
    obtain c rest where c: "cs = c # rest" using cs(2) by (cases cs) auto
    with cs(1) obtain x xs where "c = x # xs" "x \<noteq> CHR ''/''"
      by (cases c) (auto simp: plain_component_def)
    with c show ?thesis by (cases rest) (auto simp: has_prefix_def)
  qed
  show ?thesis
  proof (cases "d = []")
    case True
    have "clean_parts False [] cs = cs"
      using clean_parts_plain[OF cs(1), of False "[]" "[]"] by simp
    moreover have "path_join (d # cs) = path_clean (join_with ''/'' cs)"
      using True ne cs(2) by (cases cs) (simp_all add: path_join_def)
    moreover have "\<not> has_prefix d ''/''" using True by (simp add: has_prefix_def)
    ultimately show ?thesis using True cs(2) sj hd by (simp add: path_clean_def Let_def)
  next
    case False
    have sp: "split_at CHR ''/'' (d @ CHR ''/'' # join_with ''/'' cs) = split_at CHR ''/'' d @ cs"
      using sj by (simp add: split_at_join_prefix)
    have "has_prefix (d @ CHR ''/'' # s) ''/'' = has_prefix d ''/''" for s
      using False by (cases d) (simp_all add: has_prefix_def)
    moreover have "path_join (d # cs) = path_clean (d @ CHR ''/'' # join_with ''/'' cs)"
      using False ne cs(2) by (cases cs) (simp_all add: path_join_def)
    ultimately show ?thesis
      using False cs(2) sp clean_parts_plain[OF cs(1), of _ "[]" "split_at CHR ''/'' d"]
      by (simp add: path_clean_def Let_def)
  qed
qed

text \<open>The repositories directory and what is in it.\<close>

lemma git_root_nonempty_parts:
  "\<exists>ps. git_root w = (if has_prefix (w_dataDir w) ''/'' then ''/'' else []) @ join_with ''/'' (ps @ [''repositories'']) \<and>
     repo_git_dir w owner name =
       (if has_prefix (w_dataDir w) ''/'' then ''/'' else []) @
         join_with ''/'' (ps @ [''repositories'', owner, name @ ''.git''])"
  if "validPathComponent owner" "validPathComponent name"
proof -
  let ?ps = "if w_dataDir w = [] then []
    else clean_parts (has_prefix (w_dataDir w) ''/'') [] (split_at CHR ''/'' (w_dataDir w))"
  have "plain_component ''repositories''" by (simp add: plain_component_def)
  then show ?thesis
    using path_join_under[of "[''repositories'']" "w_dataDir w"] valid_plain[OF that(1)] valid_plain_git[OF that(2)]
      path_join_under[of "[''repositories'', owner, name @ ''.git'']" "w_dataDir w"]
    by (intro exI[of _ ?ps]) (simp add: git_root_def repo_git_dir_def)
qed

lemma repo_git_dir_under_root:
  assumes "validPathComponent owner" "validPathComponent name"
  shows "repo_git_dir w owner name = git_root w @ ''/'' @ owner @ ''/'' @ name @ ''.git''"
proof -
  obtain ps where ps: "git_root w = (if has_prefix (w_dataDir w) ''/'' then ''/'' else []) @
      join_with ''/'' (ps @ [''repositories''])"
    "repo_git_dir w owner name = (if has_prefix (w_dataDir w) ''/'' then ''/'' else []) @
      join_with ''/'' (ps @ [''repositories'', owner, name @ ''.git''])"
    using git_root_nonempty_parts[OF assms] by blast
  have "join_with ''/'' ((ps @ [''repositories'']) @ [owner, name @ ''.git'']) =
      join_with ''/'' (ps @ [''repositories'']) @ ''/'' @ owner @ ''/'' @ name @ ''.git''"
    by (subst join_with_append) simp_all
  with ps show ?thesis by simp
qed

lemma component_no_slash: "validPathComponent c \<Longrightarrow> CHR ''/'' \<notin> set c"
  by (auto simp: validPathComponent_def list_ex_iff)

lemma slash_split_inject:
  "CHR ''/'' \<notin> set a \<Longrightarrow> CHR ''/'' \<notin> set b \<Longrightarrow>
     a @ CHR ''/'' # s = b @ CHR ''/'' # t \<longleftrightarrow> a = b \<and> s = t"
proof (induction a arbitrary: b)
  case Nil
  then show ?case by (cases b) auto
next
  case (Cons x a)
  then show ?case by (cases b) auto
qed

lemma repo_git_dir_inject:
  assumes "validPathComponent o1" "validPathComponent n1" "validPathComponent o2" "validPathComponent n2"
  shows "repo_git_dir w o1 n1 = repo_git_dir w o2 n2 \<longleftrightarrow> o1 = o2 \<and> n1 = n2"
  using assms slash_split_inject[OF component_no_slash component_no_slash, of o1 o2]
  by (simp add: repo_git_dir_under_root)

lemma to_lower_no_slash: "CHR ''/'' \<notin> set (to_lower s) \<longleftrightarrow> CHR ''/'' \<notin> set s"
proof -
  have "CHR ''/'' = lower_char x \<longleftrightarrow> x = CHR ''/''" for x
    using lower_char_slash[of x] by (simp only: eq_commute)
  then show ?thesis by (auto simp: to_lower_def image_iff)
qed

lemma repoName_inject:
  assumes "validPathComponent o1" "validPathComponent o2"
  shows "repoName o1 n1 = repoName o2 n2 \<longleftrightarrow> to_lower o1 = to_lower o2 \<and> to_lower n1 = to_lower n2"
  using assms slash_split_inject[of "to_lower o1" "to_lower o2"]
  by (simp add: repoName_def to_lower_no_slash component_no_slash)

text \<open>Different repositories have different directories.\<close>

lemma world_ok_dirs_distinct:
  assumes ok: "world_ok w" and r: "m_get (w_repositories w) k = Some r"
    and s: "m_get (w_repositories w) l = Some s" and dir: "repo_gitDir r = repo_gitDir s"
  shows "k = l"
proof -
  note rok = world_ok_repository[OF ok r, unfolded repository_ok_def]
  note sok = world_ok_repository[OF ok s, unfolded repository_ok_def]
  have "repo_owner r = repo_owner s \<and> repo_name r = repo_name s"
    using rok sok dir repo_git_dir_inject by metis
  then have "m_get (w_repoNames w) (repoName (repo_owner r) (repo_name r)) = Some l"
    using sok by simp
  with rok show ?thesis by simp
qed

section \<open>Creating a repository\<close>

text \<open>The name is free when no repository has the same owner and name up to letter case.\<close>

lemma name_free:
  assumes ok: "world_ok w" and o: "validPathComponent owner"
  shows "m_get (w_repoNames w) (repoName owner name) = None \<longleftrightarrow>
    (\<forall>k r. m_get (w_repositories w) k = Some r \<longrightarrow>
       \<not> (to_lower (repo_owner r) = to_lower owner \<and> to_lower (repo_name r) = to_lower name))"
proof
  assume none: "m_get (w_repoNames w) (repoName owner name) = None"
  show "\<forall>k r. m_get (w_repositories w) k = Some r \<longrightarrow>
      \<not> (to_lower (repo_owner r) = to_lower owner \<and> to_lower (repo_name r) = to_lower name)"
  proof (intro allI impI notI)
    fix k r
    assume r: "m_get (w_repositories w) k = Some r"
      and same: "to_lower (repo_owner r) = to_lower owner \<and> to_lower (repo_name r) = to_lower name"
    have "m_get (w_repoNames w) (repoName (repo_owner r) (repo_name r)) = Some k"
      using world_ok_repository[OF ok r] by (simp add: repository_ok_def)
    with none same show False by (simp add: repoName_def)
  qed
next
  assume free: "\<forall>k r. m_get (w_repositories w) k = Some r \<longrightarrow>
      \<not> (to_lower (repo_owner r) = to_lower owner \<and> to_lower (repo_name r) = to_lower name)"
  show "m_get (w_repoNames w) (repoName owner name) = None"
  proof (rule ccontr)
    assume "m_get (w_repoNames w) (repoName owner name) \<noteq> None"
    then obtain k where k: "m_get (w_repoNames w) (repoName owner name) = Some k" by auto
    from world_ok_name[OF ok k] obtain r where r: "m_get (w_repositories w) k = Some r"
      "repoName owner name = repoName (repo_owner r) (repo_name r)" by blast
    have "validPathComponent (repo_owner r)"
      using world_ok_repository[OF ok r(1)] by (simp add: repository_ok_def)
    with free r repoName_inject[OF o] show False by metis
  qed
qed

lemma name_taken_iff:
  assumes ok: "world_ok w" and i: "m_get (w_installs w) iid = Some i"
  shows "name_taken w i name \<longleftrightarrow>
    (\<exists>k r. m_get (w_repositories w) k = Some r \<and> repo_installationID r = iid \<and>
       to_lower (repo_name r) = to_lower name)"
proof -
  have mem: "in_set (inst_repositoryIDs i) k \<longleftrightarrow>
      (\<exists>r. m_get (w_repositories w) k = Some r \<and> repo_installationID r = iid)" for k
    using world_ok_installation_repo[OF ok i, of k] world_ok_repo_installation[OF ok, of k] i by auto
  show ?thesis
    unfolding name_taken_def list_ex_iff Bex_def in_set_keys[symmetric] equal_fold_iff mem by fastforce
qed

definition git_init_ok :: "'e sys \<Rightarrow> string \<Rightarrow> 'e \<Rightarrow> bool" where
  "git_init_ok sys dir e \<longleftrightarrow>
     (let (err1, e1) = runGit sys [] [''init'', ''--bare'', dir] e;
          (err2, e2) = runGit sys dir [''config'', ''http.receivepack'', ''true''] e1
      in err1 = None \<and> err2 = None)"

text \<open>What an accepted creation writes.\<close>

lemma createRepository_accepted:
  assumes "createRepository sys (well_formed input) w e = (r, w', e')" "\<not> rejected r"
  shows "\<exists>i. m_get (w_installs w) (ri_InstallationID input) = Some i \<and>
    w' = bump (add_repository
      \<lparr>repo_id = ri_ID input, repo_owner = ri_Owner input, repo_name = ri_Name input,
       repo_installationID = ri_InstallationID input,
       repo_gitDir = repo_git_dir w (ri_Owner input) (ri_Name input)\<rparr> i w)"
  using assms
  by (auto simp: createRepository_def Let_def split: if_splits option.splits prod.splits)

lemma createRepository_accept_iff:
  assumes ok: "world_ok w" and r: "createRepository sys (well_formed input) w e = (r, w', e')"
  shows "\<not> rejected r \<longleftrightarrow>
    0 < sint (ri_ID input) \<and> validPathComponent (ri_Owner input) \<and> validPathComponent (ri_Name input) \<and>
    (\<exists>i. m_get (w_installs w) (ri_InstallationID input) = Some i) \<and>
    m_get (w_repositories w) (ri_ID input) = None \<and>
    (\<forall>k s. m_get (w_repositories w) k = Some s \<longrightarrow> to_lower (repo_name s) = to_lower (ri_Name input) \<longrightarrow>
       to_lower (repo_owner s) \<noteq> to_lower (ri_Owner input) \<and>
       repo_installationID s \<noteq> ri_InstallationID input) \<and>
    git_init_ok sys (repo_git_dir w (ri_Owner input) (ri_Name input)) e"
proof (cases "sint (ri_ID input) \<le> 0 \<or> \<not> validPathComponent (ri_Owner input) \<or>
    \<not> validPathComponent (ri_Name input) \<or> m_get (w_installs w) (ri_InstallationID input) = None \<or>
    m_get (w_repositories w) (ri_ID input) \<noteq> None")
  case True
  then have "rejected r"
    using r by (auto simp: createRepository_def Let_def split: if_splits option.splits prod.splits)
  with True show ?thesis by auto
next
  case False
  then obtain i where i: "m_get (w_installs w) (ri_InstallationID input) = Some i" by auto
  let ?free = "m_get (w_repoNames w) (repoName (ri_Owner input) (ri_Name input)) = None \<and>
    \<not> name_taken w i (ri_Name input)"
  have "?free \<longleftrightarrow> (\<forall>k s. m_get (w_repositories w) k = Some s \<longrightarrow> to_lower (repo_name s) = to_lower (ri_Name input) \<longrightarrow>
       to_lower (repo_owner s) \<noteq> to_lower (ri_Owner input) \<and> repo_installationID s \<noteq> ri_InstallationID input)"
    using False unfolding name_taken_iff[OF ok i] by (subst name_free[OF ok]) blast+
  moreover have "\<not> rejected r \<longleftrightarrow> ?free \<and> git_init_ok sys (repo_git_dir w (ri_Owner input) (ri_Name input)) e"
    using r False i
    by (auto simp: createRepository_def git_init_ok_def Let_def split: if_splits option.splits prod.splits)
  ultimately show ?thesis using False i by auto
qed

section \<open>Reaching a repository over Git\<close>

text \<open>The directory that the Git backend serves for a granted request.\<close>

lemma git_cgi_directory:
  assumes ok: "world_ok w" and g: "git_authorize rq parts service w = Inr g"
  shows "git_root w @ cgi_path (git_cgi rq parts (gg_repository g) w) =
    repo_gitDir (gg_repository g) @ ''/'' @ join_with ''/'' (drop 2 parts)"
proof -
  obtain i where "m_get (w_repositories w) i = Some (gg_repository g)"
    by (rule git_authorize_grant[OF ok g])
  from world_ok_repository[OF ok this] show ?thesis
    by (simp add: repository_ok_def git_cgi_def repo_git_dir_under_root)
qed

end
