(* ===== verification/Dtu_Scopes.thy ===== *)
theory Dtu_Scopes
  imports Dtu_Repositories
begin

text \<open>
  Credentials and what they reach: which App JWTs are accepted, what a token request selects and
  what the minted token may do, when it expires, and that a request without access cannot tell an
  inaccessible resource from a missing one.
\<close>

section \<open>App JWTs\<close>

lemma authenticateAppJWT_accepts:
  assumes j: "jwt_contract jwt" and a: "authenticateAppJWT jwt raw w = Some i"
  shows "\<exists>claims iat exp a. jwt_ParseWithClaims jwt raw (app_key w) [''RS256''] = Some (claims, True) \<and>
    parse_int64 (cl_Issuer claims) = Some i \<and> m_get (w_apps w) i = Some a \<and>
    jwt_signed_by jwt raw (app_publicKey a) \<and>
    cl_IssuedAt claims = Some iat \<and> cl_ExpiresAt claims = Some exp \<and>
    iat \<le> w_now w \<and> w_now w < exp \<and> exp \<le> time_add (w_now w) (10 * minute)"
proof -
  from a obtain claims iat exp where p: "jwt_ParseWithClaims jwt raw (app_key w) [''RS256''] = Some (claims, True)"
    and c: "parse_int64 (cl_Issuer claims) = Some i" "cl_IssuedAt claims = Some iat" "cl_ExpiresAt claims = Some exp"
      "iat \<le> w_now w" "w_now w < exp" "exp \<le> time_add (w_now w) (10 * minute)"
    by (auto simp: authenticateAppJWT_def split: if_splits option.splits)
  from j p obtain alg key where k: "app_key w alg claims = Some key" "jwt_signed_by jwt raw key"
    unfolding jwt_contract_def by blast
  with c(1) obtain ap where "m_get (w_apps w) i = Some ap" "key = app_publicKey ap"
    by (auto simp: app_key_def split: if_splits)
  with p c k show ?thesis by blast
qed

section \<open>What a token request selects\<close>

text \<open>The repositories of an installation whose name is in a list, up to letter case.\<close>

definition named_in :: "world \<Rightarrow> installation \<Rightarrow> string list \<Rightarrow> int64 \<Rightarrow> bool" where
  "named_in w i names j \<longleftrightarrow>
     (\<exists>r. m_get (w_repositories w) j = Some r \<and> in_set (inst_repositoryIDs i) j \<and>
          to_lower (repo_name r) \<in> to_lower ` set names)"

lemma find_by_name_iff:
  assumes ok: "world_ok w" and i: "m_get (w_installs w) iid = Some i"
  shows "find_by_name (w_repositories w) (inst_repositoryIDs i) n = Some j \<longleftrightarrow> named_in w i [n] j"
    and "find_by_name (w_repositories w) (inst_repositoryIDs i) n = None \<longleftrightarrow> (\<forall>j. \<not> named_in w i [n] j)"
proof -
  note known = world_ok_installation_repo[OF ok i]
  have same: "j = k" if jk: "named_in w i [n] j" "named_in w i [n] k" for j k
  proof -
    from jk obtain r s where r: "m_get (w_repositories w) j = Some r" "in_set (inst_repositoryIDs i) j"
      "to_lower (repo_name r) = to_lower n"
      and s: "m_get (w_repositories w) k = Some s" "in_set (inst_repositoryIDs i) k"
      "to_lower (repo_name s) = to_lower n" by (auto simp: named_in_def)
    have "repo_installationID r = iid" "repo_installationID s = iid"
      using known[OF r(2)] known[OF s(2)] r(1) s(1) by auto
    with r s show ?thesis using ok unfolding world_ok_def inst_names_ok_def by metis
  qed
  have sound: "named_in w i [n] h" if h: "find_by_name (w_repositories w) (inst_repositoryIDs i) n = Some h" for h
  proof -
    have "in_set (inst_repositoryIDs i) h" using find_by_name_Some[OF h] by simp
    with known obtain r where "m_get (w_repositories w) h = Some r" by blast
    with find_by_name_Some[OF h] show ?thesis by (auto simp: named_in_def)
  qed
  show none: "find_by_name (w_repositories w) (inst_repositoryIDs i) n = None \<longleftrightarrow> (\<forall>j. \<not> named_in w i [n] j)"
  proof
    assume "find_by_name (w_repositories w) (inst_repositoryIDs i) n = None"
    then show "\<forall>j. \<not> named_in w i [n] j" by (auto simp: find_by_name_None named_in_def)
  next
    assume "\<forall>j. \<not> named_in w i [n] j"
    with sound show "find_by_name (w_repositories w) (inst_repositoryIDs i) n = None"
      by (cases "find_by_name (w_repositories w) (inst_repositoryIDs i) n") auto
  qed
  show "find_by_name (w_repositories w) (inst_repositoryIDs i) n = Some j \<longleftrightarrow> named_in w i [n] j"
    using sound same none by (cases "find_by_name (w_repositories w) (inst_repositoryIDs i) n") blast+
qed

lemma select_names_spec:
  assumes ok: "world_ok w" and i: "m_get (w_installs w) iid = Some i"
  shows "select_names (w_repositories w) (inst_repositoryIDs i) names sel = Some out \<Longrightarrow>
      in_set out j \<longleftrightarrow> in_set sel j \<or> named_in w i names j"
    and "select_names (w_repositories w) (inst_repositoryIDs i) names sel = None \<longleftrightarrow>
      (\<exists>n \<in> set names. \<forall>j. \<not> named_in w i [n] j)"
proof (induction names arbitrary: sel)
  case Nil
  {
    case 1
    then show ?case by (simp add: named_in_def)
  next
    case 2
    then show ?case by simp
  }
next
  case (Cons n names)
  have split: "named_in w i (n # names) j \<longleftrightarrow> named_in w i [n] j \<or> named_in w i names j" for j
    by (auto simp: named_in_def)
  {
    case 1
    then obtain h where h: "find_by_name (w_repositories w) (inst_repositoryIDs i) n = Some h"
      "select_names (w_repositories w) (inst_repositoryIDs i) names (m_put h () sel) = Some out"
      by (auto split: option.splits)
    have "named_in w i [n] j \<longleftrightarrow> j = h" using h(1) find_by_name_iff(1)[OF ok i, of n j] by auto
    with Cons(1)[OF h(2)] split show ?case by auto
  next
    case 2
    show ?case
      using Cons(2) find_by_name_iff(2)[OF ok i, of n]
      by (cases "find_by_name (w_repositories w) (inst_repositoryIDs i) n") auto
  }
qed

definition selects_everything :: "token_options \<Rightarrow> bool" where
  "selects_everything opts \<longleftrightarrow> opt_RepositoryIDs opts = [] \<and> opt_Repositories opts = []"

lemma selectRepositories_members:
  assumes ok: "world_ok w" and i: "m_get (w_installs w) iid = Some i"
    and s: "selectRepositories w i opts = Some sel"
  shows "in_set sel j \<longleftrightarrow>
    (if selects_everything opts then in_set (inst_repositoryIDs i) j
     else j \<in> set (opt_RepositoryIDs opts) \<or> named_in w i (opt_Repositories opts) j)"
proof (cases "selects_everything opts")
  case True
  with s show ?thesis by (auto simp: selectRepositories_def selects_everything_def)
next
  case False
  with s obtain mid where mid: "select_ids (inst_repositoryIDs i) (opt_RepositoryIDs opts) m_empty = Some mid"
    "select_names (w_repositories w) (inst_repositoryIDs i) (opt_Repositories opts) mid = Some sel"
    by (auto simp: selectRepositories_def selects_everything_def split: option.splits)
  from select_ids_spec[OF mid(1)] select_names_spec(1)[OF ok i mid(2), of j] False show ?thesis by auto
qed

lemma selectRepositories_refused:
  assumes ok: "world_ok w" and i: "m_get (w_installs w) iid = Some i"
  shows "selectRepositories w i opts = None \<longleftrightarrow>
    (\<exists>j \<in> set (opt_RepositoryIDs opts). \<not> in_set (inst_repositoryIDs i) j) \<or>
    (\<exists>n \<in> set (opt_Repositories opts). \<forall>j. \<not> named_in w i [n] j)"
proof (cases "select_ids (inst_repositoryIDs i) (opt_RepositoryIDs opts) m_empty")
  case None
  then show ?thesis
    using select_ids_None[of "inst_repositoryIDs i" "opt_RepositoryIDs opts" m_empty]
    by (auto simp: selectRepositories_def)
next
  case (Some mid)
  then have "\<forall>j \<in> set (opt_RepositoryIDs opts). in_set (inst_repositoryIDs i) j"
    using select_ids_spec[OF Some] by blast
  with Some show ?thesis
    using select_names_spec(2)[OF ok i, of "opt_Repositories opts" mid]
    by (auto simp: selectRepositories_def)
qed

section \<open>What the minted token may do\<close>

lemma mint_token_accepted:
  assumes "mint_token known sys appID iid opts w e = (Inr (payload, resp), w', e')"
  shows "\<exists>i ids perms v. m_get (w_installs w) iid = Some i \<and> inst_appID i = appID \<and> inst_active i \<and>
    selectRepositories w i opts = Some ids \<and>
    selectPermissions (inst_permissions i) (opt_Permissions opts) = Some perms \<and>
    fst (randomToken sys e) = Some v \<and> tp_Token payload = v \<and>
    tp_ExpiresAt payload = time_add (w_now w) hour \<and> ar_status resp = 201 \<and>
    tp_Repositories payload =
      map (\<lambda>j. repository_value (m_get_or zero_repository (w_repositories w) j)) (m_keys ids) \<and>
    w' = bump (w\<lparr>w_tokens := m_put v (new_token v iid ids perms (time_add (w_now w) hour)) (w_tokens w)\<rparr>)"
  using assms
  by (auto simp: mint_token_def Let_def tokenLifetime_def githubAPIResponse_def
      split: option.splits if_splits prod.splits)

text \<open>The stored token authenticates until it expires, and not after.\<close>

lemma minted_token_lifetime:
  assumes "mint_token known sys appID iid opts w e = (Inr (payload, resp), w', e')"
  shows "authenticateInstallationToken (tp_Token payload) (w'\<lparr>w_now := t\<rparr>) \<noteq> None \<longleftrightarrow>
    t < tp_ExpiresAt payload"
  using mint_token_accepted[OF assms]
  by (auto simp: authenticateInstallationToken_def new_token_def bump_def split: if_splits)

section \<open>No access and no resource look the same\<close>

text \<open>What an installation token may reach: the repository by its name, in the token's scope.\<close>

definition token_repository :: "installation_token \<Rightarrow> string \<Rightarrow> string \<Rightarrow> world \<Rightarrow> int64 option" where
  "token_repository t owner name w =
     (case m_get (w_repoNames w) (repoName owner name) of
        None \<Rightarrow> None
      | Some i \<Rightarrow> if in_set (tok_repositoryIDs t) i then Some i else None)"

lemma pull_lookup_answers:
  "pull_lookup (Some t) owner name n w =
    (case token_repository t owner name w of
       None \<Rightarrow> Inl (githubAPIError 404 ''Not Found'')
     | Some i \<Rightarrow>
         if \<not> canReadPulls (tok_permissions t) then Inl (githubAPIError 404 ''Not Found'')
         else (case m_get (w_pulls w) \<lparr>pk_repositoryID = i, pk_number = n\<rparr> of
                 None \<Rightarrow> Inl (githubAPIError 404 ''Not Found'')
               | Some p \<Rightarrow> Inr (m_get_or zero_repository (w_repositories w) i, p)))"
  by (simp add: pull_lookup_def token_repository_def split: option.split)

text \<open>
  The answer to a request whose token does not reach the repository, the pull request or the run:
  for every such request it is the same 404, and nothing changes.
\<close>

definition may_read_pull :: "installation_token \<Rightarrow> string \<Rightarrow> string \<Rightarrow> int64 \<Rightarrow> world \<Rightarrow> bool" where
  "may_read_pull t owner name n w \<longleftrightarrow>
     (\<exists>i. token_repository t owner name w = Some i \<and> canReadPulls (tok_permissions t) \<and>
        m_get (w_pulls w) \<lparr>pk_repositoryID = i, pk_number = n\<rparr> \<noteq> None)"

definition may_cancel :: "installation_token \<Rightarrow> string \<Rightarrow> string \<Rightarrow> int64 \<Rightarrow> world \<Rightarrow> bool" where
  "may_cancel t owner name k w \<longleftrightarrow>
     (\<exists>i. token_repository t owner name w = Some i \<and>
        2 \<le> permissionRank (m_get_or [] (tok_permissions t) ''actions'') \<and>
        (\<exists>run \<in> set (w_workflowRuns w). run_ID run = k \<and> run_RepositoryID run = i))"

lemma get_hidden:
  "\<not> may_read_pull t owner name n w \<Longrightarrow>
     PullRequestsGet sys (Some t) owner name n w e = (Inl (githubAPIError 404 ''Not Found''), w, e)"
  by (auto simp: PullRequestsGet_def pull_lookup_answers may_read_pull_def split: option.split)

lemma permission_rank_write [simp]: "permissionRank ''write'' = 2" "permissionRank ''read'' = 1"
  by (simp_all add: permissionRank_def)

lemma cancel_hidden:
  "\<not> may_cancel t owner name k w \<Longrightarrow>
     CancelWorkflowRunByID sys (Some t) owner name k w e = (Inl (githubAPIError 404 ''Not Found''), w, e)"
  by (auto simp: CancelWorkflowRunByID_def may_cancel_def token_repository_def index_of_Some not_le
      split: option.split if_split) (metis nth_mem)+

lemma get_granted:
  assumes "may_read_pull t owner name n w"
  shows "\<exists>payload e'. PullRequestsGet sys (Some t) owner name n w e = (Inr (payload, githubAPIResponse 200), w, e')"
  using assms by (auto simp: PullRequestsGet_def pull_lookup_answers may_read_pull_def split: prod.split)

end
