(* ===== verification/Dtu_Pushes.thy ===== *)
theory Dtu_Pushes
  imports Dtu_Scopes
begin

text \<open>
  What a push leaves in the world: for each changed branch, in the order of the branch names, one
  push event, and for the release branch one queued run with its event; nothing for a push that
  changed nothing. Then pull snapshots, and who may fetch and push at all.
\<close>

section \<open>The specification of a recorded push\<close>

definition starts_run ::
    "world \<Rightarrow> repository \<Rightarrow> (string, string) gomap \<Rightarrow> (string, string) gomap \<Rightarrow> string \<Rightarrow> workflow_config option" where
  "starts_run w r before after ref =
     (case m_get (w_workflows w) (repo_id r) of
        None \<Rightarrow> None
      | Some f \<Rightarrow>
          if ref_changed before after ref \<and> wf_releaseRef f = ref \<and> m_get_or [] after ref \<noteq> []
          then Some f else None)"

text \<open>What a receiver can tell of an event, apart from its number and time.\<close>

definition event_label :: "pending_event \<Rightarrow> string \<times> string \<times> int64 \<times> string" where
  "event_label ev = (ev_Event ev, ev_Action ev, ev_RepositoryID ev, ev_Body ev)"

definition push_label ::
    "world \<Rightarrow> repository \<Rightarrow> installation_token \<Rightarrow> (string, string) gomap \<Rightarrow> (string, string) gomap \<Rightarrow>
     (string, bool) gomap \<Rightarrow> string \<Rightarrow> string \<times> string \<times> int64 \<times> string" where
  "push_label w r t before after forced ref =
     (''push'', [], repo_id r, marshal (push_event_json (push_payload r
        (inst_appID (m_get_or zero_installation (w_installs w) (tok_installationID t))) ref
        (m_get_or [] before ref) (m_get_or [] after ref) (m_get_or False forced ref))))"

definition requested_label :: "repository \<Rightarrow> workflow_run \<Rightarrow> string \<times> string \<times> int64 \<times> string" where
  "requested_label r run =
     (''workflow_run'', ''requested'', repo_id r, marshal (workflow_event_json (workflow_payload r run ''requested'')))"

text \<open>The runs and events of the branches in a list, when the next run gets the number \<open>n\<close>.\<close>

fun pushed_runs ::
    "world \<Rightarrow> int64 \<Rightarrow> repository \<Rightarrow> (string, string) gomap \<Rightarrow> (string, string) gomap \<Rightarrow> string list \<Rightarrow>
     workflow_run list" where
  "pushed_runs w n r before after [] = []"
| "pushed_runs w n r before after (ref # refs) =
     (case starts_run w r before after ref of
        None \<Rightarrow> pushed_runs w n r before after refs
      | Some f \<Rightarrow> queued_run n r f ref (m_get_or [] after ref) # pushed_runs w n r before after refs)"

fun pushed_labels ::
    "world \<Rightarrow> int64 \<Rightarrow> repository \<Rightarrow> installation_token \<Rightarrow> (string, string) gomap \<Rightarrow> (string, string) gomap \<Rightarrow>
     (string, bool) gomap \<Rightarrow> string list \<Rightarrow> (string \<times> string \<times> int64 \<times> string) list" where
  "pushed_labels w n r t before after forced [] = []"
| "pushed_labels w n r t before after forced (ref # refs) =
     (if ref_changed before after ref
      then push_label w r t before after forced ref #
        (case starts_run w r before after ref of
           None \<Rightarrow> []
         | Some f \<Rightarrow> [requested_label r (queued_run n r f ref (m_get_or [] after ref))])
      else []) @ pushed_labels w n r t before after forced refs"

section \<open>The code meets the specification\<close>

lemma event_label_append [simp]:
  "map event_label (w_pendingEvents (appendPushEvent r i ref x y z w)) =
     map event_label (w_pendingEvents w) @ [(''push'', [], repo_id r, marshal (push_event_json (push_payload r i ref x y z)))]"
  "map event_label (w_pendingEvents (appendQueuedWorkflow r f ref sha w)) =
     map event_label (w_pendingEvents w) @ [requested_label r (queued_run (w_nextRunID w + 1) r f ref sha)]"
  by (simp_all add: event_appends append_event_log event_label_def appendQueuedWorkflow_def Let_def
      requested_label_def)

lemma record_one:
  "map event_label (w_pendingEvents (record_ref_change r t b a f ref w)) =
     map event_label (w_pendingEvents w) @ pushed_labels w (w_nextRunID w + 1) r t b a f [ref]"
  "w_workflowRuns (record_ref_change r t b a f ref w) =
     w_workflowRuns w @ pushed_runs w (w_nextRunID w + 1) r b a [ref]"
  "w_nextRunID (record_ref_change r t b a f ref w) =
     (if starts_run w r b a ref = None then w_nextRunID w else w_nextRunID w + 1)"
proof -
  have frame: "w_workflows (appendPushEvent r i ref x y z w) = w_workflows w"
    "w_workflowRuns (appendPushEvent r i ref x y z w) = w_workflowRuns w"
    "w_nextRunID (appendPushEvent r i ref x y z w) = w_nextRunID w" for i x y z
    by (simp_all add: event_appends)
  have runs: "w_workflowRuns (appendQueuedWorkflow r fl ref sha w2) =
      w_workflowRuns w2 @ [queued_run (w_nextRunID w2 + 1) r fl ref sha]"
    "w_nextRunID (appendQueuedWorkflow r fl ref sha w2) = w_nextRunID w2 + 1" for fl sha w2
    by (simp_all add: appendQueuedWorkflow_def Let_def event_appends)
  show "map event_label (w_pendingEvents (record_ref_change r t b a f ref w)) =
     map event_label (w_pendingEvents w) @ pushed_labels w (w_nextRunID w + 1) r t b a f [ref]"
    by (auto simp: record_ref_change_def Let_def frame starts_run_def ref_changed_def push_label_def
        split: option.split)
  show "w_workflowRuns (record_ref_change r t b a f ref w) =
     w_workflowRuns w @ pushed_runs w (w_nextRunID w + 1) r b a [ref]"
    by (auto simp: record_ref_change_def Let_def frame runs starts_run_def ref_changed_def split: option.split)
  show "w_nextRunID (record_ref_change r t b a f ref w) =
     (if starts_run w r b a ref = None then w_nextRunID w else w_nextRunID w + 1)"
    by (auto simp: record_ref_change_def Let_def frame runs starts_run_def ref_changed_def split: option.split)
qed

text \<open>At most one branch starts a run, so the number given to the others does not matter.\<close>

lemma none_starts:
  assumes "\<forall>ref \<in> set refs. starts_run w r b a ref = None"
  shows "pushed_runs w n r b a refs = []"
    and "pushed_labels w m r t b a f refs = pushed_labels w n r t b a f refs"
  using assms by (induction refs) auto

lemma one_starts: "starts_run w r b a ref = Some f \<Longrightarrow> ref' \<noteq> ref \<Longrightarrow> starts_run w r b a ref' = None"
  by (auto simp: starts_run_def split: option.splits if_splits)

lemma spec_frame:
  assumes "w_workflows w' = w_workflows w" "w_installs w' = w_installs w"
  shows "starts_run w' r b a ref = starts_run w r b a ref"
    and "pushed_runs w' n r b a refs = pushed_runs w n r b a refs"
    and "pushed_labels w' n r t b a f refs = pushed_labels w n r t b a f refs"
proof -
  show st: "starts_run w' r b a ref = starts_run w r b a ref" for ref
    using assms by (simp add: starts_run_def)
  show "pushed_runs w' n r b a refs = pushed_runs w n r b a refs"
    by (induction refs) (simp_all add: st split: option.split)
  show "pushed_labels w' n r t b a f refs = pushed_labels w n r t b a f refs"
    using assms by (induction refs) (simp_all add: st push_label_def split: option.split)
qed

lemma record_all:
  assumes "distinct refs"
  shows "map event_label (w_pendingEvents (fold (record_ref_change r t b a f) refs w)) =
      map event_label (w_pendingEvents w) @ pushed_labels w (w_nextRunID w + 1) r t b a f refs \<and>
    w_workflowRuns (fold (record_ref_change r t b a f) refs w) =
      w_workflowRuns w @ pushed_runs w (w_nextRunID w + 1) r b a refs"
  using assms
proof (induction refs arbitrary: w)
  case (Cons ref refs)
  let ?w = "record_ref_change r t b a f ref w"
  have fr: "w_workflows ?w = w_workflows w" "w_installs ?w = w_installs w" by simp_all
  have IH: "map event_label (w_pendingEvents (fold (record_ref_change r t b a f) refs ?w)) =
      map event_label (w_pendingEvents ?w) @ pushed_labels w (w_nextRunID ?w + 1) r t b a f refs \<and>
    w_workflowRuns (fold (record_ref_change r t b a f) refs ?w) =
      w_workflowRuns ?w @ pushed_runs w (w_nextRunID ?w + 1) r b a refs"
    using Cons.IH[of ?w] Cons.prems spec_frame[OF fr] by simp
  show ?case
  proof (cases "starts_run w r b a ref")
    case None
    then show ?thesis using IH record_one[of r t b a f ref w] by simp
  next
    case (Some fl)
    have no: "\<forall>ref' \<in> set refs. starts_run w r b a ref' = None"
      using one_starts[OF Some] Cons.prems by (metis distinct.simps(2))
    show ?thesis
      using IH record_one[of r t b a f ref w] Some none_starts(1)[OF no]
        none_starts(2)[OF no, of "w_nextRunID w + 1 + 1" t f "w_nextRunID w + 1"] by simp
  qed
qed simp

lemma ref_names_props: "distinct (ref_names b a)" "sorted (ref_names b a)"
  "set (ref_names b a) = {ref. m_get b ref \<noteq> None \<or> m_get a ref \<noteq> None}"
  by (auto simp: ref_names_def gm.keys_get)

lemma ref_changed_named: "ref_changed b a ref \<Longrightarrow> ref \<in> set (ref_names b a)"
  by (auto simp: ref_changed_def ref_names_props(3) m_get_or_def split: option.splits)

text \<open>The labels of the unchanged branches are none, so only the changed ones matter.\<close>

lemma pushed_labels_filter:
  "pushed_labels w n r t b a f refs = pushed_labels w n r t b a f (filter (ref_changed b a) refs)"
  by (induction refs) auto

lemma record_changes_unchanged:
  assumes "\<forall>ref. m_get b ref = m_get a ref"
  shows "record_changes r t b a f w = w"
proof -
  have no: "\<not> ref_changed b a ref" for ref using assms by (simp add: ref_changed_def m_get_or_def)
  then have "record_ref_change r t b a f ref w = w" for ref w
    by (simp add: record_ref_change_def ref_changed_def Let_def)
  then have "fold (record_ref_change r t b a f) refs w = w" for refs
    by (induction refs) simp_all
  with no show ?thesis by (simp add: record_changes_def Let_def list_ex_iff)
qed

section \<open>Pull snapshots\<close>

text \<open>Git's answers for the branches of one repository, when nothing changes it meanwhile.\<close>

definition heads_are :: "'e sys \<Rightarrow> string \<Rightarrow> (string \<Rightarrow> string) \<Rightarrow> bool" where
  "heads_are sys gitDir heads \<longleftrightarrow> (\<forall>ref e. fst (resolveRef sys gitDir ref e) = heads ref)"

definition refreshed :: "(string \<Rightarrow> string) \<Rightarrow> pull_request \<Rightarrow> pull_request" where
  "refreshed heads p =
     p\<lparr>pr_baseSHA := or_else (heads (pr_baseRef p)) (pr_baseSHA p),
       pr_headSHA := or_else (heads (pr_headRef p)) (pr_headSHA p)\<rparr>"

lemma store_snapshot_refreshes:
  assumes "m_get (w_pulls w) (rs_key s) = Some p" "rs_baseRef s = pr_baseRef p" "rs_headRef s = pr_headRef p"
  shows "m_get (w_pulls (store_snapshot s (heads (rs_baseRef s)) (heads (rs_headRef s)) w)) k =
    (if k = rs_key s then Some (refreshed heads p) else m_get (w_pulls w) k)"
  using assms by (auto simp: store_snapshot_def refreshed_def or_else_def Let_def)

lemma refresh_all_pulls:
  assumes h: "heads_are sys dir heads" and d: "distinct (map rs_key ss)"
    and m: "\<And>s. s \<in> set ss \<Longrightarrow> \<exists>p. m_get (w_pulls w) (rs_key s) = Some p \<and>
      rs_baseRef s = pr_baseRef p \<and> rs_headRef s = pr_headRef p"
  shows "m_get (w_pulls (fst (refresh_all sys dir ss w e))) k =
    (if k \<in> rs_key ` set ss then map_option (refreshed heads) (m_get (w_pulls w) k)
     else m_get (w_pulls w) k)"
  using d m
proof (induction ss arbitrary: w e)
  case (Cons s ss)
  obtain base e1 where b: "resolveRef sys dir (rs_baseRef s) e = (base, e1)" by (cases "resolveRef sys dir (rs_baseRef s) e")
  obtain head e2 where hd: "resolveRef sys dir (rs_headRef s) e1 = (head, e2)" by (cases "resolveRef sys dir (rs_headRef s) e1")
  have heads: "base = heads (rs_baseRef s)" "head = heads (rs_headRef s)"
    using h b hd unfolding heads_are_def by (metis fst_conv)+
  let ?w = "store_snapshot s base head w"
  obtain p where p: "m_get (w_pulls w) (rs_key s) = Some p" "rs_baseRef s = pr_baseRef p" "rs_headRef s = pr_headRef p"
    using Cons.prems(2)[of s] by auto
  have w: "m_get (w_pulls ?w) j = (if j = rs_key s then Some (refreshed heads p) else m_get (w_pulls w) j)" for j
    using store_snapshot_refreshes[OF p, of heads j] heads by simp
  have "\<exists>p. m_get (w_pulls ?w) (rs_key t) = Some p \<and> rs_baseRef t = pr_baseRef p \<and> rs_headRef t = pr_headRef p"
    if "t \<in> set ss" for t
  proof -
    have "rs_key t \<noteq> rs_key s" using Cons.prems(1) that by (auto simp: image_iff)
    then show ?thesis using Cons.prems(2)[of t] that w by simp
  qed
  then have "m_get (w_pulls (fst (refresh_all sys dir ss ?w e2))) k =
      (if k \<in> rs_key ` set ss then map_option (refreshed heads) (m_get (w_pulls ?w) k) else m_get (w_pulls ?w) k)"
    using Cons.prems(1) by (intro Cons.IH) auto
  with b hd w p Cons.prems(1) show ?case by auto
qed simp

lemma pull_snapshots_keys:
  "distinct (map rs_key (pull_snapshots i w))"
  "rs_key ` set (pull_snapshots i w) = {k. \<exists>p. m_get (w_pulls w) k = Some p \<and> pr_repositoryID p = i}"
proof -
  have keys: "map rs_key (pull_snapshots i w) =
      map fst (filter (\<lambda>(key, pull). pr_repositoryID pull = i) (m_entries (w_pulls w)))"
    by (simp add: pull_snapshots_def comp_def case_prod_beta)
  have "distinct (map fst (m_entries (w_pulls w)))"
    using gm.keys_distinct[of "w_pulls w"] by (simp add: m_keys_def)
  then show "distinct (map rs_key (pull_snapshots i w))"
    unfolding keys by (rule distinct_map_filter)
  show "rs_key ` set (pull_snapshots i w) = {k. \<exists>p. m_get (w_pulls w) k = Some p \<and> pr_repositoryID p = i}"
    by (force simp: pull_snapshots_def m_entries_get image_iff)
qed

lemma refreshPullSnapshots_pulls:
  assumes h: "heads_are sys (repo_gitDir r) heads"
  shows "m_get (w_pulls (fst (refreshPullSnapshots sys r w e))) k =
    map_option (\<lambda>p. if pr_repositoryID p = repo_id r then refreshed heads p else p) (m_get (w_pulls w) k)"
proof -
  have "\<exists>p. m_get (w_pulls w) (rs_key s) = Some p \<and> rs_baseRef s = pr_baseRef p \<and> rs_headRef s = pr_headRef p"
    if "s \<in> set (pull_snapshots (repo_id r) w)" for s
    using that by (auto simp: pull_snapshots_def m_entries_get)
  from refresh_all_pulls[OF h pull_snapshots_keys(1) this, where e = e and k = k]
  show ?thesis
    by (auto simp: refreshPullSnapshots_def pull_snapshots_keys(2) split: if_splits)
      (cases "m_get (w_pulls w) k"; auto)
qed

section \<open>Who may fetch and push\<close>

definition needed_rank :: "string \<Rightarrow> nat" where
  "needed_rank service =
     (if service = ''git-receive-pack'' then 2 else if service = ''git-upload-pack'' then 1 else 0)"

lemma git_authorize_iff:
  assumes ok: "world_ok w"
  shows "git_authorize rq parts service w = Inr g \<longleftrightarrow>
    (\<exists>raw t i r. rq_BasicAuth rq = Some (''x-access-token'', raw) \<and>
       authenticateInstallationToken raw w = Some t \<and>
       token_repository t (parts ! 0) (trim_suffix (parts ! 1) ''.git'') w = Some i \<and>
       m_get (w_repositories w) i = Some r \<and>
       needed_rank service \<le> permissionRank (m_get_or [] (tok_permissions t) ''contents'') \<and>
       g = \<lparr>gg_token = t, gg_repository = r, gg_lock = True\<rparr>)" (is "?l \<longleftrightarrow> ?r")
proof
  assume l: ?l
  obtain i where i: "m_get (w_repoNames w) (repoName (parts ! 0) (trim_suffix (parts ! 1) ''.git'')) = Some i"
    "m_get (w_repositories w) i = Some (gg_repository g)" "gg_lock g" "in_set (tok_repositoryIDs (gg_token g)) i"
    by (rule git_authorize_grant[OF ok l])
  obtain raw where c: "rq_BasicAuth rq = Some (''x-access-token'', raw)" "m_get (w_tokens w) raw = Some (gg_token g)"
    "w_now w < tok_expiresAt (gg_token g)"
    "needed_rank service \<le> permissionRank (m_get_or [] (tok_permissions (gg_token g)) ''contents'')"
    using l by (auto simp: git_authorize_def Let_def needed_rank_def split: option.splits if_splits)
  with i show ?r
    by (intro exI[of _ raw] exI[of _ "gg_token g"] exI[of _ i] exI[of _ "gg_repository g"])
      (simp add: authenticateInstallationToken_def token_repository_def)
next
  assume ?r
  then obtain raw t i r where c: "rq_BasicAuth rq = Some (''x-access-token'', raw)"
    "m_get (w_tokens w) raw = Some t" "w_now w < tok_expiresAt t"
    "m_get (w_repoNames w) (repoName (parts ! 0) (trim_suffix (parts ! 1) ''.git'')) = Some i"
    "in_set (tok_repositoryIDs t) i" "m_get (w_repositories w) i = Some r"
    "needed_rank service \<le> permissionRank (m_get_or [] (tok_permissions t) ''contents'')"
    "g = \<lparr>gg_token = t, gg_repository = r, gg_lock = True\<rparr>"
    by (auto simp: authenticateInstallationToken_def token_repository_def split: option.splits if_splits)
  have "in_set (w_receiveLocks w) i"
    using world_ok_repository[OF ok c(6)] by (simp add: repository_ok_def)
  with c show ?l
    by (auto simp: git_authorize_def Let_def needed_rank_def in_set_def split: if_splits)
qed

section \<open>The answer to a push\<close>

lemma buffered_answer:
  "buffered c = GitBuffered (concat (map (\<lambda>(k, vs). map (\<lambda>v. (k, v)) vs) (cgi_headers c)))
     (sent_status (cgi_calls c)) (written (cgi_calls c))"
proof -
  have "rb_status rb_new = 0" "rb_body rb_new = []" by (simp_all add: rb_new_def)
  then show ?thesis
    using rb_run_status[of rb_new "cgi_calls c"] rb_run_body[of "cgi_calls c" rb_new]
    by (auto simp: buffered_def rb_flush_def split: if_splits)
qed

end
