(* ===== verification/Dtu_Runs.thy ===== *)
theory Dtu_Runs
  imports Dtu_Pushes
begin

text \<open>
  What executions, cancellations, scripted transitions and deliveries do: when each is accepted, what
  it changes, and that an execution gives back its claim however it ends.
\<close>

section \<open>Preparing\<close>

text \<open>A runner is only built for a checkout at the run's commit, with the pinned tools.\<close>

lemma resolve_prepared:
  assumes "execute_prepare sys dataDir c e = (Inr rc, e')"
  shows "\<exists>e1. resolveCheckoutHEAD sys (rc_dir rc) e1 = (run_HeadSHA (cl_run c), e')"
    and "rc_dir rc = path_join [dataDir, ''workflow-runs'', fmt_int64 (run_ID (cl_run c))]"
    and "\<exists>arch. (arch = ''amd64'' \<or> arch = ''arm64'') \<and> rc_args rc = runner_args dataDir c arch"
proof -
  from assms obtain arch e2 e3 e4 where v: "verifyRunnerImage sys e2 = (Inr arch, e3)"
    and h: "resolveCheckoutHEAD sys (rc_dir rc) e4 = (run_HeadSHA (cl_run c), e')"
    and d: "rc_dir rc = path_join [dataDir, ''workflow-runs'', fmt_int64 (run_ID (cl_run c))]"
    and a: "rc_args rc = runner_args dataDir c arch"
    by (auto simp: execute_prepare_def Let_def split: prod.splits sum.splits if_splits)
  from h show "\<exists>e1. resolveCheckoutHEAD sys (rc_dir rc) e1 = (run_HeadSHA (cl_run c), e')" by blast
  show "rc_dir rc = path_join [dataDir, ''workflow-runs'', fmt_int64 (run_ID (cl_run c))]" by (rule d)
  from v have "arch = ''amd64'' \<or> arch = ''arm64''"
    by (auto simp: verifyRunnerImage_def Let_def split: prod.splits option.splits if_splits)
  with a show "\<exists>arch. (arch = ''amd64'' \<or> arch = ''arm64'') \<and> rc_args rc = runner_args dataDir c arch"
    by blast
qed

lemma verifyRunnerImage_pinned:
  assumes "verifyRunnerImage sys e = (Inr arch, e')"
  shows "\<exists>out ds. unmarshal_strings out = Some ds \<and> pinnedRunnerDigest \<in> set ds"
  using assms
  by (auto simp: verifyRunnerImage_def Let_def list_ex_iff split: prod.splits option.splits if_splits)

section \<open>Claiming\<close>

lemma execute_claim_iff:
  "(\<exists>c. fst (execute_claim k w) = Inr c) \<longleftrightarrow>
    (\<exists>i. first_run w k = Some i \<and> run_Status (w_workflowRuns w ! i) = ''queued'' \<and>
       m_get (w_activeRuns w) k = None \<and>
       m_get (w_repositories w) (run_RepositoryID (w_workflowRuns w ! i)) \<noteq> None \<and>
       m_get (w_workflows w) (run_RepositoryID (w_workflowRuns w ! i)) \<noteq> None)"
proof (cases "first_run w k")
  case (Some i)
  then have "run_ID (w_workflowRuns w ! i) = k" by (simp add: first_run_nth)
  with Some show ?thesis
    by (cases "m_get (w_repositories w) (run_RepositoryID (w_workflowRuns w ! i))";
        cases "m_get (w_workflows w) (run_RepositoryID (w_workflowRuns w ! i))")
      (simp_all add: execute_claim_def workflowRunByID_def)
qed (simp add: execute_claim_def workflowRunByID_def)

section \<open>The execution handler\<close>

text \<open>The handler's course after a claim, when no other handler runs in between.\<close>

lemma execute_after_claim:
  assumes ok: "world_ok w" and c: "execute_claim k w = (Inr c, w1)"
    and x: "executeWorkflowRun sys (well_formed \<lparr>ewi_RunID = k\<rparr>) w e = (r, w', e')"
  shows "r \<noteq> None" "m_get (w_activeRuns w') h = (if h = k then None else m_get (w_activeRuns w1) h)"
proof -
  have w1: "world_ok w1" using execute_claim_ok[OF ok, of k] c by simp
  note held = execute_claim_held[OF ok c] and key = execute_claim_world(4)[OF c]
  have "r \<noteq> None \<and> m_get (w_activeRuns w') h = (if h = k then None else m_get (w_activeRuns w1) h)"
  proof (cases "execute_prepare sys (w_dataDir w1) c e")
    case (Pair p e1)
    show ?thesis
    proof (cases p)
      case (Inl resp)
      with x c Pair key show ?thesis
        by (auto simp: executeWorkflowRun_def execute_release_def)
    next
      case (Inr rc)
      obtain q w2 e2 where s: "execute_start sys c rc w1 e1 = (q, w2, e2)"
        by (cases "execute_start sys c rc w1 e1")
      note cl = execute_start_claims[OF w1 held s]
      have w2: "world_ok w2" using execute_start_ok[OF w1 held, of sys rc e1] s by simp
      show ?thesis
      proof (cases q)
        case (StartReply resp)
        with x c Pair Inr s key show ?thesis
          by (auto simp: executeWorkflowRun_def execute_start_cases[OF w1 held] execute_release_def
              split: if_splits sum.splits prod.splits)
      next
        case (Started pid)
        have h2: "claim_held w2 c (Some pid)" using cl(3)[of "Running c pid"] Started by (auto simp: exec_ok_def)
        have a2: "w_activeRuns w2 = m_put k \<lparr>ar_command = Some \<lparr>cmd_process = Some pid\<rparr>,
            ar_cancellationSignalled = False\<rparr> (w_activeRuns w1)"
          using s Started key by (auto simp: execute_start_cases[OF w1 held] split: if_splits sum.splits prod.splits)
        obtain err out e3 where wt: "sys_wait sys pid e2 = ((err, out), e3)"
          by (metis prod.collapse)
        obtain fr w3 where f: "execute_finish c err (log_header c @ out) w2 = (fr, w3)"
          by (cases "execute_finish c err (log_header c @ out) w2")
        have "m_get (w_activeRuns w3) h = (if h = k then None else m_get (w_activeRuns w1) h)" "fr \<noteq> None"
          using f claim_held_status[OF w2 h2] key
          by (auto simp: execute_finish_def Let_def execute_release_def a2)
        then show ?thesis
          using x c Pair Inr s Started wt f by (auto simp: executeWorkflowRun_def split: option.splits)
      next
        case StartPanic
        with cl(6) show ?thesis by simp
      qed
    qed
  qed
  then show "r \<noteq> None" "m_get (w_activeRuns w') h = (if h = k then None else m_get (w_activeRuns w1) h)"
    by simp_all
qed

lemma execute_not_claimed:
  assumes "execute_claim k w = (Inl resp, w1)"
    and "executeWorkflowRun sys (well_formed \<lparr>ewi_RunID = k\<rparr>) w e = (r, w', e')"
  shows "r = Some resp" "w' = w"
  using assms by (auto simp: executeWorkflowRun_def dest: execute_claim_rejected)

lemma execute_answers:
  assumes "world_ok w" "executeWorkflowRun sys (well_formed \<lparr>ewi_RunID = k\<rparr>) w e = (r, w', e')"
  shows "\<exists>resp. r = Some resp"
proof (cases "execute_claim k w")
  case (Pair x w1)
  then show ?thesis
    using execute_not_claimed(1)[OF _ assms(2), of _ w1] execute_after_claim(1)[OF assms(1) _ assms(2), of _ w1]
    by (cases x) auto
qed

text \<open>The run that an execution finishes, when nothing else runs and its cancellation was not requested.\<close>

lemma execute_finishes:
  assumes ok: "world_ok w" and c: "execute_claim k w = (Inr c, w1)"
    and "\<not> run_CancellationRequested (cl_run c)"
    and p: "execute_prepare sys (w_dataDir w) c e = (Inr rc, e1)"
    and s: "sys_start sys (rc_dir rc) (rc_path rc) (rc_args rc) (rc_env rc) e1 = (Inr pid, e2)"
    and wt: "sys_wait sys pid e2 = ((err, out), e3)"
  shows "\<exists>w'. executeWorkflowRun sys (well_formed \<lparr>ewi_RunID = k\<rparr>) w e =
      (Some (writeJSON 200 (PRun ((cl_run c)\<lparr>run_Status := ''completed'', run_Logs := log_header c @ out,
         run_Conclusion := (if err = None then ''success'' else ''failure'')\<rparr>))), w', e3) \<and>
    w_workflowRuns w' = (w_workflowRuns w)[cl_index c := (cl_run c)\<lparr>run_Status := ''completed'',
      run_Logs := log_header c @ out, run_Conclusion := (if err = None then ''success'' else ''failure'')\<rparr>]"
proof -
  note cw = execute_claim_world[OF c]
  have w1: "world_ok w1" using execute_claim_ok[OF ok, of k] c by simp
  note held = execute_claim_held[OF ok c]
  have i: "cl_index c < length (w_workflowRuns w)" using first_run_nth[OF cw(2)] by simp
  have dir: "w_dataDir w1 = w_dataDir w" using cw(1) by simp
  let ?run1 = "(cl_run c)\<lparr>run_Status := ''in_progress''\<rparr>"
  let ?act = "\<lparr>ar_command = Some \<lparr>cmd_process = Some pid\<rparr>, ar_cancellationSignalled = False\<rparr>"
  let ?w2 = "bump (appendWorkflowEvent (cl_repository c) ?run1 ''in_progress''
      (w1\<lparr>w_workflowRuns := (w_workflowRuns w1)[cl_index c := ?run1],
          w_activeRuns := m_put k ?act (w_activeRuns w1)\<rparr>))"
  have st: "execute_start sys c rc w1 e1 = (Started pid, ?w2, e2)"
  proof -
    have "w_workflowRuns w1 ! cl_index c = cl_run c" using cw by simp
    then show ?thesis
      unfolding execute_start_cases[OF w1 held] using assms(3) s cw(4) by simp
  qed
  let ?done = "(cl_run c)\<lparr>run_Status := ''completed'', run_Logs := log_header c @ out,
      run_Conclusion := finish_conclusion ?act err\<rparr>"
  have "\<exists>w3. execute_finish c err (log_header c @ out) ?w2 = (Some (?done, False), w3) \<and>
      w_workflowRuns w3 = (w_workflowRuns w)[cl_index c := ?done]"
    using i cw by (simp add: execute_finish_def Let_def execute_release_def)
  then obtain w3 where fin: "execute_finish c err (log_header c @ out) ?w2 = (Some (?done, False), w3)"
    and runs: "w_workflowRuns w3 = (w_workflowRuns w)[cl_index c := ?done]" by blast
  have concl: "finish_conclusion ?act err = (if err = None then ''success'' else ''failure'')"
    by (simp add: finish_conclusion_def)
  have "executeWorkflowRun sys (well_formed \<lparr>ewi_RunID = k\<rparr>) w e =
      (Some (writeJSON 200 (PRun ?done)), w3, e3)"
    using c p dir st wt fin by (simp add: executeWorkflowRun_def)
  with runs show ?thesis unfolding concl by blast
qed

section \<open>Finishing and cancelling\<close>

lemma finish_conclusion_iff:
  "finish_conclusion a err = ''cancelled'' \<longleftrightarrow> ar_cancellationSignalled a \<and> err \<noteq> None"
  "finish_conclusion a err = ''success'' \<longleftrightarrow> err = None"
  "finish_conclusion a err = ''failure'' \<longleftrightarrow> \<not> ar_cancellationSignalled a \<and> err \<noteq> None"
  by (auto simp: finish_conclusion_def)

text \<open>What an accepted cancellation changes: the request flag of one unfinished run, and its claim.\<close>

lemma cancel_accepted:
  assumes "CancelWorkflowRunByID sys (Some t) owner name k w e = (Inr resp, w', e')"
  shows "may_cancel t owner name k w \<and> ar_status resp = 202 \<and> w_mutations w' = w_mutations w + 1 \<and>
    (\<exists>i. i < length (w_workflowRuns w) \<and> run_ID (w_workflowRuns w ! i) = k \<and>
       token_repository t owner name w = Some (run_RepositoryID (w_workflowRuns w ! i)) \<and>
       run_Status (w_workflowRuns w ! i) \<noteq> ''completed'' \<and>
       w_workflowRuns w' = (w_workflowRuns w)[i := (w_workflowRuns w ! i)\<lparr>run_CancellationRequested := True\<rparr>])"
proof -
  from assms obtain rid i where n: "m_get (w_repoNames w) (repoName owner name) = Some rid"
    "in_set (tok_repositoryIDs t) rid" "2 \<le> permissionRank (m_get_or [] (tok_permissions t) ''actions'')"
    and i: "index_of (\<lambda>run. run_ID run = k \<and> run_RepositoryID run = rid) (w_workflowRuns w) = Some i"
    and s: "run_Status (w_workflowRuns w ! i) \<noteq> ''completed''"
    and resp: "resp = githubAPIResponse 202"
    and w': "w_workflowRuns w' = (w_workflowRuns w)[i := (w_workflowRuns w ! i)\<lparr>run_CancellationRequested := True\<rparr>]"
      "w_mutations w' = w_mutations w + 1"
    by (auto simp: CancelWorkflowRunByID_def Let_def not_less split: option.splits if_splits prod.splits)
  have t: "token_repository t owner name w = Some rid" using n by (simp add: token_repository_def)
  from i have "i < length (w_workflowRuns w)" "run_ID (w_workflowRuns w ! i) = k"
    "run_RepositoryID (w_workflowRuns w ! i) = rid" by (auto simp: index_of_Some)
  with t n s resp w' show ?thesis
    by (auto simp: may_cancel_def githubAPIResponse_def intro!: bexI[of _ "w_workflowRuns w ! i"])
qed

section \<open>Transitions and duplicates\<close>

lemma transition_accept_iff:
  "\<not> rejected (fst (transitionWorkflowRun (well_formed input) w)) \<longleftrightarrow>
    (\<exists>i. first_run w (wti_RunID input) = Some i \<and> m_get (w_activeRuns w) (wti_RunID input) = None \<and>
       (wti_Status input = ''in_progress'' \<and> wti_Conclusion input = [] \<and>
          run_Status (w_workflowRuns w ! i) = ''queued'' \<or>
        wti_Status input = ''completed'' \<and> wti_Conclusion input \<noteq> [] \<and>
          run_Status (w_workflowRuns w ! i) \<in> {''queued'', ''in_progress''}))"
  by (auto simp: transitionWorkflowRun_def transition_action_def Let_def split: option.split if_split)

lemma found_event: "findPendingEvent w g = Some ev \<Longrightarrow> ev \<in> set (w_pendingEvents w) \<and> ev_GUID ev = g"
  by (auto simp: findPendingEvent_def find_Some_iff)

lemma duplicate_accepted:
  assumes "duplicateEvent (well_formed input) w = (resp, w')" "\<not> rejected resp"
  shows "\<exists>ev. ev \<in> set (w_pendingEvents w) \<and> ev_GUID ev = dei_GUID input \<and>
    w_pendingEvents w' = w_pendingEvents w @ [ev\<lparr>ev_GUID := guid (w_nextEventID w + 1), ev_CreatedAt := w_now w\<rparr>]"
proof -
  obtain ev where ev: "findPendingEvent w (dei_GUID input) = Some ev"
    using assms by (cases "findPendingEvent w (dei_GUID input)") (auto simp: duplicateEvent_def)
  with assms found_event[OF ev] show ?thesis
    by (intro exI[of _ ev]) (auto simp: duplicateEvent_def Let_def)
qed

section \<open>Deliveries\<close>

text \<open>A signature that a receiver accepts: the one of the App's secret over the bytes it received.\<close>

definition signed_for :: "string \<Rightarrow> http_post \<Rightarrow> bool" where
  "signed_for secret request \<longleftrightarrow>
     map_of (hp_headers request) ''X-Hub-Signature-256'' = Some (webhookSignature secret (hp_body request))"

lemma outbound_signed:
  assumes "deliver_read input w = Inr d"
  shows "\<exists>ev \<in> set (w_pendingEvents w). ev_GUID ev = di_GUID input \<and>
    hp_body (outbound_request input d) = ev_Body ev \<and>
    hp_url (outbound_request input d) = app_webhookURL (m_get_or zero_app (w_apps w) (ev_AppID ev)) \<and>
    signed_for (app_webhookSecret (m_get_or zero_app (w_apps w) (ev_AppID ev)) @
      (if di_InvalidSignature input then ''-invalid'' else [])) (outbound_request input d)"
  using assms
  by (auto simp: deliver_read_def findPendingEvent_def find_Some_iff Let_def outbound_request_def signed_for_def
      split: option.splits if_splits)

lemma deliver_attempt:
  assumes d: "deliver_read input w = Inr d" and u: "sys_valid_request_url sys (app_webhookURL (dp_app d))"
    and p: "sys_post sys (outbound_request input d) e = (res, e')"
  shows "\<exists>a. deliverEvent sys (well_formed input) w e = (delivery_response res a, deliver_record a w, e') \<and>
    da_GUID a = di_GUID input \<and> da_Destination a = app_webhookURL (dp_app d) \<and> da_AttemptedAt a = w_now w \<and>
    da_InvalidSignature a = di_InvalidSignature input \<and>
    (case res of Inl err \<Rightarrow> da_Error a = err \<and> da_StatusCode a = 0
     | Inr code \<Rightarrow> da_Error a = [] \<and> da_StatusCode a = code) \<and>
    (\<not> rejected (delivery_response res a) \<longleftrightarrow> (\<exists>code. res = Inr code \<and> 200 \<le> code \<and> code < 300))"
proof -
  have g: "ev_GUID (dp_event d) = di_GUID input" "dp_now d = w_now w"
    using d by (auto simp: deliver_read_def findPendingEvent_def find_Some_iff Let_def split: option.splits if_splits)
  show ?thesis
    using g d u p by (intro exI[of _ "delivery_result input d res"])
      (auto simp: deliverEvent_def delivery_result_def delivery_response_def Let_def split: sum.splits)
qed

end
