(* ===== verification/Dtu_Lifecycle.thy ===== *)
theory Dtu_Lifecycle
  imports Dtu_Runs
begin

text \<open>
  The abstract machine of workflow runs and the refinement: seen through the status of the runs,
  every step of the server is at most one move of one run along queued, in progress, completed, or
  one new queued run.
\<close>

section \<open>The abstract machine\<close>

datatype run_phase = Queued | InProgress | Completed

instantiation run_phase :: linorder
begin

definition less_eq_run_phase :: "run_phase \<Rightarrow> run_phase \<Rightarrow> bool" where
  "less_eq_run_phase a b = (a = Queued \<or> b = Completed \<or> a = b)"

definition less_run_phase :: "run_phase \<Rightarrow> run_phase \<Rightarrow> bool" where
  "less_run_phase (a :: run_phase) b = (a \<le> b \<and> a \<noteq> b)"

instance
proof
  fix a b c :: run_phase
  show "(a < b) = (a \<le> b \<and> \<not> b \<le> a)"
    by (cases a; cases b) (simp_all add: less_eq_run_phase_def less_run_phase_def)
  show "a \<le> b \<or> b \<le> a" by (cases a; cases b) (simp_all add: less_eq_run_phase_def)
  show "a \<le> b \<Longrightarrow> b \<le> c \<Longrightarrow> a \<le> c" by (cases a; cases b; cases c) (simp_all add: less_eq_run_phase_def)
  show "a \<le> b \<Longrightarrow> b \<le> a \<Longrightarrow> a = b" by (cases a; cases b) (simp_all add: less_eq_run_phase_def)
qed (simp add: less_eq_run_phase_def)

end

definition phase_of :: "workflow_run \<Rightarrow> run_phase" where
  "phase_of run =
     (if run_Status run = ''queued'' then Queued
      else if run_Status run = ''in_progress'' then InProgress else Completed)"

inductive phase_step :: "run_phase \<Rightarrow> run_phase \<Rightarrow> bool" where
  begin_run: "phase_step Queued InProgress"
| cancel_queued: "phase_step Queued Completed"
| end_run: "phase_step InProgress Completed"

inductive_cases phase_from_completed: "phase_step Completed q"
inductive_simps phase_to_queued: "phase_step q Queued"

inductive runs_step :: "run_phase list \<Rightarrow> run_phase list \<Rightarrow> bool" where
  no_run: "runs_step ps ps"
| move_run: "i < length ps \<Longrightarrow> phase_step (ps ! i) q \<Longrightarrow> runs_step ps (ps[i := q])"
| queue_run: "runs_step ps (ps @ [Queued])"

lemma phase_step_less: "phase_step a b \<Longrightarrow> a < b"
  by (induction rule: phase_step.induct) (simp_all add: less_run_phase_def less_eq_run_phase_def)

text \<open>In the abstract machine, positions never go back and completed ones stay.\<close>

lemma runs_step_mono:
  "runs_step ps qs \<Longrightarrow> length ps \<le> length qs \<and> (\<forall>i < length ps. ps ! i \<le> qs ! i)"
proof (induction rule: runs_step.induct)
  case (move_run i ps q)
  then show ?case using phase_step_less[of "ps ! i" q] by (auto simp: nth_list_update)
qed (auto simp: nth_append)

section \<open>What each section does to the runs\<close>

definition run_phases :: "world \<Rightarrow> run_phase list" where
  "run_phases w = map phase_of (w_workflowRuns w)"

lemma run_phases_same: "w_workflowRuns w' = w_workflowRuns w \<Longrightarrow> runs_step (run_phases w) (run_phases w')"
  by (simp add: run_phases_def no_run)

lemma run_phases_update:
  assumes i: "i < length (w_workflowRuns w)" and w: "w_workflowRuns w' = (w_workflowRuns w)[i := run]"
    and ph: "phase_of run = phase_of (w_workflowRuns w ! i) \<or> phase_step (phase_of (w_workflowRuns w ! i)) (phase_of run)"
  shows "runs_step (run_phases w) (run_phases w')"
  using ph
proof
  assume "phase_of run = phase_of (w_workflowRuns w ! i)"
  with i have "run_phases w' = run_phases w"
    by (simp add: run_phases_def w map_update list_update_same_conv)
  then show ?thesis by (simp add: no_run)
next
  assume "phase_step (phase_of (w_workflowRuns w ! i)) (phase_of run)"
  with i have "runs_step (run_phases w) ((run_phases w)[i := phase_of run])"
    by (intro move_run) (simp_all add: run_phases_def)
  then show ?thesis by (simp add: run_phases_def w map_update)
qed

lemma run_phases_queue:
  "w_workflowRuns w' = w_workflowRuns w \<or> (\<exists>run. run_Status run = ''queued'' \<and> w_workflowRuns w' = w_workflowRuns w @ [run])
     \<Longrightarrow> runs_step (run_phases w) (run_phases w')"
  by (auto simp: run_phases_def phase_of_def intro: no_run queue_run)

lemma transition_runs:
  "runs_step (run_phases w) (run_phases (snd (transitionWorkflowRun b w)))"
proof (cases "decodeControl b")
  case (Inl r)
  then show ?thesis by (simp add: transitionWorkflowRun_def no_run)
next
  case (Inr input)
  show ?thesis
  proof (cases "rejected (fst (transitionWorkflowRun b w))")
    case True
    then have "snd (transitionWorkflowRun b w) = w"
      using transitionWorkflowRun_outcome[of w b] by (simp add: outcome_ok_def)
    then show ?thesis by (simp add: no_run)
  next
    case False
    with Inr obtain i act where i: "first_run w (wti_RunID input) = Some i"
      and act: "transition_action (run_Status (w_workflowRuns w ! i)) input = Some act"
      and w': "w_workflowRuns (snd (transitionWorkflowRun b w)) = (w_workflowRuns w)[i := (w_workflowRuns w ! i)
        \<lparr>run_Status := wti_Status input, run_Conclusion := wti_Conclusion input\<rparr>]"
      by (auto simp: transitionWorkflowRun_def Let_def split: option.splits if_splits)
    show ?thesis
      using first_run_nth[OF i] transition_action_status[OF act]
      by (intro run_phases_update[OF _ w']) (auto simp: phase_of_def intro: phase_step.intros)
  qed
qed

lemma control_step_runs: "runs_step (run_phases w) (run_phases (fst (snd (control_step p call w e))))"
proof (cases call)
  case (CallTransitionWorkflowRun b)
  then show ?thesis
    using transition_runs[of w b] by (cases "transitionWorkflowRun b w") (simp add: control_step_def)
next
  case (CallCreateInstallation b)
  have "w_workflowRuns (snd (createInstallation b w)) = w_workflowRuns w"
    by (auto simp: createInstallation_def Let_def event_appends split: sum.split option.split)
  with CallCreateInstallation show ?thesis
    by (cases "createInstallation b w") (simp add: control_step_def run_phases_same)
next
  case (CallCreateApp b)
  then show ?thesis
    by (auto simp: control_step_def createApp_def intro!: run_phases_same
        split: sum.split option.split public_key.split)
next
  case (CallCreateRepository b)
  then show ?thesis
    by (auto simp: control_step_def createRepository_def Let_def add_repository_def event_appends
        intro!: run_phases_same split: sum.split option.split prod.split)
next
  case (CallCreatePullRequest b)
  then show ?thesis
    by (auto simp: control_step_def createPullRequest_def Let_def intro!: run_phases_same
        split: sum.split option.split prod.split)
next
  case (CallChangePullRequestState b)
  then show ?thesis
    by (auto simp: control_step_def changePullRequestState_def Let_def intro!: run_phases_same
        split: sum.split option.split)
next
  case (CallAdvanceTime b)
  then show ?thesis
    by (auto simp: control_step_def advanceTime_def Let_def intro!: run_phases_same split: sum.split option.split)
next
  case (CallConfigureWorkflow b)
  then show ?thesis
    by (auto simp: control_step_def configureWorkflow_def Let_def intro!: run_phases_same
        split: sum.split prod.split)
next
  case (CallDuplicateEvent b)
  then show ?thesis
    by (auto simp: control_step_def duplicateEvent_def Let_def intro!: run_phases_same split: sum.split option.split)
qed (simp add: control_step_def no_run)

lemma mint_token_runs: "w_workflowRuns (fst (snd (mint_token known sys appID iid opts w e))) = w_workflowRuns w"
  by (auto simp: mint_token_def Let_def split: option.split prod.split)

lemma cancel_rejected:
  "CancelWorkflowRunByID sys auth owner name k w e = (Inl err, w', e') \<Longrightarrow> w' = w"
  by (auto simp: CancelWorkflowRunByID_def Let_def split: option.splits if_splits prod.splits)

lemma cancel_runs:
  assumes "CancelWorkflowRunByID sys auth owner name k w e = (r, w', e')"
  shows "runs_step (run_phases w) (run_phases w')"
proof (cases r)
  case (Inl err)
  with assms cancel_rejected show ?thesis by (metis no_run)
next
  case (Inr resp)
  with assms obtain t where t: "auth = Some t"
    by (cases auth) (auto simp: CancelWorkflowRunByID_def)
  from cancel_accepted[OF assms[unfolded t Inr]] obtain i where i: "i < length (w_workflowRuns w)"
    "w_workflowRuns w' = (w_workflowRuns w)[i := (w_workflowRuns w ! i)\<lparr>run_CancellationRequested := True\<rparr>]"
    by blast
  show ?thesis by (rule run_phases_update[OF i]) (simp add: phase_of_def)
qed

lemma execute_start_runs:
  assumes ok: "world_ok w" and c: "claim_held w c None"
  shows "runs_step (run_phases w) (run_phases (fst (snd (execute_start sys c rc w e))))"
proof -
  note st = claim_held_status[OF ok c]
  have one: "runs_step (run_phases w) (run_phases (bump (appendWorkflowEvent rp run act
      (w\<lparr>w_workflowRuns := (w_workflowRuns w)[cl_index c := run], w_activeRuns := m\<rparr>))))"
    if "run_Status run = ''in_progress'' \<or> run_Status run = ''completed''" for run rp act m
    using that st by (intro run_phases_update[OF st(1)]) (auto simp: phase_of_def intro: phase_step.intros)
  have "run_phases (execute_release k w) = run_phases w" for k
    by (simp add: execute_release_def run_phases_def)
  then show ?thesis
    by (simp add: execute_start_cases[OF ok c] one no_run split: sum.split prod.split)
qed

lemma execute_finish_runs:
  assumes ok: "world_ok w" and c: "claim_held w c (Some pid)"
  shows "runs_step (run_phases w) (run_phases (snd (execute_finish c err logs w)))"
proof -
  note st = claim_held_status[OF ok c]
  have "w_workflowRuns (snd (execute_finish c err logs w)) = (w_workflowRuns w)[cl_index c :=
      (w_workflowRuns w ! cl_index c)\<lparr>run_Status := ''completed'', run_Logs := logs, run_Conclusion :=
        finish_conclusion (m_get_or zero_active_run (w_activeRuns w) (run_ID (cl_run c))) err\<rparr>]"
    using st by (simp add: execute_finish_def Let_def execute_release_def)
  then show ?thesis
    using st by (intro run_phases_update) (auto simp: phase_of_def intro: phase_step.intros)
qed

text \<open>A push queues at most one run.\<close>

lemma pushed_runs_one:
  "distinct refs \<Longrightarrow> pushed_runs w n r b a refs = [] \<or>
     (\<exists>f ref. pushed_runs w n r b a refs = [queued_run n r f ref (m_get_or [] a ref)])"
proof (induction refs)
  case (Cons ref refs)
  show ?case
  proof (cases "starts_run w r b a ref")
    case (Some f)
    then have "\<forall>ref' \<in> set refs. starts_run w r b a ref' = None"
      using one_starts[OF Some] Cons.prems by (metis distinct.simps(2))
    with Some show ?thesis by (auto simp: none_starts)
  qed (use Cons in auto)
qed simp

lemma record_changes_log:
  "map event_label (w_pendingEvents (record_changes r t b a f w)) =
     map event_label (w_pendingEvents w) @ pushed_labels w (w_nextRunID w + 1) r t b a f (ref_names b a)"
  "w_workflowRuns (record_changes r t b a f w) =
     w_workflowRuns w @ pushed_runs w (w_nextRunID w + 1) r b a (ref_names b a)"
proof -
  have d: "distinct (ref_names b a)" by (rule ref_names_props(1))
  show "map event_label (w_pendingEvents (record_changes r t b a f w)) =
     map event_label (w_pendingEvents w) @ pushed_labels w (w_nextRunID w + 1) r t b a f (ref_names b a)"
    "w_workflowRuns (record_changes r t b a f w) =
     w_workflowRuns w @ pushed_runs w (w_nextRunID w + 1) r b a (ref_names b a)"
    using record_all[OF d] by (simp_all add: record_changes_def Let_def)
qed

lemma record_changes_runs: "runs_step (run_phases w) (run_phases (record_changes r t b a f w))"
proof -
  have d: "distinct (ref_names b a)" by (rule ref_names_props(1))
  consider "pushed_runs w (w_nextRunID w + 1) r b a (ref_names b a) = []"
    | fl ref where "pushed_runs w (w_nextRunID w + 1) r b a (ref_names b a) =
        [queued_run (w_nextRunID w + 1) r fl ref (m_get_or [] a ref)]"
    using pushed_runs_one[OF d] by blast
  then show ?thesis
    by cases (simp_all add: run_phases_def record_changes_log no_run queue_run phase_of_def queued_run_def)
qed

section \<open>Every step\<close>

lemma handler_step_runs:
  assumes step: "handler_step p s s'" and ok: "server_ok s"
  shows "runs_step (run_phases (sv_world s)) (run_phases (sv_world s'))"
  using step
proof cases
  case (handle_start xs c rc ys r w e)
  have "claim_held (sv_world s) c None"
    by (rule exec_in_flight[OF ok handle_start(2) phase_claim.simps(2)])
  from execute_start_runs[OF server_ok_world[OF ok] this, of "pm_sys p" rc "sv_env s"] handle_start
  show ?thesis by simp
next
  case (handle_finish xs c pid ys err out e r w)
  have "claim_held (sv_world s) c (Some pid)"
    by (rule exec_in_flight[OF ok handle_finish(2) phase_claim.simps(3)])
  from execute_finish_runs[OF server_ok_world[OF ok] this, of err "log_header c @ out"] handle_finish
  show ?thesis by simp
next
  case (handle_record xs g before after forced ys)
  then show ?thesis by (simp add: record_changes_runs)
qed (auto intro!: run_phases_same simp: recordUnsupported_def execute_release_def recordObservationError_def
    store_snapshot_def deliver_record_def Let_def split: option.split)

lemma server_step_runs:
  assumes step: "server_step p s s'" and ok: "server_ok s"
  shows "runs_step (run_phases (sv_world s)) (run_phases (sv_world s'))"
  using step
proof cases
  case (step_control call r w e)
  then show ?thesis using control_step_runs[of "sv_world s" p call "sv_env s"] by simp
next
  case (step_mint appID iid opts r w e)
  then show ?thesis
    using mint_token_runs[of "pm_known p" "pm_sys p" appID iid opts "sv_world s" "sv_env s"]
    by (simp add: run_phases_same)
next
  case (step_cancel auth owner name k r w e)
  then show ?thesis using cancel_runs[OF step_cancel(2)] by simp
next
  case (step_claim k c w)
  have "w_workflowRuns w = w_workflowRuns (sv_world s)"
    using execute_claim_world(1)[OF step_claim(2)] by simp
  with step_claim show ?thesis by (simp add: run_phases_same)
next
  case step_handler
  with ok show ?thesis by (simp add: handler_step_runs)
qed (auto intro!: run_phases_same simp: recordUnsupported_def)

end
