(* ===== verification/Dtu_Session.thy ===== *)
theory Dtu_Session
  imports Dtu_Lifecycle
begin

text \<open>
  The demonstration session continued: the queued run is claimed, prepared and started, in a server that
  is recording the push that queued it.
\<close>

lemma demo_claim: "\<exists>c w. execute_claim 1001 demo_pushed = (Inr c, w) \<and> run_ID (cl_run c) = 1001 \<and>
    m_get (w_activeRuns w) 1001 \<noteq> None \<and>
    reachable demo_params \<lparr>sv_world = w, sv_env = 1, sv_execs = [Claimed c], sv_pushes = [Listing demo_grant],
      sv_deliveries = []\<rparr>"
proof -
  have run: "run_ID demo_run = 1001" "run_Status demo_run = ''queued''" "run_RepositoryID demo_run = 3"
    by (simp_all add: demo_run_def queued_run_def demo_repo_def)
  have "\<exists>c. fst (execute_claim 1001 demo_pushed) = Inr c"
    unfolding execute_claim_iff using run by (simp add: demo_pushed_frame demo_w5_frame)
  then obtain c w where c: "execute_claim 1001 demo_pushed = (Inr c, w)"
    by (cases "execute_claim 1001 demo_pushed") auto
  have "server_step demo_params (demo_server demo_pushed 1 [Listing demo_grant])
      \<lparr>sv_world = w, sv_env = 1, sv_execs = [Claimed c], sv_pushes = [Listing demo_grant], sv_deliveries = []\<rparr>"
    using step_claim[of 1001 "demo_server demo_pushed 1 [Listing demo_grant]" c w demo_params] c
    by (simp add: demo_server_def)
  with c reach_more[OF demo_pushed_reachable] execute_claim_world(1,4)[OF c] show ?thesis by auto
qed

lemma demo_verify: "verifyRunnerImage demo_sys e = (Inr ''amd64'', e)"
proof -
  have "trim_space (marshal (JArr [JStr pinnedRunnerDigest])) = marshal (JArr [JStr pinnedRunnerDigest])"
    "trim_space ''amd64'' = ''amd64''" "utf8_clean pinnedRunnerDigest = pinnedRunnerDigest"
    by code_simp+
  then show ?thesis
    using unmarshal_strings_marshal[of "[pinnedRunnerDigest]"]
    by (simp add: verifyRunnerImage_def Let_def demo_stdout_def)
qed

lemma demo_head: "resolveCheckoutHEAD demo_sys dir e = (''c0ffee'', e)"
proof -
  have "trim_space ''c0ffee'' = ''c0ffee''" by code_simp
  then show ?thesis by (simp add: resolveCheckoutHEAD_def demo_stdout_def)
qed

lemma demo_prepare:
  assumes "run_HeadSHA (cl_run c) = ''c0ffee''"
  shows "\<exists>rc. execute_prepare demo_sys dir c e = (Inr rc, e)"
proof -
  have "str_contains (ex_stdout \<lparr>ex_err = None, ex_stdout = demo_stdout [''--version''] e, ex_combined = []\<rparr>)
      pinnedActVersion"
    unfolding demo_stdout_def pinnedActVersion_def by simp code_simp
  with assms show ?thesis
    by (simp add: execute_prepare_def Let_def demo_verify prepareDockerConfig_def demo_head)
qed

text \<open>The claimed run, prepared and started.\<close>

lemma demo_running:
  "\<exists>c w. run_ID (cl_run c) = 1001 \<and> reachable demo_params \<lparr>sv_world = w, sv_env = 1,
      sv_execs = [Running c 42], sv_pushes = [Listing demo_grant], sv_deliveries = []\<rparr> \<and>
      m_get (w_activeRuns w) 1001 = Some \<lparr>ar_command = Some \<lparr>cmd_process = Some 42\<rparr>, ar_cancellationSignalled = False\<rparr>"
proof -
  obtain c w where c: "execute_claim 1001 demo_pushed = (Inr c, w)" "run_ID (cl_run c) = 1001"
    "reachable demo_params \<lparr>sv_world = w, sv_env = 1, sv_execs = [Claimed c], sv_pushes = [Listing demo_grant],
      sv_deliveries = []\<rparr>" (is "reachable _ ?s1")
    using demo_claim by blast
  have run: "cl_run c = demo_run"
    using execute_claim_world(2,3)[OF c(1)] first_run_nth[OF execute_claim_world(2)[OF c(1)]]
    by (simp add: demo_pushed_frame)
  then have "run_HeadSHA (cl_run c) = ''c0ffee''" by (simp add: demo_run_def queued_run_def)
  from demo_prepare[OF this, of "w_dataDir w" 1] obtain rc where
    rc: "execute_prepare demo_sys (w_dataDir w) c 1 = (Inr rc, 1)" by blast
  have "server_step demo_params ?s1 \<lparr>sv_world = w, sv_env = 1, sv_execs = [Prepared c rc],
      sv_pushes = [Listing demo_grant], sv_deliveries = []\<rparr>" (is "server_step _ _ ?s2")
    using step_handler[OF handle_prepare, of ?s1 "[]" c "[]" demo_params "Inr rc" 1] rc by simp
  then have s2: "reachable demo_params ?s2" by (rule reach_more[OF c(3)])
  have wok: "world_ok w" using server_ok_world[OF reachable_ok[OF c(3)]] by simp
  note held = execute_claim_held[OF demo_pushed_ok c(1)] and cw = execute_claim_world[OF c(1)]
  have "\<not> run_CancellationRequested (w_workflowRuns w ! cl_index c)"
    using run cw(1,3) by (simp add: demo_run_def queued_run_def)
  then obtain w3 where w3: "execute_start demo_sys c rc w 1 = (Started 42, w3, 1)"
    "m_get (w_activeRuns w3) 1001 = Some \<lparr>ar_command = Some \<lparr>cmd_process = Some 42\<rparr>, ar_cancellationSignalled = False\<rparr>"
    using c(2) by (simp add: execute_start_cases[OF wok held])
  then have "server_step demo_params ?s2 \<lparr>sv_world = w3, sv_env = 1, sv_execs = [Running c 42],
      sv_pushes = [Listing demo_grant], sv_deliveries = []\<rparr>"
    using step_handler[OF handle_start, of ?s2 "[]" c rc "[]" demo_params "Started 42" w3 1] by simp
  with s2 c(2) w3(2) reach_more show ?thesis by blast
qed

text \<open>The events of the session, and the delivery of the first.\<close>

lemma demo_events_length: "length (w_pendingEvents demo_pushed) = 4"
  by (simp add: demo_pushed_def record_changes_def Let_def demo_names record_ref_change_def ref_changed_def
      m_get_or_def demo_minted_def demo_world_eq demo_w5_frame event_appends append_event_log
      appendQueuedWorkflow_def demo_repo_def demo_w5_def demo_w4_def demo_w3_def add_repository_def demo_inst_def
      demo_w2_def demo_w1_def demo_empty_def initial_world_def)

lemma demo_first_event:
  "\<exists>ev evs. w_pendingEvents demo_pushed = ev # evs \<and> ev_GUID ev = guid 1 \<and> ev_AppID ev = 1"
  by (simp add: demo_pushed_def record_changes_def Let_def demo_names record_ref_change_def ref_changed_def
      m_get_or_def demo_minted_def demo_world_eq demo_w5_frame event_appends append_event_log
      appendQueuedWorkflow_def demo_repo_def demo_w5_def demo_w4_def demo_w3_def add_repository_def demo_inst_def
      demo_w2_def demo_w1_def demo_empty_def initial_world_def)

definition demo_delivery :: delivery_input where
  "demo_delivery = \<lparr>di_GUID = guid 1, di_InvalidSignature = False\<rparr>"

lemma demo_plan:
  "\<exists>d. deliver_read demo_delivery demo_pushed = Inr d \<and> reachable demo_params
     \<lparr>sv_world = demo_pushed, sv_env = 1, sv_execs = [], sv_pushes = [Listing demo_grant],
      sv_deliveries = [Planned demo_delivery d]\<rparr>"
proof -
  obtain ev evs where ev: "w_pendingEvents demo_pushed = ev # evs" "ev_GUID ev = guid 1" "ev_AppID ev = 1"
    using demo_first_event by blast
  have "w_apps demo_pushed = m_put 1 demo_app_entry m_empty"
    by (simp add: demo_pushed_def record_changes_def Let_def demo_names record_ref_change_def
        demo_minted_def demo_world_eq demo_w5_frame event_appends appendQueuedWorkflow_def)
  with ev obtain d where d: "deliver_read demo_delivery demo_pushed = Inr d"
    by (simp add: deliver_read_def findPendingEvent_def demo_delivery_def demo_app_entry_def)
  have "server_step demo_params (demo_server demo_pushed 1 [Listing demo_grant])
      \<lparr>sv_world = demo_pushed, sv_env = 1, sv_execs = [], sv_pushes = [Listing demo_grant],
       sv_deliveries = [Planned demo_delivery d]\<rparr>"
    using step_plan[of demo_delivery "demo_server demo_pushed 1 [Listing demo_grant]" d demo_params] d
    by (simp add: demo_server_def)
  with d reach_more[OF demo_pushed_reachable] show ?thesis by blast
qed

end
