(* ===== verification/Dtu_Contracts.thy ===== *)
theory Dtu_Contracts
  imports Dtu_Session
begin

text \<open>
  The contracts of the components: what each group of handlers promises to its callers, with a concrete
  case of each.
\<close>

section \<open>Control requests\<close>

text \<open>The two handlers with several sections: what they count, and what they log.\<close>

lemma delivery_counts:
  assumes "deliverEvent sys b w e = (r, w', e')"
  shows "\<exists>as. w_deliveryAttempts w' = w_deliveryAttempts w @ as \<and> length as \<le> 1 \<and>
    w_mutations w' = w_mutations w + of_nat (length as) \<and> (\<not> rejected r \<longrightarrow> as \<noteq> []) \<and> (as = [] \<longrightarrow> w' = w)"
  using assms
  by (auto simp: deliverEvent_def deliver_record_def deliver_read_def Let_def split: sum.splits prod.splits if_splits
      option.splits)

lemma workflow_event_log: "\<exists>ev. w_pendingEvents (appendWorkflowEvent r run act w) = w_pendingEvents w @ [ev]"
  by (simp add: event_appends append_event_log)

lemma start_counts:
  assumes ok: "world_ok w" and held: "claim_held w c None" and r: "execute_start sys c rc w e = (r, w', e')"
  shows "\<exists>evs. w_pendingEvents w' = w_pendingEvents w @ evs \<and> w_mutations w' = w_mutations w + of_nat (length evs) \<and>
    (case r of StartReply resp \<Rightarrow> length evs \<le> 1 \<and> (rejected resp \<longleftrightarrow> evs = []) | _ \<Rightarrow> length evs = 1)"
proof -
  have one: "\<exists>evs. w_pendingEvents (bump (appendWorkflowEvent rp run act w1)) = w_pendingEvents w @ evs \<and>
      w_mutations (bump (appendWorkflowEvent rp run act w1)) = w_mutations w + of_nat (length evs) \<and> length evs = 1"
    if "w_pendingEvents w1 = w_pendingEvents w" "w_mutations w1 = w_mutations w" for rp run act w1
    using that by (simp add: event_appends append_event_log)
  show ?thesis
  proof (cases "run_CancellationRequested (w_workflowRuns w ! cl_index c)")
    case True
    let ?run = "(w_workflowRuns w ! cl_index c)\<lparr>run_Status := ''completed'', run_Conclusion := ''cancelled''\<rparr>"
    have "r = StartReply (writeJSON 200 (PRun ?run))" "w' = bump (appendWorkflowEvent (cl_repository c) ?run ''completed''
        (w\<lparr>w_workflowRuns := (w_workflowRuns w)[cl_index c := ?run],
           w_activeRuns := m_del (run_ID (cl_run c)) (w_activeRuns w)\<rparr>))"
      using r True by (simp_all add: execute_start_cases[OF ok held])
    with one[of "w\<lparr>w_workflowRuns := (w_workflowRuns w)[cl_index c := ?run],
           w_activeRuns := m_del (run_ID (cl_run c)) (w_activeRuns w)\<rparr>" "cl_repository c" ?run "''completed''"]
    show ?thesis by fastforce
  next
    case False
    obtain st e1 where st: "sys_start sys (rc_dir rc) (rc_path rc) (rc_args rc) (rc_env rc) e = (st, e1)" by fastforce
    show ?thesis
    proof (cases st)
      case (Inl err)
      with r False st show ?thesis by (auto simp: execute_start_cases[OF ok held] execute_release_def)
    next
      case (Inr pid)
      with r False st one show ?thesis by (auto simp: execute_start_cases[OF ok held])
    qed
  qed
qed

lemma finish_counts:
  assumes "execute_finish c err logs w = (Some x, w')"
  shows "\<exists>ev. w_pendingEvents w' = w_pendingEvents w @ [ev] \<and> w_mutations w' = w_mutations w + 1"
  using assms by (auto simp: execute_finish_def Let_def execute_release_def event_appends append_event_log split: if_splits)

lemma execution_counts:
  assumes ok: "world_ok w" and x: "executeWorkflowRun sys b w e = (Some r, w', e')"
  shows "\<exists>evs. w_pendingEvents w' = w_pendingEvents w @ evs \<and> length evs \<le> 2 \<and>
    w_mutations w' = w_mutations w + of_nat (length evs) \<and> (rejected r \<longleftrightarrow> evs = [])"
proof (cases "decodeControl b")
  case (Inl resp)
  with x show ?thesis by (auto simp: executeWorkflowRun_def)
next
  case (Inr inp)
  obtain cr w1 where cl: "execute_claim (ewi_RunID inp) w = (cr, w1)" by fastforce
  show ?thesis
  proof (cases cr)
    case (Inl resp)
    have "rejected resp" "w1 = w"
      using cl Inl by (auto simp: execute_claim_def split: option.splits if_splits prod.splits)
    with x Inr cl Inl show ?thesis by (simp add: executeWorkflowRun_def)
  next
    case c: (Inr c)
    note cw = execute_claim_world[OF cl[unfolded c]]
    have ok1: "world_ok w1" using execute_claim_ok[OF ok, of "ewi_RunID inp"] cl by simp
    have held: "claim_held w1 c None" by (rule execute_claim_held[OF ok cl[unfolded c]])
    have w1: "w_pendingEvents w1 = w_pendingEvents w" "w_mutations w1 = w_mutations w" by (simp_all add: cw(1))
    obtain pr e1 where pr: "execute_prepare sys (w_dataDir w1) c e = (pr, e1)" by fastforce
    show ?thesis
    proof (cases pr)
      case (Inl resp)
      have "rejected resp" using pr Inl by (auto simp: execute_prepare_def Let_def split: prod.splits sum.splits if_splits)
      with x Inr cl c pr Inl w1 show ?thesis by (auto simp: executeWorkflowRun_def execute_release_def)
    next
      case rc: (Inr rc)
      obtain st w2 e2 where st: "execute_start sys c rc w1 e1 = (st, w2, e2)" by (rule prod_cases3)
      from start_counts[OF ok1 held st] obtain evs where evs: "w_pendingEvents w2 = w_pendingEvents w @ evs"
        "w_mutations w2 = w_mutations w + of_nat (length evs)"
        "case st of StartReply resp \<Rightarrow> length evs \<le> 1 \<and> (rejected resp \<longleftrightarrow> evs = []) | _ \<Rightarrow> length evs = 1"
        using w1 by auto
      show ?thesis
      proof (cases st)
        case (StartReply resp)
        with x Inr cl c pr rc st evs show ?thesis by (auto simp: executeWorkflowRun_def)
      next
        case (Started pid)
        obtain err out e3 where wt: "sys_wait sys pid e2 = ((err, out), e3)" by (metis surj_pair)
        obtain fin w3 where fin: "execute_finish c err (log_header c @ out) w2 = (fin, w3)" by fastforce
        with x Inr cl c pr rc st Started wt obtain run sig where f: "fin = Some (run, sig)" "w' = w3" "\<not> rejected r"
          by (cases fin) (auto simp: executeWorkflowRun_def)
        from finish_counts[OF fin[unfolded f(1)]] evs Started f(2,3) show ?thesis
          by (cases evs) (auto simp: algebra_simps)
      next
        case StartPanic
        with x Inr cl c pr rc st show ?thesis by (simp add: executeWorkflowRun_def)
      qed
    qed
  qed
qed

text \<open>
  C24: What is counted. For any list of the control requests that are one section (all but deliveries and
  executions), the mutation counter grows by the number of answers that were not errors, reads of the state left
  aside; and if all the answers were errors, the whole world is as it was. A delivery counts one for the attempt
  that it logs, even when its answer is an error, and otherwise leaves the world alone. An execution counts one for
  each event of its run, at most two, and none exactly when its answer is an error.
\<close>

theorem mutations_count_accepted:
  assumes "serve_all (control_run p) calls (w, e) = (resps, (w', e'))"
    and "world_ok v" "deliverEvent sys b1 v f = (r1, v1, f1)" "executeWorkflowRun sys b2 v f = (Some r2, v2, f2)"
  shows "w_mutations w' = w_mutations w +
      of_nat (length (filter (\<lambda>(c, r). \<not> rejected r \<and> c \<noteq> CallGetState) (zip calls resps))) \<and>
    (list_all rejected resps \<longrightarrow> w' = w) \<and>
    (\<exists>as. w_deliveryAttempts v1 = w_deliveryAttempts v @ as \<and> length as \<le> 1 \<and>
       w_mutations v1 = w_mutations v + of_nat (length as) \<and> (\<not> rejected r1 \<longrightarrow> as \<noteq> []) \<and> (as = [] \<longrightarrow> v1 = v)) \<and>
    (\<exists>evs. w_pendingEvents v2 = w_pendingEvents v @ evs \<and> length evs \<le> 2 \<and>
       w_mutations v2 = w_mutations v + of_nat (length evs) \<and> (rejected r2 \<longleftrightarrow> evs = []))"
  using control.count_all[OF assms(1)] control.all_rejected_unchanged[OF assms(1)] delivery_counts[OF assms(3)]
    execution_counts[OF assms(2,4)] by simp

lemma demo_served: "\<exists>resps. serve_all (control_run demo_params) demo_calls (demo_empty, 0) = (resps, (demo_world, 0)) \<and>
    resps = [writeJSON 201 (PID 1), writeJSON 201 (PID 2), writeJSON 201 (PID 3), writeJSON 201 (PID 5),
      writeJSON 201 (PNumber 1)]"
  by (simp add: demo_calls_def control_run_def demo_step1 demo_step2 demo_step3 demo_step4 demo_step5 demo_world_eq)

lemma no_json: "decodeControl \<lparr>cb_value = None, cb_then_eof = b\<rparr> = Inl (writeControlError 400 ''invalid JSON'')"
  by (simp add: decodeControl_def)

lemma demo_rejected: "serve_all (control_run demo_params)
     [CallAdvanceTime \<lparr>cb_value = None, cb_then_eof = True\<rparr>,
      CallDuplicateEvent (well_formed \<lparr>dei_GUID = ''no''\<rparr>)] (demo_empty, 0) =
     ([writeControlError 400 ''invalid JSON'', writeControlError 404 ''unknown event''], (demo_empty, 0))"
  by (simp add: control_run_def control_step_def advanceTime_def duplicateEvent_def findPendingEvent_def
      demo_empty_def initial_world_def no_json)

theorem mutations_count_accepted_witness:
  "w_mutations demo_world = w_mutations demo_empty + 5 \<and>
   fst (snd (serve_all (control_run demo_params)
     [CallAdvanceTime \<lparr>cb_value = None, cb_then_eof = True\<rparr>,
      CallDuplicateEvent (well_formed \<lparr>dei_GUID = ''no''\<rparr>)] (demo_empty, 0))) = demo_empty \<and>
   (\<exists>r v f (evs :: pending_event list). executeWorkflowRun demo_sys (well_formed \<lparr>ewi_RunID = 1001\<rparr>) demo_pushed 1 = (Some r, v, f) \<and>
      w_mutations v = w_mutations demo_pushed + of_nat (length evs) \<and> (rejected r \<longleftrightarrow> evs = []))"
proof -
  obtain resps where r: "serve_all (control_run demo_params) demo_calls (demo_empty, 0) = (resps, (demo_world, 0))"
    "resps = [writeJSON 201 (PID 1), writeJSON 201 (PID 2), writeJSON 201 (PID 3), writeJSON 201 (PID 5),
      writeJSON 201 (PNumber 1)]"
    using demo_served by blast
  obtain r1 v1 f1 where d: "deliverEvent demo_sys (well_formed demo_delivery) demo_pushed 1 = (r1, v1, f1)"
    by (rule prod_cases3)
  obtain x v2 f2 where x: "executeWorkflowRun demo_sys (well_formed \<lparr>ewi_RunID = 1001\<rparr>) demo_pushed 1 = (x, v2, f2)"
    by (rule prod_cases3)
  obtain r2 where r2: "x = Some r2" using execute_answers[OF demo_pushed_ok x] by blast
  note counted = mutations_count_accepted[OF _ demo_pushed_ok d x[unfolded r2]]
  from counted[OF r(1)] have "w_mutations demo_world = w_mutations demo_empty + 5"
    by (simp add: r(2) demo_calls_def)
  moreover have "fst (snd (serve_all (control_run demo_params)
     [CallAdvanceTime \<lparr>cb_value = None, cb_then_eof = True\<rparr>,
      CallDuplicateEvent (well_formed \<lparr>dei_GUID = ''no''\<rparr>)] (demo_empty, 0))) = demo_empty"
    using counted[OF demo_rejected] demo_rejected by simp
  moreover from counted[OF r(1), THEN conjunct2, THEN conjunct2, THEN conjunct2] obtain evs :: "pending_event list" where
    "w_mutations v2 = w_mutations demo_pushed + of_nat (length evs)" "rejected r2 \<longleftrightarrow> evs = []"
    by (elim exE conjE)
  ultimately show ?thesis unfolding x[unfolded r2] by blast
qed

text \<open>
  C25: When \<open>createRepository\<close> accepts. In a well-formed world: the ID is positive and free, owner and name
  are plain path components, the installation exists, no repository has the same owner and name up to letter
  case, none of the installation's has the same name up to letter case, and both Git commands succeed.
\<close>

theorem repository_accepted_iff:
  assumes "world_ok w" "createRepository sys (well_formed input) w e = (r, w', e')"
  shows "\<not> rejected r \<longleftrightarrow>
    0 < sint (ri_ID input) \<and> validPathComponent (ri_Owner input) \<and> validPathComponent (ri_Name input) \<and>
    (\<exists>i. m_get (w_installs w) (ri_InstallationID input) = Some i) \<and>
    m_get (w_repositories w) (ri_ID input) = None \<and>
    (\<forall>k s. m_get (w_repositories w) k = Some s \<longrightarrow> to_lower (repo_name s) = to_lower (ri_Name input) \<longrightarrow>
       to_lower (repo_owner s) \<noteq> to_lower (ri_Owner input) \<and>
       repo_installationID s \<noteq> ri_InstallationID input) \<and>
    git_init_ok sys (repo_git_dir w (ri_Owner input) (ri_Name input)) e"
  by (rule createRepository_accept_iff[OF assms])

theorem repository_accepted_iff_witness:
  "rejected (fst (createRepository demo_sys (well_formed \<lparr>ri_ID = 9, ri_Owner = ''b'', ri_Name = ''aPP'',
     ri_InstallationID = 2\<rparr>) demo_world 0))"
proof -
  let ?in = "\<lparr>ri_ID = 9, ri_Owner = ''b'', ri_Name = ''aPP'', ri_InstallationID = 2\<rparr>"
  obtain r w' e' where r: "createRepository demo_sys (well_formed ?in) demo_world 0 = (r, w', e')"
    by (metis prod.collapse)
  have "m_get (w_repositories demo_world) 3 = Some demo_repo" by (simp add: demo_world_eq demo_w5_frame)
  moreover have "to_lower (repo_name demo_repo) = to_lower ''aPP''" by code_simp
  moreover have "repo_installationID demo_repo = 2" by (simp add: demo_repo_def)
  ultimately have "rejected r" using repository_accepted_iff[OF demo_world_ok r] by auto
  with r show ?thesis by simp
qed

section \<open>Credentials\<close>

text \<open>
  C26: Which App JWTs authenticate. If the JWT library verifies what it documents, an accepted token is
  signed with the registered key of the App it names, was not issued in the future of the virtual clock, has
  not expired, and expires within ten minutes.
\<close>

theorem jwt_accepted:
  assumes "jwt_contract jwt" "authenticateAppJWT jwt raw w = Some i"
  shows "\<exists>claims iat exp a. jwt_ParseWithClaims jwt raw (app_key w) [''RS256''] = Some (claims, True) \<and>
    parse_int64 (cl_Issuer claims) = Some i \<and> m_get (w_apps w) i = Some a \<and>
    jwt_signed_by jwt raw (app_publicKey a) \<and>
    cl_IssuedAt claims = Some iat \<and> cl_ExpiresAt claims = Some exp \<and>
    iat \<le> w_now w \<and> w_now w < exp \<and> exp \<le> time_add (w_now w) (10 * minute)"
  by (rule authenticateAppJWT_accepts[OF assms])

text \<open>A library that knows one token, signed by the key of App 1.\<close>

definition demo_claims :: jwt_claims where
  "demo_claims = \<lparr>cl_Issuer = fmt_int64 1, cl_IssuedAt = Some 0, cl_ExpiresAt = Some 60000000000\<rparr>"

definition demo_jwt :: jwt_lib where
  "demo_jwt = \<lparr>jwt_ParseWithClaims = (\<lambda>raw keyf methods.
       if raw = ''jwt'' \<and> ''RS256'' \<in> set methods \<and> keyf ''RS256'' demo_claims = Some demo_key
       then Some (demo_claims, True) else None),
     jwt_signed_by = (\<lambda>raw key. raw = ''jwt'' \<and> key = demo_key)\<rparr>"

lemma demo_jwt_contract: "jwt_contract demo_jwt"
  by (auto simp: jwt_contract_def demo_jwt_def split: if_splits)

lemma demo_authenticates: "authenticateAppJWT demo_jwt ''jwt'' demo_world = Some 1"
  by (simp add: authenticateAppJWT_def demo_jwt_def app_key_def demo_claims_def parse_int64_fmt demo_world_eq
      demo_w5_frame demo_app_entry_def time_add_def)

theorem jwt_accepted_witness: "\<exists>a. m_get (w_apps demo_world) 1 = Some a \<and> jwt_signed_by demo_jwt ''jwt'' (app_publicKey a)"
  using jwt_accepted[OF demo_jwt_contract demo_authenticates] by blast

text \<open>
  C27: What a mint gives. A successful token request was made for an active installation of the calling App;
  the answer is 201; the stored token has the returned value, expires one hour later on the virtual clock,
  and is limited to repositories and permissions the installation has.
\<close>

theorem token_minted:
  assumes "mint_token known sys appID iid opts w e = (Inr (payload, resp), w', e')"
  shows "ar_status resp = 201 \<and> tp_ExpiresAt payload = w_now w + 3600000000000 \<and>
    (\<exists>i t. m_get (w_installs w) iid = Some i \<and> inst_appID i = appID \<and> inst_active i \<and>
       w' = bump (w\<lparr>w_tokens := m_put (tp_Token payload) t (w_tokens w)\<rparr>) \<and>
       tok_value t = tp_Token payload \<and> tok_installationID t = iid \<and> tok_expiresAt t = tp_ExpiresAt payload \<and>
       subset_of (tok_repositoryIDs t) (inst_repositoryIDs i) \<and>
       perms_within (tok_permissions t) (inst_permissions i))"
proof -
  from mint_token_accepted[OF assms] obtain i ids perms where
    i: "m_get (w_installs w) iid = Some i" "inst_appID i = appID" "inst_active i"
    and ids: "selectRepositories w i opts = Some ids"
    and perms: "selectPermissions (inst_permissions i) (opt_Permissions opts) = Some perms"
    and x: "tp_ExpiresAt payload = time_add (w_now w) hour" "ar_status resp = 201"
    and w': "w' = bump (w\<lparr>w_tokens := m_put (tp_Token payload)
      (new_token (tp_Token payload) iid ids perms (time_add (w_now w) hour)) (w_tokens w)\<rparr>)" by auto
  have "subset_of (copySet ids) (inst_repositoryIDs i)" "perms_within (copyMap perms) (inst_permissions i)"
    using selectRepositories_within[OF ids] selectPermissions_within[OF perms]
    by (simp_all add: subset_of_def perms_within_def)
  with i x w' show ?thesis
    by (intro conjI exI[of _ i] exI[of _ "new_token (tp_Token payload) iid ids perms (time_add (w_now w) hour)"])
      (simp_all add: new_token_def time_add_def)
qed

theorem token_minted_witness:
  "\<exists>i t. m_get (w_installs demo_world) 2 = Some i \<and> subset_of (tok_repositoryIDs t) (inst_repositoryIDs i) \<and>
     demo_minted = bump (demo_world\<lparr>w_tokens := m_put (tok_value demo_token) t (w_tokens demo_world)\<rparr>)"
  using token_minted[OF demo_mint[of 0]] by auto

text \<open>
  A minted token authenticates exactly until it expires: with the clock at any instant, using it
  succeeds if and only if that instant is before the expiry that the client was told.
\<close>

theorem token_lifetime:
  assumes "mint_token known sys appID iid opts w e = (Inr (payload, resp), w', e')"
  shows "authenticateInstallationToken (tp_Token payload) (w'\<lparr>w_now := t\<rparr>) \<noteq> None \<longleftrightarrow> t < tp_ExpiresAt payload"
  by (rule minted_token_lifetime[OF assms])

theorem token_lifetime_witness:
  "authenticateInstallationToken (tok_value demo_token) (demo_minted\<lparr>w_now := 3599999999999\<rparr>) \<noteq> None \<and>
   authenticateInstallationToken (tok_value demo_token) (demo_minted\<lparr>w_now := 3600000000000\<rparr>) = None"
  using token_lifetime[OF demo_mint[of 0], of 3599999999999] token_lifetime[OF demo_mint[of 0], of 3600000000000]
  by simp

text \<open>
  C28: Repository selection is exact and does not depend on the iteration order of the installation's set. In
  a well-formed world a request without a list gets all repositories; one with IDs and names gets exactly the
  listed IDs and the repositories whose name matches up to letter case; it is refused exactly when an ID is
  not the installation's or a name matches none of its repositories.
\<close>

theorem selection_exact:
  assumes "world_ok w" "m_get (w_installs w) iid = Some i"
  shows "case selectRepositories w i opts of
      None \<Rightarrow> (\<exists>j \<in> set (opt_RepositoryIDs opts). \<not> in_set (inst_repositoryIDs i) j) \<or>
        (\<exists>n \<in> set (opt_Repositories opts). \<forall>j. \<not> named_in w i [n] j)
    | Some sel \<Rightarrow> (\<forall>j \<in> set (opt_RepositoryIDs opts). in_set (inst_repositoryIDs i) j) \<and>
        (\<forall>n \<in> set (opt_Repositories opts). \<exists>j. named_in w i [n] j) \<and>
        (\<forall>j. in_set sel j \<longleftrightarrow>
          (if selects_everything opts then in_set (inst_repositoryIDs i) j
           else j \<in> set (opt_RepositoryIDs opts) \<or> named_in w i (opt_Repositories opts) j))"
proof (cases "selectRepositories w i opts")
  case None
  with selectRepositories_refused[OF assms, of opts] show ?thesis by simp
next
  case (Some sel)
  with selectRepositories_refused[OF assms, of opts] selectRepositories_members[OF assms Some]
  show ?thesis by auto
qed

theorem selection_exact_witness:
  "selectRepositories demo_world (demo_inst\<lparr>inst_repositoryIDs := m_put 3 () m_empty\<rparr>)
     \<lparr>opt_Repositories = [''APP''], opt_RepositoryIDs = [], opt_Permissions = None\<rparr> \<noteq> None"
proof -
  let ?i = "demo_inst\<lparr>inst_repositoryIDs := m_put 3 () m_empty\<rparr>"
  have i: "m_get (w_installs demo_world) 2 = Some ?i" by (simp add: demo_world_eq demo_w5_frame)
  have "to_lower (repo_name demo_repo) = to_lower ''APP''" by code_simp
  then have "named_in demo_world ?i [''APP''] 3" by (simp add: named_in_def demo_world_eq demo_w5_frame)
  then show ?thesis
    using selection_exact[OF demo_world_ok i, of "\<lparr>opt_Repositories = [''APP''], opt_RepositoryIDs = [], opt_Permissions = None\<rparr>"]
    by (auto split: option.splits)
qed

text \<open>
  C29: Reading a pull request does not tell a missing one from one out of reach. If the token does not reach
  the repository, lacks the permission, or there is no such pull request, the answer is the same 404 and
  nothing runs or changes; otherwise it is a 200, and the world is not changed either.
\<close>

theorem pull_read_hides:
  "(\<not> may_read_pull t owner name n w \<longrightarrow>
      PullRequestsGet sys (Some t) owner name n w e = (Inl (githubAPIError 404 ''Not Found''), w, e)) \<and>
   (may_read_pull t owner name n w \<longrightarrow>
      (\<exists>payload e'. PullRequestsGet sys (Some t) owner name n w e = (Inr (payload, githubAPIResponse 200), w, e')))"
  using get_hidden[of t owner name n w sys e] get_granted[of t owner name n w sys e] by blast

theorem pull_read_hides_witness:
  "PullRequestsGet demo_sys (Some demo_token) ''acme'' ''other'' 1 demo_world 0 =
     (Inl (githubAPIError 404 ''Not Found''), demo_world, 0)"
proof -
  have "repoName ''acme'' ''other'' \<noteq> ''acme/app''" by code_simp
  then have "\<not> may_read_pull demo_token ''acme'' ''other'' 1 demo_world"
    by (simp add: may_read_pull_def token_repository_def demo_world_eq demo_w5_frame)
  then show ?thesis
    using pull_read_hides[of demo_token "''acme''" "''other''" 1 demo_world demo_sys 0] by blast
qed

text \<open>
  C30: A cancellation is accepted only for an unfinished run of a repository the token reaches with the write
  permission on actions; it sets the request flag of that run, changes no run's status or conclusion, and
  counts as one mutation. Without that access the answer is the 404 of a missing run and nothing changes.
\<close>

theorem cancellation_effect:
  "case CancelWorkflowRunByID sys (Some t) owner name k w e of
     (Inl err, w', e') \<Rightarrow> w' = w \<and> (\<not> may_cancel t owner name k w \<longrightarrow> err = githubAPIError 404 ''Not Found'' \<and> e' = e)
   | (Inr resp, w', e') \<Rightarrow> may_cancel t owner name k w \<and> ar_status resp = 202 \<and> w_mutations w' = w_mutations w + 1 \<and>
       (\<exists>i. i < length (w_workflowRuns w) \<and> run_ID (w_workflowRuns w ! i) = k \<and>
          run_Status (w_workflowRuns w ! i) \<noteq> ''completed'' \<and>
          w_workflowRuns w' = (w_workflowRuns w)[i := (w_workflowRuns w ! i)\<lparr>run_CancellationRequested := True\<rparr>])"
proof -
  obtain r w' e' where c: "CancelWorkflowRunByID sys (Some t) owner name k w e = (r, w', e')"
    by (metis prod.collapse)
  show ?thesis
  proof (cases r)
    case (Inl err)
    have "err = githubAPIError 404 ''Not Found'' \<and> e' = e" if "\<not> may_cancel t owner name k w"
      using cancel_hidden[OF that, of sys e] c Inl by simp
    moreover have "w' = w" using cancel_rejected[OF c[unfolded Inl]] .
    ultimately show ?thesis using c Inl by simp
  next
    case (Inr resp)
    from cancel_accepted[OF c[unfolded Inr]] c Inr show ?thesis by auto
  qed
qed

lemma demo_may_cancel: "may_cancel demo_token ''acme'' ''App'' 1001 demo_pushed"
  by (simp add: may_cancel_def token_repository_def demo_pushed_frame demo_token_def new_token_def demo_run_def
      queued_run_def demo_repo_def) (simp add: demo_inst_def demo_installation_def)

theorem cancellation_effect_witness:
  "\<exists>resp w'. CancelWorkflowRunByID demo_sys (Some demo_token) ''acme'' ''App'' 1001 demo_pushed 0 = (Inr resp, w', 0) \<and>
     ar_status resp = 202 \<and> w_workflowRuns w' = [demo_run\<lparr>run_CancellationRequested := True\<rparr>]"
proof -
  have t: "in_set (tok_repositoryIDs demo_token) 3" by (simp add: demo_token_def new_token_def)
  have run: "run_ID demo_run = 1001" "run_RepositoryID demo_run = 3" "run_Status demo_run = ''queued''"
    by (simp_all add: demo_run_def queued_run_def demo_repo_def)
  obtain resp w' where c: "CancelWorkflowRunByID demo_sys (Some demo_token) ''acme'' ''App'' 1001 demo_pushed 0 =
      (Inr resp, w', 0)"
    by (simp add: CancelWorkflowRunByID_def demo_pushed_frame t demo_permissions run Let_def process_of_def
        zero_active_run_def)
  from cancellation_effect[where sys = demo_sys and t = demo_token and owner = "''acme''" and name = "''App''"
      and k = 1001 and w = demo_pushed and e = 0] c
  show ?thesis by (auto simp: demo_pushed_frame)
qed

section \<open>Git\<close>

text \<open>
  C31: Who may use a repository over Git. In a well-formed world a request is authorized exactly when it sends
  the user name \<open>x-access-token\<close> with a token that has not expired, the path names, in any letter case, a
  repository of the token's scope, and the token's contents permission is at least read for a fetch and write
  for a push; the request then works on that repository and finds its receive lock.
\<close>

theorem git_access:
  assumes "world_ok w"
  shows "git_authorize rq parts service w = Inr g \<longleftrightarrow>
    (\<exists>raw t i r. rq_BasicAuth rq = Some (''x-access-token'', raw) \<and>
       authenticateInstallationToken raw w = Some t \<and>
       token_repository t (parts ! 0) (trim_suffix (parts ! 1) ''.git'') w = Some i \<and>
       m_get (w_repositories w) i = Some r \<and>
       needed_rank service \<le> permissionRank (m_get_or [] (tok_permissions t) ''contents'') \<and>
       g = \<lparr>gg_token = t, gg_repository = r, gg_lock = True\<rparr>)"
  by (rule git_authorize_iff[OF assms])

theorem git_access_witness:
  "\<nexists>g. git_authorize (demo_push\<lparr>rq_BasicAuth := Some (''me'', tok_value demo_token)\<rparr>) demo_parts
     ''git-upload-pack'' demo_pushed = Inr g"
  using git_access[OF demo_pushed_ok] by (auto simp: demo_push_def)

text \<open>
  A granted Git request is served from the directory of the repository it was granted for, whatever
  letter case its path used: project root and path given to the Git backend are that directory followed by the
  rest of the request's path.
\<close>

theorem git_serves_granted_directory:
  assumes "world_ok w" "git_authorize rq parts service w = Inr g"
  shows "git_root w @ cgi_path (git_cgi rq parts (gg_repository g) w) =
    repo_gitDir (gg_repository g) @ ''/'' @ join_with ''/'' (drop 2 parts)"
  by (rule git_cgi_directory[OF assms])

lemma demo_minted_ok: "world_ok demo_minted"
  using server_ok_world[OF reachable_ok[OF demo_minted_reachable]] by (simp add: demo_server_def)

theorem git_serves_granted_directory_witness:
  "git_root demo_minted @ cgi_path (git_cgi demo_push demo_parts demo_repo demo_minted) =
     ''/data/repositories/acme/App.git/git-receive-pack''"
  using git_serves_granted_directory[OF demo_minted_ok demo_authorize]
  by (simp add: demo_grant_def demo_repo_def demo_parts_def)



text \<open>
  C34: A receiver reads back what the event was made from. For texts of valid UTF-8, the event that a push or a
  change of a run appends has a body that is one JSON value, and decoding it into the payload's struct, refusing
  unknown fields, gives exactly the struct that was filled: branch, commits, flags, run, repository and sender.
\<close>

theorem event_bodies_read_back:
  "(push_event_clean (push_payload r app ref before after forced) \<longrightarrow>
     (\<exists>ev v. w_pendingEvents (appendPushEvent r app ref before after forced w) = w_pendingEvents w @ [ev] \<and>
        json_value (ev_Body ev) = Some (v, []) \<and>
        decode_struct True push_event_fields v push_event_zero = (push_payload r app ref before after forced, True))) \<and>
   (workflow_event_clean (workflow_payload r run act) \<longrightarrow>
     (\<exists>ev v. w_pendingEvents (appendWorkflowEvent r run act w) = w_pendingEvents w @ [ev] \<and>
        json_value (ev_Body ev) = Some (v, []) \<and>
        decode_struct True workflow_event_fields v workflow_event_zero = (workflow_payload r run act, True)))"
  using push_codec.text_reads workflow_event_codec.text_reads
  by (fastforce simp: event_appends append_event_log)

theorem event_bodies_read_back_witness:
  "\<exists>ev v. w_pendingEvents (appendPushEvent demo_repo 1 ''main'' [] ''c0ffee'' False demo_minted) = w_pendingEvents demo_minted @ [ev] \<and>
     json_value (ev_Body ev) = Some (v, []) \<and>
     decode_struct True push_event_fields v push_event_zero = (push_payload demo_repo 1 ''main'' [] ''c0ffee'' False, True)"
proof -
  have "fmt_int64 1 = ''1''" by code_simp
  moreover have "utf8_valid (replicate 40 CHR ''0'')" by (rule utf8_valid_ascii) (simp add: list_all_iff)
  ultimately have "push_event_clean (push_payload demo_repo 1 ''main'' [] ''c0ffee'' False)"
    unfolding push_event_clean_def push_payload_def Let_def event_repository_of_def app_sender_def demo_repo_def zeroObjectID_def
    by (simp add: utf8_valid_ascii)
  then show ?thesis using event_bodies_read_back by blast
qed

text \<open>
  A push that changes no branch leaves no trace: no event, no run, no mutation.
\<close>

theorem unchanged_push_silent:
  assumes "\<forall>ref. m_get before ref = m_get after ref"
  shows "record_changes r t before after forced w = w"
  by (rule record_changes_unchanged[OF assms])

theorem unchanged_push_silent_witness:
  "record_changes demo_repo demo_token demo_main demo_main m_empty demo_pushed = demo_pushed"
  by (rule unchanged_push_silent) simp

text \<open>
  C33: After a push the pull requests of that repository hold the commits their branches now point to, keep
  the last known commit of a branch that is gone, and no other pull request is touched, provided the branches
  do not move while they are read.
\<close>

theorem pulls_refreshed:
  assumes "heads_are sys (repo_gitDir r) heads"
  shows "m_get (w_pulls (fst (refreshPullSnapshots sys r w e))) k =
    map_option (\<lambda>p. if pr_repositoryID p = repo_id r
        then p\<lparr>pr_baseSHA := (if heads (pr_baseRef p) = [] then pr_baseSHA p else heads (pr_baseRef p)),
               pr_headSHA := (if heads (pr_headRef p) = [] then pr_headSHA p else heads (pr_headRef p))\<rparr>
        else p) (m_get (w_pulls w) k)"
  using refreshPullSnapshots_pulls[OF assms, of w e k]
  unfolding refreshed_def or_else_def by (metis (no_types, lifting))

lemma demo_heads: "heads_are demo_sys dir (\<lambda>ref. ''c0ffee'')"
  by (simp add: heads_are_def)

theorem pulls_refreshed_witness:
  "m_get (w_pulls (fst (refreshPullSnapshots demo_sys demo_repo demo_w5 0))) \<lparr>pk_repositoryID = 3, pk_number = 1\<rparr> \<noteq> None"
  using pulls_refreshed[OF demo_heads, of demo_repo demo_w5 0 "\<lparr>pk_repositoryID = 3, pk_number = 1\<rparr>"]
  by (simp add: demo_w5_def)

text \<open>
  The branch listing is read back exactly: for branch names and object IDs without white space, parsing
  the lines that Git prints for them gives the map from each branch to its object ID.
\<close>

theorem branches_read_back:
  assumes "list_all ref_words rs" "distinct (map fst rs)"
    and "sys_exec sys [] ''git'' [''--git-dir'', dir, ''for-each-ref'',
      ''--format=%(refname:strip=2) %(objectname)'', ''refs/heads''] e =
      (\<lparr>ex_err = None, ex_stdout = print_refs rs, ex_combined = out\<rparr>, e')"
  shows "\<exists>m. branchRefs sys dir e = (Inr m, e') \<and> m_get m = map_of rs"
  using assms(3) parse_print_refs[OF assms(1)] m_get_of_list_distinct[OF assms(2)]
  by (simp add: branchRefs_def)

definition listing_sys :: "nat sys" where
  "listing_sys = demo_sys\<lparr>sys_exec := (\<lambda>dir prog args e. (\<lparr>ex_err = None,
     ex_stdout = print_refs [(''a'', ''1''), (''b/c'', ''2'')], ex_combined = []\<rparr>, e))\<rparr>"

theorem branches_read_back_witness:
  "\<exists>m. branchRefs listing_sys ''d'' 0 = (Inr m, 0) \<and> m_get m ''b/c'' = Some ''2''"
proof -
  have "list_all ref_words [(''a'', ''1''), (''b/c'', ''2'')]"
    by (simp add: ref_words_def ref_word_def spaceless_def is_space_def)
  from branches_read_back[OF this, of listing_sys "''d''" 0 "[]" 0] show ?thesis
    by (auto simp: listing_sys_def)
qed

text \<open>
  The buffered answer of a push is the one the Git backend gave: its headers, the first status it set
  (200 if it wrote first or set none), and everything it wrote, in order.
\<close>

theorem push_answer_faithful:
  "buffered c = GitBuffered (concat (map (\<lambda>(k, vs). map (\<lambda>v. (k, v)) vs) (cgi_headers c)))
     (sent_status (cgi_calls c)) (written (cgi_calls c))"
  by (rule buffered_answer)

section \<open>Executions\<close>

text \<open>
  C35: An execution request always answers, and however it ends it gives back its claim: in a well-formed world,
  when no other handler intervenes, the claims afterwards are those before, whether the claim was refused, a
  tool was missing, the checkout failed, the runner did not start or the run completed.
\<close>

theorem execution_returns_claim:
  assumes "world_ok w" "executeWorkflowRun sys (well_formed \<lparr>ewi_RunID = k\<rparr>) w e = (r, w', e')"
  shows "(\<exists>resp. r = Some resp) \<and> (\<forall>h. m_get (w_activeRuns w') h = m_get (w_activeRuns w) h)"
proof (cases "execute_claim k w")
  case (Pair x w1)
  show ?thesis
  proof (cases x)
    case (Inl resp)
    with execute_not_claimed[OF Pair[unfolded Inl] assms(2)] show ?thesis by simp
  next
    case (Inr c)
    have "m_get (w_activeRuns w') h = m_get (w_activeRuns w) h" for h
      using execute_after_claim(2)[OF assms(1) Pair[unfolded Inr] assms(2), of h]
        execute_claim_world(1,6)[OF Pair[unfolded Inr]] by simp
    with execute_after_claim(1)[OF assms(1) Pair[unfolded Inr] assms(2)] show ?thesis by auto
  qed
qed

theorem execution_returns_claim_witness:
  "\<exists>resp w' e'. executeWorkflowRun demo_sys (well_formed \<lparr>ewi_RunID = 1001\<rparr>) demo_pushed 1 = (Some resp, w', e') \<and>
     m_get (w_activeRuns w') 1001 = None"
proof -
  obtain r w' e' where x: "executeWorkflowRun demo_sys (well_formed \<lparr>ewi_RunID = 1001\<rparr>) demo_pushed 1 = (r, w', e')"
    by (metis prod.collapse)
  from execution_returns_claim[OF demo_pushed_ok x] x show ?thesis by (auto simp: demo_pushed_frame)
qed

text \<open>
  C36: A run that starts is finished with the outcome of its process. When a queued run with no cancellation
  request is claimed, prepared and started, and no other handler intervenes, the answer is 200 with that run,
  completed, with the runner's output as its log and success exactly when the process ended without an error;
  no other run changes.
\<close>

theorem execution_outcome:
  assumes "world_ok w" "execute_claim k w = (Inr c, w1)" "\<not> run_CancellationRequested (cl_run c)"
    and "execute_prepare sys (w_dataDir w) c e = (Inr rc, e1)"
    and "sys_start sys (rc_dir rc) (rc_path rc) (rc_args rc) (rc_env rc) e1 = (Inr pid, e2)"
    and "sys_wait sys pid e2 = ((err, out), e3)"
  shows "\<exists>w'. executeWorkflowRun sys (well_formed \<lparr>ewi_RunID = k\<rparr>) w e =
      (Some (writeJSON 200 (PRun ((cl_run c)\<lparr>run_Status := ''completed'', run_Logs := log_header c @ out,
         run_Conclusion := (if err = None then ''success'' else ''failure'')\<rparr>))), w', e3) \<and>
    w_workflowRuns w' = (w_workflowRuns w)[cl_index c := (cl_run c)\<lparr>run_Status := ''completed'',
      run_Logs := log_header c @ out, run_Conclusion := (if err = None then ''success'' else ''failure'')\<rparr>]"
  by (rule execute_finishes[OF assms])

theorem execution_outcome_witness:
  "\<exists>w'. fst (snd (executeWorkflowRun demo_sys (well_formed \<lparr>ewi_RunID = 1001\<rparr>) demo_pushed 1)) = w' \<and>
     (\<exists>run. w_workflowRuns w' = [run] \<and> run_Status run = ''completed'' \<and> run_Conclusion run = ''success'')"
proof -
  obtain c w where c: "execute_claim 1001 demo_pushed = (Inr c, w)" using demo_claim by blast
  note cw = execute_claim_world[OF c]
  have i: "cl_index c = 0" "cl_run c = demo_run"
    using cw(2,3) first_run_nth[OF cw(2)] by (simp_all add: demo_pushed_frame)
  have "run_HeadSHA (cl_run c) = ''c0ffee''" "\<not> run_CancellationRequested (cl_run c)"
    by (simp_all add: i demo_run_def queued_run_def)
  with demo_prepare[of c "w_dataDir demo_pushed" 1] obtain rc where
    rc: "execute_prepare demo_sys (w_dataDir demo_pushed) c 1 = (Inr rc, 1)" by blast
  have st: "sys_start demo_sys (rc_dir rc) (rc_path rc) (rc_args rc) (rc_env rc) 1 = (Inr 42, 1)"
    and wt: "sys_wait demo_sys 42 1 = ((None, ''ok''), 1)" by simp_all
  from execution_outcome[OF demo_pushed_ok c \<open>\<not> run_CancellationRequested (cl_run c)\<close> rc st wt]
  obtain w' where "executeWorkflowRun demo_sys (well_formed \<lparr>ewi_RunID = 1001\<rparr>) demo_pushed 1 =
      (Some (writeJSON 200 (PRun ((cl_run c)\<lparr>run_Status := ''completed'', run_Logs := log_header c @ ''ok'',
         run_Conclusion := ''success''\<rparr>))), w', 1)"
    "w_workflowRuns w' = (w_workflowRuns demo_pushed)[cl_index c := (cl_run c)\<lparr>run_Status := ''completed'',
      run_Logs := log_header c @ ''ok'', run_Conclusion := ''success''\<rparr>]" by auto
  then show ?thesis by (auto simp: i demo_pushed_frame)
qed



text \<open>
  An execution is claimed exactly when the run exists, is queued, is not claimed already, and its repository
  and workflow are configured.
\<close>

theorem claim_accepted_iff:
  "(\<exists>c. fst (execute_claim k w) = Inr c) \<longleftrightarrow>
    (\<exists>i. first_run w k = Some i \<and> run_Status (w_workflowRuns w ! i) = ''queued'' \<and>
       m_get (w_activeRuns w) k = None \<and>
       m_get (w_repositories w) (run_RepositoryID (w_workflowRuns w ! i)) \<noteq> None \<and>
       m_get (w_workflows w) (run_RepositoryID (w_workflowRuns w ! i)) \<noteq> None)"
  by (rule execute_claim_iff)

text \<open>
  C38: What finishing an execution records: the claim is gone, and the run is completed with the log and with
  the conclusion cancelled exactly when the cancellation signal had been delivered and the process failed,
  success exactly when it did not fail, failure otherwise. Once its runner was started, a cancellation request
  that reached no process does not make a run cancelled.
\<close>

theorem finish_recorded:
  assumes "world_ok w" "claim_held w c (Some pid)" "execute_finish c err logs w = (fin, w')"
  shows "\<exists>run a. m_get (w_activeRuns w) (run_ID (cl_run c)) = Some a \<and>
    fin = Some (run, ar_cancellationSignalled a) \<and> w_workflowRuns w' = (w_workflowRuns w)[cl_index c := run] \<and>
    run_Status run = ''completed'' \<and> run_Logs run = logs \<and> m_get (w_activeRuns w') (run_ID (cl_run c)) = None \<and>
    (run_Conclusion run = ''cancelled'' \<longleftrightarrow> ar_cancellationSignalled a \<and> err \<noteq> None) \<and>
    (run_Conclusion run = ''success'' \<longleftrightarrow> err = None) \<and>
    (run_Conclusion run = ''failure'' \<longleftrightarrow> \<not> ar_cancellationSignalled a \<and> err \<noteq> None)"
proof -
  note st = claim_held_status[OF assms(1,2)]
  obtain a where a: "m_get (w_activeRuns w) (run_ID (cl_run c)) = Some a"
    using assms(2) by (auto simp: claim_held_def)
  with st assms(3) show ?thesis
    by (auto simp: execute_finish_def Let_def execute_release_def finish_conclusion_iff)
qed

theorem finish_recorded_witness:
  "\<exists>c w a w' run. m_get (w_activeRuns w) 1001 = Some a \<and> \<not> ar_cancellationSignalled a \<and>
     execute_finish c (Some ''exit 1'') ''log'' w = (Some (run, False), w') \<and> run_Conclusion run = ''failure''"
proof -
  obtain c w where x: "run_ID (cl_run c) = 1001" "reachable demo_params \<lparr>sv_world = w, sv_env = 1,
      sv_execs = [Running c 42], sv_pushes = [Listing demo_grant], sv_deliveries = []\<rparr>" (is "reachable _ ?s")
      "m_get (w_activeRuns w) 1001 = Some \<lparr>ar_command = Some \<lparr>cmd_process = Some 42\<rparr>, ar_cancellationSignalled = False\<rparr>"
    using demo_running by blast
  have ok: "server_ok ?s" by (rule reachable_ok[OF x(2)])
  have held: "claim_held w c (Some 42)"
    using exec_in_flight(1)[of ?s "[]" "Running c 42" "[]" c "Some 42"] ok by simp
  obtain fin w' where f: "execute_finish c (Some ''exit 1'') ''log'' w = (fin, w')"
    by (cases "execute_finish c (Some ''exit 1'') ''log'' w")
  have "world_ok w" using server_ok_world[OF ok] by simp
  from finish_recorded[OF this held f] x(1,3) obtain run where
    "fin = Some (run, False)" "run_Conclusion run = ''failure''" by auto
  with f x(3) show ?thesis
    by (intro exI[of _ c] exI[of _ w] exI[of _ "\<lparr>ar_command = Some \<lparr>cmd_process = Some 42\<rparr>,
          ar_cancellationSignalled = False\<rparr>"] exI[of _ w'] exI[of _ run]) simp
qed

text \<open>
  A scripted transition is accepted exactly when the run exists and is not claimed by an execution, and
  asks to start a queued run, with no conclusion, or to complete an unfinished one, with a conclusion.
\<close>

theorem transition_accepted_iff:
  "\<not> rejected (fst (transitionWorkflowRun (well_formed input) w)) \<longleftrightarrow>
    (\<exists>i. first_run w (wti_RunID input) = Some i \<and> m_get (w_activeRuns w) (wti_RunID input) = None \<and>
       (wti_Status input = ''in_progress'' \<and> wti_Conclusion input = [] \<and>
          run_Status (w_workflowRuns w ! i) = ''queued'' \<or>
        wti_Status input = ''completed'' \<and> wti_Conclusion input \<noteq> [] \<and>
          run_Status (w_workflowRuns w ! i) \<in> {''queued'', ''in_progress''}))"
  by (rule transition_accept_iff)

section \<open>Events\<close>

text \<open>
  C39: A delivery sends the logged bytes. The request goes to the webhook URL of the event's App with the event's
  stored body, unchanged, its GUID and type in the headers, and as signature \<open>sha256=\<close> and the hexadecimal
  HMAC-SHA256 of exactly those bytes under the App's secret (under another secret when an invalid signature was asked
  for). The world afterwards differs in one attempt at the end of the log, with the event's GUID, the destination, the
  receiver's status or the error, and the time, and in one more mutation; and the answer is not an error exactly when
  the receiver answered with a 2xx status.
\<close>

theorem delivery_faithful:
  assumes "deliver_read input w = Inr d" "sys_valid_request_url sys (app_webhookURL (dp_app d))"
    and "sys_post sys (outbound_request input d) e = (res, e')"
  shows "\<exists>ev \<in> set (w_pendingEvents w). ev_GUID ev = di_GUID input \<and>
    (let app = m_get_or zero_app (w_apps w) (ev_AppID ev);
         secret = app_webhookSecret app @ (if di_InvalidSignature input then ''-invalid'' else [])
     in outbound_request input d =
          \<lparr>hp_url = app_webhookURL app,
           hp_headers = [(''Content-Type'', ''application/json''), (''X-GitHub-Delivery'', ev_GUID ev),
             (''X-GitHub-Event'', ev_Event ev),
             (''X-Hub-Signature-256'', ''sha256='' @ hex_encode (hmac_sha256 (map byte secret) (map byte (ev_Body ev))))],
           hp_body = ev_Body ev\<rparr> \<and>
        (\<exists>resp. deliverEvent sys (well_formed input) w e = (resp,
           w\<lparr>w_deliveryAttempts := w_deliveryAttempts w @
               [\<lparr>da_GUID = ev_GUID ev, da_Destination = app_webhookURL app,
                 da_StatusCode = (case res of Inl err \<Rightarrow> 0 | Inr code \<Rightarrow> code),
                 da_InvalidSignature = di_InvalidSignature input, da_AttemptedAt = w_now w,
                 da_Error = (case res of Inl err \<Rightarrow> err | Inr code \<Rightarrow> [])\<rparr>],
             w_mutations := w_mutations w + 1\<rparr>, e') \<and>
           (\<not> rejected resp \<longleftrightarrow> (\<exists>code. res = Inr code \<and> 200 \<le> code \<and> code < 300))))"
proof -
  obtain ev where ev: "ev \<in> set (w_pendingEvents w)" "ev_GUID ev = di_GUID input" "findPendingEvent w (di_GUID input) = Some ev"
    using assms(1) found_event by (auto simp: deliver_read_def split: option.splits)
  have d: "d = \<lparr>dp_event = ev, dp_app = m_get_or zero_app (w_apps w) (ev_AppID ev), dp_now = w_now w\<rparr>"
    using assms(1) ev(3) by (auto simp: deliver_read_def Let_def split: if_splits)
  let ?a = "delivery_result input d res"
  have "deliverEvent sys (well_formed input) w e = (delivery_response res ?a, deliver_record ?a w, e')"
    using assms by (simp add: deliverEvent_def Let_def)
  then show ?thesis
    using ev(1,2)
    by (intro bexI[of _ ev]) (auto simp: d Let_def outbound_request_def webhookSignature_def deliver_record_def bump_def
        delivery_result_def delivery_response_def split: sum.splits)
qed

theorem delivery_faithful_witness:
  "\<exists>resp w'. deliverEvent demo_sys (well_formed demo_delivery) demo_pushed 1 = (resp, w', 1) \<and>
     \<not> rejected resp \<and> length (w_deliveryAttempts w') = length (w_deliveryAttempts demo_pushed) + 1"
proof -
  obtain d where d: "deliver_read demo_delivery demo_pushed = Inr d" using demo_plan by blast
  have u: "sys_valid_request_url demo_sys (app_webhookURL (dp_app d))"
    and p: "sys_post demo_sys (outbound_request demo_delivery d) 1 = (Inr 204, 1)" by simp_all
  from delivery_faithful[OF d u p] show ?thesis by (auto simp: Let_def)
qed

text \<open>
  C40: A duplicated event is a new event with the same content: it is appended with the type, App, repository
  and body bytes of its source, the current time, and a GUID that no logged event has (up to the wrap-around of
  the counter).
\<close>

theorem duplicate_fresh:
  assumes "world_ok w" "duplicateEvent (well_formed input) w = (resp, w')" "\<not> rejected resp"
    and "Suc (length (w_pendingEvents w)) < 2 ^ 64"
  shows "\<exists>ev \<in> set (w_pendingEvents w). ev_GUID ev = dei_GUID input \<and>
    (\<exists>dup. w_pendingEvents w' = w_pendingEvents w @ [dup] \<and> event_label dup = event_label ev \<and>
       ev_AppID dup = ev_AppID ev \<and> ev_CreatedAt dup = w_now w \<and>
       ev_GUID dup \<notin> ev_GUID ` set (w_pendingEvents w))"
proof -
  have "numbered guid 0 (w_nextEventID w) (map ev_GUID (w_pendingEvents w))"
    using assms(1) by (simp add: world_ok_def events_ok_def)
  from guids.numbered_fresh[OF this] assms(4) have "guid (w_nextEventID w + 1) \<notin> ev_GUID ` set (w_pendingEvents w)"
    by simp
  with duplicate_accepted[OF assms(2,3)] show ?thesis by (auto simp: event_label_def)
qed

theorem duplicate_fresh_witness:
  "\<exists>resp w' dup. duplicateEvent (well_formed \<lparr>dei_GUID = guid 1\<rparr>) demo_pushed = (resp, w') \<and>
     w_pendingEvents w' = w_pendingEvents demo_pushed @ [dup] \<and> ev_GUID dup \<notin> ev_GUID ` set (w_pendingEvents demo_pushed)"
proof -
  obtain ev evs where "w_pendingEvents demo_pushed = ev # evs" "ev_GUID ev = guid 1"
    using demo_first_event by blast
  then have "\<not> rejected (fst (duplicateEvent (well_formed \<lparr>dei_GUID = guid 1\<rparr>) demo_pushed))"
    by (simp add: duplicateEvent_def findPendingEvent_def Let_def)
  moreover obtain resp w' where d: "duplicateEvent (well_formed \<lparr>dei_GUID = guid 1\<rparr>) demo_pushed = (resp, w')"
    by (cases "duplicateEvent (well_formed \<lparr>dei_GUID = guid 1\<rparr>) demo_pushed")
  ultimately show ?thesis
    using duplicate_fresh[OF demo_pushed_ok d] demo_events_length by auto
qed

text \<open>
  Different random bytes give different tokens: two draws of the operating system's randomness that are
  each a full set of bytes yield the same token value only if they are equal.
\<close>

theorem token_values_differ:
  assumes "sys_random sys 32 e1 = (Some xs, e1')" "sys_random sys 32 e2 = (Some ys, e2')"
    and "length xs = 32" "length ys = 32" "\<forall>x \<in> set xs \<union> set ys. x < 256"
  shows "fst (randomToken sys e1) = fst (randomToken sys e2) \<longleftrightarrow> xs = ys"
proof -
  have "list_all (\<lambda>x. x < 256) xs" "list_all (\<lambda>x. x < 256) ys" using assms(5) by (auto simp: list_all_iff)
  then have "b64 xs = b64 ys \<Longrightarrow> xs = ys" using b64_inject assms(3,4) by simp
  with assms(1,2) show ?thesis by (auto simp: randomToken_def token_value_def)
qed

definition counting_sys :: "nat sys" where
  "counting_sys = demo_sys\<lparr>sys_random := (\<lambda>n e. (Some (replicate n e), Suc e))\<rparr>"

theorem token_values_differ_witness: "fst (randomToken counting_sys 7) \<noteq> fst (randomToken counting_sys 8)"
proof -
  have r: "sys_random counting_sys 32 7 = (Some (replicate 32 7), 8)" "sys_random counting_sys 32 8 = (Some (replicate 32 8), 9)"
    by (simp_all add: counting_sys_def)
  from token_values_differ[OF r] show ?thesis by auto
qed

end
