(* ===== verification/Dtu_Control_Server.thy ===== *)
theory Dtu_Control_Server
  imports Dtu_Client Dtu_Codec
begin

text \<open>
  The control API from the bytes of a request to the answer, and the Go client on top of it:
  \<open>controlHandler\<close> with every handler behind \<open>decodeControl\<close> (\<open>dtu/control.go\<close>), and \<open>post\<close> with the
  marshalled input, the resolved path and the message it reads from an error (\<open>dtu/client.go\<close>).
\<close>

section \<open>Serving a request\<close>

text \<open>What the control server answers: a handler's response, or one of the route table's own errors.\<close>

datatype control_answer =
    Handled response
  | RouteNotFound
  | RouteMethodNotAllowed
  | HandlerPanic

definition handled :: "response \<times> world \<times> 'e \<Rightarrow> control_answer \<times> world \<times> 'e" where
  "handled x = (case x of (r, w, e) \<Rightarrow> (Handled r, w, e))"

definition handled_run :: "response option \<times> world \<times> 'e \<Rightarrow> control_answer \<times> world \<times> 'e" where
  "handled_run x = (case x of (r, w, e) \<Rightarrow> (case r of Some resp \<Rightarrow> Handled resp | None \<Rightarrow> HandlerPanic, w, e))"

definition serve_endpoint ::
    "'e params \<Rightarrow> endpoint \<Rightarrow> string \<Rightarrow> world \<Rightarrow> 'e \<Rightarrow> control_answer \<times> world \<times> 'e" where
  "serve_endpoint p ep body w e =
     (case ep of
        EpCreateApp \<Rightarrow> handled (control_step p (CallCreateApp (read_control app_fields app_zero body)) w e)
      | EpCreateInstallation \<Rightarrow> handled (control_step p
          (CallCreateInstallation (read_control installation_fields installation_zero body)) w e)
      | EpCreateRepository \<Rightarrow> handled (control_step p
          (CallCreateRepository (read_control repository_fields repository_zero body)) w e)
      | EpCreatePullRequest \<Rightarrow> handled (control_step p
          (CallCreatePullRequest (read_control pull_fields pull_zero body)) w e)
      | EpChangePullRequestState \<Rightarrow> handled (control_step p
          (CallChangePullRequestState (read_control pull_state_fields pull_state_zero body)) w e)
      | EpAdvanceTime \<Rightarrow> handled (control_step p (CallAdvanceTime (read_control time_fields time_zero body)) w e)
      | EpConfigureWorkflow \<Rightarrow> handled (control_step p
          (CallConfigureWorkflow (read_control workflow_fields workflow_zero body)) w e)
      | EpDeliverEvent \<Rightarrow> handled (deliverEvent (pm_sys p) (read_control delivery_fields delivery_zero body) w e)
      | EpDuplicateEvent \<Rightarrow> handled (control_step p
          (CallDuplicateEvent (read_control duplicate_fields duplicate_zero body)) w e)
      | EpTransitionWorkflowRun \<Rightarrow> handled (control_step p
          (CallTransitionWorkflowRun (read_control transition_fields transition_zero body)) w e)
      | EpExecuteWorkflowRun \<Rightarrow> handled_run (executeWorkflowRun (pm_sys p)
          (read_control execute_fields execute_zero body) w e)
      | EpGetState \<Rightarrow> handled (control_step p CallGetState w e))"

definition controlHandler ::
    "'e params \<Rightarrow> string \<Rightarrow> string \<Rightarrow> string \<Rightarrow> world \<Rightarrow> 'e \<Rightarrow> control_answer \<times> world \<times> 'e" where
  "controlHandler p method path body w e =
     (case control_route method path of
        NotFound \<Rightarrow> (RouteNotFound, w, e)
      | MethodNotAllowed \<Rightarrow> (RouteMethodNotAllowed, w, e)
      | Routed ep \<Rightarrow> serve_endpoint p ep body w e)"

section \<open>The client's requests\<close>

datatype client_call =
    ClCreateApp app_input
  | ClCreateInstallation installation_input
  | ClCreateRepository repository_input
  | ClCreatePullRequest pull_request_input
  | ClChangePullRequestState pull_request_state_input
  | ClAdvanceTime advance_time_input
  | ClConfigureWorkflow workflow_input
  | ClDeliverEvent delivery_input
  | ClDuplicateEvent duplicate_event_input
  | ClTransitionWorkflowRun workflow_transition_input
  | ClExecuteWorkflowRun execute_workflow_input

fun client_op :: "client_call \<Rightarrow> client_method" where
  "client_op (ClCreateApp i) = CreateApp"
| "client_op (ClCreateInstallation i) = CreateInstallation"
| "client_op (ClCreateRepository i) = CreateRepository"
| "client_op (ClCreatePullRequest i) = CreatePullRequest"
| "client_op (ClChangePullRequestState i) = ChangePullRequestState"
| "client_op (ClAdvanceTime i) = AdvanceTime"
| "client_op (ClConfigureWorkflow i) = ConfigureWorkflow"
| "client_op (ClDeliverEvent i) = DeliverEvent"
| "client_op (ClDuplicateEvent i) = DuplicateEvent"
| "client_op (ClTransitionWorkflowRun i) = TransitionWorkflowRun"
| "client_op (ClExecuteWorkflowRun i) = ExecuteWorkflowRun"

text \<open>The input as \<open>json.Marshal\<close> writes it.\<close>

fun client_json :: "client_call \<Rightarrow> json" where
  "client_json (ClCreateApp i) = app_json i"
| "client_json (ClCreateInstallation i) = installation_json i"
| "client_json (ClCreateRepository i) = repository_json i"
| "client_json (ClCreatePullRequest i) = pull_json i"
| "client_json (ClChangePullRequestState i) = pull_state_json i"
| "client_json (ClAdvanceTime i) = time_json i"
| "client_json (ClConfigureWorkflow i) = workflow_json i"
| "client_json (ClDeliverEvent i) = delivery_json i"
| "client_json (ClDuplicateEvent i) = duplicate_json i"
| "client_json (ClTransitionWorkflowRun i) = transition_json i"
| "client_json (ClExecuteWorkflowRun i) = execute_json i"

definition client_body :: "client_call \<Rightarrow> string" where
  "client_body c = marshal (client_json c)"

section \<open>The client's answers\<close>

text \<open>The message the client reads from an answer; a decoding error leaves what was read.\<close>

definition read_message :: "string \<Rightarrow> string" where
  "read_message body =
     (case json_value body of
        None \<Rightarrow> []
      | Some (v, rest) \<Rightarrow> fst (decode_struct False message_fields v []))"

text \<open>The status of an answer and, for an error, the bytes of its body.\<close>

definition answer_status :: "control_answer \<Rightarrow> nat" where
  "answer_status a =
     (case a of Handled r \<Rightarrow> resp_status r | RouteNotFound \<Rightarrow> 404 | RouteMethodNotAllowed \<Rightarrow> 405 | HandlerPanic \<Rightarrow> 0)"

definition answer_error_body :: "control_answer \<Rightarrow> string" where
  "answer_error_body a =
     (case a of
        Handled r \<Rightarrow> marshal (JObj [(''message'', JStr (body_message (resp_body r)))]) @ [CHR 0x0A]
      | RouteNotFound \<Rightarrow> ''404 page not found'' @ [CHR 0x0A]
      | RouteMethodNotAllowed \<Rightarrow> ''Method Not Allowed'' @ [CHR 0x0A]
      | HandlerPanic \<Rightarrow> [])"

text \<open>
  \<open>ControlClient\<close>: the path of its base URL; the server reports a URL whose path is a slash.
\<close>

record control_client =
  cc_BasePath :: string

definition NewControlClient :: "string \<Rightarrow> control_client" where
  "NewControlClient base = \<lparr>cc_BasePath = base\<rparr>"

text \<open>\<open>post\<close>: the error it returns, if any, and what the server did.\<close>

definition client_post ::
    "control_client \<Rightarrow> (nat \<Rightarrow> string) \<Rightarrow> 'e params \<Rightarrow> client_call \<Rightarrow> world \<Rightarrow> 'e \<Rightarrow> string option \<times> world \<times> 'e" where
  "client_post cc status_line p c w e =
     (let (method, path) = client_request (client_op c);
          (a, w', e') = controlHandler p method (resolve_path (cc_BasePath cc) path) (client_body c) w e
      in (if a = HandlerPanic then Some ''EOF''
          else client_post_error status_line path (answer_status a) (read_message (answer_error_body a)), w', e'))"

text \<open>
  \<open>State\<close>: a GET without a body, of which only the answer 200 is read. \<open>decode\<close> is what the JSON decoder
  makes of the encoded snapshot, which holds times and raw event bodies.
\<close>

definition client_State ::
    "control_client \<Rightarrow> (nat \<Rightarrow> string) \<Rightarrow> (payload \<Rightarrow> string + 's) \<Rightarrow> 'e params \<Rightarrow> world \<Rightarrow> 'e \<Rightarrow> (string + 's) \<times> world \<times> 'e" where
  "client_State cc status_line decode p w e =
     (let (method, path) = client_request State;
          (a, w', e') = controlHandler p method (resolve_path (cc_BasePath cc) path) [] w e
      in (case client_state_error status_line (answer_status a) of
            Some err \<Rightarrow> Inl err
          | None \<Rightarrow> (case a of Handled r \<Rightarrow> decode (resp_body r) | _ \<Rightarrow> Inl ''EOF''), w', e'))"

section \<open>What the client asked for is what the handler does\<close>

text \<open>The handler called directly with the input.\<close>

fun direct_call :: "'e params \<Rightarrow> client_call \<Rightarrow> world \<Rightarrow> 'e \<Rightarrow> control_answer \<times> world \<times> 'e" where
  "direct_call p (ClCreateApp i) w e = handled (control_step p (CallCreateApp (well_formed i)) w e)"
| "direct_call p (ClCreateInstallation i) w e = handled (control_step p (CallCreateInstallation (well_formed i)) w e)"
| "direct_call p (ClCreateRepository i) w e = handled (control_step p (CallCreateRepository (well_formed i)) w e)"
| "direct_call p (ClCreatePullRequest i) w e = handled (control_step p (CallCreatePullRequest (well_formed i)) w e)"
| "direct_call p (ClChangePullRequestState i) w e =
     handled (control_step p (CallChangePullRequestState (well_formed i)) w e)"
| "direct_call p (ClAdvanceTime i) w e = handled (control_step p (CallAdvanceTime (well_formed i)) w e)"
| "direct_call p (ClConfigureWorkflow i) w e = handled (control_step p (CallConfigureWorkflow (well_formed i)) w e)"
| "direct_call p (ClDeliverEvent i) w e = handled (deliverEvent (pm_sys p) (well_formed i) w e)"
| "direct_call p (ClDuplicateEvent i) w e = handled (control_step p (CallDuplicateEvent (well_formed i)) w e)"
| "direct_call p (ClTransitionWorkflowRun i) w e =
     handled (control_step p (CallTransitionWorkflowRun (well_formed i)) w e)"
| "direct_call p (ClExecuteWorkflowRun i) w e =
     handled_run (executeWorkflowRun (pm_sys p) (well_formed i) w e)"

text \<open>Inputs whose texts are valid UTF-8, and inputs that are equal up to the order of a map.\<close>

fun client_clean :: "client_call \<Rightarrow> bool" where
  "client_clean (ClCreateApp i) = app_clean i"
| "client_clean (ClCreateInstallation i) = installation_clean i"
| "client_clean (ClCreateRepository i) = repository_clean i"
| "client_clean (ClCreatePullRequest i) = pull_clean i"
| "client_clean (ClChangePullRequestState i) = pull_state_clean i"
| "client_clean (ClAdvanceTime i) = time_clean i"
| "client_clean (ClConfigureWorkflow i) = workflow_clean i"
| "client_clean (ClDeliverEvent i) = delivery_clean i"
| "client_clean (ClDuplicateEvent i) = duplicate_clean i"
| "client_clean (ClTransitionWorkflowRun i) = transition_clean i"
| "client_clean (ClExecuteWorkflowRun i) = execute_clean i"

fun same_call :: "client_call \<Rightarrow> client_call \<Rightarrow> bool" where
  "same_call (ClCreateInstallation i) (ClCreateInstallation j) = same_installation_input i j"
| "same_call c d = (c = d)"

lemmas codec_reads = app_codec.read_marshal installation_codec.read_marshal repository_codec.read_marshal
  pull_codec.read_marshal pull_state_codec.read_marshal time_codec.read_marshal workflow_codec.read_marshal
  delivery_codec.read_marshal duplicate_codec.read_marshal transition_codec.read_marshal execute_codec.read_marshal

lemma endpoint_reads_call:
  assumes "client_clean c" "length (client_body c) \<le> body_limit"
  shows "\<exists>d. same_call c d \<and> serve_endpoint p (intended (client_op c)) (client_body c) w e = direct_call p d w e"
proof (cases c)
  case (ClCreateInstallation i)
  with assms obtain j where "read_control installation_fields installation_zero (marshal (installation_json i)) = well_formed j"
    "same_installation_input i j"
    using installation_codec.read_marshal[of i] by (auto simp: client_body_def)
  with ClCreateInstallation show ?thesis
    by (intro exI[of _ "ClCreateInstallation j"]) (simp add: serve_endpoint_def client_body_def)
qed (use assms codec_reads in \<open>auto simp: serve_endpoint_def client_body_def intro!: exI[of _ c]\<close>)

lemma client_route:
  "control_route (fst (client_request m)) (resolve_path ''/'' (snd (client_request m))) = Routed (intended m)"
  unfolding client_paths_plain by (cases m) (simp_all add: control_route_def control_patterns_def)

lemma controlHandler_client:
  assumes "client_clean c" "length (client_body c) \<le> body_limit"
  shows "\<exists>d. same_call c d \<and> controlHandler p (fst (client_request (client_op c)))
    (resolve_path ''/'' (snd (client_request (client_op c)))) (client_body c) w e = direct_call p d w e"
  using endpoint_reads_call[OF assms] by (simp add: controlHandler_def client_route)

lemma client_State_snapshot:
  "client_State (NewControlClient ''/'') line decode p w e = (decode (resp_body (getState w)), w, e)"
  using client_route[of State]
  by (simp add: client_State_def NewControlClient_def controlHandler_def serve_endpoint_def handled_def control_step_def
      client_state_error_def answer_status_def getState_def)

text \<open>The message of an error answer, as the client reads it.\<close>

lemma read_message_error:
  "read_message (marshal (JObj [(''message'', JStr m)]) @ [CHR 0x0A]) = utf8_clean m"
  unfolding read_message_def
  using json_value_marshal[of "[CHR 0x0A]" "JObj [(''message'', JStr m)]"]
  by (simp add: codec_simps message_fields_def)

lemma read_message_routes [simp]:
  "read_message (''404 page not found'' @ [CHR 0x0A]) = []"
  "read_message (''Method Not Allowed'' @ [CHR 0x0A]) = []"
  by (code_simp)+

end
