(* ===== verification/Dtu_Control_Client.thy ===== *)
theory Dtu_Control_Client
  imports Dtu_Control_Server Dtu_Runs
begin

text \<open>
  What a caller of the Go client learns: every handler of the control API answers 200 or 201, or rejects
  with a status from 400 on, and the client turns exactly the rejections into errors.
\<close>

section \<open>Answers of the handlers with several sections\<close>

definition answered :: "response \<Rightarrow> bool" where
  "answered r \<longleftrightarrow> rejected r \<or> resp_status r \<in> {200, 201}"

lemma answered_simps [simp]: "answered (writeControlError st m) = (400 \<le> st \<or> st \<in> {200, 201})"
  "answered (writeJSON st b) = (400 \<le> st \<or> st \<in> {200, 201})"
  by (simp_all add: answered_def)

lemma decode_answered: "decodeControl b = Inl r \<Longrightarrow> answered r"
  by (simp add: answered_def)

lemma deliverEvent_answered: "answered (fst (deliverEvent sys b w e))"
  by (auto simp: deliverEvent_def deliver_read_def delivery_response_def Let_def answered_def
      split: sum.split option.split prod.split)

lemma execute_claim_answered: "execute_claim k w = (Inl r, w') \<Longrightarrow> answered r"
  by (auto simp: execute_claim_def split: option.splits if_splits)

lemma execute_prepare_answered: "execute_prepare sys dir c e = (Inl r, e') \<Longrightarrow> answered r"
  by (auto simp: execute_prepare_def Let_def split: prod.splits sum.splits if_splits)

lemma execute_start_answered: "execute_start sys c rc w e = (StartReply r, w', e') \<Longrightarrow> answered r"
  by (auto simp: execute_start_def Let_def split: prod.splits sum.splits if_splits)

lemma executeWorkflowRun_answered:
  "executeWorkflowRun sys b w e = (Some r, w', e') \<Longrightarrow> answered r"
  by (auto simp: executeWorkflowRun_def dest: execute_claim_answered execute_prepare_answered execute_start_answered
      decode_answered split: sum.splits prod.splits start_result.splits option.splits)

section \<open>Errors of the client\<close>

lemma direct_call_answered:
  assumes "direct_call p c w e = (Handled r, w', e')"
  shows "answered r"
proof -
  have ok: "answered r" if "control_step p call w e = (r, w', e')" "call \<noteq> CallGetState" for call
    using control_step_outcome[OF that] by (auto simp: outcome_ok_def answered_def split: if_splits)
  show ?thesis
  proof (cases c)
    case (ClDeliverEvent i)
    with assms deliverEvent_answered[of "pm_sys p" "well_formed i" w e] show ?thesis
      by (auto simp: handled_def split: prod.splits)
  next
    case (ClExecuteWorkflowRun i)
    with assms executeWorkflowRun_answered[of "pm_sys p" "well_formed i" w e] show ?thesis
      by (auto simp: handled_run_def split: prod.splits option.splits)
  qed (use assms ok in \<open>auto simp: handled_def split: prod.splits\<close>)
qed

text \<open>In a well-formed world no handler panics.\<close>

lemma direct_call_handled: "world_ok w \<Longrightarrow> \<exists>r. fst (direct_call p c w e) = Handled r"
proof (cases c)
  case (ClExecuteWorkflowRun i)
  obtain r w' e' where x: "executeWorkflowRun (pm_sys p) (well_formed i) w e = (r, w', e')" by (rule prod_cases3)
  assume "world_ok w"
  from execute_answers[OF this, of "pm_sys p" "ewi_RunID i"] x have "\<exists>resp. r = Some resp"
    by (cases i) auto
  with ClExecuteWorkflowRun x show ?thesis by (auto simp: handled_run_def)
qed (simp_all add: handled_def split: prod.split)

text \<open>The error of \<open>post\<close> for one answer.\<close>

lemma post_error_handled:
  assumes "answered r"
  shows "client_post_error line path (answer_status (Handled r)) (read_message (answer_error_body (Handled r))) =
    (if rejected r
     then Some (''control '' @ path @ '' returned '' @ line (resp_status r) @ '': '' @ utf8_clean (body_message (resp_body r)))
     else None)"
  using assms
  by (auto simp: client_post_error_def answer_status_def answer_error_body_def read_message_error[simplified] rejected_def
      answered_def)

lemma client_post_direct:
  assumes "client_clean c" "length (client_body c) \<le> body_limit"
  obtains d a w' e' where "same_call c d" "direct_call p d w e = (a, w', e')"
    "client_post (NewControlClient ''/'') line p c w e = (if a = HandlerPanic then Some ''EOF''
       else client_post_error line (snd (client_request (client_op c))) (answer_status a)
         (read_message (answer_error_body a)), w', e')"
proof -
  obtain d where d: "same_call c d" "controlHandler p (fst (client_request (client_op c)))
      (resolve_path ''/'' (snd (client_request (client_op c)))) (client_body c) w e = direct_call p d w e"
    using controlHandler_client[OF assms, of p w e] by (elim exE conjE)
  obtain a w' e' where r: "direct_call p d w e = (a, w', e')" by (rule prod_cases3)
  obtain m q where m: "client_request (client_op c) = (m, q)" by (cases "client_request (client_op c)")
  have "client_post (NewControlClient ''/'') line p c w e = (if a = HandlerPanic then Some ''EOF''
       else client_post_error line q (answer_status a) (read_message (answer_error_body a)), w', e')"
    using d(2) unfolding client_post_def NewControlClient_def control_client.simps m r fst_conv snd_conv by (simp only: Let_def prod.case)
  then show thesis
    by (intro that[OF d(1) r]) (simp only: m snd_conv)
qed

end
