(* ===== verification/Dtu_Main.thy ===== *)
theory Dtu_Main
  imports Dtu_Codec Dtu_Server
begin

text \<open>
  The command line program of \<open>cmd/dtu-github/main.go\<close>: its flags, the start of the server, the line that
  reports the URLs, and the shutdown on a signal.
\<close>

section \<open>Flags\<close>

record flag_values =
  fl_PublicAddress :: string
  fl_ControlAddress :: string
  fl_DataDir :: string
  fl_InitialTime :: string

definition flag_defaults :: flag_values where
  "flag_defaults = \<lparr>fl_PublicAddress = ''127.0.0.1:0'', fl_ControlAddress = ''127.0.0.1:0'', fl_DataDir = [],
     fl_InitialTime = []\<rparr>"

definition set_flag :: "string \<Rightarrow> string \<Rightarrow> flag_values \<Rightarrow> flag_values option" where
  "set_flag name v fl =
     (if name = ''public-address'' then Some (fl\<lparr>fl_PublicAddress := v\<rparr>)
      else if name = ''control-address'' then Some (fl\<lparr>fl_ControlAddress := v\<rparr>)
      else if name = ''data-dir'' then Some (fl\<lparr>fl_DataDir := v\<rparr>)
      else if name = ''initial-time'' then Some (fl\<lparr>fl_InitialTime := v\<rparr>)
      else None)"

text \<open>
  \<open>flag.Parse\<close>. An argument starts a flag with one or two dashes; the value follows an equals sign or is
  the next argument; the first argument that is no flag, or \<open>--\<close>, ends the flags.
\<close>

datatype flag_result = Parsed flag_values | FlagHelp | FlagError string

text \<open>The name and the value behind the first equals sign that is not the first character.\<close>

definition split_flag :: "string \<Rightarrow> string \<times> string option" where
  "split_flag s =
     (let name = hd s # takeWhile (\<lambda>c. c \<noteq> CHR ''='') (tl s);
          rest = dropWhile (\<lambda>c. c \<noteq> CHR ''='') (tl s)
      in (name, if rest = [] then None else Some (tl rest)))"

definition flag_body :: "string \<Rightarrow> string" where
  "flag_body s = (if has_prefix s ''--'' then drop 2 s else tl s)"

fun parse_flags :: "flag_values \<Rightarrow> string list \<Rightarrow> flag_result" where
  "parse_flags fl [] = Parsed fl"
| "parse_flags fl (s # args) =
     (if length s < 2 \<or> hd s \<noteq> CHR ''-'' \<or> s = ''--'' then Parsed fl
      else
      (let body = flag_body s in
       if body = [] \<or> hd body = CHR ''-'' \<or> hd body = CHR ''='' then FlagError (''bad flag syntax: '' @ s)
       else
       (let (name, value) = split_flag body in
        if set_flag name [] fl = None
        then (if name = ''help'' \<or> name = ''h'' then FlagHelp
              else FlagError (''flag provided but not defined: -'' @ name))
        else
        (case value of
           Some v \<Rightarrow> (case set_flag name v fl of Some fl' \<Rightarrow> parse_flags fl' args | None \<Rightarrow> Parsed fl)
         | None \<Rightarrow>
             (case args of
                [] \<Rightarrow> FlagError (''flag needs an argument: -'' @ name)
              | v # rest \<Rightarrow> (case set_flag name v fl of Some fl' \<Rightarrow> parse_flags fl' rest | None \<Rightarrow> Parsed fl))))))"

section \<open>Running\<close>

text \<open>
  The surroundings of the process besides the host: writing to standard output (an error is its text), the
  parser of RFC 3339 times, and the world when the signal arrives, after the requests served meanwhile.
\<close>

record 'e process =
  pr_host :: "'e host"
  pr_write :: "string \<Rightarrow> 'e \<Rightarrow> string option \<times> 'e"
  pr_parseTime :: "string \<Rightarrow> string + gotime"
  pr_signal :: "world \<Rightarrow> 'e \<Rightarrow> world \<times> 'e"

text \<open>The zero time, year 1, which \<open>Config\<close> reads as no time given; times count from the Unix epoch.\<close>

definition zero_time :: gotime where
  "zero_time = - 62135596800000000000"

definition ready_json :: "instance_runtime \<Rightarrow> json" where
  "ready_json inst = JObj [(''github_url'', JStr (in_GitHubURL inst)), (''git_url'', JStr (in_GitURL inst)),
     (''control_url'', JStr (in_ControlURL inst))]"

definition ready_line :: "instance_runtime \<Rightarrow> string" where
  "ready_line inst = marshal (ready_json inst) @ [CHR 0x0A]"

definition start_time :: "'e process \<Rightarrow> flag_values \<Rightarrow> 'e \<Rightarrow> (string + gotime) \<times> 'e" where
  "start_time pr fl e =
     (let (now, e1) = ho_now (pr_host pr) e
      in if fl_InitialTime fl \<noteq> []
         then (case pr_parseTime pr (fl_InitialTime fl) of
                 Inl err \<Rightarrow> (Inl (''parse initial time: '' @ err), e1)
               | Inr parsed \<Rightarrow> (Inr parsed, e1))
         else (Inr now, e1))"

definition run_config :: "flag_values \<Rightarrow> gotime \<Rightarrow> config" where
  "run_config fl now = \<lparr>cfg_PublicAddress = fl_PublicAddress fl, cfg_ControlAddress = fl_ControlAddress fl,
     cfg_DataDir = fl_DataDir fl, cfg_InitialTime = (if now = zero_time then None else Some now)\<rparr>"

text \<open>
  \<open>run\<close> after the flags: the errors it returns (none is success). \<open>later\<close> is the world that a forced stop
  reads, as in \<open>close\<close>.
\<close>

definition run :: "'e process \<Rightarrow> flag_values \<Rightarrow> (world \<Rightarrow> world) \<Rightarrow> 'e \<Rightarrow> string list \<times> 'e" where
  "run pr fl later e =
     (case start_time pr fl e of
        (Inl err, e1) \<Rightarrow> ([err], e1)
      | (Inr now, e1) \<Rightarrow>
      (case start (pr_host pr) (run_config fl now) e1 of
         (Inl err, e2) \<Rightarrow> ([err], e2)
       | (Inr inst, e2) \<Rightarrow>
      (case pr_write pr (ready_line inst) e2 of
         (Some err, e3) \<Rightarrow> ([err], e3)
       | (None, e3) \<Rightarrow>
           (let (w, e4) = pr_signal pr (in_world inst) e3;
                (errs, closed, e5) = close (pr_host pr) inst w (later w) e4
            in (errs, e5)))))"

text \<open>The exit status of the process: 2 for flags it does not understand, 1 for an error of \<open>run\<close>.\<close>

definition main :: "'e process \<Rightarrow> string list \<Rightarrow> (world \<Rightarrow> world) \<Rightarrow> 'e \<Rightarrow> nat \<times> 'e" where
  "main pr args later e =
     (case parse_flags flag_defaults args of
        FlagHelp \<Rightarrow> (0, e)
      | FlagError err \<Rightarrow> (2, e)
      | Parsed fl \<Rightarrow> (let (errs, e') = run pr fl later e in (if errs = [] then 0 else 1, e')))"

section \<open>Flags written out\<close>

definition flag_args :: "flag_values \<Rightarrow> string list" where
  "flag_args fl =
     [''--public-address='' @ fl_PublicAddress fl, ''--control-address='' @ fl_ControlAddress fl,
      ''--data-dir='' @ fl_DataDir fl, ''--initial-time='' @ fl_InitialTime fl]"

lemma split_flag_eq:
  assumes "name \<noteq> []" "CHR ''='' \<notin> set name"
  shows "split_flag (name @ CHR ''='' # v) = (name, Some v)"
proof -
  obtain c cs where n: "name = c # cs" using assms(1) by (cases name) auto
  with assms(2) have "takeWhile (\<lambda>c. c \<noteq> CHR ''='') (cs @ CHR ''='' # v) = cs"
    "dropWhile (\<lambda>c. c \<noteq> CHR ''='') (cs @ CHR ''='' # v) = CHR ''='' # v"
    by (auto simp: takeWhile_append dropWhile_append)
  with n show ?thesis by (simp add: split_flag_def)
qed

lemma parse_flag_eq:
  assumes "name \<noteq> []" "CHR ''='' \<notin> set name" "hd name \<noteq> CHR ''-''"
    and "set_flag name [] fl \<noteq> None" "set_flag name v fl = Some fl'"
  shows "parse_flags fl ((''--'' @ name @ CHR ''='' # v) # args) = parse_flags fl' args"
proof -
  have "flag_body (''--'' @ name @ CHR ''='' # v) = name @ CHR ''='' # v"
    by (simp add: flag_body_def has_prefix_def)
  moreover have "hd name \<noteq> CHR ''=''" using assms(1,2) by (cases name) auto
  moreover obtain y where "set_flag name [] fl = Some y" using assms(4) by blast
  ultimately show ?thesis
    using assms by (simp add: split_flag_eq Let_def)
qed

lemma parse_flag_args: "parse_flags fl0 (flag_args fl) = Parsed fl"
proof -
  have 1: "parse_flags f ((''--public-address='' @ v) # as) = parse_flags (f\<lparr>fl_PublicAddress := v\<rparr>) as" for f v as
    using parse_flag_eq[of "''public-address''"] by (simp add: set_flag_def)
  have 2: "parse_flags f ((''--control-address='' @ v) # as) = parse_flags (f\<lparr>fl_ControlAddress := v\<rparr>) as" for f v as
    using parse_flag_eq[of "''control-address''"] by (simp add: set_flag_def)
  have 3: "parse_flags f ((''--data-dir='' @ v) # as) = parse_flags (f\<lparr>fl_DataDir := v\<rparr>) as" for f v as
    using parse_flag_eq[of "''data-dir''"] by (simp add: set_flag_def)
  have 4: "parse_flags f ((''--initial-time='' @ v) # as) = parse_flags (f\<lparr>fl_InitialTime := v\<rparr>) as" for f v as
    using parse_flag_eq[of "''initial-time''"] by (simp add: set_flag_def)
  show ?thesis unfolding flag_args_def 1 2 3 4 by simp
qed

section \<open>The ready line\<close>

definition ready_fields :: "(string \<times> (string \<times> string \<times> string) field) list" where
  "ready_fields =
     [(''github_url'', str_field (\<lambda>x (a, b, c). (x, b, c))),
      (''git_url'', str_field (\<lambda>x (a, b, c). (a, x, c))),
      (''control_url'', str_field (\<lambda>x (a, b, c). (a, b, x)))]"

lemma ready_line_reads:
  "json_value (ready_line inst) = Some (view (ready_json inst), [CHR 0x0A])"
  "decode_struct True ready_fields (view (ready_json inst)) ([], [], []) =
     ((utf8_clean (in_GitHubURL inst), utf8_clean (in_GitURL inst), utf8_clean (in_ControlURL inst)), True)"
proof -
  show "json_value (ready_line inst) = Some (view (ready_json inst), [CHR 0x0A])"
    unfolding ready_line_def by (rule json_value_marshal) (simp add: ends_number_def is_digit_def)
  show "decode_struct True ready_fields (view (ready_json inst)) ([], [], []) =
     ((utf8_clean (in_GitHubURL inst), utf8_clean (in_GitURL inst), utf8_clean (in_ControlURL inst)), True)"
    by (simp add: codec_simps ready_json_def ready_fields_def)
qed

end
