(* ===== verification/Dtu_Interfaces.thy ===== *)
theory Dtu_Interfaces
  imports Dtu_Control_Client Dtu_Main Dtu_Session
begin

text \<open>
  The contracts at the edges of the program: the bytes of control requests, the Go client, the clock, the
  public wrapper, start and close, and the command line.
\<close>

section \<open>Bytes of control requests\<close>

text \<open>
  A body that \<open>decodeControl\<close> can accept: within the limit, one JSON object (or \<open>null\<close>) and nothing but white
  space after it.
\<close>

definition object_or_null :: "string \<Rightarrow> bool" where
  "object_or_null body \<longleftrightarrow>
     length body \<le> body_limit \<and>
     (case json_value body of
        None \<Rightarrow> False
      | Some (v, rest) \<Rightarrow> skip_ws rest = [] \<and> (case v of VNull \<Rightarrow> True | VObj ms \<Rightarrow> True | _ \<Rightarrow> False))"

lemma not_object_refused:
  assumes "\<not> object_or_null body"
  shows "decodeControl (read_control fs zero body) = Inl (writeControlError 400 ''invalid JSON'')"
proof (cases "length body \<le> body_limit")
  case True
  with assms show ?thesis
    by (auto simp: object_or_null_def read_control_def decodeControl_def decode_struct_def
        split: option.splits prod.splits jvalue.splits)
next
  case False
  then show ?thesis
    by (auto simp: read_control_def decodeControl_def split: option.split prod.split)
qed

text \<open>
  C18: A control request whose body is neither one JSON object nor \<open>null\<close>, within the size limit (a syntax error, a
  number, a string, a list, data after the value, a body that is too long), is refused with 400 by every handler
  that reads a body, before anything is done: the world and the surroundings are unchanged. A \<open>null\<close> leaves every
  field of the input at its zero value, as in Go, and is not refused for its form.
\<close>

theorem malformed_bodies_refused:
  assumes "\<not> object_or_null body" "ep \<noteq> EpGetState"
  shows "serve_endpoint p ep body w e = (Handled (writeControlError 400 ''invalid JSON''), w, e)"
  using assms(2)
  by (cases ep) (simp_all add: serve_endpoint_def handled_def handled_run_def control_step_def
      not_object_refused[OF assms(1)] createApp_def createInstallation_def createRepository_def createPullRequest_def
      changePullRequestState_def advanceTime_def configureWorkflow_def deliverEvent_def duplicateEvent_def
      transitionWorkflowRun_def executeWorkflowRun_def)

lemma demo_bad_body: "\<not> object_or_null (''{}'' @ ''{'')"
proof -
  have "json_value (''{}'' @ ''{'') = Some (VObj [], ''{'')"
    using json_value_marshal[of "''{''" "JObj []"] by (simp add: ends_number_def is_digit_def)
  then show ?thesis by (simp add: object_or_null_def)
qed

theorem malformed_bodies_refused_witness:
  "serve_endpoint demo_params EpCreateApp (''{}'' @ ''{'') demo_empty 0 =
     (Handled (writeControlError 400 ''invalid JSON''), demo_empty, 0)"
  by (rule malformed_bodies_refused[OF demo_bad_body]) simp

section \<open>The client\<close>

text \<open>
  C16: What the client sends is what the handler does. For every operation and every input whose texts are
  valid UTF-8 and whose encoding is within the size limit: the bytes that the client marshals, sent with its
  method to its path resolved against the reported control URL, are routed to the intended handler, decoded to
  the same input (up to the order of a map), and have exactly the effect and answer of calling that handler.
\<close>

theorem client_calls_handler:
  assumes "client_clean c" "length (client_body c) \<le> body_limit"
  shows "\<exists>d. same_call c d \<and> controlHandler p (fst (client_request (client_op c)))
    (resolve_path ''/'' (snd (client_request (client_op c)))) (client_body c) w e = direct_call p d w e"
  by (rule controlHandler_client[OF assms])

definition demo_duplicate :: client_call where
  "demo_duplicate = ClDuplicateEvent \<lparr>dei_GUID = ''g''\<rparr>"

lemma demo_duplicate_fits: "client_clean demo_duplicate" "length (client_body demo_duplicate) \<le> body_limit"
proof -
  have "utf8_valid ''g''" by (rule utf8_valid_ascii) simp
  then show "client_clean demo_duplicate" by (simp add: demo_duplicate_def duplicate_clean_def)
  have "client_body demo_duplicate = ''{\"guid\":\"g\"}''" by code_simp
  then show "length (client_body demo_duplicate) \<le> body_limit" by (simp add: body_limit_def)
qed

theorem client_calls_handler_witness:
  "controlHandler demo_params ''POST'' ''/events/duplicate'' (client_body demo_duplicate) demo_empty 0 =
     direct_call demo_params demo_duplicate demo_empty 0"
proof -
  have op: "client_op demo_duplicate = DuplicateEvent" by (simp add: demo_duplicate_def)
  have p: "resolve_path ''/'' ''events/duplicate'' = ''/events/duplicate''"
    using client_paths_plain[of DuplicateEvent] by simp
  have "same_call demo_duplicate d \<Longrightarrow> d = demo_duplicate" for d by (simp add: demo_duplicate_def)
  with client_calls_handler[OF demo_duplicate_fits, of demo_params demo_empty 0] show ?thesis
    unfolding op by (auto simp: p simp del: client_op.simps)
qed

text \<open>
  C17: The client tells the truth. In a well-formed world every call is answered (no handler panics); \<open>post\<close>
  returns no error exactly when the handler accepted the request, and for a rejection the error carries the
  path, the status and the message that the handler gave, read back from the bytes of the answer.
\<close>

theorem client_errors:
  assumes "world_ok w" "client_clean c" "length (client_body c) \<le> body_limit"
  shows "\<exists>d r w' e'. same_call c d \<and> direct_call p d w e = (Handled r, w', e') \<and>
    client_post (NewControlClient ''/'') line p c w e =
      (if rejected r
       then Some (''control '' @ snd (client_request (client_op c)) @ '' returned '' @ line (resp_status r) @ '': '' @
         utf8_clean (body_message (resp_body r)))
       else None, w', e')"
proof -
  obtain d a w' e' where d: "same_call c d" "direct_call p d w e = (a, w', e')"
    "client_post (NewControlClient ''/'') line p c w e = (if a = HandlerPanic then Some ''EOF''
       else client_post_error line (snd (client_request (client_op c))) (answer_status a)
         (read_message (answer_error_body a)), w', e')"
    using client_post_direct[OF assms(2,3)] by metis
  obtain r where r: "a = Handled r" using direct_call_handled[OF assms(1)] d(2) by (metis fst_conv)
  have "answered r" using direct_call_answered d(2) r by metis
  from post_error_handled[OF this] d r show ?thesis by (intro exI conjI) auto
qed

theorem client_errors_witness:
  "client_post (NewControlClient ''/'') dec_nat demo_params demo_duplicate demo_empty 0 =
     (Some (''control events/duplicate returned 404: unknown event''), demo_empty, 0)"
proof -
  have ok: "world_ok demo_empty" unfolding demo_empty_def by (rule initial_world_ok)
  have same: "same_call demo_duplicate d \<Longrightarrow> d = demo_duplicate" for d by (simp add: demo_duplicate_def)
  have op: "client_op demo_duplicate = DuplicateEvent" by (simp add: demo_duplicate_def)
  have "duplicateEvent (well_formed \<lparr>dei_GUID = ''g''\<rparr>) demo_empty = (writeControlError 404 ''unknown event'', demo_empty)"
    by (simp add: duplicateEvent_def findPendingEvent_def demo_empty_def initial_world_def)
  then have call: "direct_call demo_params demo_duplicate demo_empty 0 =
      (Handled (writeControlError 404 ''unknown event''), demo_empty, 0)"
    by (simp add: demo_duplicate_def handled_def control_step_def)
  have line: "dec_nat 404 = ''404''" "utf8_clean ''unknown event'' = ''unknown event''" by code_simp+
  obtain d r w' e' where d: "same_call demo_duplicate d" "direct_call demo_params d demo_empty 0 = (Handled r, w', e')"
    and post: "client_post (NewControlClient ''/'') dec_nat demo_params demo_duplicate demo_empty 0 =
      (if rejected r
       then Some (''control '' @ snd (client_request (client_op demo_duplicate)) @ '' returned '' @
         dec_nat (resp_status r) @ '': '' @ utf8_clean (body_message (resp_body r)))
       else None, w', e')"
    using client_errors[OF ok demo_duplicate_fits, of demo_params 0 dec_nat] by metis
  have "r = writeControlError 404 ''unknown event''" "w' = demo_empty" "e' = 0"
    using d(2) call unfolding same[OF d(1)] by simp_all
  with post line op show ?thesis by (simp add: body_message_def)
qed

section \<open>The clock\<close>

text \<open>
  C19: The clock moves by exactly the duration that was asked for. A text of whole numbers with units, in all
  less than 2^63 nanoseconds, moves it by their sum and is one mutation; one number of 2^63 nanoseconds or more
  does not fit a duration and is refused without effect; no request moves the clock back.
\<close>

theorem clock_advance:
  "(known_units ps \<and> ps \<noteq> [] \<and> duration_ns ps < 2 ^ 63 \<longrightarrow>
     advanceTime (well_formed \<lparr>ati_Duration = duration_text ps\<rparr>) w =
       (writeJSON 200 (PNow (w_now w + int (duration_ns ps))), bump (w\<lparr>w_now := w_now w + int (duration_ns ps)\<rparr>))) \<and>
   ((u, unit) \<in> set unit_map \<and> 2 ^ 63 \<le> n * unit \<longrightarrow>
     advanceTime (well_formed \<lparr>ati_Duration = dec_nat n @ u\<rparr>) w = (writeControlError 400 ''invalid duration'', w)) \<and>
   w_now w \<le> w_now (snd (advanceTime body w))"
proof (intro conjI impI)
  assume "known_units ps \<and> ps \<noteq> [] \<and> duration_ns ps < 2 ^ 63"
  then show "advanceTime (well_formed \<lparr>ati_Duration = duration_text ps\<rparr>) w =
      (writeJSON 200 (PNow (w_now w + int (duration_ns ps))), bump (w\<lparr>w_now := w_now w + int (duration_ns ps)\<rparr>))"
    by (simp add: advanceTime_def parse_duration_text sint_of_nat_small time_add_def Let_def)
next
  assume "(u, unit) \<in> set unit_map \<and> 2 ^ 63 \<le> n * unit"
  then show "advanceTime (well_formed \<lparr>ati_Duration = dec_nat n @ u\<rparr>) w = (writeControlError 400 ''invalid duration'', w)"
    using parse_duration_whole[of u unit n] by (simp add: advanceTime_def)
next
  show "w_now w \<le> w_now (snd (advanceTime body w))"
    by (auto simp: advanceTime_def Let_def time_add_def split: sum.split option.split)
qed

theorem clock_advance_witness:
  "advanceTime (well_formed \<lparr>ati_Duration = ''1h30m''\<rparr>) demo_empty =
     (writeJSON 200 (PNow 5400000000000), bump (demo_empty\<lparr>w_now := 5400000000000\<rparr>))"
proof -
  have t: "duration_text [(1, ''h''), (30, ''m'')] = ''1h30m''" by code_simp
  have u: "known_units [(1, ''h''), (30, ''m'')]" "duration_ns [(1, ''h''), (30, ''m'')] = 5400000000000"
    by (simp_all add: known_units_def duration_ns_def unit_map_def)
  have "w_now demo_empty = 0" by (simp add: demo_empty_def initial_world_def)
  with clock_advance[of "[(1, ''h''), (30, ''m'')]" demo_empty] show ?thesis unfolding t u(2) using u(1) by simp
qed

section \<open>The public wrapper\<close>

definition token_body_ok :: "(jvalue \<Rightarrow> bool) \<Rightarrow> string \<Rightarrow> bool" where
  "token_body_ok fits body \<longleftrightarrow>
     length body \<le> 2 ^ 20 \<and>
     (skip_ws body = [] \<or> (\<exists>v rest. json_value body = Some (v, rest) \<and> fits v \<and> skip_ws rest = []))"

lemma validate_body: "validateInstallationTokenBody fits body = None \<longleftrightarrow> token_body_ok fits body"
  by (auto simp: validateInstallationTokenBody_def token_body_ok_def split: option.split)

text \<open>The paths that hold a number, with the method that uses them; \<open>pre\<close> is the prefix of the API.\<close>

definition numbered_path :: "string \<Rightarrow> http_request \<Rightarrow> string \<Rightarrow> bool" where
  "numbered_path pre rq s \<longleftrightarrow>
     rq_Method rq = ''POST'' \<and> rq_Path rq = pre @ ''/app/installations/'' @ s @ ''/access_tokens'' \<or>
     (\<exists>owner name. CHR ''/'' \<notin> set owner \<and> CHR ''/'' \<notin> set name \<and>
        (rq_Method rq = ''GET'' \<and> rq_Path rq = pre @ ''/repos/'' @ owner @ ''/'' @ name @ ''/pulls/'' @ s \<or>
         rq_Method rq = ''POST'' \<and>
           rq_Path rq = pre @ ''/repos/'' @ owner @ ''/'' @ name @ ''/actions/runs/'' @ s @ ''/cancel''))"

lemma split_last: "CHR ''/'' \<notin> set s \<Longrightarrow> split_at CHR ''/'' s = [s]"
  by (induction s) auto

lemma token_path:
  assumes "pre = [] \<or> pre = ''/api/v3''" "CHR ''/'' \<notin> set s"
    and p: "rq_Path rq = pre @ ''/app/installations/'' @ s @ ''/access_tokens''"
  shows "restPathParts (rq_Path rq) = [''app'', ''installations'', s, ''access_tokens'']"
    and "\<not> isGitPath (path_parts rq)"
proof -
  have sp: "split_at CHR ''/'' (s @ ''/access_tokens'') = [s, ''access_tokens'']"
    using split_at_append[OF assms(2), of "''access_tokens''"] by simp
  show "restPathParts (rq_Path rq) = [''app'', ''installations'', s, ''access_tokens'']"
    using assms(1) sp by (auto simp: p restPathParts_def has_prefix_def trim_prefix_def)
  show "\<not> isGitPath (path_parts rq)"
    using assms(1) sp by (auto simp: p path_parts_def isGitPath_def has_prefix_def trim_prefix_def has_suffix_def)
qed

lemma repos_path:
  assumes "pre = [] \<or> pre = ''/api/v3''" "CHR ''/'' \<notin> set owner" "CHR ''/'' \<notin> set name"
    and p: "rq_Path rq = pre @ ''/repos/'' @ owner @ ''/'' @ name @ ''/'' @ rest"
    and long: "2 \<le> length (split_at CHR ''/'' rest)"
  shows "restPathParts (rq_Path rq) = [''repos'', owner, name] @ split_at CHR ''/'' rest"
    and "\<not> isGitPath (path_parts rq)"
proof -
  have sp: "split_at CHR ''/'' (owner @ ''/'' @ name @ ''/'' @ rest) = [owner, name] @ split_at CHR ''/'' rest"
    using split_at_append[OF assms(2), of "name @ ''/'' @ rest"] split_at_append[OF assms(3), of rest] by simp
  show "restPathParts (rq_Path rq) = [''repos'', owner, name] @ split_at CHR ''/'' rest"
    using assms(1) sp by (auto simp: p restPathParts_def has_prefix_def trim_prefix_def)
  show "\<not> isGitPath (path_parts rq)"
    using assms(1) sp long by (auto simp: p path_parts_def isGitPath_def has_prefix_def trim_prefix_def)
qed

lemma malformed_number:
  assumes pre: "pre = [] \<or> pre = ''/api/v3''" and s: "CHR ''/'' \<notin> set s" "parse_int64 s = None"
    and p: "numbered_path pre rq s"
  shows "hasMalformedNumericPath rq \<and> \<not> isGitPath (path_parts rq)"
proof -
  consider (token) "rq_Method rq = ''POST''" "rq_Path rq = pre @ ''/app/installations/'' @ s @ ''/access_tokens''"
    | (pull) owner name where "rq_Method rq = ''GET''" "CHR ''/'' \<notin> set owner" "CHR ''/'' \<notin> set name"
        "rq_Path rq = pre @ ''/repos/'' @ owner @ ''/'' @ name @ ''/'' @ (''pulls/'' @ s)"
    | (cancel) owner name where "rq_Method rq = ''POST''" "CHR ''/'' \<notin> set owner" "CHR ''/'' \<notin> set name"
        "rq_Path rq = pre @ ''/repos/'' @ owner @ ''/'' @ name @ ''/'' @ (''actions/runs/'' @ s @ ''/cancel'')"
    using p unfolding numbered_path_def by force
  then show ?thesis
  proof cases
    case token
    with token_path[OF pre s(1) token(2)] s(2) show ?thesis
      by (simp add: hasMalformedNumericPath_def is_token_path_def)
  next
    case pull
    have "split_at CHR ''/'' (''pulls/'' @ s) = [''pulls'', s]" using split_last[OF s(1)] by simp
    with repos_path[OF pre pull(2-4)] pull(1) s(2) show ?thesis by (simp add: hasMalformedNumericPath_def)
  next
    case cancel
    have "split_at CHR ''/'' (s @ ''/cancel'') = [s, ''cancel'']" using split_at_append[OF s(1), of "''cancel''"] by simp
    then have "split_at CHR ''/'' (''actions/runs/'' @ s @ ''/cancel'') = [''actions'', ''runs'', s, ''cancel'']" by simp
    with repos_path[OF pre cancel(2-4)] cancel(1) s(2) show ?thesis
      by (simp add: hasMalformedNumericPath_def is_token_path_def)
  qed
qed

text \<open>
  C20: What the public wrapper itself answers. On both path prefixes, whatever credential is sent: an
  installation, pull request or run that is not a decimal 64-bit number is a 404, and a token request with a body
  that is neither empty nor one JSON value fitting the options within the size limit is a 422, both with nothing
  done. When the router, given a request that passes these checks, ends by calling the callback it was given for
  unknown endpoints with it, one entry with its method and path at
  the time of the clock is added at the end of the log of unsupported requests, nothing else of what the router
  left changes, and the answer is a 404 with the header \<open>X-DTU-Unsupported\<close> and a message that names the request.
\<close>

theorem public_guards:
  assumes "pre = [] \<or> pre = ''/api/v3''" "CHR ''/'' \<notin> set s"
  shows "(parse_int64 s = None \<and> numbered_path pre rq s \<longrightarrow>
      publicHandler sys api rq w e = (PubError (writeError 404 ''Not Found''), w, e)) \<and>
    (rq_Method rq = ''POST'' \<and> rq_Path rq = pre @ ''/app/installations/'' @ s @ ''/access_tokens'' \<and>
       parse_int64 s \<noteq> None \<and> \<not> token_body_ok (api_options_fit api) (rq_Body rq) \<longrightarrow>
      publicHandler sys api rq w e = (PubError (writeError 422 ''Validation Failed''), w, e)) \<and>
    (\<not> isGitPath (path_parts rq) \<and> \<not> hasMalformedNumericPath rq \<and>
       (isInstallationTokenRequest rq \<longrightarrow> token_body_ok (api_options_fit api) (rq_Body rq)) \<and>
       api_serve api notFoundCallback rq (context_token rq w) (w, False) e = (b, notFoundCallback rq (w', False), e') \<longrightarrow>
      (\<exists>r. publicHandler sys api rq w e = (PubError r, w'\<lparr>w_unsupported := w_unsupported w' @
           [\<lparr>us_Method = rq_Method rq, us_Path = rq_Path rq, us_At = w_now w'\<rparr>]\<rparr>, e') \<and>
         resp_status r = 404 \<and> map_of (resp_headers r) ''X-DTU-Unsupported'' = Some ''true'' \<and>
         resp_body r = PError (''Unsupported endpoint: '' @ rq_Method rq @ '' '' @ rq_Path rq)
           ''https://docs.github.com/rest'' (dec_nat 404)))"
proof (intro conjI impI)
  assume "parse_int64 s = None \<and> numbered_path pre rq s"
  then have "hasMalformedNumericPath rq \<and> \<not> isGitPath (path_parts rq)"
    using malformed_number[OF assms(1,2)] by blast
  then show "publicHandler sys api rq w e = (PubError (writeError 404 ''Not Found''), w, e)"
    by (simp add: publicHandler_def Let_def)
next
  assume a: "rq_Method rq = ''POST'' \<and> rq_Path rq = pre @ ''/app/installations/'' @ s @ ''/access_tokens'' \<and>
    parse_int64 s \<noteq> None \<and> \<not> token_body_ok (api_options_fit api) (rq_Body rq)"
  then show "publicHandler sys api rq w e = (PubError (writeError 422 ''Validation Failed''), w, e)"
    using token_path[OF assms(1,2), of rq]
    by (auto simp: publicHandler_def hasMalformedNumericPath_def isInstallationTokenRequest_def is_token_path_def
        validate_body Let_def)
next
  assume a: "\<not> isGitPath (path_parts rq) \<and> \<not> hasMalformedNumericPath rq \<and>
    (isInstallationTokenRequest rq \<longrightarrow> token_body_ok (api_options_fit api) (rq_Body rq)) \<and>
    api_serve api notFoundCallback rq (context_token rq w) (w, False) e = (b, notFoundCallback rq (w', False), e')"
  then have "publicHandler sys api rq w e = (PubError (unsupported_response rq), recordUnsupported rq w', e')"
    by (auto simp: publicHandler_def Let_def validate_body notFoundCallback_def)
  then show "\<exists>r. publicHandler sys api rq w e = (PubError r, w'\<lparr>w_unsupported := w_unsupported w' @
           [\<lparr>us_Method = rq_Method rq, us_Path = rq_Path rq, us_At = w_now w'\<rparr>]\<rparr>, e') \<and>
         resp_status r = 404 \<and> map_of (resp_headers r) ''X-DTU-Unsupported'' = Some ''true'' \<and>
         resp_body r = PError (''Unsupported endpoint: '' @ rq_Method rq @ '' '' @ rq_Path rq)
           ''https://docs.github.com/rest'' (dec_nat 404)"
    by (intro exI[of _ "unsupported_response rq"])
      (simp add: recordUnsupported_def unsupported_response_def with_header_def writeError_def writeJSON_def)
qed

definition demo_api :: "nat api" where
  "demo_api = \<lparr>api_serve = (\<lambda>cb rq t x e. (rb_new, cb rq x, e)), api_options_fit = (\<lambda>v. True)\<rparr>"

definition demo_token_request :: http_request where
  "demo_token_request = \<lparr>rq_Method = ''POST'', rq_Path = ''/api/v3/app/installations/x/access_tokens'',
     rq_service = [], rq_RawQuery = [], rq_Authorization = [], rq_BasicAuth = None, rq_Body = []\<rparr>"

definition demo_unknown_request :: http_request where
  "demo_unknown_request = demo_token_request\<lparr>rq_Method := ''GET'', rq_Path := ''/zen''\<rparr>"

theorem public_guards_witness:
  "publicHandler demo_sys demo_api demo_token_request demo_empty 0 = (PubError (writeError 404 ''Not Found''), demo_empty, 0) \<and>
   w_unsupported (fst (snd (publicHandler demo_sys demo_api demo_unknown_request demo_empty 0))) =
     [\<lparr>us_Method = ''GET'', us_Path = ''/zen'', us_At = 0\<rparr>]"
proof
  have n: "parse_int64 ''x'' = None" by (simp add: parse_int64_def parse_uint_def digits_val_def digit_val_def)
  have "numbered_path ''/api/v3'' demo_token_request ''x''"
    by (simp add: numbered_path_def demo_token_request_def)
  moreover have x: "CHR ''/'' \<notin> set ''x''" by simp
  ultimately show "publicHandler demo_sys demo_api demo_token_request demo_empty 0 =
      (PubError (writeError 404 ''Not Found''), demo_empty, 0)"
    using n public_guards[OF disjI2[OF refl] x, of demo_token_request demo_sys demo_api demo_empty 0] by blast
  have guards: "\<not> isGitPath (path_parts demo_unknown_request)" "\<not> hasMalformedNumericPath demo_unknown_request"
    "\<not> isInstallationTokenRequest demo_unknown_request"
    by (simp_all add: demo_unknown_request_def isGitPath_def path_parts_def hasMalformedNumericPath_def
        isInstallationTokenRequest_def restPathParts_def trim_prefix_def has_prefix_def)
  have api: "api_serve demo_api notFoundCallback demo_unknown_request t (demo_empty, False) 0 =
      (rb_new, notFoundCallback demo_unknown_request (demo_empty, False), 0)" for t
    by (simp add: demo_api_def)
  have empty: "w_unsupported demo_empty = []" "w_now demo_empty = 0" by (simp_all add: demo_empty_def initial_world_def)
  have rq: "rq_Method demo_unknown_request = ''GET''" "rq_Path demo_unknown_request = ''/zen''"
    by (simp_all add: demo_unknown_request_def)
  obtain r where "publicHandler demo_sys demo_api demo_unknown_request demo_empty 0 =
      (PubError r, demo_empty\<lparr>w_unsupported := w_unsupported demo_empty @
         [\<lparr>us_Method = rq_Method demo_unknown_request, us_Path = rq_Path demo_unknown_request, us_At = w_now demo_empty\<rparr>]\<rparr>, 0)"
    using public_guards[of "[]" "[]" demo_unknown_request demo_sys demo_api demo_empty 0 rb_new demo_empty 0] guards api by auto
  then show "w_unsupported (fst (snd (publicHandler demo_sys demo_api demo_unknown_request demo_empty 0))) =
     [\<lparr>us_Method = ''GET'', us_Path = ''/zen'', us_At = 0\<rparr>]" by (simp add: empty rq)
qed

section \<open>Start and close\<close>

text \<open>What a successful \<open>Start\<close> gives, and how it ends when it fails.\<close>

lemma withConfigDefaults_time:
  "withConfigDefaults now c e = (c1, e0) \<Longrightarrow>
     cfg_DataDir c1 = cfg_DataDir c \<and>
     cfg_InitialTime c1 = Some (case cfg_InitialTime c of Some t \<Rightarrow> t | None \<Rightarrow> fst (now e))"
  by (auto simp: withConfigDefaults_def Let_def split: prod.splits if_splits)

lemma start_instance:
  assumes "start host c e = (Inr inst, e')"
  shows "in_removeDataDir inst \<longleftrightarrow> cfg_DataDir c = []" "cfg_DataDir c \<noteq> [] \<Longrightarrow> in_dataDir inst = cfg_DataDir c"
    and "in_closed inst = None"
    and "\<exists>backend. in_world inst = initial_world
      (case cfg_InitialTime c of Some t \<Rightarrow> t | None \<Rightarrow> fst (ho_now host e)) (in_dataDir inst) backend"
proof -
  obtain c1 e0 where c1: "withConfigDefaults (ho_now host) c e = (c1, e0)"
    by (cases "withConfigDefaults (ho_now host) c e")
  note t = withConfigDefaults_time[OF c1]
  have "\<exists>d rm x y. start_in host c1 d rm x = (Inr inst, y) \<and> (rm \<longleftrightarrow> cfg_DataDir c = []) \<and>
      (cfg_DataDir c \<noteq> [] \<longrightarrow> d = cfg_DataDir c)"
    using assms t by (auto simp: start_def c1 split: prod.splits sum.splits if_splits)
  then obtain d rm x y where s: "start_in host c1 d rm x = (Inr inst, y)" "rm \<longleftrightarrow> cfg_DataDir c = []"
    "cfg_DataDir c \<noteq> [] \<longrightarrow> d = cfg_DataDir c" by blast
  from start_in_instance[OF s(1)] s(2,3) t
  show "in_removeDataDir inst \<longleftrightarrow> cfg_DataDir c = []" "cfg_DataDir c \<noteq> [] \<Longrightarrow> in_dataDir inst = cfg_DataDir c"
    "in_closed inst = None" "\<exists>backend. in_world inst = initial_world
      (case cfg_InitialTime c of Some t \<Rightarrow> t | None \<Rightarrow> fst (ho_now host e)) (in_dataDir inst) backend"
    by auto
qed

lemma start_fails:
  assumes "start host c e = (Inl err, e')" "cfg_DataDir c = []"
  shows "\<exists>e1. case ho_mkdir_temp host ''dtu-github-'' e1 of
      (Inl why, e2) \<Rightarrow> e' = e2
    | (Inr dir, e2) \<Rightarrow> \<exists>e3. e' = snd (sys_remove_all (ho_sys host) dir e3)"
proof -
  obtain c1 e0 where c1: "withConfigDefaults (ho_now host) c e = (c1, e0)"
    by (cases "withConfigDefaults (ho_now host) c e")
  note dir = withConfigDefaults_time[OF c1, THEN conjunct1, unfolded assms(2)]
  obtain m e2 where m: "ho_mkdir_temp host ''dtu-github-'' e0 = (m, e2)"
    by (cases "ho_mkdir_temp host ''dtu-github-'' e0")
  show ?thesis
  proof (cases m)
    case (Inl why)
    with assms dir c1 m show ?thesis by (auto simp: start_def intro!: exI[of _ e0])
  next
    case (Inr d)
    obtain r e3 where r: "start_in host c1 d True e2 = (r, e3)" by (cases "start_in host c1 d True e2")
    with assms dir c1 m Inr have "e' = snd (sys_remove_all (ho_sys host) d e3)" by (cases r) (auto simp: start_def)
    with m Inr show ?thesis by (intro exI[of _ e0]) auto
  qed
qed

text \<open>
  C22: Starting. A started server has an empty world: no App, installation, repository, pull request, token,
  workflow, lock, run or claim, all logs empty, no mutation, the run counter at 1000 and the event counter at 0, in
  its data directory, with the clock at the configured time, or at the host's time when none is configured. It is
  open, and will remove its data directory exactly when it made it. When \<open>Start\<close> made a temporary directory and
  then failed, it removed that directory as its last act.
\<close>

theorem start_cleans_up:
  "case start host c e of
     (Inr inst, e') \<Rightarrow>
       (\<exists>backend. in_world inst =
          \<lparr>w_now = (case cfg_InitialTime c of Some t \<Rightarrow> t | None \<Rightarrow> fst (ho_now host e)),
           w_dataDir = in_dataDir inst, w_gitBackend = backend,
           w_apps = m_empty, w_installs = m_empty, w_repositories = m_empty, w_repoNames = m_empty,
           w_pulls = m_empty, w_tokens = m_empty, w_workflows = m_empty, w_receiveLocks = m_empty,
           w_workflowRuns = [], w_pendingEvents = [], w_observationErrors = [], w_deliveryAttempts = [],
           w_activeRuns = m_empty, w_nextRunID = 1000, w_nextEventID = 0, w_unsupported = [], w_mutations = 0\<rparr>) \<and>
       world_ok (in_world inst) \<and> in_closed inst = None \<and>
       (in_removeDataDir inst \<longleftrightarrow> cfg_DataDir c = []) \<and> (cfg_DataDir c \<noteq> [] \<longrightarrow> in_dataDir inst = cfg_DataDir c)
   | (Inl err, e') \<Rightarrow> cfg_DataDir c = [] \<longrightarrow>
       (\<exists>e1. case ho_mkdir_temp host ''dtu-github-'' e1 of
          (Inl why, e2) \<Rightarrow> e' = e2
        | (Inr dir, e2) \<Rightarrow> \<exists>e3. e' = snd (sys_remove_all (ho_sys host) dir e3))"
proof -
  obtain r e' where r: "start host c e = (r, e')" by (cases "start host c e")
  show ?thesis
  proof (cases r)
    case (Inl err)
    with r start_fails[of host c e err e'] show ?thesis by simp
  next
    case (Inr inst)
    note inst = start_instance[OF r[unfolded Inr]]
    obtain backend where w: "in_world inst = initial_world
        (case cfg_InitialTime c of Some t \<Rightarrow> t | None \<Rightarrow> fst (ho_now host e)) (in_dataDir inst) backend"
      using inst(4) by blast
    have "world_ok (in_world inst)" unfolding w by (rule initial_world_ok)
    with w[unfolded initial_world_def] inst(1-3) show ?thesis by (simp add: r Inr)
  qed
qed

text \<open>A host where every listener on port 1 fails.\<close>

definition demo_host :: "nat host" where
  "demo_host =
     \<lparr>ho_sys = demo_sys, ho_now = (\<lambda>e. (7, e)), ho_mkdir_temp = (\<lambda>pat e. (Inr ''/tmp/d'', e)),
      ho_stat = (\<lambda>path e. (None, e)),
      ho_listen = (\<lambda>addr e. (if addr = '':1'' then Inl ''denied'' else Inr ''127.0.0.1:80'', e)),
      ho_close_listener = (\<lambda>addr e. e), ho_serve = (\<lambda>side addr e. e),
      ho_shutdown = (\<lambda>side e. (None, e)), ho_close_server = (\<lambda>side e. e), ho_served = (\<lambda>e. (ErrServerClosed, e))\<rparr>"

theorem start_cleans_up_witness:
  "\<exists>inst. start demo_host \<lparr>cfg_PublicAddress = [], cfg_ControlAddress = [], cfg_DataDir = [], cfg_InitialTime = None\<rparr> 0
      = (Inr inst, 0) \<and> in_removeDataDir inst \<and> w_now (in_world inst) = 7 \<and> w_pendingEvents (in_world inst) = []"
proof -
  let ?c = "\<lparr>cfg_PublicAddress = [], cfg_ControlAddress = [], cfg_DataDir = [], cfg_InitialTime = None\<rparr>"
  obtain inst where s: "start demo_host ?c 0 = (Inr inst, 0)"
    by (simp add: start_def start_in_def withConfigDefaults_def demo_host_def Let_def)
  have "fst (ho_now demo_host 0) = 7" by (simp add: demo_host_def)
  with start_cleans_up[where host = demo_host and c = ?c and e = 0] s show ?thesis by auto
qed

lemma close_removes:
  assumes "close host r w later e = (errs, r', e')" "in_closed r = None" "in_removeDataDir r"
  shows "\<exists>e7. e' = snd (sys_remove_all (ho_sys host) (in_dataDir r) e7)"
  using assms by (auto simp: close_def close_body_def Let_def split: prod.splits)

lemma demo_started: "\<exists>inst. start demo_host \<lparr>cfg_PublicAddress = ''127.0.0.1:0'', cfg_ControlAddress = ''127.0.0.1:0'',
    cfg_DataDir = [], cfg_InitialTime = Some 7\<rparr> 0 = (Inr inst, 0) \<and> in_closed inst = None \<and>
    in_removeDataDir inst \<and> active_processes (in_world inst) = []"
  by (simp add: start_def start_in_def withConfigDefaults_def demo_host_def Let_def initial_world_def
      active_processes_def List.map_filter_def)

text \<open>
  C21: Closing happens once. Whatever the first \<open>Close\<close> returned, every later one returns the same errors and does
  nothing; the first one ends by removing the data directory if \<open>Start\<close> made it, and reports no error when both
  servers shut down and both \<open>Serve\<close> calls ended because of that.
\<close>

theorem close_once:
  assumes "close host r w later e = (errs, r', e')"
  shows "close host r' w2 later2 e2 = (errs, r', e2) \<and>
    (in_closed r = None \<longrightarrow>
      (in_removeDataDir r \<longrightarrow> (\<exists>e7. e' = snd (sys_remove_all (ho_sys host) (in_dataDir r) e7))) \<and>
      ((\<forall>side x. fst (ho_shutdown host side x) = None) \<and> (\<forall>x. fst (ho_served host x) = ErrServerClosed) \<longrightarrow> errs = []))"
proof (cases "in_closed r")
  case None
  then have body: "close_body host r w later e = (errs, e')" "r' = r\<lparr>in_closed := Some errs\<rparr>"
    using assms by (auto simp: close_def split: prod.splits)
  have "in_removeDataDir r \<longrightarrow> (\<exists>e7. e' = snd (sys_remove_all (ho_sys host) (in_dataDir r) e7))"
    using close_removes[OF assms None] by blast
  moreover have "errs = []" if sh: "\<forall>side x. fst (ho_shutdown host side x) = None" and se: "\<forall>x. fst (ho_served host x) = ErrServerClosed"
  proof -
    obtain f where f: "\<And>side x. ho_shutdown host side x = (None, f side x)"
    proof
      show "ho_shutdown host side x = (None, snd (ho_shutdown host side x))" for side x
        using sh by (metis prod.collapse)
    qed
    obtain g where g: "\<And>x. ho_served host x = (ErrServerClosed, g x)"
    proof
      show "ho_served host x = (ErrServerClosed, snd (ho_served host x))" for x
        using se by (metis prod.collapse)
    qed
    from body(1) show ?thesis
      by (simp add: close_body_def Let_def f g serve_result_def join_errors_def List.map_filter_def)
  qed
  ultimately show ?thesis using body(2) by (auto simp: close_def)
next
  case (Some errs0)
  with assms show ?thesis by (simp add: close_def)
qed

theorem close_once_witness:
  "\<exists>inst. in_closed inst = None \<and> (\<exists>r'. close demo_host inst (in_world inst) (in_world inst) 0 = ([], r', 0) \<and>
     close demo_host r' (in_world inst) (in_world inst) 0 = ([], r', 0))"
proof -
  obtain inst :: instance_runtime where inst: "in_closed inst = None" "active_processes (in_world inst) = []" using demo_started by blast
  then have c: "close demo_host inst (in_world inst) (in_world inst) 0 = ([], inst\<lparr>in_closed := Some []\<rparr>, 0)"
    by (simp add: close_def close_body_def Let_def stopActiveRuns_def demo_host_def serve_result_def join_errors_def
        List.map_filter_def)
  from close_once[OF c] c inst(1) show ?thesis by blast
qed

section \<open>The command line\<close>

text \<open>
  C23: The command as a whole. Given any configuration as \<open>--name=value\<close> arguments, when the time is read, the server
  starts and the ready line is written: the line is one JSON object from which the three URLs of the instance are
  read back; after the signal the process closes the instance and exits with 0 exactly when closing reported no
  error; and the data directory is removed last when none was given.
\<close>

theorem command_runs:
  assumes "start_time pr fl e = (Inr now, e1)" "start (pr_host pr) (run_config fl now) e1 = (Inr inst, e2)"
    and "pr_write pr (ready_line inst) e2 = (None, e3)" "pr_signal pr (in_world inst) e3 = (w, e4)"
  shows "(\<exists>v. json_value (ready_line inst) = Some (v, [CHR 0x0A]) \<and> decode_struct True ready_fields v ([], [], []) =
      ((utf8_clean (in_GitHubURL inst), utf8_clean (in_GitURL inst), utf8_clean (in_ControlURL inst)), True)) \<and>
    (\<exists>errs closed e5. close (pr_host pr) inst w (later w) e4 = (errs, closed, e5) \<and>
      main pr (flag_args fl) later e = (if errs = [] then 0 else 1, e5) \<and>
      (fl_DataDir fl = [] \<longrightarrow> (\<exists>e6. e5 = snd (sys_remove_all (ho_sys (pr_host pr)) (in_dataDir inst) e6))))"
proof (intro conjI)
  show "\<exists>v. json_value (ready_line inst) = Some (v, [CHR 0x0A]) \<and> decode_struct True ready_fields v ([], [], []) =
      ((utf8_clean (in_GitHubURL inst), utf8_clean (in_GitURL inst), utf8_clean (in_ControlURL inst)), True)"
    using ready_line_reads[of inst] by blast
  obtain errs closed e5 where c: "close (pr_host pr) inst w (later w) e4 = (errs, closed, e5)" by (rule prod_cases3)
  have "main pr (flag_args fl) later e = (if errs = [] then 0 else 1, e5)"
    using assms c by (simp add: main_def parse_flag_args run_def)
  moreover have "in_closed inst = None" "in_removeDataDir inst \<longleftrightarrow> fl_DataDir fl = []"
    using start_instance(1,3)[OF assms(2)] by (simp_all add: run_config_def)
  ultimately show "\<exists>errs closed e5. close (pr_host pr) inst w (later w) e4 = (errs, closed, e5) \<and>
      main pr (flag_args fl) later e = (if errs = [] then 0 else 1, e5) \<and>
      (fl_DataDir fl = [] \<longrightarrow> (\<exists>e6. e5 = snd (sys_remove_all (ho_sys (pr_host pr)) (in_dataDir inst) e6)))"
    using c close_removes[OF c] by blast
qed

definition demo_process :: "nat process" where
  "demo_process = \<lparr>pr_host = demo_host, pr_write = (\<lambda>s e. (None, e)), pr_parseTime = (\<lambda>s. Inl s),
     pr_signal = (\<lambda>w e. (w, e))\<rparr>"

theorem command_runs_witness: "fst (main demo_process (flag_args flag_defaults) (\<lambda>w. w) 0) = 0"
proof -
  obtain inst where inst: "start demo_host (run_config flag_defaults 7) 0 = (Inr inst, 0)" "in_closed inst = None"
    "active_processes (in_world inst) = []"
    using demo_started by (auto simp: run_config_def flag_defaults_def zero_time_def)
  have t: "start_time demo_process flag_defaults 0 = (Inr 7, 0)"
    by (simp add: start_time_def demo_process_def flag_defaults_def demo_host_def)
  have w: "pr_write demo_process (ready_line inst) 0 = (None, 0)" "pr_signal demo_process (in_world inst) 0 = (in_world inst, 0)"
    by (simp_all add: demo_process_def)
  have h: "pr_host demo_process = demo_host" by (simp add: demo_process_def)
  have "close demo_host inst (in_world inst) (in_world inst) 0 = ([], inst\<lparr>in_closed := Some []\<rparr>, 0)"
    using inst(2,3) by (simp add: close_def close_body_def Let_def stopActiveRuns_def demo_host_def serve_result_def
        join_errors_def List.map_filter_def)
  with command_runs[OF t _ w, unfolded h, OF inst(1), of "\<lambda>w. w"] show ?thesis by auto
qed

text \<open>
  Two ends of \<open>run\<close> that its comments and flag texts do not announce: when the ready line cannot be written, the
  process ends without closing the instance, so a temporary data directory stays; and the time of year 1 is read
  as no time at all, so the clock starts now.
\<close>

lemma write_failure_skips_close:
  assumes "start_time pr fl e = (Inr now, e1)" "start (pr_host pr) (run_config fl now) e1 = (Inr inst, e2)"
    and "pr_write pr (ready_line inst) e2 = (Some err, e3)"
  shows "run pr fl later e = ([err], e3)"
  using assms by (simp add: run_def)

lemma zero_time_ignored:
  assumes "fl_InitialTime fl \<noteq> []" "pr_parseTime pr (fl_InitialTime fl) = Inr zero_time"
  shows "\<exists>e1. start_time pr fl e = (Inr zero_time, e1) \<and> cfg_InitialTime (run_config fl zero_time) = None"
  using assms by (simp add: start_time_def run_config_def split: prod.split)

end
