(* ===== verification/Dtu_Progress.thy ===== *)
theory Dtu_Progress
  imports Dtu_Session
begin

text \<open>
  Progress of the handlers in flight: a measure of the sections that they have left, which every step
  of a handler lowers, and the step that some handler can always take. External operations (processes,
  the receiver) are taken to return, as they do in the step relation.
\<close>

section \<open>The work left\<close>

fun exec_work :: "exec_phase \<Rightarrow> nat" where
  "exec_work (Claimed c) = 3"
| "exec_work (Prepared c rc) = 2"
| "exec_work (Running c pid) = 1"
| "exec_work (Releasing c) = 1"
| "exec_work ExecPanicked = 0"

text \<open>A push still refreshes up to as many snapshots as there are pull requests.\<close>

fun push_work :: "nat \<Rightarrow> push_phase \<Rightarrow> nat" where
  "push_work n (Waiting g) = n + 5"
| "push_work n (Receiving g before) = n + 4"
| "push_work n (Recording g before after forced) = n + 3"
| "push_work n (Listing g) = n + 2"
| "push_work n (Refreshing g snaps) = length snaps + 1"
| "push_work n PushPanicked = 0"

fun delivery_work :: "delivery_phase \<Rightarrow> nat" where
  "delivery_work (Planned input d) = 2"
| "delivery_work (Answered d attempt) = 1"

definition work :: "'e server \<Rightarrow> nat" where
  "work s = sum_list (map exec_work (sv_execs s)) +
     sum_list (map (push_work (m_len (w_pulls (sv_world s)))) (sv_pushes s)) +
     sum_list (map delivery_work (sv_deliveries s))"

definition idle :: "'e server \<Rightarrow> bool" where
  "idle s \<longleftrightarrow> sv_execs s = [] \<and> sv_pushes s = [] \<and> sv_deliveries s = []"

lemma after_prepare_work: "exec_work (after_prepare c r) \<le> 2"
  by (cases r) simp_all

lemma after_start_work: "sum_list (map exec_work (after_start c r)) \<le> 1"
  by (cases r) simp_all

lemma after_finish_work [simp]: "sum_list (map exec_work (after_finish r)) = 0"
  by (cases r) simp_all

section \<open>Handlers leave the number of pull requests alone\<close>

lemma handled_pulls [simp]:
  "w_pulls (execute_release k w) = w_pulls w"
  "w_pulls (recordObservationError i op err w) = w_pulls w"
  "w_pulls (deliver_record a w) = w_pulls w"
  by (simp_all add: execute_release_def recordObservationError_def deliver_record_def)

lemma execute_start_pulls: "w_pulls (fst (snd (execute_start sys c rc w e))) = w_pulls w"
  by (simp add: execute_start_def Let_def event_appends split: prod.split sum.split)

lemma execute_finish_pulls: "w_pulls (snd (execute_finish c err logs w)) = w_pulls w"
  by (simp add: execute_finish_def Let_def event_appends)

lemma record_changes_pulls [simp]: "w_pulls (record_changes r t b a f w) = w_pulls w"
proof -
  have "w_pulls (fold (record_ref_change r t b a f) refs w) = w_pulls w" for refs
    by (induction refs arbitrary: w)
      (simp_all add: record_ref_change_def Let_def event_appends appendQueuedWorkflow_def split: option.split)
  then show ?thesis by (simp add: record_changes_def Let_def)
qed

lemma store_snapshot_pulls [simp]: "m_len (w_pulls (store_snapshot s base head w)) = m_len (w_pulls w)"
  by (simp add: store_snapshot_def Let_def gm.len_put split: option.split)

lemma pull_snapshots_le: "length (pull_snapshots k w) \<le> m_len (w_pulls w)"
  by (simp add: pull_snapshots_def m_len_def)

section \<open>Every step of a handler lowers the work left\<close>

lemma handler_step_work: "handler_step p s s' \<Longrightarrow> work s' < work s"
proof (induction rule: handler_step.induct)
  case (handle_start s xs c rc ys r w e)
  then show ?case using execute_start_pulls[of "pm_sys p" c rc "sv_world s" "sv_env s"]
      after_start_work[of c r] by (simp add: work_def)
next
  case (handle_finish s xs c pid ys err out e r w)
  then show ?case using execute_finish_pulls[of c err "log_header c @ out" "sv_world s"]
    by (simp add: work_def)
next
  case (handle_list s xs g ys)
  then show ?case using pull_snapshots_le[of "repo_id (gg_repository g)" "sv_world s"]
    by (simp add: work_def)
next
  case (handle_prepare s xs c ys r e)
  then show ?case using le_less_trans[OF after_prepare_work[of c r], of 3] by (simp add: work_def)
qed (simp_all add: work_def)

section \<open>Some handler can always go on\<close>

lemma exec_goes_on:
  assumes "sv_execs s = xs @ ph # ys" "ph \<noteq> ExecPanicked"
  shows "\<exists>s'. handler_step p s s'"
proof (cases ph)
  case (Claimed c)
  obtain r e where "execute_prepare (pm_sys p) (w_dataDir (sv_world s)) c (sv_env s) = (r, e)"
    by fastforce
  with assms Claimed show ?thesis by (blast intro: handle_prepare)
next
  case (Prepared c rc)
  obtain r w e where "execute_start (pm_sys p) c rc (sv_world s) (sv_env s) = (r, w, e)"
    using prod_cases3 by blast
  with assms Prepared show ?thesis by (blast intro: handle_start)
next
  case (Running c pid)
  obtain err out e where wait: "sys_wait (pm_sys p) pid (sv_env s) = ((err, out), e)"
    by (metis surj_pair)
  obtain r w where "execute_finish c err (log_header c @ out) (sv_world s) = (r, w)" by fastforce
  with assms Running wait show ?thesis by (blast intro: handle_finish)
next
  case (Releasing c)
  with assms show ?thesis by (blast intro: handle_release)
qed (use assms in simp)

text \<open>A push that holds its lock is never blocked.\<close>

lemma locked_push_goes_on:
  assumes s: "sv_pushes s = xs @ ph # ys" and locked: "push_locked ph \<noteq> None"
  shows "\<exists>s'. handler_step p s s'"
proof (cases ph)
  case (Receiving g before)
  let ?dir = "repo_gitDir (gg_repository g)"
  let ?cgi = "\<lambda>rq parts. snd (sys_cgi (pm_sys p) (git_cgi rq parts (gg_repository g) (sv_world s)) (sv_env s))"
  obtain rq parts r e1 where refs: "branchRefs (pm_sys p) ?dir (?cgi rq parts) = (r, e1)"
    by fastforce
  show ?thesis
  proof (cases r)
    case (Inl err)
    with s Receiving refs show ?thesis by (blast intro: handle_unconfirmed)
  next
    case (Inr after)
    obtain forced e2 where
      "forced_map (pm_sys p) ?dir before after (ref_names before after) m_empty e1 = (forced, e2)" by fastforce
    with s Receiving refs Inr show ?thesis by (blast intro: handle_received)
  qed
next
  case (Recording g before after forced)
  with s show ?thesis by (blast intro: handle_record)
next
  case (Listing g)
  with s show ?thesis by (blast intro: handle_list)
next
  case (Refreshing g snaps)
  show ?thesis
  proof (cases snaps)
    case Nil
    with s Refreshing show ?thesis by (blast intro: handle_pushed)
  next
    case (Cons snap rest)
    let ?dir = "repo_gitDir (gg_repository g)"
    obtain base e1 where base: "resolveRef (pm_sys p) ?dir (rs_baseRef snap) (sv_env s) = (base, e1)" by fastforce
    obtain head e2 where "resolveRef (pm_sys p) ?dir (rs_headRef snap) e1 = (head, e2)" by fastforce
    with s Refreshing Cons base show ?thesis by (blast intro: handle_refresh)
  qed
qed (use locked in simp_all)

lemma push_goes_on:
  assumes s: "sv_pushes s = xs @ ph # ys" and ph: "ph \<noteq> PushPanicked"
  shows "\<exists>s'. handler_step p s s'"
proof (cases "\<exists>q \<in> set (sv_pushes s). push_locked q \<noteq> None")
  case True
  then obtain q where q: "q \<in> set (sv_pushes s)" "push_locked q \<noteq> None" by blast
  from split_list[OF q(1)] obtain as bs where "sv_pushes s = as @ q # bs" by blast
  then show ?thesis by (rule locked_push_goes_on[OF _ q(2)])
next
  case False
  with s ph obtain g where g: "ph = Waiting g" by (cases ph) auto
  have free: "lock_available (xs @ ys) g"
    using False s by (auto simp: lock_available_def image_iff)
  obtain r e where refs: "branchRefs (pm_sys p) (repo_gitDir (gg_repository g)) (sv_env s) = (r, e)" by fastforce
  show ?thesis
  proof (cases "gg_lock g")
    case True
    with s g free refs show ?thesis by (cases r) (blast intro: handle_lock handle_lock_fails)+
  next
    case False
    with s g show ?thesis by (blast intro: handle_no_lock)
  qed
qed

lemma delivery_goes_on:
  assumes "sv_deliveries s = xs @ ph # ys"
  shows "\<exists>s'. handler_step p s s'"
proof (cases ph)
  case (Planned input d)
  obtain res e where "sys_post (pm_sys p) (outbound_request input d) (sv_env s) = (res, e)" by fastforce
  with assms Planned show ?thesis by (blast intro: handle_post)
next
  case (Answered d attempt)
  with assms show ?thesis by (blast intro: handle_delivered)
qed

text \<open>A reachable server that is stuck is idle: its handlers do not panic and the locks do not deadlock.\<close>

lemma server_ok_no_panic:
  "server_ok s \<Longrightarrow> ExecPanicked \<notin> set (sv_execs s) \<and> PushPanicked \<notin> set (sv_pushes s)"
  by (auto simp: server_ok_def execs_ok_def pushes_ok_def list_all_iff exec_ok_def push_ok_def)

lemma busy_goes_on:
  assumes ok: "server_ok s" and busy: "\<not> idle s"
  shows "\<exists>s'. handler_step p s s'"
proof -
  note np = server_ok_no_panic[OF ok]
  consider "sv_execs s \<noteq> []" | "sv_pushes s \<noteq> []" | "sv_deliveries s \<noteq> []"
    using busy by (auto simp: idle_def)
  then show ?thesis
  proof cases
    case 1
    then obtain ph ys where "sv_execs s = [] @ ph # ys" by (auto simp: neq_Nil_conv)
    with exec_goes_on[OF this] np show ?thesis by auto
  next
    case 2
    then obtain ph ys where "sv_pushes s = [] @ ph # ys" by (auto simp: neq_Nil_conv)
    with push_goes_on[OF this] np show ?thesis by auto
  next
    case 3
    then obtain ph ys where "sv_deliveries s = [] @ ph # ys" by (auto simp: neq_Nil_conv)
    then show ?thesis by (rule delivery_goes_on)
  qed
qed

interpretation handlers: progressing "handler_step p" server_ok work idle for p :: "'e params"
proof
  show "server_ok t" if "server_ok s" "handler_step p s t" for s t :: "'e server"
    using handler_step_ok[OF that(2,1)] by simp
qed (rule handler_step_work, assumption, rule busy_goes_on)

lemma idle_no_claims: "server_ok s \<Longrightarrow> idle s \<Longrightarrow> m_get (w_activeRuns (sv_world s)) k = None"
  by (simp add: server_ok_def execs_ok_def idle_def)

end
