(* ===== verification/Dtu_Outcomes.thy ===== *)
theory Dtu_Outcomes
  imports Dtu_Progress "HOL-Library.Multiset"
begin

text \<open>
  What the handlers in flight have done when they are through, in whatever order their sections ran: each
  delivery has left its attempt, each push has logged its branches, and no execution has left its run in
  progress. The lemmas say what one section of one handler contributes to that.
\<close>

section \<open>Deliveries\<close>

text \<open>The events that have been attempted or are being delivered, counted by their GUIDs.\<close>

definition delivery_guids :: "'e server \<Rightarrow> string multiset" where
  "delivery_guids s = image_mset da_GUID (mset (w_deliveryAttempts (sv_world s))) +
     image_mset (\<lambda>d. ev_GUID (dp_event (delivery_plan_of d))) (mset (sv_deliveries s))"

lemma quiet_attempts: "quiet w w' \<Longrightarrow> w_deliveryAttempts w' = w_deliveryAttempts w"
  by (simp add: quiet_def)

lemma release_attempts [simp]: "w_deliveryAttempts (execute_release k w) = w_deliveryAttempts w"
  by (simp add: execute_release_def)

lemma handler_step_delivery_guids:
  assumes step: "handler_step p s s'" and ok: "server_ok s"
  shows "delivery_guids s' = delivery_guids s"
  using step
proof cases
  case (handle_start xs c rc ys r w e)
  note fl = exec_in_flight[OF ok handle_start(2) phase_claim.simps(2)]
  from execute_start_claims(5)[OF server_ok_world[OF ok] fl(1) handle_start(3)] handle_start(1)
  show ?thesis by (simp add: delivery_guids_def)
next
  case (handle_finish xs c pid ys err out e r w)
  note fl = exec_in_flight[OF ok handle_finish(2) phase_claim.simps(3)]
  from execute_finish_claims(3)[OF server_ok_world[OF ok] fl(1) handle_finish(4)] handle_finish(1)
  show ?thesis by (simp add: delivery_guids_def)
next
  case (handle_delivered xs d attempt ys)
  have "delivery_ok (sv_world s) (Answered d attempt)"
    using ok handle_delivered(2) by (simp add: server_ok_def)
  with handle_delivered show ?thesis by (simp add: delivery_guids_def deliver_record_def delivery_ok_def)
qed (simp_all add: delivery_guids_def quiet_attempts[OF record_changes_quiet] quiet_attempts[OF small_sections_quiet(1)]
    quiet_attempts[OF small_sections_quiet(2)])

section \<open>Executions\<close>

text \<open>A run in progress that no execution has claimed: only a scripted transition makes one.\<close>

definition unattended :: "world \<Rightarrow> int64 \<Rightarrow> bool" where
  "unattended w k \<longleftrightarrow> m_get (w_activeRuns w) k = None \<and>
     (\<exists>i. first_run w k = Some i \<and> run_Status (w_workflowRuns w ! i) = ''in_progress'')"

lemma unattended_same:
  "w_workflowRuns w' = w_workflowRuns w \<Longrightarrow> w_activeRuns w' = w_activeRuns w \<Longrightarrow> unattended w' k = unattended w k"
  by (simp add: unattended_def)

text \<open>The section of an execution that writes its own run and claim.\<close>

lemma unattended_claimed:
  assumes ok: "world_ok w" and held: "claim_held w c q"
    and runs: "w_workflowRuns w' = (w_workflowRuns w)[cl_index c := run]" "run_ID run = run_ID (cl_run c)"
    and act: "\<And>h. h \<noteq> run_ID (cl_run c) \<Longrightarrow> m_get (w_activeRuns w') h = m_get (w_activeRuns w) h"
    and mine: "run_Status run = ''in_progress'' \<Longrightarrow> m_get (w_activeRuns w') (run_ID (cl_run c)) \<noteq> None"
    and un: "unattended w' k"
  shows "unattended w k"
proof -
  note st = claim_held_status[OF ok held]
  have "map run_ID (w_workflowRuns w') = map run_ID (w_workflowRuns w)"
    using st runs by (simp add: map_update_same)
  then have first: "first_run w' h = first_run w h" for h by (rule index_of_cong)
  have own: "first_run w (run_ID (cl_run c)) = Some (cl_index c)" using held by (simp add: claim_held_def)
  from un obtain i where i: "first_run w k = Some i" "run_Status (w_workflowRuns w' ! i) = ''in_progress''"
    "m_get (w_activeRuns w') k = None" by (auto simp: unattended_def first)
  have k: "k \<noteq> run_ID (cl_run c)" using i own mine runs(1) st(1) by auto
  then have "i \<noteq> cl_index c" using first_run_nth[OF i(1)] st(2) by auto
  with i k act runs(1) show ?thesis by (simp add: unattended_def)
qed

lemma unattended_start:
  assumes ok: "world_ok w" and held: "claim_held w c None" and r: "execute_start sys c rc w e = (r, w', e')"
    and un: "unattended w' k"
  shows "unattended w k"
proof -
  note st = claim_held_status[OF ok held]
  let ?x = "w_workflowRuns w ! cl_index c"
  have "w_workflowRuns w' = w_workflowRuns w \<or>
      w_workflowRuns w' = (w_workflowRuns w)[cl_index c := ?x\<lparr>run_Status := ''completed'', run_Conclusion := ''cancelled''\<rparr>] \<or>
      w_workflowRuns w' = (w_workflowRuns w)[cl_index c := ?x\<lparr>run_Status := ''in_progress''\<rparr>] \<and>
        m_get (w_activeRuns w') (run_ID (cl_run c)) \<noteq> None"
    using r unfolding execute_start_cases[OF ok held]
    by (auto simp: execute_release_def split: if_splits prod.splits sum.splits)
  then have "\<exists>run. w_workflowRuns w' = (w_workflowRuns w)[cl_index c := run] \<and> run_ID run = run_ID (cl_run c) \<and>
      (run_Status run = ''in_progress'' \<longrightarrow> m_get (w_activeRuns w') (run_ID (cl_run c)) \<noteq> None)"
  proof (elim disjE)
    assume "w_workflowRuns w' = w_workflowRuns w"
    with st show ?thesis by (intro exI[of _ ?x]) simp
  next
    assume "w_workflowRuns w' = (w_workflowRuns w)[cl_index c := ?x\<lparr>run_Status := ''completed'', run_Conclusion := ''cancelled''\<rparr>]"
    with st(2) show ?thesis by (intro exI conjI) (assumption, simp_all)
  next
    assume "w_workflowRuns w' = (w_workflowRuns w)[cl_index c := ?x\<lparr>run_Status := ''in_progress''\<rparr>] \<and>
        m_get (w_activeRuns w') (run_ID (cl_run c)) \<noteq> None"
    with st(2) show ?thesis by (intro exI[of _ "?x\<lparr>run_Status := ''in_progress''\<rparr>"]) simp
  qed
  then obtain run where "w_workflowRuns w' = (w_workflowRuns w)[cl_index c := run]" "run_ID run = run_ID (cl_run c)"
    "run_Status run = ''in_progress'' \<Longrightarrow> m_get (w_activeRuns w') (run_ID (cl_run c)) \<noteq> None" by blast
  from unattended_claimed[OF ok held this(1,2) execute_start_claims(1)[OF ok held r] this(3) un] show ?thesis .
qed

lemma unattended_finish:
  assumes ok: "world_ok w" and held: "claim_held w c q" and r: "execute_finish c err logs w = (r, w')"
    and un: "unattended w' k"
  shows "unattended w k"
proof -
  note st = claim_held_status[OF ok held]
  have "\<exists>run. w_workflowRuns w' = (w_workflowRuns w)[cl_index c := run] \<and> run_ID run = run_ID (cl_run c) \<and>
      run_Status run = ''completed''"
    using r st by (auto simp: execute_finish_def Let_def execute_release_def)
  then obtain run where run: "w_workflowRuns w' = (w_workflowRuns w)[cl_index c := run]" "run_ID run = run_ID (cl_run c)"
    "run_Status run = ''completed''" by blast
  show ?thesis
    by (rule unattended_claimed[OF ok held run(1,2) execute_finish_claims(1)[OF ok held r] _ un]) (use run(3) in simp_all)
qed

lemma unattended_release:
  assumes ok: "world_ok w" and held: "claim_held w c None" and un: "unattended (execute_release (run_ID (cl_run c)) w) k"
  shows "unattended w k"
proof -
  note st = claim_held_status[OF ok held]
  show ?thesis
    by (rule unattended_claimed[OF ok held _ st(2) _ _ un]) (simp_all add: execute_release_def st)
qed

text \<open>A push adds runs, all of them queued.\<close>

lemma index_of_append_None: "index_of P xs = None \<Longrightarrow> index_of P (xs @ ys) = map_option ((+) (length xs)) (index_of P ys)"
  by (cases "index_of P ys"; induction xs) (auto split: if_splits)

lemma unattended_new_run:
  assumes runs: "w_workflowRuns w' = w_workflowRuns w @ rs" "\<forall>run \<in> set rs. run_Status run = ''queued''"
    and act: "w_activeRuns w' = w_activeRuns w" and un: "unattended w' k"
  shows "unattended w k"
proof (cases "first_run w k")
  case None
  from un obtain i where i: "index_of (\<lambda>run. run_ID run = k) (w_workflowRuns w @ rs) = Some i"
    "run_Status ((w_workflowRuns w @ rs) ! i) = ''in_progress''" by (auto simp: unattended_def runs)
  with index_of_append_None[OF None] obtain j where j: "index_of (\<lambda>run. run_ID run = k) rs = Some j"
    "i = length (w_workflowRuns w) + j" by auto
  then have "rs ! j \<in> set rs" by (auto simp: index_of_Some)
  with i(2) j(2) runs(2) show ?thesis by auto
next
  case (Some i)
  then have "index_of (\<lambda>run. run_ID run = k) (w_workflowRuns w @ rs) = Some i" "i < length (w_workflowRuns w)"
    using index_of_append first_run_nth by blast+
  with un Some show ?thesis by (simp add: unattended_def runs act nth_append)
qed

lemma unattended_record:
  assumes "unattended (record_changes r t before after forced w) k"
  shows "unattended w k"
proof (rule unattended_new_run[OF _ _ _ assms])
  show "w_workflowRuns (record_changes r t before after forced w) =
      w_workflowRuns w @ pushed_runs w (w_nextRunID w + 1) r before after (ref_names before after)"
    using record_changes_log by blast
  have "\<forall>run \<in> set (pushed_runs w n r before after refs). run_Status run = ''queued''" for n refs
    by (induction refs) (auto simp: queued_run_def split: option.splits)
  then show "\<forall>run \<in> set (pushed_runs w (w_nextRunID w + 1) r before after (ref_names before after)).
      run_Status run = ''queued''" .
  have "w_activeRuns (fold (record_ref_change r t before after forced) refs w) = w_activeRuns w" for refs
    by (induction refs arbitrary: w)
      (simp_all add: record_ref_change_def Let_def event_appends appendQueuedWorkflow_def split: option.split)
  then show "w_activeRuns (record_changes r t before after forced w) = w_activeRuns w"
    by (simp add: record_changes_def Let_def)
qed

lemma handler_step_unattended:
  assumes step: "handler_step p s s'" and ok: "server_ok s" and un: "unattended (sv_world s') k"
  shows "unattended (sv_world s) k"
  using step
proof cases
  case (handle_release xs c ys)
  note fl = exec_in_flight[OF ok handle_release(2) phase_claim.simps(4)]
  from unattended_release[OF server_ok_world[OF ok] fl(1)] un handle_release(1) show ?thesis by simp
next
  case (handle_start xs c rc ys r w e)
  note fl = exec_in_flight[OF ok handle_start(2) phase_claim.simps(2)]
  from unattended_start[OF server_ok_world[OF ok] fl(1) handle_start(3)] un handle_start(1) show ?thesis by simp
next
  case (handle_finish xs c pid ys err out e r w)
  note fl = exec_in_flight[OF ok handle_finish(2) phase_claim.simps(3)]
  from unattended_finish[OF server_ok_world[OF ok] fl(1) handle_finish(4)] un handle_finish(1) show ?thesis by simp
next
  case (handle_record xs g before after forced ys)
  with un show ?thesis by (auto intro: unattended_record)
next
  case (handle_unconfirmed xs g before ys rq parts err e1)
  with un show ?thesis by (simp add: unattended_def recordObservationError_def)
next
  case (handle_refresh xs g snap snaps ys base e1 head e2)
  have "unattended (store_snapshot snap base head w) k = unattended w k" for w
    by (rule unattended_same) (simp_all add: store_snapshot_def Let_def split: option.split)
  with handle_refresh un show ?thesis by simp
next
  case (handle_delivered xs d attempt ys)
  with un show ?thesis by (simp add: unattended_def deliver_record_def)
qed (use un in simp_all)

section \<open>Pushes\<close>

text \<open>The push events of all changed branches are in the log.\<close>

definition branches_logged ::
    "world \<Rightarrow> repository \<Rightarrow> (string, string) gomap \<Rightarrow> (string, string) gomap \<Rightarrow> (string, bool) gomap \<Rightarrow> bool" where
  "branches_logged w r before after forced \<longleftrightarrow>
     (\<forall>ref. ref_changed before after ref \<longrightarrow>
        (\<exists>ev \<in> set (w_pendingEvents w). \<exists>app. event_label ev = (''push'', [], repo_id r, marshal (push_event_json
           (push_payload r app ref (m_get_or [] before ref) (m_get_or [] after ref) (m_get_or False forced ref))))))"

lemma branches_logged_evolves: "evolves w w' \<Longrightarrow> branches_logged w r b a f \<Longrightarrow> branches_logged w' r b a f"
  using evolves_events unfolding branches_logged_def by blast

lemma push_label_pushed:
  "ref \<in> set refs \<Longrightarrow> ref_changed b a ref \<Longrightarrow> push_label w r t b a f ref \<in> set (pushed_labels w n r t b a f refs)"
  by (induction refs) auto

lemma record_changes_logs: "branches_logged (record_changes r t before after forced w) r before after forced"
  unfolding branches_logged_def
proof (intro allI impI)
  fix ref
  assume c: "ref_changed before after ref"
  have "push_label w r t before after forced ref \<in>
      event_label ` set (w_pendingEvents (record_changes r t before after forced w))"
    using push_label_pushed[OF ref_changed_named[OF c] c] record_changes_log[of r t before after forced w]
    by (metis (no_types, lifting) UnCI set_append set_map)
  then show "\<exists>ev \<in> set (w_pendingEvents (record_changes r t before after forced w)). \<exists>app. event_label ev =
      (''push'', [], repo_id r, marshal (push_event_json (push_payload r app ref (m_get_or [] before ref)
        (m_get_or [] after ref) (m_get_or False forced ref))))"
    by (auto simp: push_label_def dest: sym)
qed

lemma handler_step_recording:
  assumes "handler_step p s s'" "Recording g before after forced \<in> set (sv_pushes s)"
  shows "Recording g before after forced \<in> set (sv_pushes s') \<or>
    branches_logged (sv_world s') (gg_repository g) before after forced"
  using assms
proof cases
  case (handle_record xs h b a f ys)
  with assms(2) show ?thesis using record_changes_logs by auto
qed (use assms(2) in auto)

section \<open>Many sections\<close>

text \<open>What a chain of sections of the handlers in flight keeps, from a state that satisfies the invariant.\<close>

lemma handlers_carry:
  assumes "(handler_step p ^^ n) s s'" "server_ok s"
  shows "server_ok s' \<and> evolves (sv_world s) (sv_world s') \<and> delivery_guids s' = delivery_guids s \<and>
    (\<forall>k. unattended (sv_world s') k \<longrightarrow> unattended (sv_world s) k) \<and>
    (\<forall>g b a f. Recording g b a f \<in> set (sv_pushes s) \<longrightarrow>
       Recording g b a f \<in> set (sv_pushes s') \<or> branches_logged (sv_world s') (gg_repository g) b a f)"
  using assms
proof (induction n arbitrary: s')
  case (Suc n)
  then obtain t where t: "(handler_step p ^^ n) s t" "handler_step p t s'" by auto
  note IH = Suc.IH[OF t(1) Suc.prems(2)]
  then have ok: "server_ok t" by blast
  note st = handler_step_ok[OF t(2) ok]
  have "Recording g b a f \<in> set (sv_pushes s') \<or> branches_logged (sv_world s') (gg_repository g) b a f"
    if "Recording g b a f \<in> set (sv_pushes s)" for g b a f
    using IH that handler_step_recording[OF t(2), of g b a f] branches_logged_evolves[of "sv_world t" "sv_world s'"] st
    by blast
  then show ?case
    using IH st handler_step_delivery_guids[OF t(2) ok] handler_step_unattended[OF t(2) ok] evolves_trans by metis
qed simp

text \<open>The run of an execution in flight, when no claim is left.\<close>

lemma execution_settled:
  assumes ok: "server_ok s" and ph: "ph \<in> set (sv_execs s)" "exec_key ph = Some k"
    and ok': "world_ok w'" and ev: "evolves (sv_world s) w'" and free: "m_get (w_activeRuns w') k = None"
    and un: "unattended w' k \<Longrightarrow> unattended (sv_world s) k"
  shows "\<exists>run \<in> set (w_workflowRuns w'). run_ID run = k \<and> run_Status run \<in> {''queued'', ''completed''} \<and>
    ((\<exists>c pid. ph = Running c pid) \<longrightarrow> run_Status run = ''completed'')"
proof -
  obtain c q where c: "phase_claim ph = Some (c, q)" "claim_held (sv_world s) c q"
    using ok ph(1) by (auto simp: server_ok_def execs_ok_def list_all_iff exec_ok_def)
  then have k: "run_ID (cl_run c) = k" using ph(2) by (simp add: exec_key_def)
  note st = claim_held_status[OF server_ok_world[OF ok] c(2)]
  have first: "first_run (sv_world s) k = Some (cl_index c)" "m_get (w_activeRuns (sv_world s)) k \<noteq> None"
    using c(2) k by (auto simp: claim_held_def)
  have grow: "runs_grow (w_workflowRuns (sv_world s)) (w_workflowRuns w')" using ev by (simp add: evolves_def)
  have first': "first_run w' k = Some (cl_index c)" by (rule runs_grow_index[OF grow first(1)])
  let ?run = "w_workflowRuns w' ! cl_index c"
  have in': "?run \<in> set (w_workflowRuns w')" "run_ID ?run = k" using first_run_nth[OF first'] by auto
  have "\<not> unattended w' k" using un first(2) by (auto simp: unattended_def)
  with first' free have "run_Status ?run \<noteq> ''in_progress''" by (simp add: unattended_def)
  with world_ok_run[OF ok' in'(1)] have s: "run_Status ?run \<in> {''queued'', ''completed''}" by (auto simp: run_ok_def)
  have "run_Status ?run = ''completed''" if "ph = Running d pid" for d pid
  proof -
    have "run_Status (w_workflowRuns (sv_world s) ! cl_index c) = ''in_progress''" using st(3) c(1) that by auto
    moreover have "run_evolves (w_workflowRuns (sv_world s) ! cl_index c) ?run" using grow st(1) by (simp add: runs_grow_def)
    ultimately have "1 \<le> status_rank (run_Status ?run)" by (simp add: run_evolves_def)
    with s show ?thesis by auto
  qed
  with in' s show ?thesis by blast
qed

text \<open>An idle server has no handler that could go on.\<close>

lemma idle_stuck: "idle s \<Longrightarrow> \<not> handler_step p s t"
  by (auto simp: idle_def elim: handler_step.cases)

end
