(* ===== verification/Dtu_Event_Origin.thy ===== *)
theory Dtu_Event_Origin
  imports Dtu_Safety
begin

text \<open>
  Whose events the log holds: the body of every event names, by its ID, an installation in the tables
  that belongs to the event's App, and the event's repository, which belongs to that installation. Every
  section of every handler keeps this, so it holds in all reachable states.
\<close>

section \<open>What a body names\<close>

definition names_id :: "(string \<times> jvalue) list \<Rightarrow> string \<Rightarrow> int64 \<Rightarrow> bool" where
  "names_id ms key k \<longleftrightarrow> (\<exists>fs. map_of ms key = Some (VObj fs) \<and> map_of fs ''id'' = Some (VNum (fmt_int64 k)))"

definition body_names :: "string \<Rightarrow> string \<Rightarrow> int64 \<Rightarrow> int64 \<Rightarrow> bool" where
  "body_names event body i rid \<longleftrightarrow>
     (\<exists>ms. json_value body = Some (VObj ms, []) \<and> names_id ms ''installation'' i \<and>
        (event = ''push'' \<or> event = ''workflow_run'' \<longrightarrow> names_id ms ''repository'' rid) \<and>
        (event = ''installation_repositories'' \<longrightarrow>
           (\<exists>fs. map_of ms ''repositories_added'' = Some (VArr [VObj fs]) \<and> map_of fs ''id'' = Some (VNum (fmt_int64 rid)))))"

lemma marshal_reads: "json_value (marshal j) = Some (view j, [])"
  using json_value_marshal[of "[]" j] by (simp add: ends_number_def)

lemma push_body_names:
  "body_names ''push'' (marshal (push_event_json p)) (evi_ID (pe_Installation p)) (evr_ID (pe_Repository p))"
proof -
  obtain ms where "view (push_event_json p) = VObj ms" "names_id ms ''installation'' (evi_ID (pe_Installation p))"
    "names_id ms ''repository'' (evr_ID (pe_Repository p))"
    by (simp add: push_event_json_def names_id_def event_repository_json_def event_installation_json_def fmt_int64_def)
  then show ?thesis by (simp add: body_names_def marshal_reads)
qed

lemma workflow_body_names:
  "body_names ''workflow_run'' (marshal (workflow_event_json p)) (evi_ID (we_Installation p)) (evr_ID (we_Repository p))"
proof -
  obtain ms where "view (workflow_event_json p) = VObj ms" "names_id ms ''installation'' (evi_ID (we_Installation p))"
    "names_id ms ''repository'' (evr_ID (we_Repository p))"
    by (simp add: workflow_event_json_def names_id_def event_repository_json_def event_installation_json_def fmt_int64_def)
  then show ?thesis by (simp add: body_names_def marshal_reads)
qed

lemma installation_body_names:
  "body_names ''installation'' (marshal (installation_event_json p)) (iei_ID (ie_Installation p)) rid"
proof -
  obtain ms where "view (installation_event_json p) = VObj ms" "names_id ms ''installation'' (iei_ID (ie_Installation p))"
    by (simp add: installation_event_json_def names_id_def installation_value_json_def fmt_int64_def)
  then show ?thesis by (simp add: body_names_def marshal_reads)
qed

lemma installation_repositories_body_names:
  assumes "ire_RepositoriesAdded p = [r]"
  shows "body_names ''installation_repositories'' (marshal (installation_repositories_json p))
    (iei_ID (ire_Installation p)) (ier_ID r)"
proof -
  obtain ms where "view (installation_repositories_json p) = VObj ms"
    "names_id ms ''installation'' (iei_ID (ire_Installation p))"
    "\<exists>fs. map_of ms ''repositories_added'' = Some (VArr [VObj fs]) \<and> map_of fs ''id'' = Some (VNum (fmt_int64 (ier_ID r)))"
    by (simp add: installation_repositories_json_def names_id_def installation_value_json_def assms
        installation_repository_json_def fmt_int64_def)
  then show ?thesis by (auto simp: body_names_def marshal_reads)
qed

section \<open>Events of known installations\<close>

text \<open>The installation is one of the App, and the repository (but for an installation event) one of it.\<close>

definition event_origin :: "world \<Rightarrow> pending_event \<Rightarrow> bool" where
  "event_origin w ev \<longleftrightarrow>
     (\<exists>i inst. body_names (ev_Event ev) (ev_Body ev) i (ev_RepositoryID ev) \<and>
        m_get (w_installs w) i = Some inst \<and> inst_appID inst = ev_AppID ev \<and>
        (ev_Event ev \<noteq> ''installation'' \<longrightarrow>
           (\<exists>r. m_get (w_repositories w) (ev_RepositoryID ev) = Some r \<and> repo_installationID r = i)))"

definition events_named :: "world \<Rightarrow> bool" where
  "events_named w \<longleftrightarrow> (\<forall>ev \<in> set (w_pendingEvents w). event_origin w ev)"

lemma event_origin_same:
  "w_installs w' = w_installs w \<Longrightarrow> w_repositories w' = w_repositories w \<Longrightarrow> event_origin w' ev = event_origin w ev"
  by (simp add: event_origin_def)

lemma events_named_same:
  "w_installs w' = w_installs w \<Longrightarrow> w_repositories w' = w_repositories w \<Longrightarrow>
     w_pendingEvents w' = w_pendingEvents w \<Longrightarrow> events_named w' = events_named w"
  by (simp add: events_named_def event_origin_def)

lemma event_origin_evolves:
  assumes "evolves w w'" "event_origin w ev"
  shows "event_origin w' ev"
proof -
  obtain i inst where o: "body_names (ev_Event ev) (ev_Body ev) i (ev_RepositoryID ev)"
    "m_get (w_installs w) i = Some inst" "inst_appID inst = ev_AppID ev"
    "ev_Event ev \<noteq> ''installation'' \<longrightarrow>
       (\<exists>r. m_get (w_repositories w) (ev_RepositoryID ev) = Some r \<and> repo_installationID r = i)"
    using assms(2) by (auto simp: event_origin_def)
  have t: "keeps (w_repositories w) (w_repositories w')" "keeps_by installation_grows (w_installs w) (w_installs w')"
    using assms(1) by (simp_all add: evolves_def tables_grow_def)
  obtain inst' where "m_get (w_installs w') i = Some inst'" "inst_appID inst' = ev_AppID ev"
    using t(2) o(2,3) unfolding keeps_by_def installation_grows_def by metis
  then show ?thesis using o(1,4) t(1) unfolding event_origin_def keeps_def by blast
qed

text \<open>A section keeps the named events, so only the events that it adds matter.\<close>

lemma events_named_step:
  assumes "events_named w" "evolves w w'"
    and "\<And>ev. ev \<in> set (w_pendingEvents w') \<Longrightarrow> ev \<notin> set (w_pendingEvents w) \<Longrightarrow> event_origin w' ev"
  shows "events_named w'"
  using assms event_origin_evolves unfolding events_named_def by blast

lemma events_named_no_new:
  "events_named w \<Longrightarrow> evolves w w' \<Longrightarrow> w_pendingEvents w' = w_pendingEvents w \<Longrightarrow> events_named w'"
  by (rule events_named_step) auto

section \<open>Appending events\<close>

text \<open>A repository whose installation is in the tables.\<close>

definition placed :: "world \<Rightarrow> repository \<Rightarrow> bool" where
  "placed w r \<longleftrightarrow> known_repository w r \<and> m_get (w_installs w) (repo_installationID r) \<noteq> None"

lemma known_placed: "world_ok w \<Longrightarrow> known_repository w r \<Longrightarrow> placed w r"
  using world_ok_repo_installation[of w "repo_id r" r] by (auto simp: placed_def known_repository_def)

lemma placed_same:
  "w_installs w' = w_installs w \<Longrightarrow> w_repositories w' = w_repositories w \<Longrightarrow> placed w' r = placed w r"
  by (simp add: placed_def known_repository_def)

lemma events_named_append:
  assumes "events_named w" "placed w r" "ev \<noteq> ''installation''"
    and "body_names ev (marshal p) (repo_installationID r) (repo_id r)"
  shows "events_named (appendPendingEvent ev act (repo_id r) p w)"
proof -
  obtain inst where inst: "m_get (w_installs w) (repo_installationID r) = Some inst" "m_get (w_repositories w) (repo_id r) = Some r"
    using assms(2) by (auto simp: placed_def known_repository_def)
  let ?app = "inst_appID inst"
  have ap: "appendPendingEvent ev act (repo_id r) p w = appendPendingAppEvent ev act ?app (repo_id r) p w"
    using inst by (simp add: appendPendingEvent_app)
  have "event_origin w' \<lparr>ev_GUID = g, ev_Event = ev, ev_Action = act, ev_AppID = ?app, ev_RepositoryID = repo_id r,
      ev_CreatedAt = t, ev_Body = marshal p\<rparr>" if "w_installs w' = w_installs w" "w_repositories w' = w_repositories w" for w' g t
    unfolding event_origin_def using assms(3,4) inst that by simp blast
  moreover have "event_origin (appendPendingAppEvent ev act ?app (repo_id r) p w) x" if "x \<in> set (w_pendingEvents w)" for x
    using assms(1) that by (simp add: events_named_def event_origin_def)
  ultimately show ?thesis by (simp add: ap events_named_def append_event_log)
qed

lemma events_named_workflow:
  "events_named w \<Longrightarrow> placed w r \<Longrightarrow> events_named (appendWorkflowEvent r run act w)"
  unfolding appendWorkflowEvent_def
  using workflow_body_names[of "workflow_payload r run act"]
  by (intro events_named_append) (simp_all add: workflow_payload_def event_repository_of_def)

lemma events_named_push:
  "events_named w \<Longrightarrow> placed w r \<Longrightarrow> events_named (appendPushEvent r i ref x y z w)"
  unfolding appendPushEvent_def
  using push_body_names[of "push_payload r i ref x y z"]
  by (intro events_named_append) (simp_all add: push_payload_def event_repository_of_def Let_def)

lemma events_named_queued:
  assumes "events_named w" "placed w r"
  shows "events_named (appendQueuedWorkflow r f ref sha w)"
proof -
  have "events_named (w\<lparr>w_nextRunID := n, w_workflowRuns := rs\<rparr>)" "placed (w\<lparr>w_nextRunID := n, w_workflowRuns := rs\<rparr>) r" for n rs
    using assms events_named_same[of "w\<lparr>w_nextRunID := n, w_workflowRuns := rs\<rparr>" w]
      placed_same[of "w\<lparr>w_nextRunID := n, w_workflowRuns := rs\<rparr>" w] by simp_all
  then show ?thesis by (simp add: appendQueuedWorkflow_def Let_def events_named_workflow)
qed

lemma events_named_bump [simp]: "events_named (bump w) = events_named w"
  by (rule events_named_same) simp_all

section \<open>Every section\<close>

lemma events_named_run:
  assumes "events_named w" "placed w r"
  shows "events_named (appendWorkflowEvent r run act (w\<lparr>w_workflowRuns := rs, w_activeRuns := m\<rparr>))"
    and "events_named (appendWorkflowEvent r run act (w\<lparr>w_workflowRuns := rs\<rparr>))"
proof -
  let ?a = "w\<lparr>w_workflowRuns := rs, w_activeRuns := m\<rparr>" and ?b = "w\<lparr>w_workflowRuns := rs\<rparr>"
  have "events_named ?a" "placed ?a r" "events_named ?b" "placed ?b r"
    using assms events_named_same[of ?a w] placed_same[of ?a w] events_named_same[of ?b w] placed_same[of ?b w] by simp_all
  then show "events_named (appendWorkflowEvent r run act ?a)" "events_named (appendWorkflowEvent r run act ?b)"
    by (simp_all add: events_named_workflow)
qed

lemma record_changes_named:
  assumes "events_named w" "placed w r"
  shows "events_named (record_changes r t b a f w)"
proof -
  have one: "events_named (record_ref_change r t b a f ref w) \<and> placed (record_ref_change r t b a f ref w) r"
    if "events_named w" "placed w r" for ref w
  proof
    have p: "placed (appendPushEvent r i ref x y z w) r" for i x y z
      using that placed_same[of "appendPushEvent r i ref x y z w" w] by (simp add: event_appends)
    show "events_named (record_ref_change r t b a f ref w)"
      using that p by (auto simp: record_ref_change_def Let_def events_named_push events_named_queued split: option.split)
    show "placed (record_ref_change r t b a f ref w) r"
      using that placed_same[of "record_ref_change r t b a f ref w" w] by simp
  qed
  have "events_named (fold (record_ref_change r t b a f) refs w)" for refs
    using assms by (induction refs arbitrary: w) (simp_all add: one)
  then show ?thesis by (simp add: record_changes_def Let_def)
qed

lemma execute_start_named:
  assumes ok: "world_ok w" and held: "claim_held w c None" and n: "events_named w"
    and r: "execute_start sys c rc w e = (r, w', e')"
  shows "events_named w'"
proof -
  have pl: "placed w (cl_repository c)" using known_placed[OF ok] held by (simp add: claim_held_def)
  have "events_named (execute_release k w)" for k
    using n events_named_same[of "execute_release k w" w] by (simp add: execute_release_def)
  with r n pl show ?thesis
    unfolding execute_start_cases[OF ok held]
    by (auto simp: events_named_run split: if_splits prod.splits sum.splits)
qed

lemma execute_finish_named:
  assumes ok: "world_ok w" and held: "claim_held w c q" and n: "events_named w"
    and r: "execute_finish c err logs w = (r, w')"
  shows "events_named w'"
proof -
  have pl: "placed w (cl_repository c)" using known_placed[OF ok] held by (simp add: claim_held_def)
  show ?thesis
    using r claim_held_status(1)[OF ok held] events_named_run(1)[OF n pl]
    by (auto simp: execute_finish_def Let_def execute_release_def put_runs_active)
qed

lemma createInstallation_named:
  assumes ok: "world_ok w" and n: "events_named w"
  shows "events_named (snd (createInstallation b w))"
proof (rule events_named_step[OF n createInstallation_evolves[OF ok]])
  fix ev
  assume new: "ev \<in> set (w_pendingEvents (snd (createInstallation b w)))" "ev \<notin> set (w_pendingEvents w)"
  then obtain input where w': "snd (createInstallation b w) = bump (appendInstallationEvent (new_installation input) ''created''
      (w\<lparr>w_installs := m_put (ii_ID input) (new_installation input) (w_installs w)\<rparr>))"
    by (auto simp: createInstallation_def Let_def split: sum.splits option.splits if_splits)
  let ?i = "new_installation input"
  have id: "inst_id ?i = ii_ID input" by (simp add: new_installation_def)
  from new w' have ev: "ev_Event ev = ''installation''" "ev_AppID ev = inst_appID ?i"
      "ev_Body ev = marshal (installation_event_json
         \<lparr>ie_Action = ''created'', ie_Installation = installationEventValue ?i, ie_Sender = installationSender ?i\<rparr>)"
    by (auto simp: event_appends append_event_log)
  from ev(3) installation_body_names[of "\<lparr>ie_Action = ''created'', ie_Installation = installationEventValue ?i,
      ie_Sender = installationSender ?i\<rparr>" "ev_RepositoryID ev"]
  have "body_names ''installation'' (ev_Body ev) (ii_ID input) (ev_RepositoryID ev)"
    by (simp add: installationEventValue_def id)
  with ev(1,2) show "event_origin (snd (createInstallation b w)) ev"
    unfolding event_origin_def w' by (intro exI[of _ "ii_ID input"] exI[of _ ?i]) (simp add: event_appends)
qed

lemma createRepository_world:
  "fst (snd (createRepository sys b w e)) = w \<or>
     (\<exists>r i. fst (snd (createRepository sys b w e)) = bump (add_repository r i w) \<and>
        m_get (w_installs w) (repo_installationID r) = Some i)"
  by (auto simp: createRepository_def Let_def intro!: exI conjI refl split: sum.split option.split prod.split)

lemma createRepository_named:
  assumes ok: "world_ok w" and n: "events_named w"
  shows "events_named (fst (snd (createRepository sys b w e)))"
proof (rule events_named_step[OF n createRepository_evolves])
  let ?w = "fst (snd (createRepository sys b w e))"
  fix ev
  assume new: "ev \<in> set (w_pendingEvents ?w)" "ev \<notin> set (w_pendingEvents w)"
  then obtain r i where inst: "m_get (w_installs w) (repo_installationID r) = Some i"
    and w': "?w = bump (add_repository r i w)"
    using createRepository_world[of sys b w e] by auto
  let ?i = "i\<lparr>inst_repositoryIDs := m_put (repo_id r) () (inst_repositoryIDs i)\<rparr>"
  have id: "inst_id i = repo_installationID r" using world_ok_installation[OF ok inst] by simp
  from new w' have ev: "ev_Event ev = ''installation_repositories''" "ev_AppID ev = inst_appID i" "ev_RepositoryID ev = repo_id r"
      "ev_Body ev = marshal (installation_repositories_json
         \<lparr>ire_Action = ''added'', ire_Installation = installationEventValue ?i,
          ire_RepositoriesAdded = [installationRepositoryValue ?i r], ire_RepositoriesRemoved = [],
          ire_Sender = installationSender ?i\<rparr>)"
    by (auto simp: add_repository_def Let_def event_appends append_event_log split: if_splits)
  have "body_names ''installation_repositories'' (ev_Body ev) (repo_installationID r) (repo_id r)"
    using installation_repositories_body_names[of "\<lparr>ire_Action = ''added'', ire_Installation = installationEventValue ?i,
          ire_RepositoriesAdded = [installationRepositoryValue ?i r], ire_RepositoriesRemoved = [],
          ire_Sender = installationSender ?i\<rparr>" "installationRepositoryValue ?i r"]
    by (simp add: ev(4) id installationEventValue_def installationRepositoryValue_def Let_def)
  then show "event_origin ?w ev"
    unfolding event_origin_def w' by (simp add: ev(1-3) add_repository_def Let_def event_appends)
qed

lemma duplicateEvent_named:
  assumes n: "events_named w"
  shows "events_named (snd (duplicateEvent b w))"
proof (rule events_named_step[OF n duplicateEvent_evolves])
  fix ev
  assume new: "ev \<in> set (w_pendingEvents (snd (duplicateEvent b w)))" "ev \<notin> set (w_pendingEvents w)"
  then obtain src g t h where find: "findPendingEvent w h = Some src" and src: "ev = src\<lparr>ev_GUID := g, ev_CreatedAt := t\<rparr>"
    and w': "w_installs (snd (duplicateEvent b w)) = w_installs w" "w_repositories (snd (duplicateEvent b w)) = w_repositories w"
    by (auto simp: duplicateEvent_def Let_def split: sum.splits option.splits)
  have "src \<in> set (w_pendingEvents w)" using find by (auto simp: findPendingEvent_def find_Some_iff)
  with n src w' show "event_origin (snd (duplicateEvent b w)) ev" by (simp add: events_named_def event_origin_def)
qed

lemma transitionWorkflowRun_named:
  assumes ok: "world_ok w" and n: "events_named w"
  shows "events_named (snd (transitionWorkflowRun b w))"
proof -
  have "placed w (m_get_or zero_repository (w_repositories w) (run_RepositoryID (w_workflowRuns w ! i)))"
    if i: "index_of P (w_workflowRuns w) = Some i" for i P
  proof -
    have "run_ok w (w_workflowRuns w ! i)" using world_ok_run[OF ok] i by (simp add: index_of_Some)
    then obtain r where r: "m_get (w_repositories w) (run_RepositoryID (w_workflowRuns w ! i)) = Some r"
      by (auto simp: run_ok_def)
    with world_ok_repository[OF ok r] known_placed[OF ok, of r] show ?thesis
      by (simp add: repository_ok_def known_repository_def)
  qed
  with n show ?thesis
    by (auto simp: transitionWorkflowRun_def Let_def events_named_run split: sum.split option.split)
qed

lemma control_step_named:
  assumes ok: "world_ok w" and n: "events_named w"
  shows "events_named (fst (snd (control_step p call w e)))"
proof -
  note keep = events_named_no_new[OF n control_step_evolves[OF ok, of p call e]]
  show ?thesis
  proof (cases call)
    case (CallCreateInstallation b)
    with createInstallation_named[OF ok n, of b] show ?thesis
      by (cases "createInstallation b w") (simp add: control_step_def)
  next
    case (CallCreateRepository b)
    with createRepository_named[OF ok n] show ?thesis by (simp add: control_step_def)
  next
    case (CallDuplicateEvent b)
    with duplicateEvent_named[OF n, of b] show ?thesis
      by (cases "duplicateEvent b w") (simp add: control_step_def)
  next
    case (CallTransitionWorkflowRun b)
    with transitionWorkflowRun_named[OF ok n, of b] show ?thesis
      by (cases "transitionWorkflowRun b w") (simp add: control_step_def)
  next
    case (CallCreateApp b)
    then show ?thesis
      by (intro keep) (auto simp: control_step_def createApp_def split: sum.split option.split public_key.split)
  next
    case (CallCreatePullRequest b)
    then show ?thesis
      by (intro keep) (auto simp: control_step_def createPullRequest_def Let_def split: sum.split option.split prod.split)
  next
    case (CallChangePullRequestState b)
    then show ?thesis
      by (intro keep) (auto simp: control_step_def changePullRequestState_def Let_def split: sum.split option.split)
  next
    case (CallAdvanceTime b)
    then show ?thesis
      by (intro keep) (auto simp: control_step_def advanceTime_def Let_def split: sum.split option.split)
  next
    case (CallConfigureWorkflow b)
    then show ?thesis
      by (intro keep) (auto simp: control_step_def configureWorkflow_def Let_def split: sum.split prod.split)
  next
    case CallGetState
    with n show ?thesis by (simp add: control_step_def)
  qed
qed

section \<open>Every step\<close>

lemma handler_step_named:
  assumes step: "handler_step p s s'" and ok: "server_ok s" and n: "events_named (sv_world s)"
  shows "events_named (sv_world s')"
  using step
proof cases
  case (handle_start xs c rc ys r w e)
  note fl = exec_in_flight[OF ok handle_start(2) phase_claim.simps(2)]
  from execute_start_named[OF server_ok_world[OF ok] fl(1) n handle_start(3)] handle_start(1) show ?thesis by simp
next
  case (handle_finish xs c pid ys err out e r w)
  note fl = exec_in_flight[OF ok handle_finish(2) phase_claim.simps(3)]
  from execute_finish_named[OF server_ok_world[OF ok] fl(1) n handle_finish(4)] handle_finish(1) show ?thesis by simp
next
  case (handle_record xs g before after forced ys)
  have "placed (sv_world s) (gg_repository g)"
    using push_in_flight(1)[OF ok handle_record(2)] known_placed[OF server_ok_world[OF ok]] by simp
  with handle_record n show ?thesis by (simp add: record_changes_named)
next
  case (handle_release xs c ys)
  with n show ?thesis by (simp add: execute_release_def events_named_def event_origin_def)
next
  case (handle_unconfirmed xs g before ys rq parts err e1)
  with n show ?thesis by (simp add: recordObservationError_def events_named_def event_origin_def)
next
  case (handle_refresh xs g snap snaps ys base e1 head e2)
  have "events_named (store_snapshot snap base head w) = events_named w" for w
    by (rule events_named_same) (simp_all add: store_snapshot_def Let_def split: option.split)
  with handle_refresh n show ?thesis by simp
next
  case (handle_delivered xs d attempt ys)
  with n show ?thesis by (simp add: deliver_record_def events_named_def event_origin_def)
qed (use n in simp_all)

lemma server_step_named:
  assumes step: "server_step p s s'" and ok: "server_ok s" and n: "events_named (sv_world s)"
  shows "events_named (sv_world s')"
  using step
proof cases
  case (step_control call r w e)
  with control_step_named[OF server_ok_world[OF ok] n, of p call "sv_env s"] show ?thesis by simp
next
  case (step_mint appID iid opts r w e)
  have "w_pendingEvents w = w_pendingEvents (sv_world s)" "evolves (sv_world s) w"
    using step_mint(2) mint_token_evolves[of "sv_world s" "pm_known p" "pm_sys p" appID iid opts "sv_env s"]
    by (auto simp: mint_token_def Let_def split: option.splits prod.splits if_splits)
  with step_mint(1) events_named_no_new[OF n] show ?thesis by simp
next
  case (step_cancel auth owner name k r w e)
  have "w_pendingEvents w = w_pendingEvents (sv_world s)" "evolves (sv_world s) w"
    using step_cancel(2) CancelWorkflowRunByID_evolves[of "sv_world s" "pm_sys p" auth owner name k "sv_env s"]
    by (auto simp: CancelWorkflowRunByID_def Let_def split: option.splits prod.splits if_splits)
  with step_cancel(1) events_named_no_new[OF n] show ?thesis by simp
next
  case (step_unsupported rq)
  with n show ?thesis by (simp add: recordUnsupported_def events_named_def event_origin_def)
next
  case (step_claim k c w)
  with execute_claim_world(1)[OF step_claim(2)] n show ?thesis by (simp add: events_named_def event_origin_def)
next
  case step_handler
  with handler_step_named[OF _ ok n] show ?thesis by blast
qed (use n in simp_all)

lemma reachable_named: "reachable p s \<Longrightarrow> events_named (sv_world s)"
proof -
  assume "reachable p s"
  then have "server_ok s \<and> events_named (sv_world s)"
  proof (rule dtu.invariant)
    fix s :: "'a server"
    assume "server_init p s"
    then show "server_ok s \<and> events_named (sv_world s)"
      using server_init_ok by (auto simp: server_init_def initial_world_def events_named_def)
  qed (use server_step_ok server_step_named in blast)
  then show ?thesis ..
qed

text \<open>What the body of a logged event says, together with the type of the event.\<close>

lemma named_event_reads:
  assumes "typed_event ev" "event_origin w ev"
  shows "\<exists>ms i inst. json_value (ev_Body ev) = Some (VObj ms, []) \<and> names_id ms ''installation'' i \<and>
    m_get (w_installs w) i = Some inst \<and> inst_appID inst = ev_AppID ev \<and>
    (if ev_Event ev = ''push'' then ev_Action ev = [] \<and> map_of ms ''ref'' \<noteq> None
     else map_of ms ''action'' = Some (VStr (utf8_clean (ev_Action ev)))) \<and>
    (ev_Event ev \<noteq> ''installation'' \<longrightarrow>
      (\<exists>r. m_get (w_repositories w) (ev_RepositoryID ev) = Some r \<and> repo_installationID r = i)) \<and>
    (ev_Event ev = ''push'' \<or> ev_Event ev = ''workflow_run'' \<longrightarrow> names_id ms ''repository'' (ev_RepositoryID ev)) \<and>
    (ev_Event ev = ''installation_repositories'' \<longrightarrow> (\<exists>fs. map_of ms ''repositories_added'' = Some (VArr [VObj fs]) \<and>
       map_of fs ''id'' = Some (VNum (fmt_int64 (ev_RepositoryID ev)))))"
proof -
  obtain i inst ms where o: "json_value (ev_Body ev) = Some (VObj ms, [])" "names_id ms ''installation'' i"
    "m_get (w_installs w) i = Some inst" "inst_appID inst = ev_AppID ev"
    "ev_Event ev \<noteq> ''installation'' \<longrightarrow>
       (\<exists>r. m_get (w_repositories w) (ev_RepositoryID ev) = Some r \<and> repo_installationID r = i)"
    "ev_Event ev = ''push'' \<or> ev_Event ev = ''workflow_run'' \<longrightarrow> names_id ms ''repository'' (ev_RepositoryID ev)"
    "ev_Event ev = ''installation_repositories'' \<longrightarrow> (\<exists>fs. map_of ms ''repositories_added'' = Some (VArr [VObj fs]) \<and>
       map_of fs ''id'' = Some (VNum (fmt_int64 (ev_RepositoryID ev))))"
    using assms(2) unfolding event_origin_def body_names_def by metis
  with typed_event_reads[OF assms(1)] show ?thesis by (intro exI[of _ ms] exI[of _ i] exI[of _ inst]) simp
qed

end
