(* ===== verification/Dtu_Alone.thy ===== *)
theory Dtu_Alone
  imports Dtu_Control_Client
begin

text \<open>
  The handlers and the step relation agree: a request that is served alone, by the composed definition of
  its handler (\<open>executeWorkflowRun\<close>, \<open>deliverEvent\<close>, \<open>serveGit\<close>, and \<open>controlHandler\<close> around the handlers of the
  control API), is a run of \<open>server_step\<close> that ends with the world and the surroundings that the handler
  leaves and with nothing of it in flight. So whatever holds in the reachable states of the server holds
  before and after each of these handlers.
\<close>

section \<open>Chains of steps\<close>

lemma then_step: "(server_step p)\<^sup>*\<^sup>* r s \<Longrightarrow> server_step p s t \<Longrightarrow> (server_step p)\<^sup>*\<^sup>* r t"
  by (rule rtranclp.rtrancl_into_rtrancl)

lemma then_handler: "(server_step p)\<^sup>*\<^sup>* r s \<Longrightarrow> handler_step p s t \<Longrightarrow> (server_step p)\<^sup>*\<^sup>* r t"
  by (blast intro: then_step step_handler)

lemma env_steps: "(server_step p)\<^sup>*\<^sup>* s (s\<lparr>sv_world := w\<rparr>) \<Longrightarrow> (server_step p)\<^sup>*\<^sup>* s (s\<lparr>sv_world := w, sv_env := e\<rparr>)"
  by (erule then_step) (use step_env[of p "s\<lparr>sv_world := w\<rparr>" e] in simp)

lemma server_frame [simp]:
  "s\<lparr>sv_world := w, sv_env := e, sv_execs := sv_execs s\<rparr> = s\<lparr>sv_world := w, sv_env := e\<rparr>"
  "s\<lparr>sv_world := w, sv_env := e, sv_pushes := sv_pushes s\<rparr> = s\<lparr>sv_world := w, sv_env := e\<rparr>"
  "s\<lparr>sv_world := w, sv_env := e, sv_deliveries := sv_deliveries s\<rparr> = s\<lparr>sv_world := w, sv_env := e\<rparr>"
  "s\<lparr>sv_world := sv_world s, sv_env := sv_env s\<rparr> = s"
  "s\<lparr>sv_env := e, sv_world := w\<rparr> = s\<lparr>sv_world := w, sv_env := e\<rparr>"
  by simp_all

section \<open>Executions\<close>

lemma execution_steps:
  assumes x: "executeWorkflowRun (pm_sys p) (well_formed \<lparr>ewi_RunID = k\<rparr>) (sv_world s) (sv_env s) = (Some r, w, e)"
  shows "(server_step p)\<^sup>*\<^sup>* s (s\<lparr>sv_world := w, sv_env := e\<rparr>)"
proof (cases "execute_claim k (sv_world s)")
  case (Pair cr w1)
  show ?thesis
  proof (cases cr)
    case (Inl resp)
    with Pair x have "w = sv_world s" "e = sv_env s"
      using execute_claim_rejected[of k "sv_world s" resp w1] by (simp_all add: executeWorkflowRun_def)
    then show ?thesis by simp
  next
    case (Inr c)
    let ?t = "\<lambda>w e xs. s\<lparr>sv_world := w, sv_env := e, sv_execs := xs @ sv_execs s\<rparr>"
    have t1: "(server_step p)\<^sup>*\<^sup>* s (?t w1 (sv_env s) [Claimed c])"
      using step_claim[of k s c w1 p] Pair Inr by (simp add: r_into_rtranclp)
    obtain pr e1 where pr: "execute_prepare (pm_sys p) (w_dataDir w1) c (sv_env s) = (pr, e1)" by fastforce
    have t2: "(server_step p)\<^sup>*\<^sup>* s (?t w1 e1 [after_prepare c pr])"
      using then_handler[OF t1] handle_prepare[of "?t w1 (sv_env s) [Claimed c]" "[]" c "sv_execs s" p pr e1] pr by simp
    show ?thesis
    proof (cases pr)
      case (Inl resp)
      have "(server_step p)\<^sup>*\<^sup>* s (?t (execute_release (run_ID (cl_run c)) w1) e1 [])"
        using then_handler[OF t2] handle_release[of "?t w1 e1 [Releasing c]" "[]" c "sv_execs s" p] Inl by simp
      with x Pair Inr pr Inl show ?thesis by (simp add: executeWorkflowRun_def)
    next
      case rc: (Inr rc)
      obtain st w2 e2 where st: "execute_start (pm_sys p) c rc w1 e1 = (st, w2, e2)" by (rule prod_cases3)
      have t3: "(server_step p)\<^sup>*\<^sup>* s (?t w2 e2 (after_start c st))"
        using then_handler[OF t2] handle_start[of "?t w1 e1 [Prepared c rc]" "[]" c rc "sv_execs s" p st w2 e2] rc st
        by simp
      show ?thesis
      proof (cases st)
        case (StartReply resp)
        with x Pair Inr pr rc st t3 show ?thesis by (simp add: executeWorkflowRun_def)
      next
        case (Started pid)
        obtain err out e3 where wt: "sys_wait (pm_sys p) pid e2 = ((err, out), e3)" by (metis surj_pair)
        obtain fin w3 where fin: "execute_finish c err (log_header c @ out) w2 = (fin, w3)" by fastforce
        with x Pair Inr pr rc st Started wt obtain run sig where f: "fin = Some (run, sig)" "w = w3"
          by (cases fin) (auto simp: executeWorkflowRun_def)
        have "(server_step p)\<^sup>*\<^sup>* s (?t w3 e3 [])"
          using then_handler[OF t3] handle_finish[of "?t w2 e2 [Running c pid]" "[]" c pid "sv_execs s" p err out e3 fin w3]
            Started wt fin f by simp
        then have "(server_step p)\<^sup>*\<^sup>* s (s\<lparr>sv_world := w3, sv_env := e3\<rparr>)" by simp
        from then_step[OF this step_env[of p _ e]] f(2) show ?thesis by simp
      next
        case StartPanic
        with x Pair Inr pr rc st show ?thesis by (simp add: executeWorkflowRun_def)
      qed
    qed
  qed
qed

section \<open>Deliveries\<close>

lemma delivery_steps:
  assumes x: "deliverEvent (pm_sys p) (well_formed inp) (sv_world s) (sv_env s) = (r, w, e)"
  shows "(server_step p)\<^sup>*\<^sup>* s (s\<lparr>sv_world := w, sv_env := e\<rparr>)"
proof (cases "deliver_read inp (sv_world s)")
  case (Inl resp)
  with x have "w = sv_world s" "e = sv_env s" by (simp_all add: deliverEvent_def)
  then show ?thesis by simp
next
  case (Inr d)
  show ?thesis
  proof (cases "sys_valid_request_url (pm_sys p) (app_webhookURL (dp_app d))")
    case False
    with x Inr have "w = sv_world s" "e = sv_env s" by (simp_all add: deliverEvent_def)
    then show ?thesis by simp
  next
    case True
    let ?t = "\<lambda>e xs. s\<lparr>sv_env := e, sv_deliveries := xs @ sv_deliveries s\<rparr>"
    have t1: "(server_step p)\<^sup>*\<^sup>* s (?t (sv_env s) [Planned inp d])"
      using step_plan[of inp s d p] Inr True by (simp add: r_into_rtranclp)
    obtain res e' where post: "sys_post (pm_sys p) (outbound_request inp d) (sv_env s) = (res, e')" by fastforce
    let ?a = "delivery_result inp d res"
    have t2: "(server_step p)\<^sup>*\<^sup>* s (?t e' [Answered d ?a])"
      using then_handler[OF t1] handle_post[of "?t (sv_env s) [Planned inp d]" "[]" inp d "sv_deliveries s" p res e'] post
      by simp
    have "(server_step p)\<^sup>*\<^sup>* s (s\<lparr>sv_world := deliver_record ?a (sv_world s), sv_env := e',
        sv_deliveries := sv_deliveries s\<rparr>)"
      using then_handler[OF t2] handle_delivered[of "?t e' [Answered d ?a]" "[]" d ?a "sv_deliveries s" p] by simp
    with x Inr True post show ?thesis by (simp add: deliverEvent_def Let_def)
  qed
qed

section \<open>Pushes\<close>

lemma refresh_steps:
  assumes "refresh_all (pm_sys p) (repo_gitDir (gg_repository g)) snaps w e = (w', e')"
  shows "(server_step p)\<^sup>*\<^sup>* (s\<lparr>sv_world := w, sv_env := e, sv_pushes := Refreshing g snaps # ps\<rparr>)
    (s\<lparr>sv_world := w', sv_env := e', sv_pushes := ps\<rparr>)"
  using assms
proof (induction snaps arbitrary: w e)
  case Nil
  then show ?case
    using handle_pushed[of "s\<lparr>sv_world := w, sv_env := e, sv_pushes := Refreshing g [] # ps\<rparr>" "[]" g ps p]
    by (auto intro: r_into_rtranclp step_handler)
next
  case (Cons snap snaps)
  let ?dir = "repo_gitDir (gg_repository g)"
  obtain base e1 where b: "resolveRef (pm_sys p) ?dir (rs_baseRef snap) e = (base, e1)" by fastforce
  obtain head e2 where h: "resolveRef (pm_sys p) ?dir (rs_headRef snap) e1 = (head, e2)" by fastforce
  have "handler_step p (s\<lparr>sv_world := w, sv_env := e, sv_pushes := Refreshing g (snap # snaps) # ps\<rparr>)
      (s\<lparr>sv_world := store_snapshot snap base head w, sv_env := e2, sv_pushes := Refreshing g snaps # ps\<rparr>)"
    using handle_refresh[of "s\<lparr>sv_world := w, sv_env := e, sv_pushes := Refreshing g (snap # snaps) # ps\<rparr>" "[]" g
        snap snaps ps p base e1 head e2] b h by simp
  moreover have "refresh_all (pm_sys p) ?dir snaps (store_snapshot snap base head w) e2 = (w', e')"
    using Cons.prems b h by simp
  ultimately show ?case
    using Cons.IH by (blast intro: converse_rtranclp_into_rtranclp step_handler)
qed

lemma push_steps:
  assumes lock: "gg_lock g" "lock_available (sv_pushes s) g"
    and x: "serve_push (pm_sys p) rq parts g (sv_world s) (sv_env s) = (reply, w, e)"
  shows "(server_step p)\<^sup>*\<^sup>* (s\<lparr>sv_pushes := Waiting g # sv_pushes s\<rparr>) (s\<lparr>sv_world := w, sv_env := e\<rparr>)"
proof -
  let ?r = "gg_repository g" and ?ps = "sv_pushes s"
  let ?dir = "repo_gitDir ?r"
  let ?t = "\<lambda>w e xs. s\<lparr>sv_world := w, sv_env := e, sv_pushes := xs @ ?ps\<rparr>"
  have t0: "(server_step p)\<^sup>*\<^sup>* (s\<lparr>sv_pushes := Waiting g # ?ps\<rparr>) (?t (sv_world s) (sv_env s) [Waiting g])" by simp
  obtain r1 e1 where r1: "branchRefs (pm_sys p) ?dir (sv_env s) = (r1, e1)" by fastforce
  show ?thesis
  proof (cases r1)
    case (Inl err)
    have "(server_step p)\<^sup>*\<^sup>* (s\<lparr>sv_pushes := Waiting g # ?ps\<rparr>) (?t (sv_world s) e1 [])"
      using then_handler[OF t0] handle_lock_fails[of "?t (sv_world s) (sv_env s) [Waiting g]" "[]" g ?ps p err e1]
        lock r1 Inl by simp
    with x lock r1 Inl show ?thesis by (simp add: serve_push_def)
  next
    case (Inr before)
    have t1: "(server_step p)\<^sup>*\<^sup>* (s\<lparr>sv_pushes := Waiting g # ?ps\<rparr>) (?t (sv_world s) e1 [Receiving g before])"
      using then_handler[OF t0] handle_lock[of "?t (sv_world s) (sv_env s) [Waiting g]" "[]" g ?ps p before e1]
        lock r1 Inr by simp
    obtain c e2 where c: "sys_cgi (pm_sys p) (git_cgi rq parts ?r (sv_world s)) e1 = (c, e2)" by fastforce
    obtain r2 e3 where r2: "branchRefs (pm_sys p) ?dir e2 = (r2, e3)" by fastforce
    show ?thesis
    proof (cases r2)
      case (Inl err)
      let ?w = "recordObservationError (repo_id ?r) ''post-receive ref snapshot'' err (sv_world s)"
      have "(server_step p)\<^sup>*\<^sup>* (s\<lparr>sv_pushes := Waiting g # ?ps\<rparr>) (?t ?w e3 [])"
        using then_handler[OF t1] handle_unconfirmed[of "?t (sv_world s) e1 [Receiving g before]" "[]" g before ?ps p
            rq parts err e3] c r2 Inl by simp
      with x lock r1 Inr c r2 Inl show ?thesis by (simp add: serve_push_def)
    next
      case after: (Inr after)
      obtain forced e4 where f: "forced_map (pm_sys p) ?dir before after (ref_names before after) m_empty e3 = (forced, e4)"
        by fastforce
      let ?w = "record_changes ?r (gg_token g) before after forced (sv_world s)"
      have t2: "(server_step p)\<^sup>*\<^sup>* (s\<lparr>sv_pushes := Waiting g # ?ps\<rparr>) (?t (sv_world s) e4 [Recording g before after forced])"
        using then_handler[OF t1] handle_received[of "?t (sv_world s) e1 [Receiving g before]" "[]" g before ?ps p
            rq parts after e3 forced e4] c r2 after f by simp
      have t3: "(server_step p)\<^sup>*\<^sup>* (s\<lparr>sv_pushes := Waiting g # ?ps\<rparr>) (?t ?w e4 [Listing g])"
        using then_handler[OF t2] handle_record[of "?t (sv_world s) e4 [Recording g before after forced]" "[]" g before
            after forced ?ps p] by simp
      have t4: "(server_step p)\<^sup>*\<^sup>* (s\<lparr>sv_pushes := Waiting g # ?ps\<rparr>)
          (?t ?w e4 [Refreshing g (pull_snapshots (repo_id ?r) ?w)])"
        using then_handler[OF t3] handle_list[of "?t ?w e4 [Listing g]" "[]" g ?ps p] by simp
      obtain w5 e5 where fin: "refresh_all (pm_sys p) ?dir (pull_snapshots (repo_id ?r) ?w) ?w e4 = (w5, e5)" by fastforce
      have "(server_step p)\<^sup>*\<^sup>* (s\<lparr>sv_pushes := Waiting g # ?ps\<rparr>) (s\<lparr>sv_world := w5, sv_env := e5, sv_pushes := ?ps\<rparr>)"
        using rtranclp_trans[OF t4] refresh_steps[OF fin, where s = s and ps = ?ps] by simp
      moreover have "w = w5" "e = e5"
        using x lock r1 Inr c r2 after f fin by (simp_all add: serve_push_def recordRefChanges_def refreshPullSnapshots_def)
      ultimately show ?thesis by simp
    qed
  qed
qed

lemma serve_push_returns: "gg_lock g \<Longrightarrow> serve_push sys rq parts g w e = (reply, w', e') \<Longrightarrow> reply \<noteq> GitPanic"
  by (auto simp: serve_push_def Let_def buffered_def split: prod.splits sum.splits)

text \<open>The repository that a request names, as far as its receive lock matters: no push in flight holds it.\<close>

definition lock_free :: "'e server \<Rightarrow> string list \<Rightarrow> bool" where
  "lock_free s parts \<longleftrightarrow>
     m_get (w_repoNames (sv_world s)) (repoName (parts ! 0) (trim_suffix (parts ! 1) ''.git'')) \<notin>
       push_locked ` set (sv_pushes s) - {None}"

lemma git_steps:
  assumes ok: "server_ok s" and free: "lock_free s parts"
    and x: "serveGit (pm_sys p) rq parts (sv_world s) (sv_env s) = (reply, w, e)"
  shows "reply \<noteq> GitPanic \<and> (server_step p)\<^sup>*\<^sup>* s (s\<lparr>sv_world := w, sv_env := e\<rparr>)"
proof -
  obtain service ok' where srv: "gitService rq parts = (service, ok')" by fastforce
  show ?thesis
  proof (cases "ok'")
    case False
    with x srv have "w = recordUnsupported rq (sv_world s)" "e = sv_env s" "reply \<noteq> GitPanic"
      by (auto simp: serveGit_def handleUnsupported_def)
    with step_unsupported[of p s rq] show ?thesis by (auto intro: r_into_rtranclp)
  next
    case True
    show ?thesis
    proof (cases "git_authorize rq parts service (sv_world s)")
      case (Inl r)
      with x srv True show ?thesis by (auto simp: serveGit_def)
    next
      case (Inr g)
      obtain i where i: "m_get (w_repoNames (sv_world s)) (repoName (parts ! 0) (trim_suffix (parts ! 1) ''.git'')) = Some i"
        "repo_id (gg_repository g) = i" "gg_lock g"
        by (rule git_authorize_grant[OF server_ok_world[OF ok] Inr])
      show ?thesis
      proof (cases "rq_Method rq = ''POST'' \<and> service = ''git-receive-pack''")
        case push: True
        have auth: "server_step p s (s\<lparr>sv_pushes := Waiting g # sv_pushes s\<rparr>)"
          using step_authorize[of rq parts s g p] srv True push Inr by simp
        have served: "serve_push (pm_sys p) rq parts g (sv_world s) (sv_env s) = (reply, w, e)"
          using x srv True push Inr by (simp add: serveGit_def)
        have "lock_available (sv_pushes s) g"
          using free i by (auto simp: lock_free_def lock_available_def)
        from converse_rtranclp_into_rtranclp[OF auth push_steps[OF i(3) this served]] serve_push_returns[OF i(3) served]
        show ?thesis by simp
      next
        case False
        with x srv True Inr have "w = sv_world s" "reply \<noteq> GitPanic" by (auto simp: serveGit_def split: prod.splits)
        with step_env[of p s e] show ?thesis by (auto intro: r_into_rtranclp)
      qed
    qed
  qed
qed

section \<open>Control requests\<close>

lemma call_steps:
  "control_step p call (sv_world s) (sv_env s) = (r, w, e) \<Longrightarrow> (server_step p)\<^sup>*\<^sup>* s (s\<lparr>sv_world := w, sv_env := e\<rparr>)"
  by (rule r_into_rtranclp) (rule step_control)

lemma handled_call_steps:
  "handled (control_step p call (sv_world s) (sv_env s)) = (a, w, e) \<Longrightarrow>
     a \<noteq> HandlerPanic \<and> (server_step p)\<^sup>*\<^sup>* s (s\<lparr>sv_world := w, sv_env := e\<rparr>)"
  by (cases "control_step p call (sv_world s) (sv_env s)") (auto simp: handled_def intro: call_steps)

lemma execution_body_steps:
  assumes ok: "server_ok s" and x: "handled_run (executeWorkflowRun (pm_sys p) body (sv_world s) (sv_env s)) = (a, w, e)"
  shows "a \<noteq> HandlerPanic \<and> (server_step p)\<^sup>*\<^sup>* s (s\<lparr>sv_world := w, sv_env := e\<rparr>)"
proof (cases "decodeControl body")
  case (Inl r)
  with x show ?thesis by (auto simp: executeWorkflowRun_def handled_run_def)
next
  case (Inr inp)
  obtain k where k: "inp = \<lparr>ewi_RunID = k\<rparr>" by (cases inp)
  have "executeWorkflowRun (pm_sys p) body (sv_world s) (sv_env s) =
      executeWorkflowRun (pm_sys p) (well_formed inp) (sv_world s) (sv_env s)"
    using Inr by (simp add: executeWorkflowRun_def)
  moreover obtain r w' e' where r: "executeWorkflowRun (pm_sys p) (well_formed inp) (sv_world s) (sv_env s) = (r, w', e')"
    by (rule prod_cases3)
  moreover obtain resp where "r = Some resp"
    using execute_answers[OF server_ok_world[OF ok] r[unfolded k]] by blast
  ultimately show ?thesis using x execution_steps[of p k s resp w e] by (auto simp: handled_run_def k)
qed

lemma delivery_body_steps:
  assumes x: "handled (deliverEvent (pm_sys p) body (sv_world s) (sv_env s)) = (a, w, e)"
  shows "a \<noteq> HandlerPanic \<and> (server_step p)\<^sup>*\<^sup>* s (s\<lparr>sv_world := w, sv_env := e\<rparr>)"
proof (cases "decodeControl body")
  case (Inl r)
  with x show ?thesis by (auto simp: deliverEvent_def handled_def)
next
  case (Inr inp)
  obtain r w' e' where r: "deliverEvent (pm_sys p) body (sv_world s) (sv_env s) = (r, w', e')" by (rule prod_cases3)
  with Inr have "deliverEvent (pm_sys p) (well_formed inp) (sv_world s) (sv_env s) = (r, w', e')"
    by (simp add: deliverEvent_def)
  from delivery_steps[OF this] r x show ?thesis by (auto simp: handled_def)
qed

lemma endpoint_steps:
  assumes "server_ok s" "serve_endpoint p ep body (sv_world s) (sv_env s) = (a, w, e)"
  shows "a \<noteq> HandlerPanic \<and> (server_step p)\<^sup>*\<^sup>* s (s\<lparr>sv_world := w, sv_env := e\<rparr>)"
  using assms(2)
  by (cases ep) (simp_all add: serve_endpoint_def handled_call_steps delivery_body_steps execution_body_steps[OF assms(1)])

lemma control_steps:
  assumes "server_ok s" "controlHandler p method path body (sv_world s) (sv_env s) = (a, w, e)"
  shows "a \<noteq> HandlerPanic \<and> (server_step p)\<^sup>*\<^sup>* s (s\<lparr>sv_world := w, sv_env := e\<rparr>)"
  using assms endpoint_steps[OF assms(1)] by (auto simp: controlHandler_def split: routing.splits)

end
