(* ===== verification/Spec2Isabelle.thy ===== *)
theory Spec2Isabelle
  imports Dtu_Contracts Dtu_Interfaces Dtu_Outcomes Dtu_Event_Origin Dtu_Alone
begin

text \<open>
  Verification library of the DTU GitHub server, the test double of GitHub under \<open>src/dtu\<close> of this
  repository: a Go process that keeps a small world of Apps, installations, repositories, pull requests,
  tokens, workflow runs and webhook events in memory, serves real Git repositories over smart HTTP and a
  part of GitHub's REST API to the program under test, and is driven through a private control API.

  \<^bold>\<open>The program and its parts.\<close> All state is in one \<open>world\<close> (\<open>dtu/types.go\<close>) behind a read-write mutex.
  Four groups of handlers work on it. The control handlers (\<open>control.go\<close>, \<open>delivery.go\<close>, \<open>execution.go\<close>)
  create Apps, installations, repositories and pull requests, configure workflows, advance the virtual clock,
  deliver and duplicate events, move workflow runs and execute them with \<open>act\<close>. The Git handler (\<open>git.go\<close>)
  authorizes fetches and pushes with installation tokens, hands them to \<open>git http-backend\<close>, and derives push
  events and queued runs from the branches before and after a push. The services of the REST API
  (\<open>public.go\<close>) mint tokens, read pull requests and cancel runs. \<open>installation_events.go\<close> adds installation
  events to the log. \<open>server.go\<close> starts and closes the two HTTP servers, \<open>client.go\<close> is the Go client of the
  control API, and \<open>cmd/dtu-github/main.go\<close> is the command that runs the server. A handler holds the mutex in one or more critical sections; between them it runs child
  processes or HTTP requests while other handlers change the world.

  \<^bold>\<open>Correspondence.\<close> A Go struct is a record whose fields keep the Go names behind a prefix (\<open>run_Status\<close> for
  \<open>WorkflowRun.Status\<close>), \<open>int64\<close> and \<open>uint64\<close> are 64-bit words that wrap, a \<open>time.Time\<close> is a number of
  nanoseconds, a string is its bytes, a map is an association list with distinct keys whose order is the order
  in which a \<open>range\<close> loop happens to run (nothing is proved that depends on it). A handler is a function
  from its decoded body and the world to its answer and the new world, with the guards in the order of the
  code. A handler with several critical sections has one definition for each of them, composed as the code
  does when nothing else runs (\<open>deliverEvent\<close>, \<open>executeWorkflowRun\<close>, \<open>serveGit\<close>); the step relation
  \<open>server_step\<close> interleaves the same sections of any number of concurrent requests (\<open>handler_step\<close> is the part
  of it that carries a handler in flight on; a push takes the receive lock of its repository there, \<open>lock_available\<close>,
  and holds it until it returns, \<open>push_locked\<close>). \<open>handlers_are_runs\<close> shows that the two agree. A Go panic (a slice
  index out of range, a nil lock) is a value of its own (\<open>StartPanic\<close>, \<open>None\<close>, \<open>GitPanic\<close>).

  \<^bold>\<open>Parameters.\<close> What is not under \<open>src\<close> is an argument of the definitions that use it: the operating
  system, Git, Docker, \<open>act\<close> and the webhook receiver (record \<open>sys\<close>, an arbitrary state with arbitrary
  operations), listeners and HTTP servers (\<open>host\<close>), the JWT library (\<open>jwt_lib\<close>, with the documented
  behaviour \<open>jwt_contract\<close> as the only assumption, in \<open>jwt_accepted\<close>), PEM and X.509 parsing, the RFC 3339
  parser, the third-party type of token options, and the router \<open>go-github-server\<close> (\<open>api\<close>, a function of the
  not-found callback that it is given). Theorems hold for
  every such parameter unless they name a hypothesis. JSON encoding and decoding, \<open>time.ParseDuration\<close>,
  \<open>flag.Parse\<close>, decimal numbers, SHA-256 and HMAC are not parameters but computed.

  \<^bold>\<open>Theories of the model.\<close>
  \<^item> \<open>Dtu_Prelude\<close>: machine integers, the interface of Go maps (locale \<open>go_map\<close>), transition systems with
    invariants and with progress (locales \<open>transition_system\<close>, \<open>progressing\<close>).
  \<^item> \<open>Go_Strings\<close>, \<open>Go_Json\<close>, \<open>Go_Sha256\<close>, \<open>Go_Json_Parse\<close>, \<open>Go_Duration\<close>: what the program uses of Go's standard
    library, executable: string and path functions, decimal numbers, \<open>json.Marshal\<close>, SHA-256, HMAC and
    hexadecimal text, the JSON decoder, \<open>time.ParseDuration\<close> with its \<open>uint64\<close> sums and \<open>float64\<close> fractions.
    \<open>Go_Json_Roundtrip\<close> shows that the decoder reads back what the encoder writes, whatever follows it.
  \<^item> \<open>Dtu_Codec\<close>: the bytes of the control inputs, struct decoding with and without unknown fields, the two
    reads of \<open>decodeControl\<close> (locale \<open>codec\<close>, interpreted on all eleven inputs).
  \<^item> \<open>Dtu_Types\<close>: \<open>types.go\<close>. \<open>Dtu_Response\<close>: answers, and the response buffer with its equivalence to a direct
    writer. \<open>Dtu_Payloads\<close>: the payload structs of events, how they are filled and their JSON. \<open>Dtu_Events\<close>: the event log, its payloads and its numbering (locale \<open>unique_labels\<close>).
  \<^item> \<open>Dtu_Permissions\<close>, \<open>Dtu_Tokens\<close>: levels, selections, App JWTs and installation tokens of \<open>public.go\<close>.
  \<^item> \<open>Dtu_GitCmd\<close>, \<open>Dtu_Git\<close>: Git processes, authorization, pushes and pull snapshots.
  \<^item> \<open>Dtu_Control\<close>, \<open>Dtu_Delivery\<close>, \<open>Dtu_Execution\<close>: the control handlers.
  \<^item> \<open>Dtu_Public\<close>: the services and the wrapper of the public listener. \<open>Dtu_Client\<close>: route table and client
    paths. \<open>Dtu_Control_Server\<close>: \<open>controlHandler\<close> from bytes to answer, \<open>post\<close> and \<open>State\<close> of the client.
  \<^item> \<open>Dtu_Server\<close>: \<open>Start\<close> and \<open>Close\<close>. \<open>Dtu_System\<close>: the running server as a transition system.
    \<open>Dtu_Main\<close>: the command line, \<open>main\<close> and \<open>run\<close>.

  \<^bold>\<open>Theories of lemmas.\<close>
  \<^item> \<open>Dtu_Invariant\<close> defines \<open>world_ok\<close>, how the tables of the world refer to each other; \<open>Dtu_Preserve\<close> shows
    that every critical section keeps it. \<open>Dtu_Evolution\<close> defines what may change over time and shows that every
    section respects it. \<open>Dtu_Safety\<close> lifts both to the running server, together with what its handlers in
    flight rely on between their sections (a claim stays held, an index stays valid, a lock is owned).
  \<^item> \<open>Dtu_Progress\<close>: the measure that every step of a handler lowers, and that some handler can always go on.
    \<open>Dtu_Outcomes\<close>: what the handlers in flight have done when they are through, in any order (attempts, runs, push
    events). \<open>Dtu_Event_Origin\<close>: the installation and repository that the body of each event names.
    \<open>Dtu_Alone\<close>: a handler that is served alone is a run of steps, handler by handler.
  \<^item> \<open>Dtu_Lifecycle\<close>: the abstract machine of workflow runs and the refinement to it.
  \<^item> \<open>Dtu_Requests\<close>: rejected and accepted control requests (locale \<open>guarded_requests\<close>, interpreted on all
    handlers that are one section). \<open>Dtu_Repositories\<close>, \<open>Dtu_Scopes\<close>, \<open>Dtu_Pushes\<close>, \<open>Dtu_Runs\<close>: the
    functional behaviour of the handlers on their branches. \<open>Dtu_Control_Client\<close>: what the client reports.
  \<^item> \<open>Dtu_Fixtures\<close>, \<open>Dtu_Session\<close>: a concrete session (an App, an installation, a repository, a workflow, a pull
    request, a token, a push, an execution, a delivery) on which the properties are exercised.
  \<^item> \<open>Dtu_Contracts\<close> states what each component promises, \<open>Dtu_Interfaces\<close> what holds at the edges of the program
    (bytes, client, clock, wrapper, start and close, command line), and this theory the properties of the whole
    server in every reachable state.

  \<^bold>\<open>Bounds.\<close> The loops of the program run over finite lists and maps and need no fuel. The JSON decoder
  takes fuel, twice the length of its input plus two, and \<open>parse_enough\<close> shows that more changes nothing; Go's
  limit of 10000 nested values is not modelled. Counters are 64 bits wide, so freshness of run IDs and event
  GUIDs (\<open>unique_numbers\<close>, \<open>duplicate_fresh\<close>) is stated for logs of fewer than \<open>2 ^ 64\<close> entries. Strings are bytes
  and letter case is that of ASCII, so the case folding of names outside ASCII is not covered. The event
  numbers start at 1 and the run IDs at 1001, as in \<open>Start\<close>. \<open>handlers_terminate\<close> and \<open>handlers_finish\<close> count
  critical sections and take external operations (processes, the receiver) to return.

  \<^bold>\<open>Not modelled.\<close> HTTP transport (connections, headers other than the ones the code reads or sets, request
  cancellation and timeouts), the decoding of the state snapshot in the client's \<open>State\<close> (times and raw bodies),
  data races inside one critical section (excluded by the mutex), the tests, and the internals of the
  third-party code named above.
\<close>

section \<open>The world of a running server\<close>

text \<open>
  C1: In every state the server can reach, however its handlers interleave, the world is well formed:
  installations belong to Apps, repositories to installations, names and directories to repositories,
  tokens to the scope of their installation, numbers to their counters, claims to unfinished runs.
\<close>

theorem world_invariant: "reachable p s \<Longrightarrow> world_ok (sv_world s)"
  by (rule server_ok_world[OF reachable_ok])

theorem world_invariant_witness:
  "reachable demo_params (demo_server demo_pushed 1 [Listing demo_grant]) \<and>
   world_ok (sv_world (demo_server demo_pushed 1 [Listing demo_grant]))"
  using demo_pushed_reachable world_invariant[OF demo_pushed_reachable] by blast

text \<open>
  C2: A workflow run is permanent. From any reachable state, after any further steps, the run at the same
  position has the same identity (ID, attempt, repository, workflow, event, branch, commit), its status
  has not gone back, a cancellation request is still there, and a completed run is unchanged.
\<close>

theorem run_permanent:
  assumes "reachable p r" "(server_step p)\<^sup>*\<^sup>* r s" "i < length (w_workflowRuns (sv_world r))"
  shows "i < length (w_workflowRuns (sv_world s)) \<and>
    run_evolves (w_workflowRuns (sv_world r) ! i) (w_workflowRuns (sv_world s) ! i)"
proof -
  have "runs_grow (w_workflowRuns (sv_world r)) (w_workflowRuns (sv_world s))"
    using runs_evolve[OF assms(1,2)] by (simp add: evolves_def)
  with assms(3) show ?thesis by (simp add: runs_grow_def)
qed

lemma demo_complete_step: "(server_step demo_params)\<^sup>*\<^sup>* (demo_server demo_pushed 1 [Listing demo_grant])
    (demo_server (fst (run_calls demo_params [CallTransitionWorkflowRun (well_formed
      \<lparr>wti_RunID = 1001, wti_Status = ''completed'', wti_Conclusion = ''success''\<rparr>)] demo_pushed 1)) 1
      [Listing demo_grant])"
proof -
  let ?cs = "[CallTransitionWorkflowRun (well_formed
      \<lparr>wti_RunID = 1001, wti_Status = ''completed'', wti_Conclusion = ''success''\<rparr>)]"
  have "snd (run_calls demo_params ?cs demo_pushed 1) = 1"
    by (simp add: control_step_def split: prod.split)
  then show ?thesis
    using run_calls_steps[of demo_params demo_pushed 1 "[]" "[Listing demo_grant]" "[]" ?cs]
    by (simp add: demo_server_def)
qed

theorem run_permanent_witness:
  "0 < length (w_workflowRuns demo_pushed) \<and> run_evolves (w_workflowRuns demo_pushed ! 0)
     (w_workflowRuns (fst (run_calls demo_params [CallTransitionWorkflowRun (well_formed
      \<lparr>wti_RunID = 1001, wti_Status = ''completed'', wti_Conclusion = ''success''\<rparr>)] demo_pushed 1)) ! 0)"
  using run_permanent[OF demo_pushed_reachable demo_complete_step, of 0] demo_pushed_frame(1)
  by (simp add: demo_server_def)

text \<open>
  C3: The server refines the abstract run machine. Read through the status of the runs, each step is at
  most one move of one run (queued to in progress, queued to completed, in progress to completed) or the
  arrival of one queued run.
\<close>

theorem run_refinement:
  "reachable p r \<Longrightarrow> server_step p r s \<Longrightarrow> runs_step (run_phases (sv_world r)) (run_phases (sv_world s))"
  by (rule server_step_runs[OF _ reachable_ok])

lemma demo_record_step: "server_step demo_params
    (demo_server demo_minted 1 [Recording demo_grant m_empty demo_main (m_put ''main'' False m_empty)])
    (demo_server demo_pushed 1 [Listing demo_grant])"
  using step_handler[OF handle_record, of "demo_server demo_minted 1 [Recording demo_grant m_empty demo_main (m_put ''main'' False m_empty)]"
      "[]" demo_grant m_empty demo_main "m_put ''main'' False m_empty" "[]" demo_params]
  by (simp add: demo_server_def demo_pushed_def demo_grant_def)

theorem run_refinement_witness: "runs_step [] [Queued]"
proof -
  have "run_phases demo_minted = []" "run_phases demo_pushed = [Queued]"
    by (simp_all add: run_phases_def demo_minted_def demo_world_eq demo_w5_frame demo_pushed_frame
        demo_run_def queued_run_def phase_of_def)
  then show ?thesis
    using run_refinement[OF demo_recording demo_record_step] by (simp add: demo_server_def)
qed

text \<open>
  C4: The claims in the world are exactly those of the executions in flight, one execution for each
  claimed run: no claim leaks when a handler fails, and no run has two executors.
\<close>

theorem claims_are_executions:
  assumes "reachable p s"
  shows "(\<forall>k. m_get (w_activeRuns (sv_world s)) k \<noteq> None \<longleftrightarrow> (\<exists>ph \<in> set (sv_execs s). exec_key ph = Some k)) \<and>
    distinct (map exec_key (sv_execs s))"
proof -
  have ok: "execs_ok s" using reachable_ok[OF assms] by (simp add: server_ok_def)
  have "m_get (w_activeRuns (sv_world s)) k \<noteq> None" if "ph \<in> set (sv_execs s)" "exec_key ph = Some k" for ph k
    using ok that by (auto simp: execs_ok_def list_all_iff exec_ok_def exec_key_def claim_held_def)
  with ok show ?thesis by (fastforce simp: execs_ok_def image_iff)
qed

theorem claims_are_executions_witness:
  "\<exists>s. reachable demo_params s \<and> m_get (w_activeRuns (sv_world s)) 1001 \<noteq> None \<and>
     (\<exists>ph \<in> set (sv_execs s). exec_key ph = Some 1001)"
proof -
  obtain c w where c: "m_get (w_activeRuns w) 1001 \<noteq> None"
    "reachable demo_params \<lparr>sv_world = w, sv_env = 1, sv_execs = [Claimed c], sv_pushes = [Listing demo_grant],
      sv_deliveries = []\<rparr>"
    using demo_claim by blast
  with claims_are_executions[OF c(2)] show ?thesis by (intro exI conjI) auto
qed

text \<open>
  C5: No handler panics: an execution never finds its run moved or missing after it claimed it (the index
  it kept stays valid), and a granted push always finds the receive lock of its repository.
\<close>

theorem no_panic: "reachable p s \<Longrightarrow> ExecPanicked \<notin> set (sv_execs s) \<and> PushPanicked \<notin> set (sv_pushes s)"
  using reachable_ok[of p s]
  by (auto simp: server_ok_def execs_ok_def pushes_ok_def list_all_iff exec_ok_def push_ok_def)

theorem no_panic_witness: "PushPanicked \<notin> set (sv_pushes (demo_server demo_pushed 1 [Listing demo_grant]))"
  using no_panic[OF demo_pushed_reachable] by blast



text \<open>
  C7: No deadlock and no leak. From every reachable state the handlers in flight can run to the end; and a run
  of handlers that cannot go on has answered every request: no execution, push or delivery is left, no claim is
  held and no repository is locked.
\<close>

theorem handlers_finish:
  assumes "reachable p s"
  shows "(\<exists>s'. (handler_step p)\<^sup>*\<^sup>* s s' \<and> idle s') \<and>
    (\<forall>s'. (handler_step p)\<^sup>*\<^sup>* s s' \<and> (\<nexists>t. handler_step p s' t) \<longrightarrow>
       idle s' \<and> (\<forall>k. m_get (w_activeRuns (sv_world s')) k = None))"
  using handlers.final_reached[OF reachable_ok[OF assms]] handlers.stuck_final[OF reachable_ok[OF assms]] idle_no_claims
  by blast

theorem handlers_finish_witness:
  "\<exists>s'. (handler_step demo_params)\<^sup>*\<^sup>* (demo_server demo_pushed 1 [Listing demo_grant]) s' \<and> idle s'"
  using handlers_finish[OF demo_pushed_reachable] by blast

text \<open>
  C8: The event log is append-only. From a reachable state, whatever the server does, the events that were
  logged stay in their place with their GUID, type, App, time and exact body bytes; the logs of delivery
  attempts, observation errors and unsupported requests only grow as well, and the clock never goes back.
\<close>

theorem logs_append_only:
  assumes "reachable p r" "(server_step p)\<^sup>*\<^sup>* r s"
  shows "prefix (w_pendingEvents (sv_world r)) (w_pendingEvents (sv_world s)) \<and>
    prefix (w_deliveryAttempts (sv_world r)) (w_deliveryAttempts (sv_world s)) \<and>
    prefix (w_observationErrors (sv_world r)) (w_observationErrors (sv_world s)) \<and>
    prefix (w_unsupported (sv_world r)) (w_unsupported (sv_world s)) \<and>
    w_now (sv_world r) \<le> w_now (sv_world s)"
  using runs_evolve[OF assms] by (simp add: evolves_def logs_grow_def)

theorem logs_append_only_witness: "prefix (w_pendingEvents demo_minted) (w_pendingEvents demo_pushed)"
  using logs_append_only[OF demo_recording r_into_rtranclp[of "server_step demo_params", OF demo_record_step]]
  by (simp add: demo_server_def)

text \<open>
  C9: Numbers are never given out twice: up to the wrap-around of the 64-bit counters, all logged events
  have different GUIDs and all runs different IDs.
\<close>

theorem unique_numbers:
  assumes "reachable p s" "length (w_pendingEvents (sv_world s)) < 2 ^ 64" "length (w_workflowRuns (sv_world s)) < 2 ^ 64"
  shows "distinct (map ev_GUID (w_pendingEvents (sv_world s))) \<and> distinct (map run_ID (w_workflowRuns (sv_world s)))"
proof -
  have ok: "world_ok (sv_world s)" by (rule server_ok_world[OF reachable_ok[OF assms(1)]])
  then have "numbered guid 0 (w_nextEventID (sv_world s)) (map ev_GUID (w_pendingEvents (sv_world s)))"
    "numbered (\<lambda>n. n) 1000 (w_nextRunID (sv_world s)) (map run_ID (w_workflowRuns (sv_world s)))"
    by (simp_all add: world_ok_def events_ok_def runs_ok_def)
  with assms(2,3) show ?thesis
    using guids.numbered_distinct run_ids.numbered_distinct by simp
qed

theorem unique_numbers_witness: "distinct (map ev_GUID (w_pendingEvents demo_pushed))"
  using unique_numbers[OF demo_pushed_reachable] demo_events_length demo_pushed_frame(1)
  by (simp add: demo_server_def)

text \<open>
  C10: Every logged event is well typed and says whose it is. In every reachable state the body of an event, as
  stored and sent, is exactly one JSON object. Its installation has the ID of an installation in the tables that
  belongs to the App of the event; the event's repository is one of that installation, and a push, a workflow
  event and an event of added repositories name it by its ID. A push event has a branch and no action, and the
  body of any other event carries the action of the event.
\<close>

theorem event_bodies_typed:
  assumes "reachable p s" "ev \<in> set (w_pendingEvents (sv_world s))"
  shows "\<exists>ms i inst. json_value (ev_Body ev) = Some (VObj ms, []) \<and> names_id ms ''installation'' i \<and>
    m_get (w_installs (sv_world s)) i = Some inst \<and> inst_appID inst = ev_AppID ev \<and>
    (if ev_Event ev = ''push'' then ev_Action ev = [] \<and> map_of ms ''ref'' \<noteq> None
     else map_of ms ''action'' = Some (VStr (utf8_clean (ev_Action ev)))) \<and>
    (ev_Event ev \<noteq> ''installation'' \<longrightarrow>
      (\<exists>r. m_get (w_repositories (sv_world s)) (ev_RepositoryID ev) = Some r \<and> repo_installationID r = i)) \<and>
    (ev_Event ev = ''push'' \<or> ev_Event ev = ''workflow_run'' \<longrightarrow> names_id ms ''repository'' (ev_RepositoryID ev)) \<and>
    (ev_Event ev = ''installation_repositories'' \<longrightarrow> (\<exists>fs. map_of ms ''repositories_added'' = Some (VArr [VObj fs]) \<and>
       map_of fs ''id'' = Some (VNum (fmt_int64 (ev_RepositoryID ev)))))"
proof (rule named_event_reads)
  show "typed_event ev" by (rule world_ok_event[OF server_ok_world[OF reachable_ok[OF assms(1)]] assms(2)])
  show "event_origin (sv_world s) ev" using reachable_named[OF assms(1)] assms(2) by (simp add: events_named_def)
qed

theorem event_bodies_typed_witness:
  "\<exists>ev. ev \<in> set (w_pendingEvents demo_pushed) \<and> (\<exists>ms i inst. json_value (ev_Body ev) = Some (VObj ms, []) \<and>
     names_id ms ''installation'' i \<and> m_get (w_installs demo_pushed) i = Some inst \<and> inst_appID inst = ev_AppID ev)"
proof -
  obtain ev evs where "w_pendingEvents demo_pushed = ev # evs" using demo_first_event by blast
  then have ev: "ev \<in> set (w_pendingEvents demo_pushed)" by simp
  with event_bodies_typed[OF demo_pushed_reachable, of ev] show ?thesis by (auto simp: demo_server_def)
qed

text \<open>
  C11: No token reaches further than its installation: in every reachable state, each issued token belongs
  to an existing installation, its repositories are among that installation's, and none of its permissions
  ranks above the one the installation was granted.
\<close>

theorem token_scope:
  assumes "reachable p s" "m_get (w_tokens (sv_world s)) v = Some t"
  shows "\<exists>i. m_get (w_installs (sv_world s)) (tok_installationID t) = Some i \<and>
    (\<forall>k. in_set (tok_repositoryIDs t) k \<longrightarrow> in_set (inst_repositoryIDs i) k) \<and>
    (\<forall>q. rank_of (tok_permissions t) q \<le> rank_of (inst_permissions i) q)"
  using world_ok_token[OF server_ok_world[OF reachable_ok[OF assms(1)]] assms(2)]
  by (auto simp: subset_of_def perms_within_def)

theorem token_scope_witness:
  "\<exists>i. m_get (w_installs demo_pushed) (tok_installationID demo_token) = Some i"
  using token_scope[OF demo_pushed_reachable, of "tok_value demo_token" demo_token] demo_pushed_frame(6)
  by (auto simp: demo_server_def)

text \<open>
  C12: The handlers and the steps agree. From a reachable state, any control request, from its method, path and
  bytes to its answer, and any Git request to a repository whose receive lock no push in flight holds, when
  served alone by its handler, does not panic, and what it does is a run of steps of the server that ends with
  the world and the surroundings that the handler leaves, and with the same handlers in flight as before.
\<close>

theorem handlers_are_runs:
  assumes "reachable p s"
  shows "(controlHandler p method path body (sv_world s) (sv_env s) = (a, w, e) \<longrightarrow>
      a \<noteq> HandlerPanic \<and> (server_step p)\<^sup>*\<^sup>* s (s\<lparr>sv_world := w, sv_env := e\<rparr>)) \<and>
    (lock_free s parts \<and> serveGit (pm_sys p) rq parts (sv_world s) (sv_env s) = (reply, w, e) \<longrightarrow>
      reply \<noteq> GitPanic \<and> (server_step p)\<^sup>*\<^sup>* s (s\<lparr>sv_world := w, sv_env := e\<rparr>))"
  using control_steps[OF reachable_ok[OF assms]] git_steps[OF reachable_ok[OF assms]] by blast

theorem handlers_are_runs_witness:
  "\<exists>reply w e. serveGit demo_sys demo_push demo_parts demo_minted 0 = (reply, w, e) \<and> reply \<noteq> GitPanic \<and>
     reachable demo_params (demo_server w e [])"
proof -
  have r: "reachable demo_params (demo_server demo_minted 0 [])" by (rule demo_minted_reachable)
  obtain reply w e where g: "serveGit demo_sys demo_push demo_parts demo_minted 0 = (reply, w, e)" by (rule prod_cases3)
  have "lock_free (demo_server demo_minted 0 []) demo_parts" by (simp add: lock_free_def demo_server_def)
  moreover have "(demo_server demo_minted 0 [])\<lparr>sv_world := w, sv_env := e\<rparr> = demo_server w e []"
    by (simp add: demo_server_def)
  ultimately show ?thesis
    using handlers_are_runs[OF r, of "[]" "[]" "[]" undefined w e demo_parts demo_push reply] g dtu.reach_run[OF _ r]
    by (auto simp: demo_server_def demo_params_def)
qed

text \<open>
  C13: Deliveries are of logged events: every recorded attempt names the GUID of an event of the log, and
  every delivery in flight carries an event exactly as it is logged.
\<close>

theorem deliveries_logged:
  assumes "reachable p s"
  shows "(\<forall>a \<in> set (w_deliveryAttempts (sv_world s)). \<exists>ev \<in> set (w_pendingEvents (sv_world s)). da_GUID a = ev_GUID ev) \<and>
    (\<forall>d \<in> set (sv_deliveries s). dp_event (delivery_plan_of d) \<in> set (w_pendingEvents (sv_world s)))"
proof -
  have ok: "server_ok s" by (rule reachable_ok[OF assms])
  show ?thesis
  proof
    show "\<forall>a \<in> set (w_deliveryAttempts (sv_world s)). \<exists>ev \<in> set (w_pendingEvents (sv_world s)). da_GUID a = ev_GUID ev"
      using ok by (auto simp: server_ok_def attempts_ok_def image_iff)
    show "\<forall>d \<in> set (sv_deliveries s). dp_event (delivery_plan_of d) \<in> set (w_pendingEvents (sv_world s))"
      using ok by (simp add: server_ok_def list_all_iff delivery_ok_def)
  qed
qed

theorem deliveries_logged_witness:
  "\<exists>d. deliver_read demo_delivery demo_pushed = Inr d \<and> dp_event d \<in> set (w_pendingEvents demo_pushed)"
proof -
  obtain d where d: "deliver_read demo_delivery demo_pushed = Inr d" "reachable demo_params
     \<lparr>sv_world = demo_pushed, sv_env = 1, sv_execs = [], sv_pushes = [Listing demo_grant],
      sv_deliveries = [Planned demo_delivery d]\<rparr>"
    using demo_plan by blast
  with deliveries_logged[OF d(2)] show ?thesis by auto
qed

text \<open>
  C14: Repositories are permanent and do not share a directory: what is registered in a reachable state
  stays registered with the same owner, name, installation and directory, and at any time two different
  repositories have different Git directories.
\<close>

theorem repositories_permanent:
  assumes "reachable p r" "(server_step p)\<^sup>*\<^sup>* r s" "m_get (w_repositories (sv_world r)) k = Some repo"
  shows "m_get (w_repositories (sv_world s)) k = Some repo \<and>
    (\<forall>l other. m_get (w_repositories (sv_world s)) l = Some other \<and> l \<noteq> k \<longrightarrow> repo_gitDir other \<noteq> repo_gitDir repo)"
proof -
  have k: "m_get (w_repositories (sv_world s)) k = Some repo"
    using runs_evolve[OF assms(1,2)] assms(3) by (simp add: evolves_def tables_grow_def keeps_def)
  have "world_ok (sv_world s)"
    using dtu.reach_run[OF assms(2,1)] reachable_ok server_ok_world by blast
  from world_ok_dirs_distinct[OF this k] k show ?thesis by metis
qed

theorem repositories_permanent_witness: "m_get (w_repositories demo_pushed) 3 = Some demo_repo"
  using repositories_permanent[OF demo_recording r_into_rtranclp[of "server_step demo_params", OF demo_record_step],
      of 3 demo_repo]
  by (simp add: demo_server_def demo_minted_def demo_world_eq demo_w5_frame)

text \<open>
  C15: Shutting down signals the right processes: in a reachable state the processes that
  \<open>stopActiveRuns\<close> finds in the claims are those that an execution in flight waits for, each with the
  run it executes.
\<close>

theorem stop_finds_runners:
  assumes "reachable p s"
  shows "(k, pid) \<in> set (active_processes (sv_world s)) \<longleftrightarrow>
    (\<exists>c. Running c pid \<in> set (sv_execs s) \<and> run_ID (cl_run c) = k)"
proof
  have ok: "execs_ok s" using reachable_ok[OF assms] by (simp add: server_ok_def)
  assume "(k, pid) \<in> set (active_processes (sv_world s))"
  then obtain a where a: "m_get (w_activeRuns (sv_world s)) k = Some a" "process_of a = Some pid"
    by (auto simp: active_processes_iff)
  with ok obtain ph where ph: "ph \<in> set (sv_execs s)" "exec_key ph = Some k"
    by (force simp: execs_ok_def image_iff)
  with ok obtain c q where c: "phase_claim ph = Some (c, q)" "claim_held (sv_world s) c q"
    by (auto simp: execs_ok_def list_all_iff exec_ok_def)
  with ph(2) a have "q = Some pid" "run_ID (cl_run c) = k" by (auto simp: exec_key_def claim_held_def)
  with c(1) ph(1) show "\<exists>c. Running c pid \<in> set (sv_execs s) \<and> run_ID (cl_run c) = k"
    by (cases ph) auto
next
  have ok: "execs_ok s" using reachable_ok[OF assms] by (simp add: server_ok_def)
  assume "\<exists>c. Running c pid \<in> set (sv_execs s) \<and> run_ID (cl_run c) = k"
  then obtain c where "Running c pid \<in> set (sv_execs s)" "run_ID (cl_run c) = k" by blast
  with ok show "(k, pid) \<in> set (active_processes (sv_world s))"
    by (force simp: execs_ok_def list_all_iff exec_ok_def claim_held_def active_processes_iff)
qed

theorem stop_finds_runners_witness:
  "\<exists>s. reachable demo_params s \<and> (1001, 42) \<in> set (active_processes (sv_world s))"
proof -
  obtain c w where x: "run_ID (cl_run c) = 1001" "reachable demo_params \<lparr>sv_world = w, sv_env = 1,
      sv_execs = [Running c 42], sv_pushes = [Listing demo_grant], sv_deliveries = []\<rparr>"
    using demo_running by blast
  with stop_finds_runners[OF x(2), of 1001 42] show ?thesis by (intro exI conjI) auto
qed

end
